(* ===== verification/Prelude.thy ===== *)
theory Prelude
  imports Main "HOL-Library.AList" "HOL-Library.List_Lexorder" "HOL-Library.Char_ord"
begin

text \<open>
  The shared vocabulary of the development.

  \<^item> Python exceptions as values: \<open>py_exn\<close> holds the exception class and the fixed part of its
    message (text interpolated into a message is not kept). A function that may raise returns
    \<open>'a res\<close>; \<open>bind_res\<close> runs the rest of the body after a call that returned normally.
  \<^item> Python dictionaries as association lists in insertion order: \<open>dget\<close> reads, \<open>dset\<close> is
    \<open>d[k] = v\<close> (in place for a present key, at the end for a new one), \<open>dhas\<close> is \<open>k in d\<close>.
  \<^item> Small facts on lists that the component theories share.
\<close>

subsection \<open>Exceptions\<close>

datatype py_exn =
    KeyError string
  | ValueError string
  | ConditionEvaluationError string
  | PluginDependencyError string
  | VerifierUnavailableError string
  | PermissionError string
  | RuntimeError string
  | TypeError string
  | IndexError string
  | AssertionError string

type_synonym 'a res = "py_exn + 'a"

definition bind_res :: "'a res \<Rightarrow> ('a \<Rightarrow> 'b res) \<Rightarrow> 'b res" where
  "bind_res m f = (case m of Inl e \<Rightarrow> Inl e | Inr x \<Rightarrow> f x)"

lemma bind_res_Inl [simp]: "bind_res (Inl e) f = Inl e"
  by (simp add: bind_res_def)

lemma bind_res_Inr [simp]: "bind_res (Inr x) f = f x"
  by (simp add: bind_res_def)

lemma bind_res_eq_Inr:
  "bind_res m f = Inr y \<longleftrightarrow> (\<exists>x. m = Inr x \<and> f x = Inr y)"
  by (cases m) auto

lemma bind_res_eq_Inl:
  "bind_res m f = Inl e \<longleftrightarrow> m = Inl e \<or> (\<exists>x. m = Inr x \<and> f x = Inl e)"
  by (cases m) auto

lemma bind_res_cong [fundef_cong]:
  "m = m' \<Longrightarrow> (\<And>x. m' = Inr x \<Longrightarrow> f x = f' x) \<Longrightarrow> bind_res m f = bind_res m' f'"
  by (cases m') auto

text \<open>A \<open>for\<close> loop whose body may raise: it stops at the first exception.\<close>

fun fold_res :: "('a \<Rightarrow> 's \<Rightarrow> 's res) \<Rightarrow> 'a list \<Rightarrow> 's \<Rightarrow> 's res" where
  "fold_res f [] s = Inr s"
| "fold_res f (x # xs) s = bind_res (f x s) (fold_res f xs)"

lemma fold_res_invariant:
  assumes "fold_res f xs s = Inr t" "P s"
    and "\<And>x u v. x \<in> set xs \<Longrightarrow> P u \<Longrightarrow> f x u = Inr v \<Longrightarrow> P v"
  shows "P t"
  using assms
proof (induction xs arbitrary: s)
  case Nil
  then show ?case by simp
next
  case (Cons x xs)
  from Cons.prems(1) obtain u where u: "f x s = Inr u" "fold_res f xs u = Inr t"
    by (auto simp: bind_res_eq_Inr)
  from u(1) Cons.prems(2,3) have "P u" by (meson list.set_intros(1))
  with Cons.IH [OF u(2)] Cons.prems(3) show ?case by (meson list.set_intros(2))
qed

text \<open>A list comprehension whose element expression may raise.\<close>

fun map_res :: "('a \<Rightarrow> 'b res) \<Rightarrow> 'a list \<Rightarrow> 'b list res" where
  "map_res f [] = Inr []"
| "map_res f (x # xs) = bind_res (f x) (\<lambda>y. bind_res (map_res f xs) (\<lambda>ys. Inr (y # ys)))"

lemma map_res_total:
  "(\<And>x. x \<in> set xs \<Longrightarrow> f x = Inr (g x)) \<Longrightarrow> map_res f xs = Inr (map g xs)"
  by (induction xs) auto

lemma map_res_eq_Inr:
  "map_res f xs = Inr ys \<longleftrightarrow> list_all2 (\<lambda>x y. f x = Inr y) xs ys"
  by (induction xs arbitrary: ys) (auto simp: bind_res_eq_Inr list_all2_Cons1)

lemma map_res_eq_InlD: "map_res f xs = Inl e \<Longrightarrow> \<exists>x \<in> set xs. f x = Inl e"
  by (induction xs) (auto simp: bind_res_eq_Inl)

subsection \<open>Dictionaries\<close>

type_synonym ('k, 'v) dict = "('k \<times> 'v) list"

abbreviation dget :: "('k, 'v) dict \<Rightarrow> 'k \<Rightarrow> 'v option" where
  "dget \<equiv> map_of"

abbreviation dset :: "'k \<Rightarrow> 'v \<Rightarrow> ('k, 'v) dict \<Rightarrow> ('k, 'v) dict" where
  "dset \<equiv> AList.update"

abbreviation dhas :: "('k, 'v) dict \<Rightarrow> 'k \<Rightarrow> bool" where
  "dhas d k \<equiv> k \<in> fst ` set d"

abbreviation dvalues :: "('k, 'v) dict \<Rightarrow> 'v list" where
  "dvalues d \<equiv> map snd d"

text \<open>\<open>d.get(k, default)\<close>.\<close>

definition dget_or :: "'v \<Rightarrow> ('k, 'v) dict \<Rightarrow> 'k \<Rightarrow> 'v" where
  "dget_or v d k = (case dget d k of None \<Rightarrow> v | Some x \<Rightarrow> x)"

text \<open>\<open>d[k]\<close>, which raises \<open>KeyError\<close> for a missing key.\<close>

definition dindex :: "('k, 'v) dict \<Rightarrow> 'k \<Rightarrow> string \<Rightarrow> 'v res" where
  "dindex d k msg = (case dget d k of None \<Rightarrow> Inl (KeyError msg) | Some v \<Rightarrow> Inr v)"

text \<open>A dictionary built from pairs, as a comprehension \<open>{k: v for ...}\<close> does: later pairs win.\<close>

definition dict_of :: "('k \<times> 'v) list \<Rightarrow> ('k, 'v) dict" where
  "dict_of ps = fold (\<lambda>(k, v) d. dset k v d) ps []"

lemma dget_dset [simp]: "dget (dset k v d) = (dget d)(k \<mapsto> v)"
  by (rule update_conv')

lemma dhas_dset [simp]: "dhas (dset k v d) k' \<longleftrightarrow> k' = k \<or> dhas d k'"
  by (simp add: dom_update)

lemma dhas_iff_dget: "dhas d k \<longleftrightarrow> dget d k \<noteq> None"
  by (metis map_of_eq_None_iff)

lemma dhas_ex: "dhas d k \<Longrightarrow> \<exists>v. dget d k = Some v"
  using dhas_iff_dget [of k d] by blast

lemma dget_dhas: "dget d k = Some v \<Longrightarrow> dhas d k"
  by (force dest: map_of_SomeD)

lemma dget_or_dset [simp]:
  "dget_or v (dset k x d) k' = (if k' = k then x else dget_or v d k')"
  by (simp add: dget_or_def)

lemma dindex_Inr [simp]: "dindex d k msg = Inr v \<longleftrightarrow> dget d k = Some v"
  by (simp add: dindex_def split: option.splits)

lemma dindex_Inl [simp]: "dindex d k msg = Inl e \<longleftrightarrow> dget d k = None \<and> e = KeyError msg"
  by (auto simp add: dindex_def split: option.splits)

lemma set_dset_subset: "set (dset k v d) \<subseteq> insert (k, v) (set d)"
  by (induction d) auto

lemma dvalues_dset: "x \<in> set (dvalues (dset k v d)) \<Longrightarrow> x = v \<or> x \<in> set (dvalues d)"
  using set_dset_subset by fastforce

lemma dget_in_dvalues: "dget d k = Some v \<Longrightarrow> v \<in> set (dvalues d)"
  by (force dest: map_of_SomeD)

lemma dget_fold_dset:
  "dget (fold (\<lambda>(k, v) d. dset k v d) ps d) k =
    (case dget (rev ps) k of None \<Rightarrow> dget d k | Some v \<Rightarrow> Some v)"
proof (induction ps arbitrary: d)
  case Nil
  then show ?case by simp
next
  case (Cons p ps)
  obtain a b where "p = (a, b)" by force
  with Cons show ?case
    by (auto simp: map_add_def split: option.splits)
qed

lemma dget_dict_of: "dget (dict_of ps) k = dget (rev ps) k"
  by (simp add: dict_of_def dget_fold_dset split: option.splits)

lemma distinct_fold_dset:
  "distinct (map fst d) \<Longrightarrow> distinct (map fst (fold (\<lambda>(k, v) d. dset k v d) ps d))"
  by (induction ps arbitrary: d) (auto simp: distinct_update)

lemma distinct_dict_of [simp]: "distinct (map fst (dict_of ps))"
  by (simp add: dict_of_def distinct_fold_dset)

lemma dhas_dict_of [simp]: "dhas (dict_of ps) k \<longleftrightarrow> k \<in> fst ` set ps"
proof -
  have "dhas (dict_of ps) k \<longleftrightarrow> dget (rev ps) k \<noteq> None"
    by (metis dget_dict_of dhas_iff_dget)
  then show ?thesis by (simp add: map_of_eq_None_iff)
qed

lemma set_keys_dict_of: "fst ` set (dict_of ps) = fst ` set ps"
  by (metis dhas_dict_of subsetI subset_antisym)

lemma length_dict_of_le: "length (dict_of ps) \<le> length ps"
proof -
  have "length (dict_of ps) = card (fst ` set (dict_of ps))"
    using distinct_card [OF distinct_dict_of, of ps] by simp
  also have "\<dots> = card (fst ` set ps)" by (simp add: set_keys_dict_of)
  also have "\<dots> \<le> length ps"
    by (metis card_length length_map list.set_map)
  finally show ?thesis .
qed

text \<open>The keys of a comprehension are pairwise different exactly when no pair is lost.\<close>

lemma length_dict_of_distinct: "length (dict_of ps) = length ps \<longleftrightarrow> distinct (map fst ps)"
proof -
  have "length (dict_of ps) = card (set (map fst ps))"
    using distinct_card [OF distinct_dict_of, of ps] by (simp add: set_keys_dict_of)
  then show ?thesis
    by (metis card_distinct distinct_card length_map)
qed

subsection \<open>Strings\<close>

text \<open>\<open>s.split(sep)\<close> for a one-character separator, \<open>s.replace(a, b)\<close> for single characters and
  \<open>s.lower()\<close>, \<open>s.upper()\<close> on ASCII letters. A split always has at least one part.\<close>

fun split_on :: "char \<Rightarrow> string \<Rightarrow> string list" where
  "split_on c [] = [[]]"
| "split_on c (x # xs) =
     (if x = c then [] # split_on c xs
      else (case split_on c xs of [] \<Rightarrow> [[x]] | p # ps \<Rightarrow> (x # p) # ps))"

definition replace_char :: "char \<Rightarrow> char \<Rightarrow> string \<Rightarrow> string" where
  "replace_char a b s = map (\<lambda>c. if c = a then b else c) s"

definition lower_char :: "char \<Rightarrow> char" where
  "lower_char c = (let n = of_char c :: nat in if 65 \<le> n \<and> n \<le> 90 then char_of (n + 32) else c)"

definition upper_char :: "char \<Rightarrow> char" where
  "upper_char c = (let n = of_char c :: nat in if 97 \<le> n \<and> n \<le> 122 then char_of (n - 32) else c)"

definition str_lower :: "string \<Rightarrow> string" where
  "str_lower s = map lower_char s"

definition str_upper :: "string \<Rightarrow> string" where
  "str_upper s = map upper_char s"

text \<open>\<open>str(n)\<close> of a non-negative integer\<close>

fun show_nat :: "nat \<Rightarrow> string" where
  "show_nat n = (if n < 10 then [char_of (48 + n)] else show_nat (n div 10) @ [char_of (48 + n mod 10)])"

lemma split_on_not_Nil [simp]: "split_on c s \<noteq> []"
  by (induction s) (auto split: list.splits)

text \<open>Joining the parts with the separator gives the string back, and no part holds it.\<close>

fun join_with :: "char \<Rightarrow> string list \<Rightarrow> string" where
  "join_with c [] = []"
| "join_with c [p] = p"
| "join_with c (p # ps) = p @ c # join_with c ps"

lemma join_with_Cons: "ps \<noteq> [] \<Longrightarrow> join_with c (p # ps) = p @ c # join_with c ps"
  by (cases ps) auto

lemma join_split_on: "join_with c (split_on c s) = s"
proof (induction s)
  case Nil
  then show ?case by simp
next
  case (Cons x s)
  obtain p ps where p: "split_on c s = p # ps"
    using split_on_not_Nil by (metis neq_Nil_conv)
  show ?case
    using Cons p by (cases ps) (auto simp: join_with_Cons)
qed

lemma split_on_parts: "p \<in> set (split_on c s) \<Longrightarrow> c \<notin> set p"
proof (induction s arbitrary: p)
  case (Cons x s)
  then show ?case by (cases "split_on c s") (auto split: if_splits)
qed simp

subsection \<open>Lists\<close>

lemma find_eq_None: "find P xs = None \<longleftrightarrow> (\<forall>x \<in> set xs. \<not> P x)"
  by (auto simp: find_None_iff)

lemma find_eq_SomeD: "find P xs = Some x \<Longrightarrow> x \<in> set xs \<and> P x"
  by (auto simp: find_Some_iff)

lemma filter_eq_Nil_iff: "filter P xs = [] \<longleftrightarrow> (\<forall>x \<in> set xs. \<not> P x)"
  by (induction xs) auto

lemma length_card_set_distinct: "card (set xs) = length xs \<longleftrightarrow> distinct xs"
  using card_distinct distinct_card by blast

end
