(* ===== verification/Py_Float.thy ===== *)
theory Py_Float
  imports Complex_Main "HOL-Library.Log_Nat" Prelude
begin

text \<open>
  Python's \<open>float\<close> without infinities and NaN: a finite double is the rational number it
  denotes, and every arithmetic operation is the exact operation followed by \<open>fl\<close>, IEEE-754
  rounding to nearest, ties to even, with 53 bits of precision and the gradual underflow of
  binary64 (least exponent \<open>-1074\<close>). Overflow is not modelled: the numbers of the program are
  scores, rates and costs near the unit interval. A decimal literal \<open>0.35\<close> in the source is
  \<open>fl (35 / 100)\<close>. \<open>py_round2\<close> and \<open>py_round6\<close> are the built-in \<open>round(x, 2)\<close> and
  \<open>round(x, 6)\<close>, which round the exact value half to even and return the nearest double.

  The locale \<open>rounding\<close> states what the component theories use of a rounding function; it is
  interpreted on \<open>fl\<close>.
\<close>

type_synonym pyfloat = rat

subsection \<open>Rounding to an integer, half to even\<close>

definition rhe :: "rat \<Rightarrow> int" where
  "rhe x = (let f = \<lfloor>x\<rfloor>; d = x - of_int f in
     if d < 1/2 then f else if d > 1/2 then f + 1 else if even f then f else f + 1)"

lemma rhe_of_int [simp]: "rhe (of_int n) = n"
  by (simp add: rhe_def)

lemma rhe_zero [simp]: "rhe 0 = 0"
  using rhe_of_int [of 0] by simp

lemma rhe_lower: "\<lfloor>x\<rfloor> \<le> rhe x"
  by (simp add: rhe_def Let_def)

lemma rhe_upper: "rhe x \<le> \<lfloor>x\<rfloor> + 1"
  by (simp add: rhe_def Let_def)

lemma rhe_mono: "x \<le> y \<Longrightarrow> rhe x \<le> rhe y"
proof (cases "\<lfloor>x\<rfloor> = \<lfloor>y\<rfloor>")
  case True
  assume "x \<le> y"
  with True show ?thesis by (auto simp: rhe_def Let_def)
next
  case False
  assume "x \<le> y"
  then have "\<lfloor>x\<rfloor> \<le> \<lfloor>y\<rfloor>" by (rule floor_mono)
  with False have "\<lfloor>x\<rfloor> + 1 \<le> \<lfloor>y\<rfloor>" by simp
  then show ?thesis using rhe_upper [of x] rhe_lower [of y] by linarith
qed

lemma rhe_uminus: "rhe (- x) = - rhe x"
proof (cases "x = of_int \<lfloor>x\<rfloor>")
  case True
  then obtain n where "x = of_int n" by blast
  then show ?thesis by (metis rhe_of_int of_int_minus)
next
  case False
  have f: "\<lfloor>- x\<rfloor> = - \<lfloor>x\<rfloor> - 1"
    using False by (simp add: floor_minus ceiling_altdef)
  show ?thesis unfolding rhe_def Let_def f by auto
qed

subsection \<open>The binary exponent\<close>

text \<open>\<open>fexp x\<close> is the integer \<open>e\<close> with \<open>2\<^sup>e \<le> |x| < 2\<^sup>e\<^sup>+\<^sup>1\<close>, from the bit lengths of the
  numerator and the denominator.\<close>

definition fexp :: "rat \<Rightarrow> int" where
  "fexp x = (let (p, q) = quotient_of \<bar>x\<bar>; k = bitlen p - bitlen q in
     if 2 powi k \<le> \<bar>x\<bar> then k else k - 1)"

lemma bitlen_powi:
  assumes "0 < p"
  shows "2 powi (bitlen p - 1) \<le> (of_int p :: rat)" and "(of_int p :: rat) < 2 powi (bitlen p)"
proof -
  have b: "1 \<le> bitlen p" using assms by (simp add: bitlen_alt_def)
  have "2 ^ nat (bitlen p - 1) \<le> p" "p < 2 ^ nat (bitlen p)"
    using bitlen_bounds [OF assms] by auto
  then have "(of_int (2 ^ nat (bitlen p - 1)) :: rat) \<le> of_int p"
    "(of_int p :: rat) < of_int (2 ^ nat (bitlen p))"
    by (simp_all only: of_int_le_iff of_int_less_iff)
  then show "2 powi (bitlen p - 1) \<le> (of_int p :: rat)" "(of_int p :: rat) < 2 powi (bitlen p)"
    using b by (simp_all add: power_int_def)
qed

lemma fexp_bounds:
  assumes "x \<noteq> 0"
  shows "2 powi (fexp x) \<le> \<bar>x\<bar>" and "\<bar>x\<bar> < 2 powi (fexp x + 1)"
proof -
  obtain p q where pq: "quotient_of \<bar>x\<bar> = (p, q)" by force
  from quotient_of_div [OF pq] have x: "\<bar>x\<bar> = of_int p / of_int q" .
  from quotient_of_denom_pos [OF pq] have q: "0 < q" .
  have "0 < (of_int p :: rat) / of_int q" using assms x by (metis zero_less_abs_iff)
  with q have p: "0 < p" by (simp add: zero_less_divide_iff)
  define k where "k = bitlen p - bitlen q"
  have q': "(0::rat) < of_int q" using q by simp
  have lo: "2 powi (k - 1) \<le> \<bar>x\<bar>"
  proof -
    have "(2::rat) powi (k - 1) * of_int q \<le> 2 powi (k - 1) * 2 powi (bitlen q)"
      using bitlen_powi(2) [OF q] by (intro mult_left_mono) auto
    also have "\<dots> = 2 powi (bitlen p - 1)"
      by (simp add: power_int_add [symmetric] k_def)
    also have "\<dots> \<le> of_int p" by (rule bitlen_powi(1) [OF p])
    finally show ?thesis using q' by (simp add: x pos_le_divide_eq)
  qed
  have hi: "\<bar>x\<bar> < 2 powi (k + 1)"
  proof -
    have "(of_int p :: rat) < 2 powi (bitlen p)" by (rule bitlen_powi(2) [OF p])
    also have "\<dots> = 2 powi (k + 1) * 2 powi (bitlen q - 1)"
      by (simp add: power_int_add [symmetric] k_def)
    also have "\<dots> \<le> 2 powi (k + 1) * of_int q"
      using bitlen_powi(1) [OF q] by (intro mult_left_mono) auto
    finally show ?thesis using q' by (simp add: x pos_divide_less_eq)
  qed
  have e: "fexp x = (if 2 powi k \<le> \<bar>x\<bar> then k else k - 1)"
    by (simp add: fexp_def pq k_def)
  show "2 powi (fexp x) \<le> \<bar>x\<bar>" "\<bar>x\<bar> < 2 powi (fexp x + 1)"
    using lo hi e by auto
qed

lemma powi2_less_iff: "(2::rat) powi a < 2 powi b \<longleftrightarrow> a < b"
proof
  assume l: "(2::rat) powi a < 2 powi b"
  show "a < b"
  proof (rule ccontr)
    assume "\<not> a < b"
    then have "(2::rat) powi b \<le> 2 powi a" by (intro power_int_increasing) auto
    with l show False by simp
  qed
qed (rule power_int_strict_increasing, auto)

lemma powi2_le_iff: "(2::rat) powi a \<le> 2 powi b \<longleftrightarrow> a \<le> b"
  by (meson linorder_not_less powi2_less_iff)

lemma powi2_split: "u \<le> e \<Longrightarrow> (2::rat) powi e = of_int (2 ^ nat (e - u)) * 2 powi u"
proof -
  assume le: "u \<le> e"
  have "(2::rat) powi e = 2 powi (e - u) * 2 powi u"
    by (simp flip: power_int_add)
  also have "(2::rat) powi (e - u) = of_int (2 ^ nat (e - u))"
    using le by (simp add: power_int_def)
  finally show ?thesis .
qed

lemma fexp_mono: "0 < x \<Longrightarrow> x \<le> y \<Longrightarrow> fexp x \<le> fexp y"
proof -
  assume a: "0 < x" "x \<le> y"
  then have "(2::rat) powi (fexp x) \<le> x" "y < 2 powi (fexp y + 1)"
    using fexp_bounds(1) [of x] fexp_bounds(2) [of y] by auto
  with a have "(2::rat) powi (fexp x) < 2 powi (fexp y + 1)" by linarith
  then show ?thesis by (simp add: powi2_less_iff)
qed

lemma fexp_uminus [simp]: "fexp (- x) = fexp x"
  by (simp add: fexp_def)

lemma fexp_unique:
  assumes "2 powi e \<le> \<bar>x\<bar>" "\<bar>x\<bar> < 2 powi (e + 1)"
  shows "fexp x = e"
proof -
  have "x \<noteq> 0" using assms(1) by (metis abs_zero linorder_not_less zero_less_numeral zero_less_power_int)
  from fexp_bounds [OF this] assms have "(2::rat) powi e < 2 powi (fexp x + 1)"
    "(2::rat) powi (fexp x) < 2 powi (e + 1)"
    by linarith+
  then show ?thesis by (simp add: powi2_less_iff)
qed

subsection \<open>Rounding to a double\<close>

text \<open>The exponent of the last place of \<open>x\<close>, and the double nearest to \<open>x\<close>.\<close>

definition fulp :: "rat \<Rightarrow> int" where
  "fulp x = max (fexp x - 52) (- 1074)"

definition fl :: "rat \<Rightarrow> pyfloat" where
  "fl x = (if x = 0 then 0 else of_int (rhe (x / 2 powi (fulp x))) * 2 powi (fulp x))"

lemma fl_zero [simp]: "fl 0 = 0"
  by (simp add: fl_def)

lemma fl_uminus: "fl (- x) = - fl x"
  by (simp add: fl_def fulp_def rhe_uminus)

lemma rhe_nonneg: "0 \<le> x \<Longrightarrow> 0 \<le> rhe x"
  using rhe_mono [of 0 x] by simp

lemma fl_nonneg: "0 \<le> x \<Longrightarrow> 0 \<le> fl x"
  by (auto simp: fl_def intro!: mult_nonneg_nonneg rhe_nonneg)

text \<open>A number with an integral significand at its own last place is a double.\<close>

lemma fl_exact_ulp: "x = of_int m * 2 powi (fulp x) \<Longrightarrow> fl x = x"
proof -
  assume x: "x = of_int m * 2 powi (fulp x)"
  then have "x / 2 powi (fulp x) = of_int m"
    by (metis nonzero_mult_div_cancel_right power_int_not_zero zero_neq_numeral)
  then show ?thesis using x by (simp add: fl_def)
qed

lemma fl_exact:
  assumes x: "x = of_int m * 2 powi e" and m: "\<bar>m\<bar> \<le> 2 ^ 53" and e: "- 1074 \<le> e"
  shows "fl x = x"
proof (cases "x = 0 \<or> fulp x \<le> e")
  case True
  show ?thesis
  proof (cases "x = 0")
    case False
    with True have le: "fulp x \<le> e" by simp
    have "x = of_int m * (of_int (2 ^ nat (e - fulp x)) * 2 powi (fulp x))"
      using x powi2_split [OF le] by simp
    then have "x = of_int (m * 2 ^ nat (e - fulp x)) * 2 powi (fulp x)"
      by (simp only: of_int_mult mult.assoc)
    then show ?thesis by (rule fl_exact_ulp)
  qed simp
next
  case False
  then have fe: "e + 53 \<le> fexp x" using e by (simp add: fulp_def)
  have x0: "x \<noteq> 0" using False by simp
  have "(2::rat) powi (e + 53) \<le> \<bar>x\<bar>"
    using fexp_bounds(1) [OF x0] fe by (meson order_trans powi2_le_iff)
  moreover have "\<bar>x\<bar> = of_int \<bar>m\<bar> * 2 powi e" by (simp add: x abs_mult)
  moreover have "(of_int \<bar>m\<bar> :: rat) \<le> of_int (2 ^ 53)"
    using m by (simp only: of_int_le_iff)
  then have "(of_int \<bar>m\<bar> :: rat) * 2 powi e \<le> 2 ^ 53 * 2 powi e"
    by (intro mult_right_mono) auto
  ultimately have ax: "\<bar>x\<bar> = 2 powi (e + 53)"
    by (simp add: power_int_add)
  then have "fexp x = e + 53" by (intro fexp_unique) (auto simp: powi2_less_iff)
  then have "fulp x = e + 1" using e by (simp add: fulp_def)
  moreover have "\<bar>x\<bar> = of_int (2 ^ 52) * 2 powi (e + 1)"
    using ax by (simp add: power_int_add)
  ultimately have "x = of_int (2 ^ 52) * 2 powi (fulp x) \<or> x = of_int (- (2 ^ 52)) * 2 powi (fulp x)"
    by (auto simp: abs_if split: if_splits)
  then show ?thesis using fl_exact_ulp by blast
qed

lemma fl_of_int: "\<bar>n\<bar> \<le> 2 ^ 53 \<Longrightarrow> fl (of_int n) = of_int n"
  by (rule fl_exact [of _ n 0]) auto

lemma fl_one [simp]: "fl 1 = 1"
  using fl_of_int [of 1] by simp

text \<open>Rounding stays inside the binade: its bounds are doubles themselves.\<close>

lemma rhe_le_int: "x \<le> of_int n \<Longrightarrow> rhe x \<le> n"
  using rhe_mono [of x "of_int n"] by simp

lemma rhe_ge_int: "of_int n \<le> x \<Longrightarrow> n \<le> rhe x"
  using rhe_mono [of "of_int n" x] by simp

lemma fl_le_grid:
  assumes "0 < x" "x \<le> of_int n * 2 powi (fulp x)"
  shows "fl x \<le> of_int n * 2 powi (fulp x)"
proof -
  have "x / 2 powi (fulp x) \<le> of_int n"
    using assms(2) by (simp add: pos_divide_le_eq)
  from rhe_le_int [OF this] show ?thesis
    using assms(1) by (simp add: fl_def mult_right_mono)
qed

lemma fl_ge_grid:
  assumes "0 < x" "of_int n * 2 powi (fulp x) \<le> x"
  shows "of_int n * 2 powi (fulp x) \<le> fl x"
proof -
  have "of_int n \<le> x / 2 powi (fulp x)"
    using assms(2) by (simp add: pos_le_divide_eq)
  from rhe_ge_int [OF this] show ?thesis
    using assms(1) by (simp add: fl_def mult_right_mono)
qed

lemma fl_mono_pos:
  assumes "0 < x" "x \<le> y"
  shows "fl x \<le> fl y"
proof (cases "fulp x = fulp y")
  case True
  have "x / 2 powi (fulp x) \<le> y / 2 powi (fulp x)"
    using assms by (intro divide_right_mono) auto
  from rhe_mono [OF this] True show ?thesis
    using assms by (simp add: fl_def mult_right_mono)
next
  case False
  define e where "e = fexp y"
  have "fexp x \<le> e" unfolding e_def by (rule fexp_mono [OF assms])
  with False have xe: "fexp x + 1 \<le> e" and uy: "fulp y = e - 52" and ux: "fulp x < fulp y"
    unfolding fulp_def e_def by auto
  have g: "(2::rat) powi e = of_int (2 ^ nat (e - fulp x)) * 2 powi (fulp x)"
    using ux uy by (intro powi2_split) simp
  have "x \<le> 2 powi (fexp x + 1)" using fexp_bounds(2) [of x] assms by simp
  also have "\<dots> \<le> 2 powi e" using xe by (simp add: powi2_le_iff)
  finally have "fl x \<le> 2 powi e"
    using fl_le_grid [OF assms(1)] g by metis
  moreover have "(2::rat) powi e = of_int (2 ^ 52) * 2 powi (fulp y)"
    using uy by (simp add: power_int_diff)
  moreover have "2 powi e \<le> y" using fexp_bounds(1) [of y] assms by (simp add: e_def)
  ultimately show ?thesis
    using fl_ge_grid [of y "2 ^ 52"] assms by simp
qed

theorem fl_mono: "x \<le> y \<Longrightarrow> fl x \<le> fl y"
proof -
  assume le: "x \<le> y"
  consider "0 < x" | "x \<le> 0" "0 \<le> y" | "y < 0" by linarith
  then show ?thesis
  proof cases
    case 1
    then show ?thesis using le by (rule fl_mono_pos)
  next
    case 2
    then have "fl (- x) \<ge> 0" "fl y \<ge> 0" by (auto intro: fl_nonneg)
    then show ?thesis by (simp add: fl_uminus)
  next
    case 3
    then have "fl (- y) \<le> fl (- x)" using le by (intro fl_mono_pos) auto
    then show ?thesis by (simp add: fl_uminus)
  qed
qed

text \<open>A result of rounding is a double: rounding it again changes nothing.\<close>

theorem fl_idem [simp]: "fl (fl x) = fl x"
proof (cases "x = 0")
  case False
  define m where "m = rhe (x / 2 powi (fulp x))"
  have "\<bar>x\<bar> \<le> 2 powi (fexp x + 1)" using fexp_bounds(2) [OF False] by simp
  also have "\<dots> \<le> 2 powi (53 + fulp x)" by (simp add: powi2_le_iff fulp_def)
  also have "\<dots> = of_int (2 ^ 53) * 2 powi (fulp x)" by (simp add: power_int_add)
  finally have "\<bar>x / 2 powi (fulp x)\<bar> \<le> of_int (2 ^ 53)"
    by (simp add: abs_divide pos_divide_le_eq del: of_int_power)
  then have "x / 2 powi (fulp x) \<le> of_int (2 ^ 53)" "of_int (- (2 ^ 53)) \<le> x / 2 powi (fulp x)"
    unfolding abs_le_iff of_int_minus by linarith+
  then have "m \<le> 2 ^ 53" "- (2 ^ 53) \<le> m"
    unfolding m_def by (blast intro: rhe_le_int rhe_ge_int)+
  then have m: "\<bar>m\<bar> \<le> 2 ^ 53" by simp
  have "fl x = of_int m * 2 powi (fulp x)" using False by (simp add: fl_def m_def)
  then show ?thesis using m by (rule fl_exact) (simp add: fulp_def)
qed simp

subsection \<open>The interface of rounding\<close>

locale rounding =
  fixes rnd :: "rat \<Rightarrow> rat"
  assumes rnd_mono: "x \<le> y \<Longrightarrow> rnd x \<le> rnd y"
    and rnd_zero: "rnd 0 = 0"
    and rnd_one: "rnd 1 = 1"
    and rnd_idem: "rnd (rnd x) = rnd x"
begin

text \<open>Adding a non-negative amount to a representable number never rounds below it.\<close>

lemma rnd_add_ge: "rnd x = x \<Longrightarrow> 0 \<le> w \<Longrightarrow> x \<le> rnd (x + w)"
  using rnd_mono [of x "x + w"] by simp

lemma rnd_mono_rep: "rnd y = y \<Longrightarrow> x \<le> y \<Longrightarrow> rnd x \<le> y"
  using rnd_mono [of x y] by simp

lemma rnd_nonneg: "0 \<le> x \<Longrightarrow> 0 \<le> rnd x"
  using rnd_mono [of 0 x] by (simp add: rnd_zero)

lemma rnd_unit: "0 \<le> x \<Longrightarrow> x \<le> 1 \<Longrightarrow> 0 \<le> rnd x \<and> rnd x \<le> 1"
  using rnd_mono [of x 1] by (simp add: rnd_nonneg rnd_one)

lemma rnd_scaled_unit:
  assumes "0 \<le> x" "x \<le> 1" "0 < k"
  shows "0 \<le> rnd (of_int (rhe (x * of_int k)) / of_int k) \<and>
    rnd (of_int (rhe (x * of_int k)) / of_int k) \<le> 1"
proof -
  have "0 \<le> x * of_int k" using assms by simp
  then have "0 \<le> rhe (x * of_int k)" by (rule rhe_nonneg)
  moreover have "rhe (x * of_int k) \<le> k"
    using assms by (intro rhe_le_int) (simp add: mult_left_le_one_le)
  ultimately show ?thesis using assms by (intro rnd_unit) (simp_all add: divide_le_eq)
qed

end

interpretation flr: rounding fl
  by unfold_locales (simp_all add: fl_mono)

subsection \<open>Operations\<close>

definition fadd :: "pyfloat \<Rightarrow> pyfloat \<Rightarrow> pyfloat" where
  "fadd x y = fl (x + y)"

definition fsub :: "pyfloat \<Rightarrow> pyfloat \<Rightarrow> pyfloat" where
  "fsub x y = fl (x - y)"

definition fmul :: "pyfloat \<Rightarrow> pyfloat \<Rightarrow> pyfloat" where
  "fmul x y = fl (x * y)"

text \<open>The literal \<open>0.nn\<close> with two decimals, \<open>round(x, 2)\<close> and \<open>round(x, 6)\<close>.\<close>

definition dec2 :: "int \<Rightarrow> pyfloat" where
  "dec2 n = fl (of_int n / 100)"

definition py_round2 :: "pyfloat \<Rightarrow> pyfloat" where
  "py_round2 x = fl (of_int (rhe (x * 100)) / 100)"

definition py_round6 :: "pyfloat \<Rightarrow> pyfloat" where
  "py_round6 x = fl (of_int (rhe (x * 1000000)) / 1000000)"

lemma py_round2_unit: "0 \<le> x \<Longrightarrow> x \<le> 1 \<Longrightarrow> 0 \<le> py_round2 x \<and> py_round2 x \<le> 1"
  using flr.rnd_scaled_unit [of x 100] by (simp add: py_round2_def)

text \<open>The built-in \<open>sum\<close> over floats, which since Python 3.12 is Neumaier's compensated
  summation: \<open>c\<close> collects the low-order parts and is added once at the end.\<close>

fun sum_loop :: "pyfloat \<Rightarrow> pyfloat \<Rightarrow> pyfloat list \<Rightarrow> pyfloat" where
  "sum_loop s c [] = (if c = 0 then s else fadd s c)"
| "sum_loop s c (x # xs) =
     (let t = fadd s x in
      sum_loop t (fadd c (if \<bar>s\<bar> \<ge> \<bar>x\<bar> then fadd (fsub s t) x else fadd (fsub x t) s)) xs)"

fun py_sum :: "pyfloat list \<Rightarrow> pyfloat" where
  "py_sum [] = 0"
| "py_sum (x # xs) = sum_loop x 0 xs"

end
