(* ===== verification/Contracts.thy ===== *)
theory Contracts
  imports Py_Float
begin

text \<open>
  The typed contracts of \<^verbatim>\<open>src/accretion/contracts/__init__.py\<close> that the components read and write:
  enumerations as datatypes with the source's members (prefixed, since several enumerations share
  member names) and pydantic models as records (each field prefixed by an abbreviation of its
  model). Fields that hold a fixed literal (schema and component versions) are left out. Timestamps
  are integers, identifiers are strings, \<open>dict[str, Any]\<close> payloads are \<open>json\<close> values. The range
  constraints that pydantic enforces when a model is built (\<open>gt=0\<close>, \<open>ge=0\<close>, \<open>le=1\<close>) are the
  predicates \<open>valid_*\<close>.
\<close>

subsection \<open>JSON values\<close>

datatype json =
    JNull | JBool bool | JInt int | JFloat pyfloat | JStr string
  | JList "json list" | JObj "(string \<times> json) list"

type_synonym timestamp = int

subsection \<open>Enumerations\<close>

datatype Provider =
    Prov_CLAUDE | Prov_CODEX | Prov_OPENCODE | Prov_FAKE | Prov_DETERMINISTIC
  | Prov_HUMAN

datatype RuntimeStatus =
    Rt_READY | Rt_BUSY | Rt_RATE_LIMITED | Rt_AUTH_REQUIRED | Rt_UNAVAILABLE
  | Rt_DEGRADED

datatype UsagePressure =
    Pr_UNKNOWN | Pr_LOW | Pr_MEDIUM | Pr_HIGH | Pr_EXHAUSTED

datatype RunState =
    Run_PENDING | Run_STARTING | Run_RUNNING | Run_PAUSED | Run_RECONCILING
  | Run_SUCCEEDED | Run_FAILED | Run_CANCELLED | Run_REQUIRES_HUMAN

datatype TaskType =
    Task_RESEARCH | Task_ANALYSIS | Task_IMPLEMENT | Task_REVIEW | Task_EXPERIMENT
  | Task_OTHER

datatype RiskLevel =
    Risk_LOW | Risk_MEDIUM | Risk_HIGH | Risk_CRITICAL

datatype ExecutionMode =
    Mode_DIRECT | Mode_LOOP | Mode_GRAPH | Mode_HYBRID

datatype ExpectedHorizon =
    Hor_SHORT | Hor_MEDIUM | Hor_LONG

datatype OverridePolicyResult =
    Ovr_ACCEPTED | Ovr_DENIED_TEMPLATE_MISMATCH | Ovr_DENIED_SAFETY_POLICY

datatype LoopExecutionStatus =
    Loop_PENDING | Loop_RUNNING | Loop_PAUSED | Loop_SUCCEEDED | Loop_FAILED
  | Loop_CANCELLED | Loop_REQUIRES_HUMAN

datatype LoopIterationStatus =
    Iter_COMPLETED | Iter_INTERRUPTED | Iter_FAILED | Iter_CANCELLED

datatype LoopStopReason =
    Stop_VERIFIED_SUCCESS | Stop_MAX_ITERATIONS | Stop_WALL_TIME_EXCEEDED
  | Stop_MAX_TOOL_CALLS | Stop_MAX_TURNS | Stop_NO_PROGRESS
  | Stop_REPEATED_FAILURE | Stop_POLICY_ESCALATION | Stop_VERIFIER_UNAVAILABLE
  | Stop_PROVIDER_FAILURE | Stop_OPERATOR_CANCELLED | Stop_INTERRUPTED

datatype VerificationStatus =
    V_PASS | V_FAIL | V_INCONCLUSIVE

datatype FindingSeverity =
    Sev_INFO | Sev_WARNING | Sev_ERROR

datatype GraphNodeKind =
    Kind_TASK | Kind_AGENT | Kind_TOOL | Kind_VERIFIER | Kind_GATE | Kind_LOOP
  | Kind_JOIN | Kind_HUMAN | Kind_TERMINAL

datatype GraphNodeStatus =
    Node_PENDING | Node_RUNNING | Node_WAITING | Node_SUCCEEDED | Node_FAILED
  | Node_CANCELLED

datatype GraphEdgeKind =
    Edge_NORMAL | Edge_CONDITION | Edge_LOOP_BACK | Edge_RETRY | Edge_ERROR
  | Edge_FANOUT | Edge_MERGE | Edge_APPROVAL

datatype TemplateStatus = Tpl_DRAFT | Tpl_VALIDATED | Tpl_RETIRED

datatype EdgeGuard =
    Guard_ON_SUCCESS | Guard_ON_FAIL | Guard_ON_INCONCLUSIVE | Guard_ON_APPROVED
  | Guard_ON_DENIED | Guard_ON_REPLAN_AVAILABLE | Guard_ON_REPLAN_EXHAUSTED

datatype TerminalOutcome =
    Out_SUCCEEDED | Out_FAILED | Out_REQUIRES_HUMAN

datatype CheckpointKind =
    Ck_NODE_BOUNDARY | Ck_SIDE_EFFECT_BOUNDARY

datatype ApprovalStatus =
    Appr_PENDING | Appr_APPROVED | Appr_DENIED | Appr_CANCELLED

datatype ApprovalDecisionValue =
    Dec_APPROVE | Dec_APPROVE_SESSION | Dec_DENY | Dec_CANCEL

datatype EventType =
    Ev_RUN_CREATED | Ev_WORKFLOW_PROPOSAL_CREATED | Ev_WORKFLOW_PROPOSAL_REPAIRED
  | Ev_GRAPH_VALIDATION_STARTED | Ev_GRAPH_VALIDATION_RESULT
  | Ev_GRAPH_REVISION_ACTIVATED | Ev_REPLAN_REQUESTED | Ev_REPLAN_STARTED
  | Ev_REPLAN_COMPLETED | Ev_RUNTIME_DECISION | Ev_SEARCH_STARTED
  | Ev_SEARCH_CANDIDATE_STARTED | Ev_SEARCH_CANDIDATE_COMPLETED
  | Ev_SEARCH_CANDIDATE_PRUNED | Ev_SEARCH_SELECTION | Ev_SEARCH_PROMOTION_STARTED
  | Ev_SEARCH_PROMOTION_COMPLETED | Ev_SEARCH_STOPPED | Ev_EXPERIENCE_QUERY
  | Ev_EXPERIENCE_RETRIEVED | Ev_TRAJECTORY_REPLAY_STARTED
  | Ev_TRAJECTORY_REPLAY_REJECTED | Ev_RUN_STARTED | Ev_RUN_PROGRESS
  | Ev_NODE_ENTERED | Ev_NODE_EXITED | Ev_TOOL_REQUESTED | Ev_TOOL_STARTED
  | Ev_TOOL_COMPLETED | Ev_TOOL_FAILED | Ev_FILE_CHANGED | Ev_DIFF_AVAILABLE
  | Ev_APPROVAL_REQUIRED | Ev_APPROVAL_RESOLVED | Ev_ARTIFACT_CREATED
  | Ev_CHECKPOINT_SAVED | Ev_RUNTIME_CALL_STARTED | Ev_RUNTIME_CALL_COMPLETED
  | Ev_RUNTIME_CALL_FAILED | Ev_RUNTIME_CALL_CANCELLED | Ev_LOOP_ITERATION_STARTED
  | Ev_LOOP_ITERATION_COMPLETED | Ev_VERIFICATION_STARTED | Ev_VERIFICATION_RESULT
  | Ev_RUN_PAUSED | Ev_RUN_RESUMED | Ev_RUN_COMPLETED | Ev_RUN_FAILED
  | Ev_RUN_CANCELLED | Ev_ROUTING_REQUESTED | Ev_ROUTING_CANDIDATES_BUILT
  | Ev_ROUTING_DECISION_CREATED | Ev_ROUTING_OVERRIDE_RECORDED
  | Ev_ROUTING_FALLBACK_SELECTED | Ev_ROUTING_HUMAN_REVIEW_REQUIRED
  | Ev_VERIFICATION_RESULT_RECORDED | Ev_EXPERIENCE_CREATED
  | Ev_ROUTER_CANDIDATE_TRAINED | Ev_ROUTER_PROMOTION_EVALUATED
  | Ev_ROUTER_VERSION_PROMOTED | Ev_ROUTER_VERSION_ROLLED_BACK

subsection \<open>Constant tables\<close>

definition LIVE_PROVIDERS :: "Provider set" where
  "LIVE_PROVIDERS = {Prov_CLAUDE, Prov_CODEX, Prov_OPENCODE}"

definition TERMINAL_RUN_STATES :: "RunState set" where
  "TERMINAL_RUN_STATES = {Run_SUCCEEDED, Run_FAILED, Run_CANCELLED, Run_REQUIRES_HUMAN}"

fun RISK_RANK :: "RiskLevel \<Rightarrow> int" where
  "RISK_RANK Risk_LOW = 0"
| "RISK_RANK Risk_MEDIUM = 1"
| "RISK_RANK Risk_HIGH = 2"
| "RISK_RANK Risk_CRITICAL = 3"

text \<open>The order of severity is that of \<open>RISK_RANK\<close>, not the alphabetical one of the enum's values.\<close>

instantiation RiskLevel :: linorder
begin

definition less_eq_RiskLevel :: "RiskLevel \<Rightarrow> RiskLevel \<Rightarrow> bool" where
  "less_eq_RiskLevel a b \<longleftrightarrow> RISK_RANK a \<le> RISK_RANK b"

definition less_RiskLevel :: "RiskLevel \<Rightarrow> RiskLevel \<Rightarrow> bool" where
  "less_RiskLevel a b \<longleftrightarrow> RISK_RANK a < RISK_RANK b"

instance
proof
  fix x y z :: RiskLevel
  show "x < y \<longleftrightarrow> x \<le> y \<and> \<not> y \<le> x"
    by (auto simp: less_eq_RiskLevel_def less_RiskLevel_def)
  show "x \<le> x" by (simp add: less_eq_RiskLevel_def)
  show "x \<le> y \<Longrightarrow> y \<le> z \<Longrightarrow> x \<le> z" by (simp add: less_eq_RiskLevel_def)
  show "x \<le> y \<Longrightarrow> y \<le> x \<Longrightarrow> x = y"
    by (cases x; cases y) (auto simp: less_eq_RiskLevel_def)
  show "x \<le> y \<or> y \<le> x" by (auto simp: less_eq_RiskLevel_def)
qed

end

lemma RISK_RANK_le_iff: "RISK_RANK a \<le> RISK_RANK b \<longleftrightarrow> a \<le> b"
  by (simp add: less_eq_RiskLevel_def)

lemma RISK_RANK_less_iff: "RISK_RANK a < RISK_RANK b \<longleftrightarrow> a < b"
  by (simp add: less_RiskLevel_def)

subsection \<open>Tasks and planning\<close>

record ErrorSummary =
  er_code :: string
  er_message :: string
  er_retryable :: bool

record TaskBudgets =
  tb_wall_time_seconds :: int
  tb_max_turns :: int
  tb_max_tool_calls :: int
  tb_max_loop_iterations :: int
  tb_max_parallel_runs :: int

definition valid_TaskBudgets :: "TaskBudgets \<Rightarrow> bool" where
  "valid_TaskBudgets b \<longleftrightarrow> 0 < tb_wall_time_seconds b \<and> 0 < tb_max_turns b \<and>
     0 < tb_max_tool_calls b \<and> 0 < tb_max_loop_iterations b \<and> 0 < tb_max_parallel_runs b"

record TaskEnvelope =
  te_task_id :: string
  te_project_id :: string
  te_objective :: string
  te_task_type :: TaskType
  te_inputs :: "json list"
  te_constraints :: "string list"
  te_success_criteria :: "string list"
  te_risk_level :: RiskLevel
  te_requested_skills :: "string list"
  te_allowed_capabilities :: "string list"
  te_denied_capabilities :: "string list"
  te_verifier_policy_ref :: string
  te_prompt_contract_ref :: string
  te_context_policy_ref :: string
  te_budgets :: TaskBudgets
  te_required_outputs :: "json list"

record FeatureEvidence =
  fe_feature :: string
  fe_value :: json
  fe_source :: string
  fe_available :: bool

record TaskProfile =
  tp_profile_id :: string
  tp_task_id :: string
  tp_complexity :: "pyfloat option"
  tp_structure_certainty :: "pyfloat option"
  tp_feedback_dependency :: "pyfloat option"
  tp_dependency_complexity :: "pyfloat option"
  tp_parallelism_potential :: "pyfloat option"
  tp_uncertainty :: "pyfloat option"
  tp_verifier_strength :: "pyfloat option"
  tp_risk :: RiskLevel
  tp_irreversible_actions :: bool
  tp_expected_horizon :: ExpectedHorizon
  tp_profile_confidence :: pyfloat
  tp_observed_features :: "FeatureEvidence list"
  tp_unknown_features :: "string list"

definition unit_score :: "pyfloat option \<Rightarrow> bool" where
  "unit_score s = (case s of None \<Rightarrow> True | Some x \<Rightarrow> 0 \<le> x \<and> x \<le> 1)"

lemma unit_score_simps [simp]:
  "unit_score None" "unit_score (Some x) \<longleftrightarrow> 0 \<le> x \<and> x \<le> 1"
  by (simp_all add: unit_score_def)

definition valid_TaskProfile :: "TaskProfile \<Rightarrow> bool" where
  "valid_TaskProfile p \<longleftrightarrow> unit_score (tp_complexity p) \<and> unit_score (tp_structure_certainty p) \<and>
     unit_score (tp_feedback_dependency p) \<and> unit_score (tp_dependency_complexity p) \<and>
     unit_score (tp_parallelism_potential p) \<and> unit_score (tp_uncertainty p) \<and>
     unit_score (tp_verifier_strength p) \<and> 0 \<le> tp_profile_confidence p \<and> tp_profile_confidence p \<le> 1"

record StrategyDecision =
  sd_decision_id :: string
  sd_task_id :: string
  sd_selected_mode :: ExecutionMode
  sd_selected_template_id :: string
  sd_task_profile_ref :: string
  sd_matched_rules :: "string list"
  sd_alternatives :: "ExecutionMode list"
  sd_operator_override_allowed :: bool
  sd_requires_approval :: bool
  sd_requires_independent_verifier :: bool
  sd_supersedes_decision_id :: "string option"

record StrategyOverride =
  so_override_id :: string
  so_task_id :: string
  so_original_decision_id :: string
  so_requested_mode :: ExecutionMode
  so_requested_template_id :: string
  so_operator_identity :: string
  so_reason :: string
  so_policy_result :: OverridePolicyResult
  so_accepted :: bool
  so_resulting_decision_id :: "string option"

subsection \<open>Verification and loops\<close>

record Finding =
  fi_code :: string
  fi_severity :: FindingSeverity
  fi_message :: string
  fi_path :: "string option"
  fi_line :: "int option"
  fi_evidence_ref :: "string option"
  fi_fingerprint :: "string option"

record VerificationResult =
  vr_verification_id :: string
  vr_run_id :: string
  vr_iteration_id :: "string option"
  vr_verifier_id :: string
  vr_verifier_version :: string
  vr_target_ref :: string
  vr_status :: VerificationStatus
  vr_score :: "pyfloat option"
  vr_findings :: "Finding list"
  vr_evidence_refs :: "string list"
  vr_false_accept_risk_estimate :: "pyfloat option"
  vr_executed_at :: timestamp
  vr_duration_ms :: int

record AcceptancePolicy =
  ap_policy_id :: string
  ap_required_verifiers :: "string list"
  ap_all_required_must_pass :: bool
  ap_score_thresholds :: "(string, pyfloat) dict"
  ap_allow_inconclusive :: bool
  ap_require_independent_reviewer :: bool
  ap_independent_reviewer_ref :: "string option"
  ap_require_human_if_risk_gte :: "RiskLevel option"
  ap_outcome_check :: "string option"
  ap_created_at :: timestamp

record LoopBudgetRemaining =
  br_wall_time_seconds :: int
  br_tool_calls :: int
  br_turns :: int
  br_iterations :: int

definition valid_LoopBudgetRemaining :: "LoopBudgetRemaining \<Rightarrow> bool" where
  "valid_LoopBudgetRemaining b \<longleftrightarrow> 0 \<le> br_wall_time_seconds b \<and> 0 \<le> br_tool_calls b \<and>
     0 \<le> br_turns b \<and> 0 \<le> br_iterations b"

record LoopSpec =
  sp_loop_id :: string
  sp_max_iterations :: int
  sp_max_wall_time_seconds :: int
  sp_max_tool_calls :: int
  sp_max_turns :: int
  sp_no_progress_window :: int
  sp_repeated_failure_threshold :: int
  sp_provider_failure_threshold :: int
  sp_escalation_target :: string
  sp_verifier_refs :: "string list"

definition valid_LoopSpec :: "LoopSpec \<Rightarrow> bool" where
  "valid_LoopSpec s \<longleftrightarrow> 0 < sp_max_iterations s \<and> 0 < sp_max_wall_time_seconds s \<and>
     0 < sp_max_tool_calls s \<and> 0 < sp_max_turns s \<and> 0 < sp_no_progress_window s \<and>
     0 < sp_repeated_failure_threshold s \<and> 0 < sp_provider_failure_threshold s"

record LoopState =
  ls_iteration :: int
  ls_latest_observation_ref :: "string option"
  ls_accumulated_evidence_refs :: "string list"
  ls_progress_score :: "pyfloat option"
  ls_repeated_failure_signature :: "string option"
  ls_consecutive_no_progress :: int
  ls_repeated_failure_count :: int
  ls_provider_failure_count :: int
  ls_budget_remaining :: LoopBudgetRemaining

definition valid_LoopState :: "LoopState \<Rightarrow> bool" where
  "valid_LoopState s \<longleftrightarrow> 0 \<le> ls_iteration s \<and> unit_score (ls_progress_score s) \<and>
     0 \<le> ls_consecutive_no_progress s \<and> 0 \<le> ls_repeated_failure_count s \<and>
     0 \<le> ls_provider_failure_count s \<and> valid_LoopBudgetRemaining (ls_budget_remaining s)"

record LoopIteration =
  it_iteration_id :: string
  it_loop_execution_id :: string
  it_run_id :: string
  it_number :: int
  it_status :: LoopIterationStatus
  it_runtime_call_ref :: "string option"
  it_observation_ref :: "string option"
  it_diff_artifact_ref :: "string option"
  it_artifact_refs :: "string list"
  it_verification_refs :: "string list"
  it_evidence_refs :: "string list"
  it_diff_sha256 :: "string option"
  it_output_fingerprint :: "string option"
  it_finding_signature :: "string option"
  it_tool_calls :: int
  it_turns :: int
  it_error :: "ErrorSummary option"

record LoopExecution =
  lx_loop_execution_id :: string
  lx_run_id :: string
  lx_node_key :: string
  lx_attempt :: int
  lx_spec :: LoopSpec
  lx_state :: LoopState
  lx_acceptance_policy_ref :: string
  lx_acceptance_policy :: "AcceptancePolicy option"
  lx_status :: LoopExecutionStatus
  lx_stop_reason :: "LoopStopReason option"
  lx_revision :: int
  lx_created_at :: timestamp
  lx_updated_at :: timestamp
  lx_completed_at :: "timestamp option"

subsection \<open>Runs, graphs, checkpoints, events and approvals\<close>

record BudgetPolicy =
  bp_max_wall_time_seconds :: int
  bp_max_total_turns :: int
  bp_max_total_tool_calls :: int
  bp_max_runtime_calls :: int
  bp_max_node_retries :: int
  bp_max_replans :: int

definition budget_default :: BudgetPolicy where
  "budget_default = \<lparr>bp_max_wall_time_seconds = 1800, bp_max_total_turns = 20, bp_max_total_tool_calls = 100,
     bp_max_runtime_calls = 12, bp_max_node_retries = 1, bp_max_replans = 0\<rparr>"

record GateSpec =
  gs_gate_id :: string
  gs_node_key :: string
  gs_summary :: string
  gs_required_for_risk_gte :: RiskLevel

datatype IterationsSource = Src_TASK_BUDGET | Src_FIXED

record NodeLoopPolicy =
  lp_region_keys :: "string list"
  lp_act_key :: string
  lp_observe_key :: "string option"
  lp_verify_in_region :: bool
  lp_max_iterations_source :: IterationsSource
  lp_fixed_max_iterations :: "int option"
  lp_budget_fraction :: pyfloat

record WorkflowNodeSpec =
  wn_key :: string
  wn_kind :: GraphNodeKind
  wn_label :: string
  wn_parent_key :: "string option"
  wn_instruction :: "string option"
  wn_loop :: "NodeLoopPolicy option"
  wn_capability_refs :: "string list"

record WorkflowEdgeSpec =
  we_key :: string
  we_source :: string
  we_target :: string
  we_kind :: GraphEdgeKind
  we_label :: "string option"
  we_guard :: "EdgeGuard option"

record WorkflowTemplate =
  tp_template_record_id :: string
  tp_template_id :: string
  tp_version :: string
  tp_mode :: ExecutionMode
  tp_input_schema :: "(string, json) dict"
  tp_nodes :: "WorkflowNodeSpec list"
  tp_edges :: "WorkflowEdgeSpec list"
  tp_global_budget_policy :: BudgetPolicy
  tp_required_verifiers :: "string list"
  tp_required_approval_gates :: "GateSpec list"
  tp_checksum :: string
  tp_status :: TemplateStatus

record RunNode =
  nd_node_id :: string
  nd_key :: string
  nd_kind :: GraphNodeKind
  nd_label :: string
  nd_parent_id :: "string option"
  nd_status :: GraphNodeStatus
  nd_iteration :: "int option"
  nd_max_iterations :: "int option"
  nd_loop_execution_id :: "string option"
  nd_approval_id :: "string option"
  nd_verifier_state :: "VerificationStatus option"
  nd_terminal_outcome :: "TerminalOutcome option"

record RunEdge =
  ed_edge_id :: string
  ed_key :: string
  ed_source :: string
  ed_target :: string
  ed_kind :: GraphEdgeKind
  ed_label :: "string option"
  ed_guard :: "EdgeGuard option"
  ed_active :: bool
  ed_traversal_count :: int

record RunGraph =
  rg_run_graph_id :: string
  rg_run_id :: string
  rg_task_id :: string
  rg_template_record_id :: string
  rg_template_id :: string
  rg_template_version :: string
  rg_template_checksum :: string
  rg_nodes :: "RunNode list"
  rg_edges :: "RunEdge list"
  rg_graph_revision :: int

record CheckpointLoopCursor =
  cu_loop_execution_id :: string
  cu_iteration :: int
  cu_revision :: int
  cu_status :: LoopExecutionStatus

record Checkpoint =
  ck_checkpoint_id :: string
  ck_run_id :: string
  ck_kind :: CheckpointKind
  ck_sequence :: int
  ck_run_state :: RunState
  ck_run_revision :: int
  ck_active_node_ids :: "string list"
  ck_arrival_edge_key :: "string option"
  ck_node_statuses :: "(string, GraphNodeStatus) dict"
  ck_loop_cursors :: "CheckpointLoopCursor list"
  ck_run_graph_id :: "string option"
  ck_graph_revision :: "int option"
  ck_budget_remaining :: "LoopBudgetRemaining option"
  ck_workspace_lease_id :: "string option"
  ck_workspace_revision :: "string option"
  ck_workspace_diff_sha256 :: "string option"
  ck_side_effect_operation_id :: "string option"
  ck_created_at :: timestamp

record AgentEvent =
  ev_event_id :: string
  ev_run_id :: string
  ev_session_id :: string
  ev_provider :: Provider
  ev_native_type :: string
  ev_normalized_type :: EventType
  ev_sequence :: int
  ev_timestamp :: timestamp
  ev_correlation_id :: string
  ev_causation_id :: "string option"
  ev_node_id :: "string option"
  ev_payload :: "(string, json) dict"
  ev_adapter_version :: string

record ApprovalRecord =
  ar_approval_id :: string
  ar_run_id :: string
  ar_node_id :: "string option"
  ar_native_request_id :: string
  ar_method :: string
  ar_summary :: string
  ar_payload :: "(string, json) dict"
  ar_status :: ApprovalStatus
  ar_decision :: "ApprovalDecisionValue option"
  ar_created_at :: timestamp
  ar_decided_at :: "timestamp option"

record Run =
  rn_run_id :: string
  rn_task_id :: string
  rn_project_id :: string
  rn_provider :: Provider
  rn_state :: RunState
  rn_principal_id :: "string option"
  rn_last_sequence :: int
  rn_revision :: int
  rn_session_id :: "string option"
  rn_workspace_lease_id :: "string option"
  rn_strategy_decision_id :: "string option"
  rn_execution_mode :: "ExecutionMode option"
  rn_workflow_template_id :: "string option"
  rn_acceptance_policy_id :: "string option"
  rn_loop_execution_id :: "string option"
  rn_error :: "ErrorSummary option"
  rn_created_at :: timestamp
  rn_updated_at :: timestamp

subsection \<open>Projects, tasks, sessions and leases\<close>

record Project =
  pj_project_id :: string
  pj_name :: string
  pj_repository_path :: string
  pj_created_at :: timestamp

record Task =
  tk_envelope :: TaskEnvelope
  tk_prompt_contract_id :: "string option"
  tk_context_bundle_id :: "string option"
  tk_current_profile_id :: "string option"
  tk_current_strategy_decision_id :: "string option"
  tk_created_at :: timestamp

record PromptContract =
  pc_prompt_contract_id :: string
  pc_task_id :: string
  pc_role :: string
  pc_objective :: string
  pc_hard_constraints :: "string list"
  pc_non_goals :: "string list"
  pc_tool_rules :: "string list"
  pc_output_schema :: "(string, json) dict"
  pc_uncertainty_policy :: "(string, json) dict"
  pc_completion_criteria :: "string list"
  pc_examples :: "json list"
  pc_created_at :: timestamp

record ContextBundle =
  cb_schema_version :: string
  cb_context_bundle_id :: string
  cb_task_ref :: string
  cb_version :: string
  cb_phase :: string
  cb_project_summary :: string
  cb_evidence_refs :: "string list"
  cb_artifact_refs :: "string list"
  cb_workspace_map :: "(string, json) dict"
  cb_previous_failure_refs :: "string list"
  cb_constraints :: "string list"
  cb_permissions :: "string list"
  cb_freshness :: "(string, json) dict"
  cb_provenance :: "string list"
  cb_token_budget :: int
  cb_supersedes_context_bundle_id :: "string option"
  cb_experience_query_id :: "string option"
  cb_experience_match_refs :: "string list"
  cb_experience_refs :: "string list"
  cb_created_at :: timestamp

text \<open>The validator of \<open>ContextBundle\<close>, which every construction runs.\<close>

definition truthy_str :: "string option \<Rightarrow> bool" where
  "truthy_str s \<longleftrightarrow> (case s of None \<Rightarrow> False | Some v \<Rightarrow> v \<noteq> [])"

definition validate_experience_revision :: "ContextBundle \<Rightarrow> unit res" where
  "validate_experience_revision c =
    (let has_experience = (cb_experience_refs c \<noteq> [] \<or> cb_experience_match_refs c \<noteq> [] \<or>
           truthy_str (cb_experience_query_id c) \<or> truthy_str (cb_supersedes_context_bundle_id c)) in
     if cb_version c = ''context-bundle-v1'' \<and> (cb_schema_version c \<noteq> ''1.0'' \<or> has_experience)
     then Inl (ValueError ''ContextBundle v1 cannot reference experience'')
     else if cb_version c = ''context-bundle-v2'' then
       (if cb_schema_version c \<noteq> ''2.0''
        then Inl (ValueError ''ContextBundle v2 requires schema version 2.0'')
        else if \<not> (truthy_str (cb_supersedes_context_bundle_id c) \<and> truthy_str (cb_experience_query_id c) \<and>
           cb_experience_refs c \<noteq> [] \<and> cb_experience_match_refs c \<noteq> [])
        then Inl (ValueError ''ContextBundle v2 requires complete experience provenance'')
        else if length (cb_experience_refs c) \<noteq> length (cb_experience_match_refs c)
        then Inl (ValueError ''experience and match references must align'')
        else Inr ())
     else Inr ())"

record TaskPlanning =
  tl_task_id :: string
  tl_prompt_contract :: PromptContract
  tl_context_bundle :: ContextBundle
  tl_current_profile :: TaskProfile
  tl_current_decision :: StrategyDecision
  tl_context_history :: "ContextBundle list"
  tl_profile_history :: "TaskProfile list"
  tl_decision_history :: "StrategyDecision list"
  tl_override_history :: "StrategyOverride list"

record WorkspaceLease =
  wl_lease_id :: string
  wl_project_id :: string
  wl_run_id :: string
  wl_base_revision :: string
  wl_path :: string
  wl_branch_name :: string
  wl_isolation :: string
  wl_writable :: bool
  wl_acquired_at :: timestamp
  wl_expires_at :: "timestamp option"
  wl_cleanup_policy :: string

record SessionRef =
  sr_session_id :: string
  sr_run_id :: string
  sr_provider :: Provider
  sr_native_session_id :: "string option"
  sr_workspace :: string

lemmas contract_valid_defs =
  valid_TaskBudgets_def valid_TaskProfile_def valid_LoopBudgetRemaining_def valid_LoopSpec_def
  valid_LoopState_def

end
