(* ===== verification/Planning.thy ===== *)
theory Planning
  imports Contracts
begin

text \<open>
  Deterministic planning, \<^verbatim>\<open>src/accretion/planning.py\<close> and the template tables of
  \<^verbatim>\<open>src/accretion/templates.py\<close>: the task profiler, the strategy selector and the operator override.
  Identifiers minted by \<open>new_id\<close> are arguments; the two file-system questions the profiler asks
  (\<open>is_file\<close>, \<open>exists\<close>, and whether \<open>glob("*test*.*")\<close> matches) are arguments too. Free-text
  rationales are left out.

  Shown: profiles respect the ranges of their contract; the strategy the selector picks for each
  task type; high-risk or irreversible work keeps the gated template through every override.
\<close>

subsection \<open>Tables\<close>

definition PROFILE_MIN_CONFIDENCE :: pyfloat where
  "PROFILE_MIN_CONFIDENCE = dec2 70"

definition MANIFEST_NAMES :: "string list" where
  "MANIFEST_NAMES = [''pyproject.toml'', ''package.json'', ''Cargo.toml'', ''go.mod'', ''pom.xml'',
     ''build.gradle'', ''Makefile'']"

definition IRREVERSIBLE_CAPABILITY_MARKERS :: "string list" where
  "IRREVERSIBLE_CAPABILITY_MARKERS =
     [''delete'', ''deploy'', ''payment'', ''publish'', ''release'', ''send'']"

fun DEFAULT_TEMPLATE_BY_MODE :: "ExecutionMode \<Rightarrow> string" where
  "DEFAULT_TEMPLATE_BY_MODE Mode_DIRECT = ''direct-v1''"
| "DEFAULT_TEMPLATE_BY_MODE Mode_LOOP = ''feedback-loop-v1''"
| "DEFAULT_TEMPLATE_BY_MODE Mode_GRAPH = ''fixed-graph-v1''"
| "DEFAULT_TEMPLATE_BY_MODE Mode_HYBRID = ''hybrid-rd-v1''"

definition SAFE_UNKNOWN_TEMPLATE :: string where
  "SAFE_UNKNOWN_TEMPLATE = ''safe-unknown-v1''"

fun ALLOWED_TEMPLATES_BY_MODE :: "ExecutionMode \<Rightarrow> string set" where
  "ALLOWED_TEMPLATES_BY_MODE Mode_DIRECT = {''direct-v1''}"
| "ALLOWED_TEMPLATES_BY_MODE Mode_LOOP = {''feedback-loop-v1''}"
| "ALLOWED_TEMPLATES_BY_MODE Mode_GRAPH = {''fixed-graph-v1''}"
| "ALLOWED_TEMPLATES_BY_MODE Mode_HYBRID = {''hybrid-rd-v1'', ''safe-unknown-v1''}"

text \<open>The members of the enumeration in declaration order, as \<open>for candidate in ExecutionMode\<close>
  visits them.\<close>

definition all_modes :: "ExecutionMode list" where
  "all_modes = [Mode_DIRECT, Mode_LOOP, Mode_GRAPH, Mode_HYBRID]"

subsection \<open>Profiling\<close>

definition clamp :: "pyfloat \<Rightarrow> pyfloat" where
  "clamp value = py_round2 (min (max value 0) 1)"

definition repository_evidence ::
  "(string \<Rightarrow> bool) \<Rightarrow> (string \<Rightarrow> bool) \<Rightarrow> bool \<Rightarrow> string list \<times> bool" where
  "repository_evidence is_file path_exists glob_test =
     (let manifests = filter is_file MANIFEST_NAMES;
          has_tests = (path_exists ''tests'' \<or> path_exists ''test'' \<or> path_exists ''spec'' \<or> path_exists ''__tests__'')
      in (manifests, has_tests \<or> glob_test))"

definition irreversible :: "string list \<Rightarrow> bool" where
  "irreversible capabilities =
     (let normalized = map (\<lambda>c. replace_char (CHR ''-'') (CHR ''.'')
            (replace_char (CHR ''_'') (CHR ''.'') (str_lower c))) capabilities
      in list_ex (\<lambda>capability. list_ex (\<lambda>part. part \<in> set IRREVERSIBLE_CAPABILITY_MARKERS)
            (split_on (CHR ''.'') capability)) normalized)"

fun base_scores :: "TaskType \<Rightarrow> (pyfloat \<times> pyfloat \<times> pyfloat) option" where
  "base_scores Task_RESEARCH = Some (dec2 68, dec2 45, dec2 65)"
| "base_scores Task_ANALYSIS = Some (dec2 45, dec2 75, dec2 35)"
| "base_scores Task_IMPLEMENT = Some (dec2 55, dec2 72, dec2 50)"
| "base_scores Task_REVIEW = Some (dec2 20, dec2 80, dec2 20)"
| "base_scores Task_EXPERIMENT = Some (dec2 72, dec2 60, dec2 75)"
| "base_scores Task_OTHER = None"

fun task_type_value :: "TaskType \<Rightarrow> string" where
  "task_type_value Task_RESEARCH = ''RESEARCH''"
| "task_type_value Task_ANALYSIS = ''ANALYSIS''"
| "task_type_value Task_IMPLEMENT = ''IMPLEMENT''"
| "task_type_value Task_REVIEW = ''REVIEW''"
| "task_type_value Task_EXPERIMENT = ''EXPERIMENT''"
| "task_type_value Task_OTHER = ''OTHER''"

text \<open>\<open>min(n, k) * 0.dd\<close>: an integer times a float.\<close>

definition capped_weight :: "int \<Rightarrow> int \<Rightarrow> int \<Rightarrow> pyfloat" where
  "capped_weight n k dd = fmul (of_int (min n k)) (dec2 dd)"

abbreviation len :: "'a list \<Rightarrow> int" where
  "len xs \<equiv> int (length xs)"

definition profile_task :: "string \<Rightarrow> TaskEnvelope \<Rightarrow> string list \<times> bool \<Rightarrow> TaskProfile" where
  "profile_task profile_id envelope repository =
    (let (manifests, has_tests) = repository;
         base = base_scores (te_task_type envelope);
         output_weight = capped_weight (len (te_required_outputs envelope)) 4 4;
         constraint_weight = capped_weight (len (te_constraints envelope)) 5 2;
         complexity = map_option (\<lambda>(b0, b1, b2).
           clamp (fadd (fadd b0 output_weight) constraint_weight)) base;
         struct = map_option (\<lambda>(b0, b1, b2).
           clamp (fadd b1 (if te_success_criteria envelope \<noteq> [] then dec2 5 else - dec2 5))) base;
         feedback = map_option (\<lambda>(b0, b1, b2).
           clamp (fadd b2 (if has_tests \<and> te_task_type envelope = Task_IMPLEMENT then dec2 8 else 0)))
           base;
         capability_count =
           len (te_allowed_capabilities envelope) + len (te_requested_skills envelope);
         dependency_complexity = clamp (fadd (fadd (dec2 10) (capped_weight capability_count 6 9))
           (capped_weight (len (te_inputs envelope)) 4 5));
         parallelism_potential = clamp (fadd (fadd (dec2 10)
           (capped_weight (len (te_inputs envelope)) 4 12))
           (capped_weight (tb_max_parallel_runs (te_budgets envelope) - 1) 3 18));
         specificity = min (len (te_constraints envelope) + len (te_success_criteria envelope) +
           len (te_required_outputs envelope) + len (te_inputs envelope)) 8;
         uncertainty = map_option (\<lambda>_. clamp (fsub (dec2 75) (fmul (of_int specificity) (dec2 7)))) base;
         unknown_features = (if base = None
           then [''complexity'', ''structure_certainty'', ''feedback_dependency'', ''uncertainty''] else []);
         verifier_strength = (if has_tests then dec2 90
           else if te_success_criteria envelope \<noteq> [] then dec2 55 else dec2 15);
         irreversible_actions = irreversible (te_allowed_capabilities envelope);
         budgets = te_budgets envelope;
         horizon = (if tb_wall_time_seconds budgets \<le> 900 \<and> tb_max_turns budgets \<le> 10 then Hor_SHORT
           else if tb_wall_time_seconds budgets > 3600 \<or> tb_max_turns budgets > 30 then Hor_LONG
           else Hor_MEDIUM);
         confidence = clamp (fl (of_int (7 - len unknown_features) / 7));
         evidence =
           [\<lparr>fe_feature = ''task_type'', fe_value = JStr (task_type_value (te_task_type envelope)),
             fe_source = ''task-envelope'', fe_available = True\<rparr>,
            \<lparr>fe_feature = ''repository_manifests'', fe_value = JList (map JStr manifests),
             fe_source = ''repository-scan'', fe_available = True\<rparr>,
            \<lparr>fe_feature = ''executable_tests'', fe_value = JBool has_tests,
             fe_source = ''repository-scan'', fe_available = True\<rparr>,
            \<lparr>fe_feature = ''capability_dependencies'', fe_value = JInt capability_count,
             fe_source = ''task-envelope'', fe_available = True\<rparr>,
            \<lparr>fe_feature = ''irreversible_actions'', fe_value = JBool irreversible_actions,
             fe_source = ''task-envelope'', fe_available = True\<rparr>] @
           map (\<lambda>feature. \<lparr>fe_feature = feature, fe_value = JNull, fe_source = ''typed-metadata'',
             fe_available = False\<rparr>) unknown_features
     in \<lparr>tp_profile_id = profile_id, tp_task_id = te_task_id envelope,
         tp_complexity = complexity, tp_structure_certainty = struct,
         tp_feedback_dependency = feedback, tp_dependency_complexity = Some dependency_complexity,
         tp_parallelism_potential = Some parallelism_potential, tp_uncertainty = uncertainty,
         tp_verifier_strength = Some verifier_strength, tp_risk = te_risk_level envelope,
         tp_irreversible_actions = irreversible_actions, tp_expected_horizon = horizon,
         tp_profile_confidence = confidence, tp_observed_features = evidence,
         tp_unknown_features = unknown_features\<rparr>)"

subsection \<open>Selecting a strategy\<close>

definition required_unknown :: "TaskProfile \<Rightarrow> bool" where
  "required_unknown p \<longleftrightarrow> tp_complexity p = None \<or> tp_structure_certainty p = None \<or>
     tp_feedback_dependency p = None \<or> tp_dependency_complexity p = None"

definition high_risk :: "TaskProfile \<Rightarrow> bool" where
  "high_risk p \<longleftrightarrow> tp_risk p \<in> {Risk_HIGH, Risk_CRITICAL}"

text \<open>\<open>score is not None and score < threshold\<close>, and the same with \<open>>=\<close>.\<close>

definition known_less :: "pyfloat option \<Rightarrow> pyfloat \<Rightarrow> bool" where
  "known_less s t = (case s of None \<Rightarrow> False | Some x \<Rightarrow> x < t)"

definition known_ge :: "pyfloat option \<Rightarrow> pyfloat \<Rightarrow> bool" where
  "known_ge s t = (case s of None \<Rightarrow> False | Some x \<Rightarrow> t \<le> x)"

definition select_strategy :: "string \<Rightarrow> TaskProfile \<Rightarrow> StrategyDecision" where
  "select_strategy decision_id profile =
    (let protected = (high_risk profile \<or> tp_irreversible_actions profile);
         (mode, template, rule) =
          (if protected then
             (Mode_GRAPH, DEFAULT_TEMPLATE_BY_MODE Mode_GRAPH, ''hard-policy:risk-or-irreversible'')
           else if tp_profile_confidence profile < PROFILE_MIN_CONFIDENCE \<or> required_unknown profile then
             (Mode_HYBRID, SAFE_UNKNOWN_TEMPLATE, ''fallback:low-confidence-or-required-unknown'')
           else if known_less (tp_complexity profile) (dec2 30)
             \<and> known_less (tp_feedback_dependency profile) (dec2 30)
             \<and> known_less (tp_dependency_complexity profile) (dec2 30)
             \<and> tp_risk profile = Risk_LOW then
             (Mode_DIRECT, DEFAULT_TEMPLATE_BY_MODE Mode_DIRECT, ''threshold:direct'')
           else if known_ge (tp_structure_certainty profile) (dec2 70)
             \<and> known_less (tp_feedback_dependency profile) (dec2 45) then
             (Mode_GRAPH, DEFAULT_TEMPLATE_BY_MODE Mode_GRAPH, ''threshold:graph'')
           else if known_ge (tp_feedback_dependency profile) (dec2 60)
             \<and> known_less (tp_dependency_complexity profile) (dec2 45) then
             (Mode_LOOP, DEFAULT_TEMPLATE_BY_MODE Mode_LOOP, ''threshold:loop'')
           else (Mode_HYBRID, DEFAULT_TEMPLATE_BY_MODE Mode_HYBRID, ''threshold:hybrid-default''))
     in \<lparr>sd_decision_id = decision_id, sd_task_id = tp_task_id profile, sd_selected_mode = mode,
         sd_selected_template_id = template, sd_task_profile_ref = tp_profile_id profile,
         sd_matched_rules = [rule], sd_alternatives = filter (\<lambda>m. m \<noteq> mode) all_modes,
         sd_operator_override_allowed = True, sd_requires_approval = protected,
         sd_requires_independent_verifier = protected, sd_supersedes_decision_id = None\<rparr>)"

subsection \<open>Operator overrides\<close>

text \<open>The bounds of \<open>StrategyOverride.reason\<close>; outside them the record cannot be built.\<close>

definition valid_reason :: "string \<Rightarrow> bool" where
  "valid_reason reason \<longleftrightarrow> 1 \<le> length reason \<and> length reason \<le> 2000"

definition evaluate_override ::
  "string \<Rightarrow> string \<Rightarrow> TaskProfile \<Rightarrow> StrategyDecision \<Rightarrow> ExecutionMode \<Rightarrow> string \<Rightarrow> string \<Rightarrow> string \<Rightarrow>
     (StrategyOverride \<times> StrategyDecision option) res" where
  "evaluate_override override_id decision_id profile current requested_mode requested_template_id
     reason operator_identity =
    (let allowed_templates = ALLOWED_TEMPLATES_BY_MODE requested_mode;
         protected = (high_risk profile \<or> tp_irreversible_actions profile);
         result = (if requested_template_id \<notin> allowed_templates then Ovr_DENIED_TEMPLATE_MISMATCH
           else if protected \<and> (requested_mode \<noteq> Mode_GRAPH \<or> requested_template_id \<noteq> ''fixed-graph-v1'')
             then Ovr_DENIED_SAFETY_POLICY
           else Ovr_ACCEPTED);
         decision = (if result = Ovr_ACCEPTED then
           Some \<lparr>sd_decision_id = decision_id, sd_task_id = tp_task_id profile,
             sd_selected_mode = requested_mode, sd_selected_template_id = requested_template_id,
             sd_task_profile_ref = tp_profile_id profile,
             sd_matched_rules = [''operator-override'', ''override:'' @ override_id],
             sd_alternatives = filter (\<lambda>m. m \<noteq> requested_mode) all_modes,
             sd_operator_override_allowed = True, sd_requires_approval = protected,
             sd_requires_independent_verifier = protected,
             sd_supersedes_decision_id = Some (sd_decision_id current)\<rparr>
           else None)
     in if \<not> valid_reason reason then Inl (ValueError ''reason'')
        else Inr (\<lparr>so_override_id = override_id, so_task_id = tp_task_id profile,
          so_original_decision_id = sd_decision_id current, so_requested_mode = requested_mode,
          so_requested_template_id = requested_template_id, so_operator_identity = operator_identity,
          so_reason = reason, so_policy_result = result, so_accepted = (decision \<noteq> None),
          so_resulting_decision_id = map_option sd_decision_id decision\<rparr>, decision))"

subsection \<open>Properties of profiles\<close>

lemma clamp_unit: "0 \<le> clamp x \<and> clamp x \<le> 1"
  unfolding clamp_def by (rule py_round2_unit) auto

lemma py_round2_mono: "x \<le> y \<Longrightarrow> py_round2 x \<le> py_round2 y"
  unfolding py_round2_def
  by (intro fl_mono divide_right_mono) (simp_all add: rhe_mono mult_right_mono)

lemma clamp_mono: "x \<le> y \<Longrightarrow> clamp x \<le> clamp y"
  unfolding clamp_def by (rule py_round2_mono) (simp add: max_def min_def)

lemma dec2_nonneg: "0 \<le> n \<Longrightarrow> 0 \<le> dec2 n"
  by (simp add: dec2_def fl_nonneg)

lemma capped_weight_nonneg: "0 \<le> n \<Longrightarrow> 0 \<le> k \<Longrightarrow> 0 \<le> d \<Longrightarrow> 0 \<le> capped_weight n k d"
  by (simp add: capped_weight_def fmul_def fl_nonneg dec2_nonneg)

lemma fl_dec2 [simp]: "fl (dec2 n) = dec2 n"
  by (simp add: dec2_def)

lemma fl_fadd [simp]: "fl (fadd x y) = fadd x y"
  by (simp add: fadd_def)

lemma fadd_ge: "fl x = x \<Longrightarrow> 0 \<le> w \<Longrightarrow> x \<le> fadd x w"
  unfolding fadd_def by (rule flr.rnd_add_ge)

lemma fadd_mono: "x \<le> x' \<Longrightarrow> y \<le> y' \<Longrightarrow> fadd x y \<le> fadd x' y'"
  unfolding fadd_def by (rule fl_mono) simp

text \<open>The weights only raise the complexity above its base score.\<close>

lemma complexity_ge_base:
  "clamp (dec2 b) \<le> clamp (fadd (fadd (dec2 b) (capped_weight (len xs) 4 4)) (capped_weight (len ys) 5 2))"
proof (rule clamp_mono)
  have "dec2 b \<le> fadd (dec2 b) (capped_weight (len xs) 4 4)"
    by (intro fadd_ge capped_weight_nonneg) auto
  also have "\<dots> \<le> fadd (fadd (dec2 b) (capped_weight (len xs) 4 4)) (capped_weight (len ys) 5 2)"
    by (intro fadd_ge capped_weight_nonneg) auto
  finally show "dec2 b \<le> fadd (fadd (dec2 b) (capped_weight (len xs) 4 4)) (capped_weight (len ys) 5 2)" .
qed

text \<open>The constants of the scoring table, evaluated.\<close>

lemma clamp_table:
  "dec2 30 \<le> clamp (dec2 45)" "dec2 30 \<le> clamp (dec2 55)" "dec2 30 \<le> clamp (dec2 68)"
  "dec2 30 \<le> clamp (dec2 72)"
  by code_simp+

lemma confidence_table:
  "clamp (fl (of_int 7 / 7)) = 1" "clamp (fl (of_int 3 / 7)) < PROFILE_MIN_CONFIDENCE"
  "PROFILE_MIN_CONFIDENCE \<le> 1"
  by code_simp+

lemma feedback_table:
  "dec2 60 \<le> clamp (fadd (dec2 65) 0)" "dec2 60 \<le> clamp (fadd (dec2 75) 0)"
  "clamp (fadd (dec2 35) 0) < dec2 45" "clamp (fadd (dec2 20) 0) < dec2 30"
  "dec2 45 \<le> clamp (fadd (dec2 50) 0)" "clamp (fadd (dec2 50) (dec2 8)) < dec2 60"
  "dec2 30 < dec2 45" "dec2 45 < dec2 60"
  by code_simp+

lemma structure_table:
  "dec2 70 \<le> clamp (fadd (dec2 75) (- dec2 5))" "dec2 70 \<le> clamp (fadd (dec2 80) (- dec2 5))"
  by code_simp+

lemma score_bounds:
  "clamp (fadd b 0) \<le> clamp (fadd b (dec2 8))"
  "clamp (fadd b (- dec2 5)) \<le> clamp (fadd b (dec2 5))"
proof -
  have "0 \<le> dec2 8" "0 \<le> dec2 5" by (simp_all add: dec2_nonneg)
  then show "clamp (fadd b 0) \<le> clamp (fadd b (dec2 8))"
    "clamp (fadd b (- dec2 5)) \<le> clamp (fadd b (dec2 5))"
    by (auto intro!: clamp_mono fadd_mono)
qed

lemma profile_fields [simp]:
  "tp_risk (profile_task i e r) = te_risk_level e"
  "tp_irreversible_actions (profile_task i e r) = irreversible (te_allowed_capabilities e)"
  "tp_profile_confidence (profile_task i e r) =
     (if te_task_type e = Task_OTHER then clamp (fl (of_int 3 / 7)) else clamp (fl (of_int 7 / 7)))"
  "tp_complexity (profile_task i e r) = map_option (\<lambda>(b0, b1, b2).
     clamp (fadd (fadd b0 (capped_weight (len (te_required_outputs e)) 4 4))
       (capped_weight (len (te_constraints e)) 5 2))) (base_scores (te_task_type e))"
  "tp_structure_certainty (profile_task i e r) = map_option (\<lambda>(b0, b1, b2).
     clamp (fadd b1 (if te_success_criteria e \<noteq> [] then dec2 5 else - dec2 5)))
     (base_scores (te_task_type e))"
  "tp_feedback_dependency (profile_task i e r) = map_option (\<lambda>(b0, b1, b2).
     clamp (fadd b2 (if snd r \<and> te_task_type e = Task_IMPLEMENT then dec2 8 else 0)))
     (base_scores (te_task_type e))"
  "tp_dependency_complexity (profile_task i e r) = Some (clamp (fadd (fadd (dec2 10)
     (capped_weight (len (te_allowed_capabilities e) + len (te_requested_skills e)) 6 9))
     (capped_weight (len (te_inputs e)) 4 5)))"
  by (cases r; cases "te_task_type e"; simp add: profile_task_def Let_def)+

lemma unit_score_map_clamp:
  "(\<And>x. \<exists>y. f x = clamp y) \<Longrightarrow> unit_score (map_option f b)"
  by (cases b) (auto, (metis clamp_unit)+)

lemma profile_valid: "valid_TaskProfile (profile_task i e r)"
proof -
  have v: "0 \<le> dec2 n \<and> dec2 n \<le> 1" if "n \<in> {90, 55, 15}" for n
    using that unfolding dec2_def by (intro flr.rnd_unit) auto
  show ?thesis
    unfolding valid_TaskProfile_def profile_task_def Let_def
    by (cases r) (auto simp: clamp_unit v split: prod.splits intro!: unit_score_map_clamp)
qed

definition protected_profile :: "TaskProfile \<Rightarrow> bool" where
  "protected_profile p \<longleftrightarrow> high_risk p \<or> tp_irreversible_actions p"

lemma select_strategy_fields [simp]:
  "sd_requires_approval (select_strategy d p) = protected_profile p"
  "sd_requires_independent_verifier (select_strategy d p) = protected_profile p"
  "sd_task_profile_ref (select_strategy d p) = tp_profile_id p"
  by (simp_all add: select_strategy_def Let_def protected_profile_def split: prod.splits)

lemma select_strategy_protected:
  "protected_profile p \<Longrightarrow> sd_selected_mode (select_strategy d p) = Mode_GRAPH \<and>
     sd_selected_template_id (select_strategy d p) = ''fixed-graph-v1''"
  by (simp add: select_strategy_def Let_def protected_profile_def)

lemma select_strategy_template_allowed:
  "sd_selected_template_id (select_strategy d p)
     \<in> ALLOWED_TEMPLATES_BY_MODE (sd_selected_mode (select_strategy d p))"
  by (simp add: select_strategy_def Let_def SAFE_UNKNOWN_TEMPLATE_def)

lemma evaluate_override_decision:
  assumes "evaluate_override oid did p c m t why who = Inr (ov, Some d)"
  shows "sd_selected_mode d = m" "sd_selected_template_id d = t"
    "t \<in> ALLOWED_TEMPLATES_BY_MODE m"
    "sd_requires_approval d = protected_profile p"
    "sd_requires_independent_verifier d = protected_profile p"
    "protected_profile p \<Longrightarrow> m = Mode_GRAPH \<and> t = ''fixed-graph-v1''"
    "sd_supersedes_decision_id d = Some (sd_decision_id c)"
  using assms
  by (auto simp: evaluate_override_def Let_def protected_profile_def split: if_splits)

subsection \<open>Decisions over the life of a task\<close>

text \<open>The decisions a profile can come to hold: the selector's, and those of accepted overrides.\<close>

inductive planned_decision :: "TaskProfile \<Rightarrow> StrategyDecision \<Rightarrow> bool" for p where
  selected: "planned_decision p (select_strategy d p)"
| overridden: "planned_decision p c \<Longrightarrow>
     evaluate_override oid did p c m t why who = Inr (ov, Some d) \<Longrightarrow> planned_decision p d"

lemma planned_decision_cases:
  assumes "planned_decision p d"
  shows "sd_selected_template_id d \<in> ALLOWED_TEMPLATES_BY_MODE (sd_selected_mode d)"
    "sd_requires_approval d = protected_profile p"
    "sd_requires_independent_verifier d = protected_profile p"
    "protected_profile p \<longrightarrow>
       sd_selected_mode d = Mode_GRAPH \<and> sd_selected_template_id d = ''fixed-graph-v1''"
  using assms
  by (induction rule: planned_decision.induct)
    (simp_all add: select_strategy_template_allowed select_strategy_protected
      evaluate_override_decision)

text \<open>C1: A task of high or critical risk, or one that may use an irreversible capability, keeps the
  gated template: whatever sequence of operator overrides is submitted, every decision it ever
  holds is the fixed graph with its approval gate and its independent verifier. Every decision of
  any task names a template its mode permits.\<close>

theorem protected_task_stays_gated:
  assumes "planned_decision p d"
  shows "sd_selected_template_id d \<in> ALLOWED_TEMPLATES_BY_MODE (sd_selected_mode d) \<and>
    (high_risk p \<or> tp_irreversible_actions p \<longrightarrow>
      sd_selected_mode d = Mode_GRAPH \<and> sd_selected_template_id d = ''fixed-graph-v1'' \<and>
      sd_requires_approval d \<and> sd_requires_independent_verifier d)"
  using planned_decision_cases [OF assms] by (simp add: protected_profile_def)

definition sample_budgets :: TaskBudgets where
  "sample_budgets = \<lparr>tb_wall_time_seconds = 600, tb_max_turns = 10, tb_max_tool_calls = 100,
     tb_max_loop_iterations = 3, tb_max_parallel_runs = 1\<rparr>"

definition sample_envelope :: "TaskType \<Rightarrow> RiskLevel \<Rightarrow> string list \<Rightarrow> TaskEnvelope" where
  "sample_envelope ty risk caps = \<lparr>te_task_id = ''task'', te_project_id = ''project'',
     te_objective = ''goal'', te_task_type = ty, te_inputs = [], te_constraints = [],
     te_success_criteria = [], te_risk_level = risk, te_requested_skills = [],
     te_allowed_capabilities = caps, te_denied_capabilities = [],
     te_verifier_policy_ref = ''v'', te_prompt_contract_ref = ''p'', te_context_policy_ref = ''c'',
     te_budgets = sample_budgets, te_required_outputs = []\<rparr>"

theorem protected_task_stays_gated_witness:
  "sd_requires_approval (select_strategy ''d''
     (profile_task ''p'' (sample_envelope Task_REVIEW Risk_LOW [''git.Force-Delete'']) ([], True)))"
proof -
  let ?p = "profile_task ''p'' (sample_envelope Task_REVIEW Risk_LOW [''git.Force-Delete'']) ([], True)"
  have "irreversible [''git.Force-Delete'']" by code_simp
  then have "tp_irreversible_actions ?p" by (simp add: sample_envelope_def)
  then show ?thesis
    using protected_task_stays_gated [OF planned_decision.selected [of ?p "''d''"]] by simp
qed

text \<open>C20: The mode and the template of every unprotected task, by its declared type. Research and experiments run
  in a bounded loop unless their dependencies are too complex; analysis always takes the fixed
  graph; implementation always takes the hybrid template, with or without tests in the repository;
  a review is run directly only when it is simple, independent and of low risk; a task of type
  OTHER has no deterministic scores and takes the safe fallback.\<close>

theorem strategy_by_task_type:
  assumes unprotected: "te_risk_level e \<notin> {Risk_HIGH, Risk_CRITICAL}"
    "\<not> irreversible (te_allowed_capabilities e)"
  shows "(sd_selected_mode (select_strategy d (profile_task i e r)),
      sd_selected_template_id (select_strategy d (profile_task i e r))) =
    (case te_task_type e of
       Task_RESEARCH \<Rightarrow> if known_less (tp_dependency_complexity (profile_task i e r)) (dec2 45)
         then (Mode_LOOP, ''feedback-loop-v1'') else (Mode_HYBRID, ''hybrid-rd-v1'')
     | Task_EXPERIMENT \<Rightarrow> if known_less (tp_dependency_complexity (profile_task i e r)) (dec2 45)
         then (Mode_LOOP, ''feedback-loop-v1'') else (Mode_HYBRID, ''hybrid-rd-v1'')
     | Task_ANALYSIS \<Rightarrow> (Mode_GRAPH, ''fixed-graph-v1'')
     | Task_IMPLEMENT \<Rightarrow> (Mode_HYBRID, ''hybrid-rd-v1'')
     | Task_REVIEW \<Rightarrow> if known_less (tp_complexity (profile_task i e r)) (dec2 30) \<and>
           known_less (tp_dependency_complexity (profile_task i e r)) (dec2 30) \<and> te_risk_level e = Risk_LOW
         then (Mode_DIRECT, ''direct-v1'') else (Mode_GRAPH, ''fixed-graph-v1'')
     | Task_OTHER \<Rightarrow> (Mode_HYBRID, ''safe-unknown-v1''))"
proof -
  note bounds = complexity_ge_base [of _ "te_required_outputs e" "te_constraints e"]
  note tables = feedback_table confidence_table structure_table
    score_bounds [of "dec2 50"] score_bounds [of "dec2 75"] score_bounds [of "dec2 80"]
    clamp_table bounds [of 45] bounds [of 55] bounds [of 68] bounds [of 72]
  have np: "\<not> high_risk (profile_task i e r)" "\<not> tp_irreversible_actions (profile_task i e r)"
    using unprotected by (auto simp: high_risk_def)
  show ?thesis
    using np tables
    by (cases "te_task_type e")
      (auto simp: select_strategy_def required_unknown_def known_less_def known_ge_def
        SAFE_UNKNOWN_TEMPLATE_def)
qed

theorem strategy_by_task_type_witness:
  "sd_selected_mode (select_strategy ''d''
     (profile_task ''p'' (sample_envelope Task_IMPLEMENT Risk_MEDIUM [''fs.write'']) ([], True))) = Mode_HYBRID \<and>
   sd_selected_template_id (select_strategy ''d''
     (profile_task ''p'' (sample_envelope Task_IMPLEMENT Risk_MEDIUM [''fs.write'']) ([], True))) = ''hybrid-rd-v1''"
proof -
  have "\<not> irreversible [''fs.write'']" by code_simp
  then show ?thesis
    using strategy_by_task_type
      [of "sample_envelope Task_IMPLEMENT Risk_MEDIUM [''fs.write'']" "''d''" "''p''" "([], True)"]
    by (simp add: sample_envelope_def)
qed

text \<open>C22: The profiler only builds profiles that satisfy their contract: every score it reports and
  the confidence lie between 0 and 1, for any envelope and any repository.\<close>

theorem profile_task_valid: "valid_TaskProfile (profile_task i e r)"
  by (rule profile_valid)

text \<open>The verdict on an override, on every branch: a template outside the mode's table is refused
  as a mismatch, a protected task that leaves the fixed graph is refused by the safety policy, and
  everything else is accepted with a decision that supersedes the current one. The record and the
  decision agree.\<close>

lemma evaluate_override_verdict:
  assumes "evaluate_override oid did p c m t why who = Inr (ov, d)"
  shows "so_policy_result ov =
      (if t \<notin> ALLOWED_TEMPLATES_BY_MODE m then Ovr_DENIED_TEMPLATE_MISMATCH
       else if protected_profile p \<and> m \<noteq> Mode_GRAPH then Ovr_DENIED_SAFETY_POLICY
       else Ovr_ACCEPTED)"
    "so_accepted ov \<longleftrightarrow> so_policy_result ov = Ovr_ACCEPTED" "so_accepted ov \<longleftrightarrow> d \<noteq> None"
    "so_resulting_decision_id ov = map_option sd_decision_id d" "so_task_id ov = tp_task_id p"
  using assms by (cases m; auto simp: evaluate_override_def Let_def protected_profile_def split: if_splits)+

lemma evaluate_override_total:
  "(\<exists>ov d. evaluate_override oid did p c m t why who = Inr (ov, d)) \<longleftrightarrow> valid_reason why"
  "\<not> valid_reason why \<Longrightarrow> evaluate_override oid did p c m t why who = Inl (ValueError ''reason'')"
  by (auto simp: evaluate_override_def Let_def)

end
