(* ===== verification/Context_History.thy ===== *)
theory Context_History
  imports Contracts "HOL-Library.Product_Lexorder" "HOL-Library.Multiset" "HOL-Library.List_Lexorder"
    "HOL-Library.Char_ord"
begin

text \<open>
  The order in which the context revisions of a task are listed: \<open>_ordered_context_history\<close> of
  \<^verbatim>\<open>src/accretion/persistence/store.py\<close>, a depth-first walk from each revision to the ones that
  supersede it. The recursion of the inner function \<open>visit\<close> is written with its stack explicit: the
  pending siblings are the tail of the list and the children of a new revision go in front of it.

  Shown: the walk ends, lists every revision exactly once, and lists a revision that descends from
  an original one after the revision it supersedes.
\<close>

definition revision_key :: "ContextBundle \<Rightarrow> timestamp \<times> string" where
  "revision_key c = (cb_created_at c, cb_context_bundle_id c)"

definition children_of :: "ContextBundle list \<Rightarrow> string option \<Rightarrow> ContextBundle list" where
  "children_of contexts parent =
    sort_key revision_key (filter (\<lambda>c. cb_supersedes_context_bundle_id c = parent) contexts)"

abbreviation ids :: "ContextBundle list \<Rightarrow> string set" where
  "ids cs \<equiv> cb_context_bundle_id ` set cs"

lemma set_children [simp]:
  "set (children_of cs p) = {c \<in> set cs. cb_supersedes_context_bundle_id c = p}"
  by (auto simp: children_of_def)

function visit :: "ContextBundle list \<Rightarrow> ContextBundle list \<Rightarrow> string set \<Rightarrow> ContextBundle list" where
  "visit contexts [] visited = []"
| "visit contexts (c # pending) visited =
    (if cb_context_bundle_id c \<in> visited then visit contexts pending visited
     else c # visit contexts (children_of contexts (Some (cb_context_bundle_id c)) @ pending)
       (insert (cb_context_bundle_id c) visited))"
  by pat_completeness auto
termination
proof (relation "measures [\<lambda>(cs, st, seen). card (ids (cs @ st) - seen), \<lambda>(cs, st, seen). length st]")
  show "((cs, st, seen), cs, c # st, seen) \<in> measures
      [\<lambda>(cs, st, seen). card (ids (cs @ st) - seen), \<lambda>(cs, st, seen). length st]"
    if "cb_context_bundle_id c \<in> seen" for cs st seen c
  proof -
    have "ids (cs @ c # st) - seen = ids (cs @ st) - seen" using that by auto
    then show ?thesis by simp
  qed
  show "((cs, children_of cs (Some (cb_context_bundle_id c)) @ st, insert (cb_context_bundle_id c) seen),
      cs, c # st, seen) \<in> measures
      [\<lambda>(cs, st, seen). card (ids (cs @ st) - seen), \<lambda>(cs, st, seen). length st]"
    if "cb_context_bundle_id c \<notin> seen" for cs st seen c
  proof -
    have "ids (cs @ children_of cs (Some (cb_context_bundle_id c)) @ st) - insert (cb_context_bundle_id c) seen
      \<subset> ids (cs @ c # st) - seen" using that by auto
    from psubset_card_mono [OF _ this] show ?thesis by simp
  qed
qed simp

definition ordered_context_history :: "ContextBundle list \<Rightarrow> ContextBundle list" where
  "ordered_context_history contexts =
    visit contexts (children_of contexts None @ sort_key revision_key contexts) {}"

subsection \<open>The walk\<close>

lemma visit_append:
  "visit cs (a @ b) seen = visit cs a seen @ visit cs b (seen \<union> ids (visit cs a seen))"
proof (induction cs a seen rule: visit.induct)
  case (2 cs c a seen)
  show ?case
  proof (cases "cb_context_bundle_id c \<in> seen")
    case False
    then show ?thesis using "2.IH"(2) [OF False] by (simp add: Un_insert_right)
  qed (simp add: "2.IH"(1))
qed simp

lemma visit_sound: "set (visit cs st seen) \<subseteq> set st \<union> set cs"
  by (induction cs st seen rule: visit.induct) auto

lemma visit_distinct:
  "distinct (map cb_context_bundle_id (visit cs st seen)) \<and> ids (visit cs st seen) \<inter> seen = {}"
  by (induction cs st seen rule: visit.induct) auto

lemma visit_covers: "ids st \<subseteq> seen \<union> ids (visit cs st seen)"
  by (induction cs st seen rule: visit.induct) auto

lemma visit_closed:
  "x \<in> set (visit cs st seen) \<Longrightarrow>
   ids (children_of cs (Some (cb_context_bundle_id x))) \<subseteq> seen \<union> ids (visit cs st seen)"
proof (induction cs st seen rule: visit.induct)
  case (2 cs c st seen)
  show ?case
  proof (cases "cb_context_bundle_id c \<in> seen")
    case False
    let ?st = "children_of cs (Some (cb_context_bundle_id c)) @ st"
    have "ids ?st \<subseteq> insert (cb_context_bundle_id c) seen \<union>
      ids (visit cs ?st (insert (cb_context_bundle_id c) seen))" by (rule visit_covers)
    with "2.IH"(2) [OF False] "2.prems" False show ?thesis by (auto simp del: set_children)
  qed (use 2 in simp)
qed simp

text \<open>A walk whose pending revisions are originals or supersede visited ones lists parents first.\<close>

lemma visit_parent_first:
  assumes "visit cs st seen = xs @ c # ys" "cb_supersedes_context_bundle_id c = Some p"
    and "\<And>x q. x \<in> set st \<Longrightarrow> cb_supersedes_context_bundle_id x = Some q \<Longrightarrow> q \<in> seen"
  shows "p \<in> seen \<union> ids xs"
  using assms
proof (induction cs st seen arbitrary: xs rule: visit.induct)
  case (2 cs d st seen)
  show ?case
  proof (cases "cb_context_bundle_id d \<in> seen")
    case False
    note IH = "2.IH"(2) [OF False]
    show ?thesis
    proof (cases xs)
      case (Cons d' xs')
      with "2.prems"(1) False have "d' = d"
        and "visit cs (children_of cs (Some (cb_context_bundle_id d)) @ st)
          (insert (cb_context_bundle_id d) seen) = xs' @ c # ys" by auto
      from IH [OF this(2) "2.prems"(2)] "2.prems"(3)
      have "p \<in> insert (cb_context_bundle_id d) seen \<union> ids xs'" by auto
      with Cons \<open>d' = d\<close> show ?thesis by auto
    qed (use "2.prems" False in auto)
  qed (use 2 in auto)
qed simp

inductive descends :: "ContextBundle list \<Rightarrow> ContextBundle \<Rightarrow> bool" for contexts where
  original: "c \<in> set contexts \<Longrightarrow> cb_supersedes_context_bundle_id c = None \<Longrightarrow> descends contexts c"
| revision: "descends contexts p \<Longrightarrow> c \<in> set contexts \<Longrightarrow>
    cb_supersedes_context_bundle_id c = Some (cb_context_bundle_id p) \<Longrightarrow> descends contexts c"

lemma descends_in: "descends cs c \<Longrightarrow> c \<in> set cs"
  by (auto elim: descends.cases)

lemma id_in_visit:
  assumes "distinct (map cb_context_bundle_id cs)" "c \<in> set cs" "set st \<subseteq> set cs"
    "cb_context_bundle_id c \<in> ids (visit cs st seen)"
  shows "c \<in> set (visit cs st seen)"
proof -
  from assms(4) obtain d where d: "d \<in> set (visit cs st seen)"
    "cb_context_bundle_id d = cb_context_bundle_id c" by auto
  with visit_sound [of cs st seen] assms(3) have "d \<in> set cs" by blast
  with d assms(1,2) have "d = c" by (auto simp: distinct_map inj_on_def)
  with d show ?thesis by simp
qed

lemma descendants_visited:
  assumes "distinct (map cb_context_bundle_id cs)" "descends cs c"
  shows "c \<in> set (visit cs (children_of cs None) {})"
  using assms(2)
proof induction
  case (original c)
  have "cb_context_bundle_id c \<in> ids (visit cs (children_of cs None) {})"
    using visit_covers [of "children_of cs None" "{}" cs] original by auto
  with assms(1) original show ?case by (auto intro: id_in_visit)
next
  case (revision p c)
  have "cb_context_bundle_id c \<in> ids (visit cs (children_of cs None) {})"
    using visit_closed [OF revision.IH] revision by auto
  with assms(1) revision show ?case by (auto intro: id_in_visit)
qed

text \<open>C19: The history of a task's context lists each revision exactly once: it is a permutation of the
  stored revisions, in which every revision that descends from an original one comes after the
  revision it supersedes, whatever the timestamps say.\<close>

theorem context_history_follows_lineage:
  assumes "distinct (map cb_context_bundle_id contexts)"
  shows "mset (ordered_context_history contexts) = mset contexts \<and>
    (\<forall>xs c ys p. ordered_context_history contexts = xs @ c # ys \<and> descends contexts c \<and>
      cb_supersedes_context_bundle_id c = Some p \<longrightarrow> p \<in> ids xs)"
proof -
  let ?st = "children_of contexts None @ sort_key revision_key contexts"
  let ?r = "visit contexts (children_of contexts None) {}"
  let ?h = "ordered_context_history contexts"
  have h: "?h = visit contexts ?st {}" by (simp add: ordered_context_history_def)
  have d: "distinct (map cb_context_bundle_id ?h)" using visit_distinct h by simp
  have "set ?h \<subseteq> set contexts" using visit_sound [of contexts ?st "{}"] h by auto
  moreover have "c \<in> set ?h" if "c \<in> set contexts" for c
    using visit_covers [of ?st "{}" contexts] that h assms by (auto intro!: id_in_visit)
  ultimately have "set ?h = set contexts" by blast
  then have perm: "mset ?h = mset contexts"
    using d assms by (metis distinct_map set_eq_iff_mset_eq_distinct)
  obtain r2 where split: "?h = ?r @ r2" unfolding h visit_append by blast
  have "p \<in> ids xs" if e: "?h = xs @ c # ys" and c: "descends contexts c"
    "cb_supersedes_context_bundle_id c = Some p" for xs c ys p
  proof -
    from descendants_visited [OF assms c(1)] obtain us vs where r: "?r = us @ c # vs"
      by (meson split_list)
    with split e have eq: "us @ c # vs @ r2 = xs @ c # ys" by simp
    from d have "distinct (us @ c # vs @ r2)" unfolding split r distinct_map by simp
    then have "c \<notin> set us" "c \<notin> set (vs @ r2)" by auto
    from append_Cons_eq_iff [OF this] eq have "us = xs" by blast
    moreover have "p \<in> ids us" using visit_parent_first [OF r c(2)] by auto
    ultimately show ?thesis by simp
  qed
  with perm show ?thesis by blast
qed

definition sample_context :: "string \<Rightarrow> string option \<Rightarrow> timestamp \<Rightarrow> ContextBundle" where
  "sample_context i parent t = \<lparr>cb_schema_version = ''2.0'', cb_context_bundle_id = i,
     cb_task_ref = ''task'', cb_version = ''context-bundle-v2'', cb_phase = ''TASK_EXECUTION'',
     cb_project_summary = ''p'', cb_evidence_refs = [], cb_artifact_refs = [], cb_workspace_map = [],
     cb_previous_failure_refs = [], cb_constraints = [], cb_permissions = [], cb_freshness = [],
     cb_provenance = [], cb_token_budget = 8000, cb_supersedes_context_bundle_id = parent,
     cb_experience_query_id = Some ''q'', cb_experience_match_refs = [''m''],
     cb_experience_refs = [''e''], cb_created_at = t\<rparr>"

theorem context_history_follows_lineage_witness:
  "ordered_context_history [sample_context ''b'' (Some ''a'') 1, sample_context ''a'' None 2] =
     [sample_context ''a'' None 2, sample_context ''b'' (Some ''a'') 1] \<and>
   ''a'' \<in> ids [sample_context ''a'' None 2]"
proof -
  let ?a = "sample_context ''a'' None 2" and ?b = "sample_context ''b'' (Some ''a'') 1"
  have f: "cb_context_bundle_id (sample_context i p t) = i"
    "cb_supersedes_context_bundle_id (sample_context i p t) = p" for i p t
    by (simp_all add: sample_context_def)
  have d: "distinct (map cb_context_bundle_id [?b, ?a])" by (simp add: f)
  have h: "ordered_context_history [?b, ?a] = [?a] @ ?b # []" by code_simp
  have "descends [?b, ?a] ?a" by (rule descends.original) (simp_all add: f)
  then have "descends [?b, ?a] ?b" by (rule descends.revision) (simp_all add: f)
  with context_history_follows_lineage [OF d] h f(2) have "''a'' \<in> ids [?a]" by blast
  with h show ?thesis by simp
qed

end
