(* ===== verification/Memory_Store.thy ===== *)
theory Memory_Store
  imports Context_History
begin

text \<open>
  \<open>MemoryStore\<close> of \<^verbatim>\<open>src/accretion/persistence/store.py\<close>: projects, tasks and their planning records, leases, sessions, runs, acceptance policies, loop executions
  and their iterations, verifications, artifacts, the event log, workflow templates, run graphs, checkpoints,
  approvals and budgets. The state is the record \<open>store\<close> of its dictionaries; an operation takes the
  store and returns the outcome (an exception or a value) together with the store it leaves behind,
  because an exception does not undo the assignments made before it. \<open>datetime.now\<close> is the argument
  \<open>now\<close>. Each operation runs without a suspension point or under the store's lock, so it is one
  atomic step.

  Shown: the event log of a run is numbered without gaps and resumable from any cursor, checkpoints
  never point past the log, terminal loop executions are frozen, revisions only grow, graph and
  approval updates are conditional, and which failing operations leave the store untouched.
\<close>

subsection \<open>State\<close>

record ArtifactRef =
  ac_artifact_id :: string
  ac_run_id :: string
  ac_kind :: string
  ac_path :: string
  ac_sha256 :: "string option"

record store =
  st_projects :: "(string, Project) dict"
  st_tasks :: "(string, Task) dict"
  st_leases :: "(string, WorkspaceLease) dict"
  st_sessions :: "(string, SessionRef) dict"
  st_prompts :: "(string, PromptContract) dict"
  st_contexts :: "(string, ContextBundle) dict"
  st_profiles :: "(string, TaskProfile list) dict"
  st_decisions :: "(string, StrategyDecision list) dict"
  st_overrides :: "(string, StrategyOverride list) dict"
  st_runs :: "(string, Run) dict"
  st_acceptance_policies :: "(string, AcceptancePolicy) dict"
  st_loop_executions :: "(string, LoopExecution) dict"
  st_loop_execution_by_run :: "(string, string) dict"
  st_loop_execution_by_node :: "(string \<times> string \<times> int, string) dict"
  st_loop_iterations :: "(string, LoopIteration list) dict"
  st_verifications :: "(string, VerificationResult) dict"
  st_verification_ids_by_run :: "(string, string list) dict"
  st_artifacts :: "(string, ArtifactRef list) dict"
  st_run_events :: "(string, AgentEvent list) dict"
  st_workflow_templates :: "(string \<times> string, WorkflowTemplate) dict"
  st_run_graphs :: "(string, RunGraph) dict"
  st_checkpoints :: "(string, Checkpoint list) dict"
  st_approvals :: "(string, ApprovalRecord) dict"
  st_approval_by_request :: "(string \<times> string, string) dict"
  st_budget_spent :: "(string, int \<times> int) dict"

definition empty_store :: store where
  "empty_store = \<lparr>st_projects = [], st_tasks = [], st_leases = [], st_sessions = [], st_prompts = [],
     st_contexts = [], st_profiles = [], st_decisions = [], st_overrides = [], st_runs = [], st_acceptance_policies = [], st_loop_executions = [],
     st_loop_execution_by_run = [], st_loop_execution_by_node = [], st_loop_iterations = [],
     st_verifications = [], st_verification_ids_by_run = [],
     st_artifacts = [], st_run_events = [],
     st_workflow_templates = [], st_run_graphs = [], st_checkpoints = [], st_approvals = [],
     st_approval_by_request = [], st_budget_spent = []\<rparr>"

type_synonym 'a op = "store \<Rightarrow> 'a res \<times> store"

abbreviation raise_at :: "py_exn \<Rightarrow> store \<Rightarrow> 'a res \<times> store" where
  "raise_at e s \<equiv> (Inl e, s)"

text \<open>Dictionaries compare equal whatever the order of their keys.\<close>

definition dict_eq :: "('k, 'v) dict \<Rightarrow> ('k, 'v) dict \<Rightarrow> bool" where
  "dict_eq a b \<longleftrightarrow> (\<forall>k \<in> set (map fst a @ map fst b). dget a k = dget b k)"

definition terminal_loop :: "LoopExecutionStatus \<Rightarrow> bool" where
  "terminal_loop s \<longleftrightarrow> s \<in> {Loop_SUCCEEDED, Loop_FAILED, Loop_CANCELLED, Loop_REQUIRES_HUMAN}"

definition events_of :: "store \<Rightarrow> string \<Rightarrow> AgentEvent list" where
  "events_of s run_id = dget_or [] (st_run_events s) run_id"

subsection \<open>Projects, tasks and their planning records\<close>

definition create_project :: "Project \<Rightarrow> Project op" where
  "create_project p s = (Inr p, s\<lparr>st_projects := dset (pj_project_id p) p (st_projects s)\<rparr>)"

definition get_project :: "store \<Rightarrow> string \<Rightarrow> Project option" where
  "get_project s project_id = dget (st_projects s) project_id"

definition get_task :: "store \<Rightarrow> string \<Rightarrow> Task option" where
  "get_task s task_id = dget (st_tasks s) task_id"

definition create_task :: "Task \<Rightarrow> Task op" where
  "create_task t s = (Inr t, s\<lparr>st_tasks := dset (te_task_id (tk_envelope t)) t (st_tasks s)\<rparr>)"

definition planned_task ::
  "PromptContract \<Rightarrow> ContextBundle \<Rightarrow> TaskProfile \<Rightarrow> StrategyDecision \<Rightarrow> Task \<Rightarrow> Task" where
  "planned_task prompt context profile decision task = task\<lparr>
     tk_prompt_contract_id := Some (pc_prompt_contract_id prompt),
     tk_context_bundle_id := Some (cb_context_bundle_id context),
     tk_current_profile_id := Some (tp_profile_id profile),
     tk_current_strategy_decision_id := Some (sd_decision_id decision)\<rparr>"

definition record_planning ::
  "string \<Rightarrow> Task \<Rightarrow> PromptContract \<Rightarrow> ContextBundle \<Rightarrow> TaskProfile \<Rightarrow> StrategyDecision \<Rightarrow> store \<Rightarrow> store" where
  "record_planning task_id task prompt context profile decision s = s\<lparr>
     st_tasks := dset task_id (planned_task prompt context profile decision task) (st_tasks s),
     st_prompts := dset (pc_prompt_contract_id prompt) prompt (st_prompts s),
     st_contexts := dset (cb_context_bundle_id context) context (st_contexts s),
     st_profiles := dset task_id [profile] (st_profiles s),
     st_decisions := dset task_id [decision] (st_decisions s),
     st_overrides := dset task_id [] (st_overrides s)\<rparr>"

definition create_task_with_planning ::
  "Task \<Rightarrow> PromptContract \<Rightarrow> ContextBundle \<Rightarrow> TaskProfile \<Rightarrow> StrategyDecision \<Rightarrow> Task op" where
  "create_task_with_planning task prompt context profile decision s =
    (Inr (planned_task prompt context profile decision task),
     record_planning (te_task_id (tk_envelope task)) task prompt context profile decision s)"

text \<open>\<open>next\<close> over an exhausted generator raises; a coroutine turns that into a \<open>RuntimeError\<close>.\<close>

definition first_with :: "('a \<Rightarrow> bool) \<Rightarrow> 'a list \<Rightarrow> 'a res" where
  "first_with P xs = (case filter P xs of [] \<Rightarrow> Inl (RuntimeError ''StopIteration'') | x # _ \<Rightarrow> Inr x)"

definition get_task_planning :: "store \<Rightarrow> string \<Rightarrow> TaskPlanning option res" where
  "get_task_planning s task_id =
    (case dget (st_tasks s) task_id of
       None \<Rightarrow> Inr None
     | Some task \<Rightarrow>
       (case (tk_prompt_contract_id task, tk_context_bundle_id task, tk_current_profile_id task,
              tk_current_strategy_decision_id task) of
          (Some prompt_id, Some context_id, Some profile_id, Some decision_id) \<Rightarrow>
            bind_res (first_with (\<lambda>p. tp_profile_id p = profile_id) (dget_or [] (st_profiles s) task_id))
              (\<lambda>current_profile.
            bind_res (first_with (\<lambda>d. sd_decision_id d = decision_id) (dget_or [] (st_decisions s) task_id))
              (\<lambda>current_decision.
            bind_res (dindex (st_prompts s) prompt_id prompt_id) (\<lambda>prompt.
            bind_res (dindex (st_contexts s) context_id context_id) (\<lambda>context.
            Inr (Some \<lparr>tl_task_id = task_id, tl_prompt_contract = prompt, tl_context_bundle = context,
              tl_current_profile = current_profile, tl_current_decision = current_decision,
              tl_context_history = ordered_context_history
                (filter (\<lambda>c. cb_task_ref c = task_id) (map snd (st_contexts s))),
              tl_profile_history = dget_or [] (st_profiles s) task_id,
              tl_decision_history = dget_or [] (st_decisions s) task_id,
              tl_override_history = dget_or [] (st_overrides s) task_id\<rparr>)))))
        | _ \<Rightarrow> Inr None))"

definition save_task_planning ::
  "string \<Rightarrow> PromptContract \<Rightarrow> ContextBundle \<Rightarrow> TaskProfile \<Rightarrow> StrategyDecision \<Rightarrow> TaskPlanning op" where
  "save_task_planning task_id prompt context profile decision s =
    (case dget (st_tasks s) task_id of
       None \<Rightarrow> raise_at (KeyError ''task'') s
     | Some task \<Rightarrow>
         let s' = (if tk_current_strategy_decision_id task = None
                   then record_planning task_id task prompt context profile decision s else s)
         in (case get_task_planning s' task_id of
               Inl e \<Rightarrow> raise_at e s'
             | Inr None \<Rightarrow> raise_at (RuntimeError ''planning records were not saved'') s'
             | Inr (Some planning) \<Rightarrow> (Inr planning, s')))"

definition append_strategy_override :: "StrategyOverride \<Rightarrow> StrategyDecision option \<Rightarrow> unit op" where
  "append_strategy_override override decision s =
    (let task_id = so_task_id override;
         s1 = s\<lparr>st_overrides := dset task_id (dget_or [] (st_overrides s) task_id @ [override]) (st_overrides s)\<rparr>
     in case decision of
          None \<Rightarrow> (Inr (), s1)
        | Some d \<Rightarrow>
            let s2 = s1\<lparr>st_decisions := dset task_id (dget_or [] (st_decisions s1) task_id @ [d]) (st_decisions s1)\<rparr>
            in case dget (st_tasks s2) task_id of
                 None \<Rightarrow> raise_at (KeyError ''task'') s2
               | Some task \<Rightarrow> (Inr (), s2\<lparr>st_tasks := dset task_id
                   (task\<lparr>tk_current_strategy_decision_id := Some (sd_decision_id d)\<rparr>) (st_tasks s2)\<rparr>))"

subsection \<open>Leases and sessions\<close>

definition save_lease :: "WorkspaceLease \<Rightarrow> unit op" where
  "save_lease l s = (Inr (), s\<lparr>st_leases := dset (wl_lease_id l) l (st_leases s)\<rparr>)"

definition get_lease :: "store \<Rightarrow> string \<Rightarrow> WorkspaceLease option" where
  "get_lease s lease_id = dget (st_leases s) lease_id"

definition save_session :: "SessionRef \<Rightarrow> unit op" where
  "save_session x s = (Inr (), s\<lparr>st_sessions := dset (sr_run_id x) x (st_sessions s)\<rparr>)"

definition get_session_for_run :: "store \<Rightarrow> string \<Rightarrow> SessionRef option" where
  "get_session_for_run s run_id = dget (st_sessions s) run_id"

subsection \<open>Runs\<close>

definition create_run :: "Run \<Rightarrow> Run op" where
  "create_run run s = (Inr run, s\<lparr>st_runs := dset (rn_run_id run) run (st_runs s)\<rparr>)"

definition get_run :: "store \<Rightarrow> string \<Rightarrow> Run option" where
  "get_run s run_id = dget (st_runs s) run_id"

text \<open>Python's reverse sort keeps equal elements in their original order.\<close>

definition list_runs :: "store \<Rightarrow> nat \<Rightarrow> Run list" where
  "list_runs s limit = take limit (rev (sort_key rn_created_at (rev (map snd (st_runs s)))))"

text \<open>\<open>new if new is not None else old\<close>\<close>

definition keep_unless :: "'a option \<Rightarrow> 'a option \<Rightarrow> 'a option" where
  "keep_unless new old = (case new of None \<Rightarrow> old | Some v \<Rightarrow> Some v)"

record run_update =
  ru_session_id :: "string option"
  ru_workspace_lease_id :: "string option"
  ru_strategy_decision_id :: "string option"
  ru_execution_mode :: "ExecutionMode option"
  ru_workflow_template_id :: "string option"
  ru_acceptance_policy_id :: "string option"
  ru_loop_execution_id :: "string option"
  ru_error :: "ErrorSummary option"

definition no_update :: run_update where
  "no_update = \<lparr>ru_session_id = None, ru_workspace_lease_id = None, ru_strategy_decision_id = None,
     ru_execution_mode = None, ru_workflow_template_id = None, ru_acceptance_policy_id = None,
     ru_loop_execution_id = None, ru_error = None\<rparr>"

definition update_run :: "timestamp \<Rightarrow> string \<Rightarrow> RunState \<Rightarrow> run_update \<Rightarrow> Run op" where
  "update_run now run_id state u s =
    (case dget (st_runs s) run_id of
       None \<Rightarrow> raise_at (KeyError ''run'') s
     | Some current \<Rightarrow>
         let updated = current\<lparr>
               rn_state := state,
               rn_session_id := keep_unless (ru_session_id u) (rn_session_id current),
               rn_workspace_lease_id :=
                 keep_unless (ru_workspace_lease_id u) (rn_workspace_lease_id current),
               rn_strategy_decision_id :=
                 keep_unless (ru_strategy_decision_id u) (rn_strategy_decision_id current),
               rn_execution_mode := keep_unless (ru_execution_mode u) (rn_execution_mode current),
               rn_workflow_template_id :=
                 keep_unless (ru_workflow_template_id u) (rn_workflow_template_id current),
               rn_acceptance_policy_id :=
                 keep_unless (ru_acceptance_policy_id u) (rn_acceptance_policy_id current),
               rn_loop_execution_id :=
                 keep_unless (ru_loop_execution_id u) (rn_loop_execution_id current),
               rn_error := ru_error u,
               rn_revision := rn_revision current + 1,
               rn_updated_at := now\<rparr>
         in (Inr updated, s\<lparr>st_runs := dset run_id updated (st_runs s)\<rparr>))"

subsection \<open>Acceptance policies\<close>

definition policy_eq :: "AcceptancePolicy \<Rightarrow> AcceptancePolicy \<Rightarrow> bool" where
  "policy_eq a b \<longleftrightarrow> a\<lparr>ap_score_thresholds := []\<rparr> = b\<lparr>ap_score_thresholds := []\<rparr> \<and>
     dict_eq (ap_score_thresholds a) (ap_score_thresholds b)"

definition save_acceptance_policy :: "AcceptancePolicy \<Rightarrow> unit op" where
  "save_acceptance_policy policy s =
    (case dget (st_acceptance_policies s) (ap_policy_id policy) of
       Some current \<Rightarrow>
         if \<not> policy_eq current policy then raise_at (ValueError ''acceptance policy is immutable'') s
         else (Inr (), s\<lparr>st_acceptance_policies :=
           dset (ap_policy_id policy) policy (st_acceptance_policies s)\<rparr>)
     | None \<Rightarrow> (Inr (), s\<lparr>st_acceptance_policies :=
           dset (ap_policy_id policy) policy (st_acceptance_policies s)\<rparr>))"

subsection \<open>Loop executions\<close>

definition create_loop_execution :: "timestamp \<Rightarrow> LoopExecution \<Rightarrow> LoopExecution op" where
  "create_loop_execution now x s =
    (case dget (st_acceptance_policies s) (lx_acceptance_policy_ref x) of
       None \<Rightarrow> raise_at (KeyError ''acceptance policy'') s
     | Some policy \<Rightarrow>
       (case dget (st_runs s) (lx_run_id x) of
          None \<Rightarrow> raise_at (KeyError ''run'') s
        | Some run \<Rightarrow>
          let slot = (lx_run_id x, lx_node_key x, lx_attempt x) in
          if dhas (st_loop_executions s) (lx_loop_execution_id x)
            then raise_at (ValueError ''loop execution already exists'') s
          else if dhas (st_loop_execution_by_node s) slot
            then raise_at (ValueError ''run already has loop attempt for node'') s
          else
            let stored = x\<lparr>lx_acceptance_policy := Some policy\<rparr>;
                eid = lx_loop_execution_id stored
            in (Inr stored, s\<lparr>
                 st_loop_executions := dset eid stored (st_loop_executions s),
                 st_loop_execution_by_run := dset (lx_run_id stored) eid (st_loop_execution_by_run s),
                 st_loop_execution_by_node := dset slot eid (st_loop_execution_by_node s),
                 st_loop_iterations := dset eid [] (st_loop_iterations s),
                 st_runs := dset (lx_run_id stored)
                   (run\<lparr>rn_acceptance_policy_id := Some (lx_acceptance_policy_ref stored),
                        rn_loop_execution_id := Some eid,
                        rn_revision := rn_revision run + 1,
                        rn_updated_at := now\<rparr>) (st_runs s)\<rparr>)))"

definition get_loop_execution :: "store \<Rightarrow> string \<Rightarrow> LoopExecution option" where
  "get_loop_execution s eid = dget (st_loop_executions s) eid"

text \<open>\<open>if loop_execution_id\<close>: an empty identifier counts as none.\<close>

definition get_loop_execution_for_run :: "store \<Rightarrow> string \<Rightarrow> LoopExecution option" where
  "get_loop_execution_for_run s run_id =
    (case dget (st_loop_execution_by_run s) run_id of
       None \<Rightarrow> None
     | Some eid \<Rightarrow> if eid = [] then None else dget (st_loop_executions s) eid)"

text \<open>\<open>max(candidates, key=attempt)\<close> keeps the first of the greatest.\<close>

fun max_attempt :: "LoopExecution \<Rightarrow> LoopExecution list \<Rightarrow> LoopExecution" where
  "max_attempt best [] = best"
| "max_attempt best (x # xs) = max_attempt (if lx_attempt x > lx_attempt best then x else best) xs"

definition get_loop_execution_for_node ::
  "store \<Rightarrow> string \<Rightarrow> string \<Rightarrow> int option \<Rightarrow> LoopExecution option" where
  "get_loop_execution_for_node s run_id node_key attempt =
    (case attempt of
       Some a \<Rightarrow>
         (case dget (st_loop_execution_by_node s) (run_id, node_key, a) of
            None \<Rightarrow> None
          | Some eid \<Rightarrow> if eid = [] then None else dget (st_loop_executions s) eid)
     | None \<Rightarrow>
         (case filter (\<lambda>x. lx_run_id x = run_id \<and> lx_node_key x = node_key)
                 (dvalues (st_loop_executions s)) of
            [] \<Rightarrow> None
          | x # xs \<Rightarrow> Some (max_attempt x xs)))"

definition update_memory_loop_execution ::
  "timestamp \<Rightarrow> string \<Rightarrow> LoopState \<Rightarrow> LoopExecutionStatus option \<Rightarrow> LoopStopReason option \<Rightarrow>
     int option \<Rightarrow> LoopExecution op" where
  "update_memory_loop_execution now eid state status stop_reason expected_revision s =
    (case dget (st_loop_executions s) eid of
       None \<Rightarrow> raise_at (KeyError ''loop execution'') s
     | Some current \<Rightarrow>
         if terminal_loop (lx_status current)
           then raise_at (ValueError ''terminal loop execution is immutable'') s
         else if expected_revision \<noteq> None \<and> lx_revision current \<noteq> the expected_revision
           then raise_at (ValueError ''loop execution revision conflict'') s
         else
           let next_status = (case status of None \<Rightarrow> lx_status current | Some st \<Rightarrow> st);
               updated = current\<lparr>
                 lx_state := state,
                 lx_status := next_status,
                 lx_stop_reason := stop_reason,
                 lx_revision := lx_revision current + 1,
                 lx_updated_at := now,
                 lx_completed_at := (if terminal_loop next_status then Some now
                   else lx_completed_at current)\<rparr>
           in (Inr updated, s\<lparr>st_loop_executions := dset eid updated (st_loop_executions s)\<rparr>))"

definition update_loop_execution ::
  "timestamp \<Rightarrow> string \<Rightarrow> LoopState \<Rightarrow> LoopExecutionStatus option \<Rightarrow> LoopStopReason option \<Rightarrow>
     int option \<Rightarrow> LoopExecution op" where
  "update_loop_execution = update_memory_loop_execution"

definition list_loop_executions_for_run :: "store \<Rightarrow> string \<Rightarrow> LoopExecution list" where
  "list_loop_executions_for_run s run_id =
    sort_key (\<lambda>x. (lx_created_at x, lx_loop_execution_id x))
      (filter (\<lambda>x. lx_run_id x = run_id) (map snd (st_loop_executions s)))"

definition list_loop_iterations :: "store \<Rightarrow> string \<Rightarrow> LoopIteration list" where
  "list_loop_iterations s eid = dget_or [] (st_loop_iterations s) eid"


definition validate_iteration_transition ::
  "LoopExecution \<Rightarrow> LoopIteration \<Rightarrow> LoopState \<Rightarrow> unit res" where
  "validate_iteration_transition x it next_state =
    (if terminal_loop (lx_status x)
       then Inl (ValueError ''terminal loop execution cannot accept iterations'')
     else if it_loop_execution_id it \<noteq> lx_loop_execution_id x
       then Inl (ValueError ''iteration belongs to a different loop execution'')
     else if it_run_id it \<noteq> lx_run_id x
       then Inl (ValueError ''iteration belongs to a different run'')
     else
       let expected_number = ls_iteration (lx_state x) + 1 in
       if it_number it \<noteq> expected_number \<or> ls_iteration next_state \<noteq> expected_number
         then Inl (ValueError ''expected loop iteration'')
       else Inr ())"

definition validate_iteration_evidence ::
  "LoopIteration \<Rightarrow> VerificationResult list \<Rightarrow> AgentEvent list \<Rightarrow> unit res" where
  "validate_iteration_evidence it vs evs =
    (let verification_ids = set (map vr_verification_id vs) in
     if card verification_ids \<noteq> length vs
       then Inl (ValueError ''verification identifiers must be unique'')
     else if set (it_verification_refs it) \<noteq> verification_ids
       then Inl (ValueError ''iteration verification refs must match persisted verifications'')
     else if list_ex (\<lambda>r. vr_run_id r \<noteq> it_run_id it \<or> vr_iteration_id r \<noteq> Some (it_iteration_id it)) vs
       then Inl (ValueError ''verification belongs to a different run or iteration'')
     else if list_ex (\<lambda>e. ev_run_id e \<noteq> it_run_id it) evs
       then Inl (ValueError ''event belongs to a different run'')
     else Inr ())"

subsection \<open>Artifacts\<close>

definition list_artifacts :: "store \<Rightarrow> string \<Rightarrow> ArtifactRef list" where
  "list_artifacts s run_id = dget_or [] (st_artifacts s) run_id"

definition save_artifact :: "ArtifactRef \<Rightarrow> unit op" where
  "save_artifact a s = (Inr (), s\<lparr>st_artifacts :=
     dset (ac_run_id a) (list_artifacts s (ac_run_id a) @ [a]) (st_artifacts s)\<rparr>)"

subsection \<open>The event log\<close>

text \<open>\<open>event.model_copy(update={"sequence": len(events) + 1})\<close> followed by \<open>events.append\<close>.\<close>

definition number_event :: "AgentEvent \<Rightarrow> AgentEvent list \<Rightarrow> AgentEvent" where
  "number_event e elog = e\<lparr>ev_sequence := int (length elog) + 1\<rparr>"

definition push_event :: "AgentEvent \<Rightarrow> AgentEvent list \<Rightarrow> AgentEvent list" where
  "push_event e elog = elog @ [number_event e elog]"

definition push_events :: "AgentEvent list \<Rightarrow> AgentEvent list \<Rightarrow> AgentEvent list" where
  "push_events es elog = fold push_event es elog"

definition set_last_sequence :: "string \<Rightarrow> int \<Rightarrow> (string, Run) dict \<Rightarrow> (string, Run) dict" where
  "set_last_sequence run_id n runs =
    (case dget runs run_id of
       None \<Rightarrow> runs
     | Some run \<Rightarrow> dset run_id (run\<lparr>rn_last_sequence := n\<rparr>) runs)"

definition append_event :: "AgentEvent \<Rightarrow> AgentEvent op" where
  "append_event e s =
    (let events = events_of s (ev_run_id e);
         stored = number_event e events
     in (Inr stored, s\<lparr>
          st_run_events := dset (ev_run_id e) (push_event e events) (st_run_events s),
          st_runs := set_last_sequence (ev_run_id e) (ev_sequence stored) (st_runs s)\<rparr>))"

definition list_events :: "store \<Rightarrow> string \<Rightarrow> int \<Rightarrow> AgentEvent list" where
  "list_events s run_id after = filter (\<lambda>e. ev_sequence e > after) (events_of s run_id)"

subsection \<open>Checkpoints\<close>

text \<open>Two checkpoints are the same evidence when they agree on everything but
  \<open>_CHECKPOINT_IDENTITY_EXCLUDED\<close>; the status map compares as a dictionary.\<close>

definition same_evidence :: "Checkpoint \<Rightarrow> Checkpoint \<Rightarrow> bool" where
  "same_evidence a b \<longleftrightarrow>
     a\<lparr>ck_checkpoint_id := [], ck_created_at := 0, ck_node_statuses := []\<rparr> =
     b\<lparr>ck_checkpoint_id := [], ck_created_at := 0, ck_node_statuses := []\<rparr> \<and>
     dict_eq (ck_node_statuses a) (ck_node_statuses b)"

definition checkpoints_of :: "store \<Rightarrow> string \<Rightarrow> Checkpoint list" where
  "checkpoints_of s run_id = dget_or [] (st_checkpoints s) run_id"

definition append_memory_checkpoint :: "Checkpoint \<Rightarrow> Checkpoint op" where
  "append_memory_checkpoint c s =
    (case dget (st_runs s) (ck_run_id c) of
       None \<Rightarrow> raise_at (KeyError ''run'') s
     | Some run \<Rightarrow>
         if rn_state run \<in> TERMINAL_RUN_STATES
           then raise_at (ValueError ''terminal run cannot accept new checkpoints'') s
         else
           let stored_list = checkpoints_of s (ck_run_id c);
               s' = s\<lparr>st_checkpoints := dset (ck_run_id c) stored_list (st_checkpoints s)\<rparr>
           in (case find (\<lambda>x. ck_sequence x = ck_sequence c) stored_list of
                 Some existing \<Rightarrow>
                   if \<not> same_evidence existing c
                     then raise_at (ValueError ''checkpoint is immutable evidence'') s'
                   else (Inr existing, s')
               | None \<Rightarrow> (Inr c, s\<lparr>st_checkpoints :=
                   dset (ck_run_id c) (stored_list @ [c]) (st_checkpoints s)\<rparr>)))"

text \<open>The part of \<open>append_checkpoint\<close> and \<open>append_loop_iteration\<close> that numbers and appends a batch
  of events of one stored run.\<close>

definition append_run_events :: "string \<Rightarrow> AgentEvent list \<Rightarrow> store \<Rightarrow> store" where
  "append_run_events run_id es s =
    (let elog = push_events es (events_of s run_id) in
     s\<lparr>st_run_events := dset run_id elog (st_run_events s),
       st_runs := (if es = [] then st_runs s
         else set_last_sequence run_id (ev_sequence (last elog)) (st_runs s))\<rparr>)"

definition append_checkpoint :: "Checkpoint \<Rightarrow> AgentEvent list \<Rightarrow> Checkpoint op" where
  "append_checkpoint c es s =
    (case dget (st_runs s) (ck_run_id c) of
       None \<Rightarrow> raise_at (KeyError ''run'') s
     | Some run \<Rightarrow>
         let s1 = append_run_events (ck_run_id c) es s;
             run1 = (case dget (st_runs s1) (ck_run_id c) of Some r \<Rightarrow> r | None \<Rightarrow> run)
         in append_memory_checkpoint (c\<lparr>ck_sequence := rn_last_sequence run1\<rparr>) s1)"

text \<open>\<open>max(stored, key=sequence)\<close>: the first of the greatest.\<close>

fun max_sequence :: "Checkpoint \<Rightarrow> Checkpoint list \<Rightarrow> Checkpoint" where
  "max_sequence best [] = best"
| "max_sequence best (c # cs) = max_sequence (if ck_sequence c > ck_sequence best then c else best) cs"

definition get_latest_checkpoint :: "store \<Rightarrow> string \<Rightarrow> Checkpoint option" where
  "get_latest_checkpoint s run_id =
    (case checkpoints_of s run_id of [] \<Rightarrow> None | c # cs \<Rightarrow> Some (max_sequence c cs))"

definition list_checkpoints :: "store \<Rightarrow> string \<Rightarrow> Checkpoint list" where
  "list_checkpoints s run_id = sort_key ck_sequence (checkpoints_of s run_id)"

subsection \<open>Verifications and iterations\<close>

definition record_verification :: "VerificationResult \<Rightarrow> store \<Rightarrow> store" where
  "record_verification r s = s\<lparr>
     st_verifications := dset (vr_verification_id r) r (st_verifications s),
     st_verification_ids_by_run := dset (vr_run_id r)
       (dget_or [] (st_verification_ids_by_run s) (vr_run_id r) @ [vr_verification_id r])
       (st_verification_ids_by_run s)\<rparr>"

definition iteration_exists :: "store \<Rightarrow> string \<Rightarrow> bool" where
  "iteration_exists s iteration_id \<longleftrightarrow>
     list_ex (list_ex (\<lambda>it. it_iteration_id it = iteration_id)) (dvalues (st_loop_iterations s))"

definition save_verification :: "VerificationResult \<Rightarrow> unit op" where
  "save_verification r s =
    (case dget (st_verifications s) (vr_verification_id r) of
       Some current \<Rightarrow>
         if current \<noteq> r then raise_at (ValueError ''verification is immutable'') s else (Inr (), s)
     | None \<Rightarrow>
         if \<not> dhas (st_runs s) (vr_run_id r) then raise_at (KeyError ''run'') s
         else if vr_iteration_id r \<noteq> None \<and> \<not> iteration_exists s (the (vr_iteration_id r))
           then raise_at
             (ValueError ''iteration verification must be saved with append_loop_iteration'') s
         else (Inr (), record_verification r s))"

definition list_verifications ::
  "store \<Rightarrow> string \<Rightarrow> string option \<Rightarrow> VerificationResult list res" where
  "list_verifications s run_id iteration_id =
    bind_res (map_res (\<lambda>vid. dindex (st_verifications s) vid ''verification'')
        (dget_or [] (st_verification_ids_by_run s) run_id))
      (\<lambda>results. Inr (sort_key (\<lambda>r. (vr_executed_at r, vr_verification_id r))
        (if iteration_id = None then results
         else filter (\<lambda>r. vr_iteration_id r = iteration_id) results)))"

definition append_loop_iteration ::
  "timestamp \<Rightarrow> string \<Rightarrow> LoopIteration \<Rightarrow> LoopState \<Rightarrow> LoopExecutionStatus option \<Rightarrow>
     LoopStopReason option \<Rightarrow> int option \<Rightarrow> VerificationResult list \<Rightarrow> AgentEvent list \<Rightarrow>
     Checkpoint option \<Rightarrow> LoopExecution op" where
  "append_loop_iteration now eid it next_state status stop_reason expected_revision vs es checkpoint s =
    (case dget (st_loop_executions s) eid of
       None \<Rightarrow> raise_at (KeyError ''loop execution'') s
     | Some current \<Rightarrow>
       (case validate_iteration_transition current it next_state of
          Inl e \<Rightarrow> raise_at e s
        | Inr _ \<Rightarrow>
          if expected_revision \<noteq> None \<and> lx_revision current \<noteq> the expected_revision
            then raise_at (ValueError ''loop execution revision conflict'') s
          else
          (case validate_iteration_evidence it vs es of
             Inl e \<Rightarrow> raise_at e s
           | Inr _ \<Rightarrow>
             if iteration_exists s (it_iteration_id it)
               then raise_at (ValueError ''iteration identifier already exists'') s
             else if list_ex (\<lambda>r. dhas (st_verifications s) (vr_verification_id r)) vs
               then raise_at (ValueError ''verification identifier already exists'') s
             else if card (set (map ev_event_id es)) \<noteq> length es \<or>
                 set (map ev_event_id (events_of s (it_run_id it))) \<inter> set (map ev_event_id es) \<noteq> {}
               then raise_at (ValueError ''event identifier already exists'') s
             else
             (case dget (st_loop_iterations s) eid of
                None \<Rightarrow> raise_at (KeyError ''loop execution'') s
              | Some its \<Rightarrow>
                let s1 = fold record_verification vs
                      (s\<lparr>st_loop_iterations := dset eid (its @ [it]) (st_loop_iterations s)\<rparr>)
                in
                (case dget (st_runs s1) (it_run_id it) of
                   None \<Rightarrow> raise_at (KeyError ''run'')
                     (s1\<lparr>st_run_events := dset (it_run_id it) (events_of s1 (it_run_id it))
                          (st_run_events s1)\<rparr>)
                 | Some run \<Rightarrow>
                   let s2 = append_run_events (it_run_id it) es s1;
                       run2 = (case dget (st_runs s2) (it_run_id it) of Some r \<Rightarrow> r | None \<Rightarrow> run);
                       (out, s3) = (case checkpoint of
                           None \<Rightarrow> (Inr (), s2)
                         | Some c \<Rightarrow>
                             (case append_memory_checkpoint
                                     (c\<lparr>ck_sequence := rn_last_sequence run2\<rparr>) s2 of
                                (Inl e, t) \<Rightarrow> (Inl e, t)
                              | (Inr _, t) \<Rightarrow> (Inr (), t)))
                   in (case out of
                         Inl e \<Rightarrow> raise_at e s3
                       | Inr _ \<Rightarrow> update_memory_loop_execution now eid next_state status stop_reason
                           (Some (lx_revision current)) s3))))))"

subsection \<open>Workflow templates and run graphs\<close>

definition upsert_workflow_template :: "WorkflowTemplate \<Rightarrow> WorkflowTemplate op" where
  "upsert_workflow_template t s =
    (let key = (tp_template_id t, tp_version t) in
     case dget (st_workflow_templates s) key of
       Some existing \<Rightarrow>
         if tp_checksum existing \<noteq> tp_checksum t
           then raise_at (ValueError ''content drifted from the stored checksum'') s
         else (Inr existing, s)
     | None \<Rightarrow> (Inr t, s\<lparr>st_workflow_templates := dset key t (st_workflow_templates s)\<rparr>))"

definition get_workflow_template ::
  "store \<Rightarrow> string \<Rightarrow> string option \<Rightarrow> WorkflowTemplate option res" where
  "get_workflow_template s template_id version =
    (case version of
       Some v \<Rightarrow> Inr (dget (st_workflow_templates s) (template_id, v))
     | None \<Rightarrow>
         let validated = filter (\<lambda>t. tp_template_id t = template_id \<and> tp_status t = Tpl_VALIDATED)
               (dvalues (st_workflow_templates s))
         in if length validated > 1
              then Inl (ValueError ''template has multiple VALIDATED versions; pass one explicitly'')
            else Inr (case validated of [] \<Rightarrow> None | t # _ \<Rightarrow> Some t))"

definition create_run_graph :: "RunGraph \<Rightarrow> RunGraph op" where
  "create_run_graph g s =
    (if \<not> dhas (st_runs s) (rg_run_id g) then raise_at (KeyError ''run'') s
     else if dhas (st_run_graphs s) (rg_run_id g)
       then raise_at (ValueError ''run already has a run graph'') s
     else if \<not> list_ex (\<lambda>t. tp_template_record_id t = rg_template_record_id g)
         (dvalues (st_workflow_templates s))
       then raise_at (KeyError ''workflow template'') s
     else (Inr g, s\<lparr>st_run_graphs := dset (rg_run_id g) g (st_run_graphs s)\<rparr>))"

definition patch_node ::
  "RunNode \<Rightarrow> (string, RunNode) dict \<Rightarrow> (string, RunNode) dict res" where
  "patch_node n by_key =
    (case dget by_key (nd_key n) of
       None \<Rightarrow> Inl (ValueError ''run graph has no node'')
     | Some current \<Rightarrow>
         if nd_node_id n \<noteq> nd_node_id current
           then Inl (ValueError ''run graph node ids are immutable'')
         else Inr (dset (nd_key n) n by_key))"

definition patch_edge ::
  "RunEdge \<Rightarrow> (string, RunEdge) dict \<Rightarrow> (string, RunEdge) dict res" where
  "patch_edge e by_key =
    (case dget by_key (ed_key e) of
       None \<Rightarrow> Inl (ValueError ''run graph has no edge'')
     | Some current \<Rightarrow>
         if ed_edge_id e \<noteq> ed_edge_id current
           then Inl (ValueError ''run graph edge ids are immutable'')
         else Inr (dset (ed_key e) e by_key))"

definition update_memory_run_graph ::
  "string \<Rightarrow> RunNode list \<Rightarrow> RunEdge list \<Rightarrow> int \<Rightarrow> RunGraph op" where
  "update_memory_run_graph run_graph_id ns es expected_revision s =
    (case find (\<lambda>g. rg_run_graph_id g = run_graph_id) (dvalues (st_run_graphs s)) of
       None \<Rightarrow> raise_at (KeyError ''run graph'') s
     | Some g \<Rightarrow>
         if rg_graph_revision g \<noteq> expected_revision
           then raise_at (ValueError ''run graph revision conflict'') s
         else
           (case bind_res (fold_res patch_node ns (dict_of (map (\<lambda>n. (nd_key n, n)) (rg_nodes g))))
                   (\<lambda>node_by_key.
                 bind_res (fold_res patch_edge es (dict_of (map (\<lambda>e. (ed_key e, e)) (rg_edges g))))
                   (\<lambda>edge_by_key.
                 bind_res (map_res (\<lambda>n. dindex node_by_key (nd_key n) ''node'') (rg_nodes g))
                   (\<lambda>nodes.
                 bind_res (map_res (\<lambda>e. dindex edge_by_key (ed_key e) ''edge'') (rg_edges g))
                   (\<lambda>edges. Inr (g\<lparr>rg_nodes := nodes, rg_edges := edges,
                       rg_graph_revision := rg_graph_revision g + 1\<rparr>))))) of
              Inl e \<Rightarrow> raise_at e s
            | Inr updated \<Rightarrow>
                (Inr updated, s\<lparr>st_run_graphs := dset (rg_run_id g) updated (st_run_graphs s)\<rparr>)))"

definition update_run_graph ::
  "string \<Rightarrow> RunNode list \<Rightarrow> RunEdge list \<Rightarrow> int \<Rightarrow> RunGraph op" where
  "update_run_graph = update_memory_run_graph"

definition replace_run_graph :: "RunGraph \<Rightarrow> int \<Rightarrow> RunGraph op" where
  "replace_run_graph g expected_revision s =
    (case dget (st_run_graphs s) (rg_run_id g) of
       None \<Rightarrow> raise_at (KeyError ''run graph'') s
     | Some current \<Rightarrow>
         if rg_run_graph_id current \<noteq> rg_run_graph_id g
           then raise_at (KeyError ''run graph'') s
         else if rg_graph_revision current \<noteq> expected_revision
           then raise_at (ValueError ''run graph revision conflict'') s
         else
           let node_ids = map nd_node_id (rg_nodes g);
               edge_ids = map ed_edge_id (rg_edges g)
           in if length node_ids \<noteq> card (set node_ids) \<or> length edge_ids \<noteq> card (set edge_ids)
                then raise_at (ValueError ''replacement graph identifiers must be unique'') s
              else
                let updated = g\<lparr>rg_graph_revision := expected_revision + 1\<rparr>
                in (Inr updated, s\<lparr>st_run_graphs := dset (rg_run_id g) updated (st_run_graphs s)\<rparr>))"

subsection \<open>Approvals and budgets\<close>

definition save_approval :: "ApprovalRecord \<Rightarrow> ApprovalRecord op" where
  "save_approval a s =
    (if \<not> dhas (st_runs s) (ar_run_id a) then raise_at (KeyError ''run'') s
     else
       let request_key = (ar_run_id a, ar_native_request_id a) in
       case dget (st_approval_by_request s) request_key of
         Some existing_id \<Rightarrow> (dindex (st_approvals s) existing_id ''approval'', s)
       | None \<Rightarrow> (Inr a, s\<lparr>
           st_approvals := dset (ar_approval_id a) a (st_approvals s),
           st_approval_by_request := dset request_key (ar_approval_id a) (st_approval_by_request s)\<rparr>))"

fun APPROVAL_DECISION_STATUS :: "ApprovalDecisionValue \<Rightarrow> ApprovalStatus" where
  "APPROVAL_DECISION_STATUS Dec_APPROVE = Appr_APPROVED"
| "APPROVAL_DECISION_STATUS Dec_APPROVE_SESSION = Appr_APPROVED"
| "APPROVAL_DECISION_STATUS Dec_DENY = Appr_DENIED"
| "APPROVAL_DECISION_STATUS Dec_CANCEL = Appr_CANCELLED"

definition decide_approval :: "timestamp \<Rightarrow> string \<Rightarrow> ApprovalDecisionValue \<Rightarrow> ApprovalRecord op" where
  "decide_approval now approval_id decision s =
    (case dget (st_approvals s) approval_id of
       None \<Rightarrow> raise_at (KeyError ''approval'') s
     | Some current \<Rightarrow>
         if ar_status current \<noteq> Appr_PENDING
           then raise_at (ValueError ''approval was already decided'') s
         else
           let decided = current\<lparr>ar_status := APPROVAL_DECISION_STATUS decision,
                 ar_decision := Some decision, ar_decided_at := Some now\<rparr>
           in (Inr decided, s\<lparr>st_approvals := dset approval_id decided (st_approvals s)\<rparr>))"

definition get_budget_spent :: "store \<Rightarrow> string \<Rightarrow> int \<times> int" where
  "get_budget_spent s run_id = dget_or (0, 0) (st_budget_spent s) run_id"

definition add_budget_spent :: "string \<Rightarrow> int \<Rightarrow> int \<Rightarrow> (int \<times> int) op" where
  "add_budget_spent run_id turns tool_calls s =
    (if \<not> dhas (st_runs s) run_id then raise_at (KeyError ''run'') s
     else
       let (t, c) = get_budget_spent s run_id;
           spent = (t + turns, c + tool_calls)
       in (Inr spent, s\<lparr>st_budget_spent := dset run_id spent (st_budget_spent s)\<rparr>))"

end
