(* ===== verification/Task_Service.thy ===== *)
theory Task_Service
  imports Planning Memory_Store
begin

text \<open>
  The task operations of \<open>RunManager\<close> (\<^verbatim>\<open>src/accretion/services/run_manager.py\<close>: \<open>create_project\<close>,
  \<open>create_task\<close>, \<open>get_task_planning\<close>, \<open>override_strategy\<close>) over the store, with the builders of
  \<^verbatim>\<open>src/accretion/planning.py\<close> they call. \<open>new_id\<close>'s answers are the record \<open>planning_ids\<close>, and the facts
  about the repository are an argument.

  Shown: the planning records of every task stay complete and consistent with its envelope, an override
  is always recorded, and the stored decision of a protected task is the gated one in every reachable
  store.
\<close>

subsection \<open>Builders\<close>

record planning_ids =
  pi_prompt :: string
  pi_context :: string
  pi_profile :: string
  pi_decision :: string

definition build_prompt_contract :: "string \<Rightarrow> timestamp \<Rightarrow> Task \<Rightarrow> PromptContract" where
  "build_prompt_contract prompt_id now task =
    (let envelope = tk_envelope task;
         tool_rules = map (\<lambda>item. ''Allow capability: '' @ item) (te_allowed_capabilities envelope) @
           map (\<lambda>item. ''Deny capability: '' @ item) (te_denied_capabilities envelope)
     in \<lparr>pc_prompt_contract_id = prompt_id, pc_task_id = te_task_id envelope,
         pc_role = ''execution-agent'', pc_objective = te_objective envelope,
         pc_hard_constraints = te_constraints envelope, pc_non_goals = [], pc_tool_rules = tool_rules,
         pc_output_schema = [(''required_outputs'', JList (te_required_outputs envelope))],
         pc_uncertainty_policy = [(''on_unknown'', JStr ''surface-and-escalate''),
           (''fabrication'', JStr ''forbidden'')],
         pc_completion_criteria = te_success_criteria envelope, pc_examples = [], pc_created_at = now\<rparr>)"

definition build_context_bundle ::
  "(timestamp \<Rightarrow> string) \<Rightarrow> string \<Rightarrow> timestamp \<Rightarrow> Task \<Rightarrow> Project \<Rightarrow> string list \<times> bool \<Rightarrow> ContextBundle" where
  "build_context_bundle isoformat context_id now task project repository =
    (let envelope = tk_envelope task; (manifests, has_tests) = repository
     in \<lparr>cb_schema_version = ''1.0'', cb_context_bundle_id = context_id,
         cb_task_ref = te_task_id envelope, cb_version = ''context-bundle-v1'',
         cb_phase = ''TASK_EXECUTION'', cb_project_summary = pj_name project @ '' local repository'',
         cb_evidence_refs = [], cb_artifact_refs = [],
         cb_workspace_map = [(''root_manifests'', JList (map JStr manifests)),
           (''tests_available'', JBool has_tests)],
         cb_previous_failure_refs = [], cb_constraints = te_constraints envelope,
         cb_permissions = te_allowed_capabilities envelope,
         cb_freshness = [(''observed_at'', JStr (isoformat now)), (''stale'', JBool False)],
         cb_provenance = [''task-envelope'', ''project-record'', ''repository-scan''],
         cb_token_budget = 8000, cb_supersedes_context_bundle_id = None, cb_experience_query_id = None,
         cb_experience_match_refs = [], cb_experience_refs = [], cb_created_at = now\<rparr>)"

definition build_initial_planning ::
  "(timestamp \<Rightarrow> string) \<Rightarrow> planning_ids \<Rightarrow> timestamp \<Rightarrow> Task \<Rightarrow> Project \<Rightarrow> string list \<times> bool \<Rightarrow>
     PromptContract \<times> ContextBundle \<times> TaskProfile \<times> StrategyDecision" where
  "build_initial_planning isoformat i now task project repository =
    (let prompt = build_prompt_contract (pi_prompt i) now task;
         context = build_context_bundle isoformat (pi_context i) now task project repository;
         profile = profile_task (pi_profile i) (tk_envelope task) repository;
         decision = select_strategy (pi_decision i) profile
     in (prompt, context, profile, decision))"

subsection \<open>Operations\<close>

text \<open>\<open>envelope\<close> is the envelope with the caller's fields; its identifiers are set here.\<close>

definition rm_create_task ::
  "(timestamp \<Rightarrow> string) \<Rightarrow> string \<Rightarrow> planning_ids \<Rightarrow> timestamp \<Rightarrow> string \<Rightarrow> TaskEnvelope \<Rightarrow>
     string list \<times> bool \<Rightarrow> Task op" where
  "rm_create_task isoformat task_id i now project_id envelope repository s =
    (case get_project s project_id of
       None \<Rightarrow> raise_at (KeyError ''project'') s
     | Some project \<Rightarrow>
         let envelope = envelope\<lparr>te_task_id := task_id, te_project_id := project_id\<rparr>;
             task = \<lparr>tk_envelope = envelope, tk_prompt_contract_id = None, tk_context_bundle_id = None,
               tk_current_profile_id = None, tk_current_strategy_decision_id = None, tk_created_at = now\<rparr>;
             (prompt, context, profile, decision) =
               build_initial_planning isoformat i now task project repository;
             task = task\<lparr>tk_envelope := envelope\<lparr>te_prompt_contract_ref := pc_prompt_contract_id prompt,
               te_context_policy_ref := cb_context_bundle_id context\<rparr>\<rparr>
         in create_task_with_planning task prompt context profile decision s)"

definition rm_get_task_planning ::
  "(timestamp \<Rightarrow> string) \<Rightarrow> planning_ids \<Rightarrow> timestamp \<Rightarrow> string list \<times> bool \<Rightarrow> string \<Rightarrow> TaskPlanning op" where
  "rm_get_task_planning isoformat i now repository task_id s =
    (case get_task s task_id of
       None \<Rightarrow> raise_at (KeyError ''task'') s
     | Some task \<Rightarrow>
       (case get_task_planning s task_id of
          Inl e \<Rightarrow> raise_at e s
        | Inr (Some existing) \<Rightarrow> (Inr existing, s)
        | Inr None \<Rightarrow>
          (case get_project s (te_project_id (tk_envelope task)) of
             None \<Rightarrow> raise_at (KeyError ''project'') s
           | Some project \<Rightarrow>
             let (prompt, context, profile, decision) =
                   build_initial_planning isoformat i now task project repository
             in save_task_planning task_id prompt context profile decision s)))"

record StrategyOverrideResult =
  or_override :: StrategyOverride
  or_current_decision :: StrategyDecision

definition override_strategy ::
  "(timestamp \<Rightarrow> string) \<Rightarrow> planning_ids \<Rightarrow> timestamp \<Rightarrow> string list \<times> bool \<Rightarrow> string \<Rightarrow> string \<Rightarrow> string \<Rightarrow>
     string \<Rightarrow> ExecutionMode \<Rightarrow> string \<Rightarrow> string \<Rightarrow> StrategyOverrideResult op" where
  "override_strategy isoformat i now repository override_id decision_id operator_identity
     task_id requested_mode requested_template_id reason s =
    (case rm_get_task_planning isoformat i now repository task_id s of
       (Inl e, s1) \<Rightarrow> raise_at e s1
     | (Inr planning, s1) \<Rightarrow>
       (case evaluate_override override_id decision_id (tl_current_profile planning)
             (tl_current_decision planning) requested_mode requested_template_id reason operator_identity of
          Inl e \<Rightarrow> raise_at e s1
        | Inr (override, decision) \<Rightarrow>
          (case append_strategy_override override decision s1 of
             (Inl e, s2) \<Rightarrow> raise_at e s2
           | (Inr _, s2) \<Rightarrow> (Inr \<lparr>or_override = override, or_current_decision =
               (case decision of None \<Rightarrow> tl_current_decision planning | Some d \<Rightarrow> d)\<rparr>, s2))))"

subsection \<open>Planning records\<close>

text \<open>What the store holds of the planning of a task with the given envelope.\<close>

definition planning_records :: "store \<Rightarrow> string \<Rightarrow> Task \<Rightarrow> TaskProfile \<Rightarrow> bool" where
  "planning_records s tid task p \<longleftrightarrow>
     (\<exists>i. tk_prompt_contract_id task = Some i \<and> dhas (st_prompts s) i) \<and>
     (\<exists>i. tk_context_bundle_id task = Some i \<and> dhas (st_contexts s) i) \<and>
     tk_current_profile_id task = Some (tp_profile_id p) \<and>
     dget (st_profiles s) tid = Some [p] \<and> tp_task_id p = tid \<and>
     tp_risk p = te_risk_level (tk_envelope task) \<and>
     tp_irreversible_actions p = irreversible (te_allowed_capabilities (tk_envelope task)) \<and>
     (\<exists>ds d. dget (st_decisions s) tid = Some ds \<and> d \<in> set ds \<and>
       tk_current_strategy_decision_id task = Some (sd_decision_id d) \<and>
       (\<forall>d \<in> set ds. planned_decision p d))"

definition planning_ok :: "store \<Rightarrow> bool" where
  "planning_ok s \<longleftrightarrow> (\<forall>tid task. dget (st_tasks s) tid = Some task \<longrightarrow>
     te_task_id (tk_envelope task) = tid \<and>
     (tk_current_strategy_decision_id task \<noteq> None \<longrightarrow> (\<exists>p. planning_records s tid task p)))"

lemma planning_okD:
  "planning_ok s \<Longrightarrow> dget (st_tasks s) tid = Some task \<Longrightarrow> te_task_id (tk_envelope task) = tid"
  "planning_ok s \<Longrightarrow> dget (st_tasks s) tid = Some task \<Longrightarrow>
    tk_current_strategy_decision_id task \<noteq> None \<Longrightarrow> \<exists>p. planning_records s tid task p"
  by (auto simp: planning_ok_def)

lemma first_with_Inr: "x \<in> set xs \<Longrightarrow> P x \<Longrightarrow> \<exists>y. first_with P xs = Inr y \<and> y \<in> set xs \<and> P y"
proof -
  assume "x \<in> set xs" "P x"
  then have "x \<in> set (filter P xs)" by simp
  then obtain y ys where y: "filter P xs = y # ys" by (cases "filter P xs") auto
  then have "y \<in> set (filter P xs)" by (metis list.set_intros(1))
  then have "y \<in> set xs" "P y" by simp_all
  with y show ?thesis by (simp add: first_with_def)
qed

lemma planning_records_read:
  assumes "dget (st_tasks s) tid = Some task" "planning_records s tid task p"
  shows "\<exists>pl. get_task_planning s tid = Inr (Some pl) \<and> tl_current_profile pl = p \<and>
    planned_decision p (tl_current_decision pl)"
proof -
  from assms(2) obtain ds d where ds: "dget (st_decisions s) tid = Some ds" "d \<in> set ds"
    "tk_current_strategy_decision_id task = Some (sd_decision_id d)" "\<forall>d \<in> set ds. planned_decision p d"
    unfolding planning_records_def by blast
  from first_with_Inr [of d ds "\<lambda>e. sd_decision_id e = sd_decision_id d"] ds(2)
  obtain e where e: "first_with (\<lambda>e. sd_decision_id e = sd_decision_id d) ds = Inr e" "e \<in> set ds"
    by auto
  have p: "first_with (\<lambda>q. tp_profile_id q = tp_profile_id p) [p] = Inr p"
    by (simp add: first_with_def)
  from assms(2) obtain i pr j cx where
    "tk_prompt_contract_id task = Some i" "dget (st_prompts s) i = Some pr"
    "tk_context_bundle_id task = Some j" "dget (st_contexts s) j = Some cx"
    unfolding planning_records_def by (meson dhas_ex)
  moreover have "tk_current_profile_id task = Some (tp_profile_id p)" "dget (st_profiles s) tid = Some [p]"
    using assms(2) by (simp_all add: planning_records_def)
  ultimately show ?thesis
    using assms(1) ds(1,3,4) e p by (simp add: get_task_planning_def dget_or_def dindex_def)
qed

subsection \<open>Operations keep the planning records\<close>

abbreviation planning_tables ::
  "store \<Rightarrow> (string, Task) dict \<times> (string, PromptContract) dict \<times> (string, ContextBundle) dict \<times>
     (string, TaskProfile list) dict \<times> (string, StrategyDecision list) dict" where
  "planning_tables s \<equiv> (st_tasks s, st_prompts s, st_contexts s, st_profiles s, st_decisions s)"

lemma planning_records_other:
  assumes "planning_records s tid task p" "tid \<noteq> k"
  shows "planning_records (record_planning k t pr cx pf d s) tid task p"
    "planning_records (s\<lparr>st_overrides := ov, st_decisions := dset k ds (st_decisions s),
      st_tasks := ts\<rparr>) tid task p"
  using assms by (auto simp: planning_records_def record_planning_def)

lemma record_planning_ok:
  assumes "planning_ok s" "te_task_id (tk_envelope task) = tid"
    and "tp_task_id pf = tid" "tp_risk pf = te_risk_level (tk_envelope task)"
      "tp_irreversible_actions pf = irreversible (te_allowed_capabilities (tk_envelope task))"
    and "planned_decision pf d"
  shows "planning_ok (record_planning tid task pr cx pf d s)"
proof -
  let ?s = "record_planning tid task pr cx pf d s"
  have "planning_records ?s tid (planned_task pr cx pf d task) pf"
    using assms by (simp add: planning_records_def record_planning_def planned_task_def)
  moreover have "te_task_id (tk_envelope (planned_task pr cx pf d task)) = tid"
    using assms(2) by (simp add: planned_task_def)
  moreover have "te_task_id (tk_envelope t) = k \<and>
      (tk_current_strategy_decision_id t \<noteq> None \<longrightarrow> (\<exists>p. planning_records ?s k t p))"
    if "dget (st_tasks s) k = Some t" "k \<noteq> tid" for k t
    using planning_okD [OF assms(1) that(1)] planning_records_other(1) [OF _ that(2)] by metis
  ultimately show ?thesis
    unfolding planning_ok_def by (auto simp: record_planning_def split: if_splits)
qed

lemma profile_task_id [simp]: "tp_task_id (profile_task i e r) = te_task_id e"
  by (cases r) (simp add: profile_task_def Let_def)

lemma initial_planning_fields:
  assumes "build_initial_planning fmt i now task project repo = (pr, cx, pf, d)"
  shows "tp_task_id pf = te_task_id (tk_envelope task)" "tp_risk pf = te_risk_level (tk_envelope task)"
    "tp_irreversible_actions pf = irreversible (te_allowed_capabilities (tk_envelope task))"
    "planned_decision pf d"
  using assms planned_decision.selected by (auto simp: build_initial_planning_def Let_def)

lemma rm_create_task_ok:
  assumes "planning_ok s"
  shows "planning_ok (snd (rm_create_task fmt tid i now project_id e repo s))"
proof (cases "get_project s project_id")
  case (Some project)
  let ?e = "e\<lparr>te_task_id := tid, te_project_id := project_id\<rparr>"
  let ?t = "\<lparr>tk_envelope = ?e, tk_prompt_contract_id = None, tk_context_bundle_id = None,
      tk_current_profile_id = None, tk_current_strategy_decision_id = None, tk_created_at = now\<rparr>"
  obtain pr cx pf d where b: "build_initial_planning fmt i now ?t project repo = (pr, cx, pf, d)"
    by (metis prod_cases4)
  from initial_planning_fields [OF b] Some assms show ?thesis
    by (auto simp: rm_create_task_def b Let_def create_task_with_planning_def intro!: record_planning_ok)
qed (use assms in \<open>simp add: rm_create_task_def\<close>)

lemma unplanned:
  assumes "planning_ok s" "dget (st_tasks s) tid = Some task" "get_task_planning s tid = Inr None"
  shows "tk_current_strategy_decision_id task = None"
  using planning_okD(2) [OF assms(1,2)] planning_records_read [OF assms(2)] assms(3) by fastforce

lemma rm_get_task_planning_ok:
  assumes "planning_ok s"
  shows "planning_ok (snd (rm_get_task_planning fmt i now repo tid s))"
proof -
  have "planning_ok (record_planning tid task pr cx pf d s)"
    if t: "dget (st_tasks s) tid = Some task" and "get_project s j = Some project"
      and b: "build_initial_planning fmt i now task project repo = (pr, cx, pf, d)"
    for task project pr cx pf d j
    using initial_planning_fields [OF b] planning_okD(1) [OF assms t] assms
    by (auto intro!: record_planning_ok)
  then show ?thesis
    using assms by (auto simp: rm_get_task_planning_def save_task_planning_def get_task_def Let_def
      split: option.splits sum.splits prod.splits)
qed

lemma rm_get_task_planning_result:
  assumes ok: "planning_ok s" and r: "rm_get_task_planning fmt i now repo tid s = (Inr pl, t)"
  obtains task where "dget (st_tasks t) tid = Some task" "tk_current_strategy_decision_id task \<noteq> None"
    "get_task_planning t tid = Inr (Some pl)"
proof -
  from r obtain task where t: "dget (st_tasks t) tid = Some task" and g: "get_task_planning t tid = Inr (Some pl)"
    by (auto simp: rm_get_task_planning_def save_task_planning_def get_task_def Let_def
      record_planning_def split: option.splits sum.splits prod.splits if_splits)
  from g t have "tk_current_strategy_decision_id task \<noteq> None"
    by (auto simp: get_task_planning_def split: option.splits)
  with t g that show thesis by blast
qed

lemma append_override_ok:
  assumes "planning_ok s" "dget (st_tasks s) tid = Some task" "planning_records s tid task p"
    and "so_task_id ov = tid" "\<And>d. decision = Some d \<Longrightarrow> planned_decision p d"
  shows "\<exists>t. append_strategy_override ov decision s = (Inr (), t) \<and> planning_ok t"
proof (cases decision)
  case None
  have "planning_ok (s\<lparr>st_overrides := x\<rparr>)" for x
    using assms(1) by (simp add: planning_ok_def planning_records_def)
  with None show ?thesis by (simp add: append_strategy_override_def Let_def)
next
  case (Some d)
  from assms(3) obtain ds where ds: "dget (st_decisions s) tid = Some ds"
    "\<forall>d \<in> set ds. planned_decision p d" unfolding planning_records_def by blast
  let ?task = "task\<lparr>tk_current_strategy_decision_id := Some (sd_decision_id d)\<rparr>"
  let ?t = "s\<lparr>st_overrides := dset tid (dget_or [] (st_overrides s) tid @ [ov]) (st_overrides s),
    st_decisions := dset tid (ds @ [d]) (st_decisions s), st_tasks := dset tid ?task (st_tasks s)\<rparr>"
  have r: "append_strategy_override ov decision s = (Inr (), ?t)"
    using assms(2,4) ds(1) Some by (simp add: append_strategy_override_def Let_def dget_or_def)
  have "planning_records ?t tid ?task p"
    using assms(3) ds assms(5) [OF Some] by (auto simp: planning_records_def)
  moreover have "te_task_id (tk_envelope ?task) = tid" using planning_okD(1) [OF assms(1,2)] by simp
  moreover have "te_task_id (tk_envelope t) = k \<and>
      (tk_current_strategy_decision_id t \<noteq> None \<longrightarrow> (\<exists>p. planning_records ?t k t p))"
    if "dget (st_tasks s) k = Some t" "k \<noteq> tid" for k t
    using planning_okD [OF assms(1) that(1)] planning_records_other(2) [OF _ that(2)] by metis
  ultimately have "planning_ok ?t" unfolding planning_ok_def by (auto split: if_splits)
  with r show ?thesis by blast
qed

text \<open>What an override leaves: the record of the verdict, or nothing when the reason is out of bounds.\<close>

definition override_recorded ::
  "string \<Rightarrow> ExecutionMode \<Rightarrow> string \<Rightarrow> TaskPlanning \<Rightarrow> store \<Rightarrow> StrategyOverrideResult \<Rightarrow> store \<Rightarrow> bool" where
  "override_recorded tid mode template pl s1 res t \<longleftrightarrow>
     dget_or [] (st_overrides t) tid = dget_or [] (st_overrides s1) tid @ [or_override res] \<and>
     (if so_accepted (or_override res)
      then sd_selected_mode (or_current_decision res) = mode \<and>
        sd_selected_template_id (or_current_decision res) = template \<and>
        map_option tk_current_strategy_decision_id (dget (st_tasks t) tid) =
          Some (Some (sd_decision_id (or_current_decision res)))
      else or_current_decision res = tl_current_decision pl \<and> st_tasks t = st_tasks s1)"

lemma override_strategy_step:
  assumes ok: "planning_ok s" and r: "rm_get_task_planning fmt i now repo tid s = (Inr pl, s1)" and why: "valid_reason why"
  obtains res d t where
    "override_strategy fmt i now repo oid did who tid mode template why s = (Inr res, t)" "planning_ok t"
    "evaluate_override oid did (tl_current_profile pl) (tl_current_decision pl) mode template why who =
       Inr (or_override res, d)"
    "or_current_decision res = (case d of None \<Rightarrow> tl_current_decision pl | Some d' \<Rightarrow> d')"
    "override_recorded tid mode template pl s1 res t"
proof -
  have ok1: "planning_ok s1" using rm_get_task_planning_ok [OF ok, of fmt i now repo tid] r by simp
  from rm_get_task_planning_result [OF ok r] obtain task where t: "dget (st_tasks s1) tid = Some task"
    "tk_current_strategy_decision_id task \<noteq> None" "get_task_planning s1 tid = Inr (Some pl)" by blast
  from planning_okD(2) [OF ok1 t(1,2)] obtain p where p: "planning_records s1 tid task p" by blast
  from planning_records_read [OF t(1) p] t(3) have pl: "tl_current_profile pl = p"
    "planned_decision p (tl_current_decision pl)" by auto
  obtain ov d where e: "evaluate_override oid did (tl_current_profile pl) (tl_current_decision pl)
    mode template why who = Inr (ov, d)" using why by (metis evaluate_override_total(1))
  from p have "tp_task_id p = tid" by (simp add: planning_records_def)
  then have id: "so_task_id ov = tid" using evaluate_override_verdict(5) [OF e] pl by simp
  moreover have "planned_decision p d'" if "d = Some d'" for d'
    using planned_decision.overridden [OF pl(2)] e that pl(1) by blast
  ultimately obtain u where u: "append_strategy_override ov d s1 = (Inr (), u)" "planning_ok u"
    using append_override_ok [OF ok1 t(1) p] by blast
  let ?res = "\<lparr>or_override = ov, or_current_decision = (case d of None \<Rightarrow> tl_current_decision pl | Some d' \<Rightarrow> d')\<rparr>"
  have "override_recorded tid mode template pl s1 ?res u"
    using u(1) id t(1) e evaluate_override_verdict(3) [OF e] evaluate_override_decision(1,2)
    by (cases d) (auto simp: override_recorded_def append_strategy_override_def dget_or_def Let_def)
  with r e u that [of ?res u d] show thesis by (simp add: override_strategy_def)
qed

lemma override_strategy_refused:
  assumes "rm_get_task_planning fmt i now repo tid s = (Inr pl, s1)" "\<not> valid_reason why"
  shows "override_strategy fmt i now repo oid did who tid mode template why s = (Inl (ValueError ''reason''), s1)"
  using assms by (simp add: override_strategy_def evaluate_override_total(2))

lemma override_strategy_ok:
  assumes "planning_ok s"
  shows "planning_ok (snd (override_strategy fmt i now repo oid did who tid mode template why s))"
proof (cases "rm_get_task_planning fmt i now repo tid s")
  case (Pair out s1)
  have ok1: "planning_ok s1" using Pair rm_get_task_planning_ok [OF assms, of fmt i now repo tid] by simp
  show ?thesis
  proof (cases out)
    case (Inl e)
    then show ?thesis using Pair ok1 by (simp add: override_strategy_def)
  next
    case (Inr pl)
    show ?thesis
    proof (cases "valid_reason why")
      case True
      show ?thesis
        by (rule override_strategy_step [OF assms Pair [unfolded Inr] True, of oid did who mode template]) simp
    qed (use Pair Inr ok1 in \<open>simp add: override_strategy_refused\<close>)
  qed
qed

subsection \<open>Reachable stores\<close>

text \<open>The stores the task service reaches: its own operations, and any other operation, all of which
  leave the planning tables alone.\<close>

inductive service_reachable :: "store \<Rightarrow> bool" where
  start: "service_reachable empty_store"
| new_task: "service_reachable s \<Longrightarrow>
    service_reachable (snd (rm_create_task fmt tid i now project_id e repo s))"
| planning: "service_reachable s \<Longrightarrow> service_reachable (snd (rm_get_task_planning fmt i now repo tid s))"
| override: "service_reachable s \<Longrightarrow>
    service_reachable (snd (override_strategy fmt i now repo oid did who tid mode template why s))"
| other: "service_reachable s \<Longrightarrow> planning_tables t = planning_tables s \<Longrightarrow> service_reachable t"

lemma service_reachable_ok: "service_reachable s \<Longrightarrow> planning_ok s"
proof (induction rule: service_reachable.induct)
  case start
  then show ?case by (simp add: planning_ok_def empty_store_def)
next
  case (other s t)
  then show ?case by (simp add: planning_ok_def planning_records_def)
qed (blast intro: rm_create_task_ok rm_get_task_planning_ok override_strategy_ok)+

text \<open>C2: In every store the task service reaches, whatever tasks were created, planned and overridden
  in whatever order and whatever identifiers were drawn, the planning of a task that has a decision
  can be read back, its profile carries the risk and the irreversibility of the task's envelope, and
  if either is high the decision in force is the fixed graph that requires approval and an independent
  verifier.\<close>

theorem stored_planning_stays_gated:
  assumes "service_reachable s" and "dget (st_tasks s) tid = Some task"
    and "tk_current_strategy_decision_id task \<noteq> None"
  shows "\<exists>pl. get_task_planning s tid = Inr (Some pl) \<and>
    tp_risk (tl_current_profile pl) = te_risk_level (tk_envelope task) \<and>
    sd_selected_template_id (tl_current_decision pl)
      \<in> ALLOWED_TEMPLATES_BY_MODE (sd_selected_mode (tl_current_decision pl)) \<and>
    (te_risk_level (tk_envelope task) \<in> {Risk_HIGH, Risk_CRITICAL} \<or>
       irreversible (te_allowed_capabilities (tk_envelope task)) \<longrightarrow>
     sd_selected_mode (tl_current_decision pl) = Mode_GRAPH \<and>
     sd_selected_template_id (tl_current_decision pl) = ''fixed-graph-v1'' \<and>
     sd_requires_approval (tl_current_decision pl) \<and>
     sd_requires_independent_verifier (tl_current_decision pl))"
proof -
  from planning_okD(2) [OF service_reachable_ok assms(2,3)] assms(1) obtain p
    where p: "planning_records s tid task p" by blast
  from planning_records_read [OF assms(2) p] obtain pl where pl: "get_task_planning s tid = Inr (Some pl)"
    "tl_current_profile pl = p" "planned_decision p (tl_current_decision pl)" by blast
  have "protected_profile p" if "te_risk_level (tk_envelope task) \<in> {Risk_HIGH, Risk_CRITICAL} \<or>
      irreversible (te_allowed_capabilities (tk_envelope task))"
    using p that by (auto simp: protected_profile_def high_risk_def planning_records_def)
  with pl planned_decision_cases [OF pl(3)] p show ?thesis by (auto simp: planning_records_def)
qed

definition service_project :: Project where
  "service_project = \<lparr>pj_project_id = ''project'', pj_name = ''demo'', pj_repository_path = ''/r'',
     pj_created_at = 0\<rparr>"

definition service_ids :: planning_ids where
  "service_ids = \<lparr>pi_prompt = ''p1'', pi_context = ''c1'', pi_profile = ''f1'', pi_decision = ''d1''\<rparr>"

definition service_store :: store where
  "service_store = snd (rm_create_task (\<lambda>_. []) ''task_1'' service_ids 0 ''project''
     (sample_envelope Task_REVIEW Risk_HIGH []) ([], True) (snd (create_project service_project empty_store)))"

lemma service_store_reachable: "service_reachable service_store"
proof -
  have "service_reachable (snd (create_project service_project empty_store))"
    by (rule service_reachable.other [OF service_reachable.start]) (simp add: create_project_def)
  then show ?thesis unfolding service_store_def by (rule service_reachable.new_task)
qed

lemma service_store_task:
  "\<exists>task. dget (st_tasks service_store) ''task_1'' = Some task \<and>
    tk_current_strategy_decision_id task \<noteq> None \<and> te_risk_level (tk_envelope task) = Risk_HIGH"
  by (simp add: service_store_def rm_create_task_def get_project_def create_project_def empty_store_def
    service_project_def sample_envelope_def build_initial_planning_def create_task_with_planning_def
    record_planning_def planned_task_def Let_def)

theorem stored_planning_stays_gated_witness:
  "\<exists>pl. get_task_planning service_store ''task_1'' = Inr (Some pl) \<and>
    sd_selected_mode (tl_current_decision pl) = Mode_GRAPH"
proof -
  obtain task where t: "dget (st_tasks service_store) ''task_1'' = Some task"
    "tk_current_strategy_decision_id task \<noteq> None" "te_risk_level (tk_envelope task) = Risk_HIGH"
    using service_store_task by blast
  from stored_planning_stays_gated [OF service_store_reachable t(1,2)] t(3) show ?thesis by auto
qed

text \<open>C18: What an override of a task that can be planned does. With a reason of 1 to 2000 characters it returns the
  verdict of \<open>evaluate_override\<close> on the planning in force, accepted exactly when the template belongs to the mode and a
  protected task stays on the graph; it appends exactly that override to the task's history, and changes the
  decision in force exactly when the override is accepted. With any other reason it raises and records nothing
  beyond the planning it read.\<close>

theorem override_is_recorded:
  assumes "service_reachable s"
    and "rm_get_task_planning fmt i now repo tid s = (Inr pl, s1)"
  shows "case override_strategy fmt i now repo oid did who tid mode template why s of
      (Inl e, t) \<Rightarrow> \<not> valid_reason why \<and> e = ValueError ''reason'' \<and> t = s1
    | (Inr res, t) \<Rightarrow> valid_reason why \<and>
        (\<exists>d. evaluate_override oid did (tl_current_profile pl) (tl_current_decision pl) mode template why who =
          Inr (or_override res, d)) \<and>
        (so_accepted (or_override res) \<longleftrightarrow> template \<in> ALLOWED_TEMPLATES_BY_MODE mode \<and>
          (protected_profile (tl_current_profile pl) \<longrightarrow> mode = Mode_GRAPH)) \<and>
        dget_or [] (st_overrides t) tid = dget_or [] (st_overrides s1) tid @ [or_override res] \<and>
        (if so_accepted (or_override res)
         then sd_selected_mode (or_current_decision res) = mode \<and>
           sd_selected_template_id (or_current_decision res) = template \<and>
           map_option tk_current_strategy_decision_id (dget (st_tasks t) tid) =
             Some (Some (sd_decision_id (or_current_decision res)))
         else or_current_decision res = tl_current_decision pl \<and> st_tasks t = st_tasks s1)"
proof (cases "valid_reason why")
  case True
  obtain res d t where r: "override_strategy fmt i now repo oid did who tid mode template why s = (Inr res, t)"
    "evaluate_override oid did (tl_current_profile pl) (tl_current_decision pl) mode template why who =
       Inr (or_override res, d)" "override_recorded tid mode template pl s1 res t"
    using override_strategy_step [OF service_reachable_ok [OF assms(1)] assms(2) True] by metis
  note v = evaluate_override_verdict(1,2) [OF r(2)]
  show ?thesis using r(1,2) r(3) [unfolded override_recorded_def] v True by auto
qed (use override_strategy_refused [OF assms(2)] in simp)

theorem override_is_recorded_witness:
  "\<exists>res t. override_strategy (\<lambda>_. []) service_ids 1 ([], True) ''o1'' ''d2'' ''op'' ''task_1'' Mode_LOOP
    ''t'' ''why'' service_store = (Inr res, t) \<and> \<not> so_accepted (or_override res) \<and>
    dget_or [] (st_overrides t) ''task_1'' = dget_or [] (st_overrides service_store) ''task_1'' @ [or_override res]"
proof -
  obtain task where t: "dget (st_tasks service_store) ''task_1'' = Some task"
    "tk_current_strategy_decision_id task \<noteq> None" using service_store_task by blast
  from planning_okD(2) [OF service_reachable_ok [OF service_store_reachable] t] obtain p
    where "planning_records service_store ''task_1'' task p" by blast
  from planning_records_read [OF t(1) this] obtain pl where
    "get_task_planning service_store ''task_1'' = Inr (Some pl)" by blast
  then have "rm_get_task_planning (\<lambda>_. []) service_ids 1 ([], True) ''task_1'' service_store =
    (Inr pl, service_store)" using t(1) by (simp add: rm_get_task_planning_def get_task_def)
  from override_is_recorded [OF service_store_reachable this, where oid = "''o1''" and did = "''d2''" and who = "''op''"
      and mode = Mode_LOOP and template = "''t''" and why = "''why''"]
  show ?thesis by (auto simp: valid_reason_def split: prod.splits sum.splits)
qed

end
