(* ===== verification/Store_Invariants.thy ===== *)
theory Store_Invariants
  imports Memory_Store "HOL-Library.Sublist"
begin

text \<open>
  Invariants of the store under every sequence of its operations.

  \<^item> \<open>event_log\<close> is the contract of an append-only log whose entries carry their position; the
    store's \<open>push_event\<close> meets it, which gives gap-free numbering and resumption from a cursor.
  \<^item> \<open>conditional_update\<close> is the contract of optimistic concurrency: a write names the revision it
    read. Loop executions and run graphs meet it, so of two writers with the same revision at most
    one succeeds.
  \<^item> \<open>store_step\<close> is one operation of the store, failing calls included; \<open>log_ok\<close> holds in every
    reachable store, and histories, finished loops, checkpoints and decided approvals never change.
\<close>

subsection \<open>Append-only numbered logs\<close>

locale event_log =
  fixes push :: "'e \<Rightarrow> 'e list \<Rightarrow> 'e list"
    and seqno :: "'e \<Rightarrow> int"
  assumes push_shape: "\<exists>e'. push e l = l @ [e'] \<and> seqno e' = int (length l) + 1"
begin

definition numbered :: "'e list \<Rightarrow> bool" where
  "numbered l \<longleftrightarrow> (\<forall>i < length l. seqno (l ! i) = int i + 1)"

lemma numbered_Nil: "numbered []"
  by (simp add: numbered_def)

lemma numbered_push: "numbered l \<Longrightarrow> numbered (push e l)"
  using push_shape [of e l] by (auto simp: numbered_def nth_append less_Suc_eq)

lemma prefix_push: "prefix l (push e l)"
  using push_shape [of e l] by auto

lemma length_push: "length (push e l) = Suc (length l)"
  using push_shape [of e l] by auto

lemma numbered_fold: "numbered l \<Longrightarrow> numbered (fold push es l)"
  by (induction es arbitrary: l) (auto intro: numbered_push)

lemma prefix_fold: "prefix l (fold push es l)"
  by (induction es arbitrary: l) (auto intro: prefix_push prefix_order.trans)

lemma length_fold: "length (fold push es l) = length l + length es"
  by (induction es arbitrary: l) (auto simp: length_push)

lemma seqno_last:
  assumes "numbered l" "l \<noteq> []"
  shows "seqno (last l) = int (length l)"
proof -
  from assms(2) have "last l = l ! (length l - 1)" "length l - 1 < length l"
    by (auto simp: last_conv_nth)
  with assms(1) show ?thesis by (auto simp: numbered_def of_nat_diff Suc_leI)
qed

text \<open>Reading the entries past a cursor is dropping the entries up to it.\<close>

lemma filter_after_cursor:
  assumes "numbered l" "0 \<le> c"
  shows "filter (\<lambda>e. seqno e > c) l = drop (nat c) l"
proof -
  have *: "filter (\<lambda>e. seqno e > c) xs = drop (nat c - k) xs"
    if "\<forall>i < length xs. seqno (xs ! i) = int (k + i) + 1" for xs k
    using that
  proof (induction xs arbitrary: k)
    case Nil
    then show ?case by simp
  next
    case (Cons x xs)
    from Cons.prems have x: "seqno x = int k + 1" by force
    have "seqno (xs ! i) = int (Suc k + i) + 1" if "i < length xs" for i
      using Cons.prems [rule_format, of "Suc i"] that by simp
    then have IH: "filter (\<lambda>e. seqno e > c) xs = drop (nat c - Suc k) xs"
      by (intro Cons.IH) simp
    show ?case
    proof (cases "nat c \<le> k")
      case True
      then show ?thesis using x IH by simp
    next
      case False
      then have "nat c - k = Suc (nat c - Suc k)" by simp
      then show ?thesis using x IH False assms(2) by simp
    qed
  qed
  show ?thesis using * [of l 0] assms(1) by (simp add: numbered_def)
qed

end

lemma push_event_shape:
  "\<exists>e'. push_event e l = l @ [e'] \<and> ev_sequence e' = int (length l) + 1"
  by (simp add: push_event_def number_event_def)

interpretation run_log: event_log push_event ev_sequence
  by unfold_locales (rule push_event_shape)

subsection \<open>The log view of a store\<close>

definition last_seq :: "store \<Rightarrow> string \<Rightarrow> int option" where
  "last_seq s run_id = map_option rn_last_sequence (dget (st_runs s) run_id)"

definition same_log :: "store \<Rightarrow> store \<Rightarrow> bool" where
  "same_log s t \<longleftrightarrow> events_of t = events_of s \<and> last_seq t = last_seq s \<and>
     checkpoints_of t = checkpoints_of s"

definition log_ok :: "store \<Rightarrow> bool" where
  "log_ok s \<longleftrightarrow>
     (\<forall>r. \<forall>i < length (events_of s r). ev_sequence (events_of s r ! i) = int i + 1) \<and>
     (\<forall>r n. last_seq s r = Some n \<longrightarrow> n = int (length (events_of s r))) \<and>
     (\<forall>r. distinct (map ck_sequence (checkpoints_of s r))) \<and>
     (\<forall>r. \<forall>c \<in> set (checkpoints_of s r).
        ck_run_id c = r \<and> 0 \<le> ck_sequence c \<and> ck_sequence c \<le> int (length (events_of s r)))"

definition log_ext :: "store \<Rightarrow> store \<Rightarrow> bool" where
  "log_ext s t \<longleftrightarrow> (\<forall>r. prefix (events_of s r) (events_of t r) \<and>
     prefix (checkpoints_of s r) (checkpoints_of t r))"

lemma log_okI:
  assumes "\<And>r. run_log.numbered (events_of s r)"
    and "\<And>r n. last_seq s r = Some n \<Longrightarrow> n = int (length (events_of s r))"
    and "\<And>r. distinct (map ck_sequence (checkpoints_of s r))"
    and "\<And>r c. c \<in> set (checkpoints_of s r) \<Longrightarrow>
      ck_run_id c = r \<and> 0 \<le> ck_sequence c \<and> ck_sequence c \<le> int (length (events_of s r))"
  shows "log_ok s"
  using assms unfolding log_ok_def run_log.numbered_def by blast

lemma log_okD:
  assumes "log_ok s"
  shows "run_log.numbered (events_of s r)"
    and "last_seq s r = Some n \<Longrightarrow> n = int (length (events_of s r))"
    and "distinct (map ck_sequence (checkpoints_of s r))"
    and "c \<in> set (checkpoints_of s r) \<Longrightarrow>
      ck_run_id c = r \<and> 0 \<le> ck_sequence c \<and> ck_sequence c \<le> int (length (events_of s r))"
  using assms unfolding log_ok_def run_log.numbered_def by blast+

lemma same_log_refl [simp]: "same_log s s"
  by (simp add: same_log_def)

lemma same_log_trans: "same_log s t \<Longrightarrow> same_log t u \<Longrightarrow> same_log s u"
  by (simp add: same_log_def)

lemma same_log_ok: "same_log s t \<Longrightarrow> log_ok s \<Longrightarrow> log_ok t"
  by (simp add: same_log_def log_ok_def)

lemma same_log_ext: "same_log s t \<Longrightarrow> log_ext s t"
  by (simp add: same_log_def log_ext_def)

lemma log_ext_refl [simp]: "log_ext s s"
  by (simp add: log_ext_def)

lemma log_ext_trans: "log_ext s t \<Longrightarrow> log_ext t u \<Longrightarrow> log_ext s u"
  unfolding log_ext_def by (meson prefix_order.trans)

subsection \<open>Operations that leave the log alone\<close>

lemma same_logI:
  "st_run_events t = st_run_events s \<Longrightarrow> st_checkpoints t = st_checkpoints s \<Longrightarrow>
   last_seq t = last_seq s \<Longrightarrow> same_log s t"
  by (simp add: same_log_def events_of_def checkpoints_of_def fun_eq_iff)

lemma last_seq_runs: "st_runs t = st_runs s \<Longrightarrow> last_seq t = last_seq s"
  by (simp add: last_seq_def fun_eq_iff)

named_theorems log_frame

lemma same_log_update_run [log_frame]: "same_log s (snd (update_run now r st u s))"
  unfolding update_run_def Let_def
  by (auto simp: last_seq_def fun_eq_iff intro!: same_logI split: option.splits)

lemma same_log_save_acceptance_policy [log_frame]:
  "same_log s (snd (save_acceptance_policy p s))"
  by (auto simp: save_acceptance_policy_def intro!: same_logI last_seq_runs split: option.splits)

lemma same_log_create_loop_execution [log_frame]:
  "same_log s (snd (create_loop_execution now x s))"
  unfolding create_loop_execution_def Let_def
  by (auto simp: last_seq_def fun_eq_iff intro!: same_logI split: option.splits)

lemma same_log_update_memory_loop_execution [log_frame]:
  "same_log s (snd (update_memory_loop_execution now eid st status sr rv s))"
  unfolding update_memory_loop_execution_def Let_def
  by (auto intro!: same_logI last_seq_runs split: option.splits)

lemma same_log_record_verification: "same_log s (record_verification r s)"
  by (auto simp: record_verification_def intro!: same_logI last_seq_runs)

lemma same_log_record_verifications: "same_log s (fold record_verification rs s)"
  by (induction rs arbitrary: s) (auto intro: same_log_trans same_log_record_verification)

lemma same_log_save_verification [log_frame]: "same_log s (snd (save_verification r s))"
  by (auto simp: save_verification_def same_log_record_verification split: option.splits)

lemma same_log_upsert_workflow_template [log_frame]:
  "same_log s (snd (upsert_workflow_template t s))"
  by (auto simp: upsert_workflow_template_def Let_def intro!: same_logI last_seq_runs
    split: option.splits)

lemma same_log_create_run_graph [log_frame]: "same_log s (snd (create_run_graph g s))"
  by (auto simp: create_run_graph_def intro!: same_logI last_seq_runs)

lemma same_log_update_memory_run_graph [log_frame]:
  "same_log s (snd (update_memory_run_graph gid ns es rv s))"
  by (auto simp: update_memory_run_graph_def intro!: same_logI last_seq_runs
    split: option.splits sum.splits)

lemma same_log_replace_run_graph [log_frame]: "same_log s (snd (replace_run_graph g rv s))"
  by (auto simp: replace_run_graph_def Let_def intro!: same_logI last_seq_runs split: option.splits)

lemma same_log_save_approval [log_frame]: "same_log s (snd (save_approval a s))"
  by (auto simp: save_approval_def Let_def intro!: same_logI last_seq_runs split: option.splits)

lemma same_log_decide_approval [log_frame]: "same_log s (snd (decide_approval now aid d s))"
  by (auto simp: decide_approval_def Let_def intro!: same_logI last_seq_runs split: option.splits)

lemma same_log_planning_ops [log_frame]:
  "same_log s (snd (create_project p s))"
  "same_log s (snd (create_task tk s))"
  "same_log s (snd (create_task_with_planning tk pr cx pf d s))"
  "same_log s (snd (save_task_planning tid pr cx pf d s))"
  "same_log s (snd (append_strategy_override ov dopt s))"
  "same_log s (snd (save_lease l s))"
  "same_log s (snd (save_session x s))"
  by (auto simp: create_project_def create_task_def create_task_with_planning_def save_task_planning_def
    append_strategy_override_def save_lease_def save_session_def record_planning_def Let_def
    intro!: same_logI last_seq_runs split: option.splits sum.splits)

lemma same_log_save_artifact [log_frame]: "same_log s (snd (save_artifact a s))"
  by (auto simp: save_artifact_def intro!: same_logI last_seq_runs)

lemma same_log_add_budget_spent [log_frame]: "same_log s (snd (add_budget_spent r t c s))"
  by (auto simp: add_budget_spent_def Let_def split_beta intro!: same_logI last_seq_runs)


subsection \<open>Operations that append\<close>

lemma push_events_fold: "push_events es l = fold push_event es l"
  by (simp add: push_events_def)

lemmas push_events_facts =
  run_log.numbered_fold [where es = es for es, folded push_events_fold]
  run_log.prefix_fold [where es = es for es, folded push_events_fold]
  run_log.length_fold [where es = es for es, folded push_events_fold]

lemma events_of_append_run_events:
  "events_of (append_run_events r es s) = (events_of s)(r := push_events es (events_of s r))"
  by (auto simp: append_run_events_def events_of_def Let_def fun_eq_iff)

lemma checkpoints_of_append_run_events [simp]:
  "checkpoints_of (append_run_events r es s) = checkpoints_of s"
  by (auto simp: append_run_events_def checkpoints_of_def Let_def fun_eq_iff)

lemma last_seq_append_run_events:
  assumes "log_ok s"
  shows "last_seq (append_run_events r es s) r' =
    (if r' = r \<and> last_seq s r \<noteq> None
     then Some (int (length (push_events es (events_of s r)))) else last_seq s r')"
proof (cases "es = []")
  case True
  then show ?thesis
    using log_okD(2) [OF assms, of r]
    by (auto simp: append_run_events_def last_seq_def push_events_def Let_def)
next
  case False
  let ?l = "push_events es (events_of s r)"
  have "?l \<noteq> []"
    using push_events_facts(3) [of es "events_of s r"] False by auto
  then have "ev_sequence (last ?l) = int (length ?l)"
    using run_log.seqno_last push_events_facts(1) log_okD(1) [OF assms] by blast
  then show ?thesis
    using False
    by (auto simp: append_run_events_def last_seq_def set_last_sequence_def Let_def
      split: option.splits)
qed

lemma append_run_events_ok:
  assumes "log_ok s"
  shows "log_ok (append_run_events r es s)" and "log_ext s (append_run_events r es s)"
proof -
  note len = push_events_facts(3) [of es]
  show "log_ok (append_run_events r es s)"
  proof (rule log_okI)
    show "run_log.numbered (events_of (append_run_events r es s) r')" for r'
      using log_okD(1) [OF assms] push_events_facts(1)
      by (auto simp: events_of_append_run_events)
    show "n = int (length (events_of (append_run_events r es s) r'))"
      if "last_seq (append_run_events r es s) r' = Some n" for r' n
      using that log_okD(2) [OF assms, of r' n]
      by (auto simp: last_seq_append_run_events [OF assms] events_of_append_run_events
        split: if_splits)
    show "distinct (map ck_sequence (checkpoints_of (append_run_events r es s) r'))" for r'
      using log_okD(3) [OF assms] by simp
    show "ck_run_id c = r' \<and> 0 \<le> ck_sequence c \<and>
        ck_sequence c \<le> int (length (events_of (append_run_events r es s) r'))"
      if "c \<in> set (checkpoints_of (append_run_events r es s) r')" for r' c
      using that log_okD(4) [OF assms, of c r'] len [of "events_of s r"]
      by (auto simp: events_of_append_run_events)
  qed
  show "log_ext s (append_run_events r es s)"
    by (auto simp: log_ext_def events_of_append_run_events push_events_facts(2))
qed

lemma append_event_as_batch:
  "log_ok s \<Longrightarrow> snd (append_event e s) = append_run_events (ev_run_id e) [e] s"
  by (simp add: append_event_def append_run_events_def push_events_def push_event_def Let_def)

lemma append_memory_checkpoint_log:
  "events_of (snd (append_memory_checkpoint c s)) = events_of s"
  "last_seq (snd (append_memory_checkpoint c s)) = last_seq s"
  by (auto simp: append_memory_checkpoint_def events_of_def last_seq_def fun_eq_iff Let_def
    split: option.splits)

lemma append_memory_checkpoint_list:
  "checkpoints_of (snd (append_memory_checkpoint c s)) = checkpoints_of s \<or>
   checkpoints_of (snd (append_memory_checkpoint c s)) =
     (checkpoints_of s)(ck_run_id c := checkpoints_of s (ck_run_id c) @ [c]) \<and>
   ck_sequence c \<notin> set (map ck_sequence (checkpoints_of s (ck_run_id c)))"
  by (auto simp: append_memory_checkpoint_def checkpoints_of_def fun_eq_iff Let_def dget_or_def
    find_eq_None split: option.splits)

lemma append_memory_checkpoint_ok:
  assumes "log_ok s" "0 \<le> ck_sequence c"
    "ck_sequence c \<le> int (length (events_of s (ck_run_id c)))"
  shows "log_ok (snd (append_memory_checkpoint c s))"
    and "log_ext s (snd (append_memory_checkpoint c s))"
proof -
  note log = append_memory_checkpoint_log [of c s]
  consider (same) "checkpoints_of (snd (append_memory_checkpoint c s)) = checkpoints_of s"
    | (new) "checkpoints_of (snd (append_memory_checkpoint c s)) =
        (checkpoints_of s)(ck_run_id c := checkpoints_of s (ck_run_id c) @ [c])"
        "ck_sequence c \<notin> set (map ck_sequence (checkpoints_of s (ck_run_id c)))"
    using append_memory_checkpoint_list [of c s] by blast
  then have "log_ok (snd (append_memory_checkpoint c s)) \<and>
    log_ext s (snd (append_memory_checkpoint c s))"
  proof cases
    case same
    then have "same_log s (snd (append_memory_checkpoint c s))"
      by (simp add: same_log_def log)
    then show ?thesis using assms(1) same_log_ok same_log_ext by blast
  next
    case new
    have "log_ok (snd (append_memory_checkpoint c s))"
      by (rule log_okI) (use log_okD [OF assms(1)] assms(2,3) new(2) in
        \<open>auto simp: log new(1) split: if_splits\<close>)
    moreover have "log_ext s (snd (append_memory_checkpoint c s))"
      by (simp add: log_ext_def log new(1))
    ultimately show ?thesis by blast
  qed
  then show "log_ok (snd (append_memory_checkpoint c s))"
    "log_ext s (snd (append_memory_checkpoint c s))" by blast+
qed

text \<open>A checkpoint stamped with the run's last sequence is admissible.\<close>

lemma stamped_checkpoint_ok:
  assumes "log_ok s" "dget (st_runs s) r = Some run" "ck_run_id c = r"
  shows "log_ok (snd (append_memory_checkpoint (c\<lparr>ck_sequence := rn_last_sequence run\<rparr>) s))"
    and "log_ext s (snd (append_memory_checkpoint (c\<lparr>ck_sequence := rn_last_sequence run\<rparr>) s))"
proof -
  have "rn_last_sequence run = int (length (events_of s r))"
    using log_okD(2) [OF assms(1), of r "rn_last_sequence run"] assms(2) by (simp add: last_seq_def)
  with assms(3) have "0 \<le> ck_sequence (c\<lparr>ck_sequence := rn_last_sequence run\<rparr>)"
    "ck_sequence (c\<lparr>ck_sequence := rn_last_sequence run\<rparr>) \<le>
      int (length (events_of s (ck_run_id (c\<lparr>ck_sequence := rn_last_sequence run\<rparr>))))"
    by simp_all
  then show "log_ok (snd (append_memory_checkpoint (c\<lparr>ck_sequence := rn_last_sequence run\<rparr>) s))"
    "log_ext s (snd (append_memory_checkpoint (c\<lparr>ck_sequence := rn_last_sequence run\<rparr>) s))"
    using append_memory_checkpoint_ok [OF assms(1)] by blast+
qed


lemma runs_append_run_events:
  assumes "log_ok s" "dget (st_runs s) r = Some run"
  shows "\<exists>run'. dget (st_runs (append_run_events r es s)) r = Some run' \<and>
    rn_state run' = rn_state run \<and>
    rn_last_sequence run' = int (length (push_events es (events_of s r)))"
proof -
  have "last_seq (append_run_events r es s) r = Some (int (length (push_events es (events_of s r))))"
    using last_seq_append_run_events [OF assms(1), of r es r] assms(2) by (simp add: last_seq_def)
  moreover have "\<exists>run'. dget (st_runs (append_run_events r es s)) r = Some run' \<and>
    rn_state run' = rn_state run"
    using assms(2) by (auto simp: append_run_events_def set_last_sequence_def Let_def)
  ultimately show ?thesis by (auto simp: last_seq_def)
qed

lemma append_checkpoint_ok:
  assumes "log_ok s"
  shows "log_ok (snd (append_checkpoint c es s)) \<and> log_ext s (snd (append_checkpoint c es s))"
proof (cases "dget (st_runs s) (ck_run_id c)")
  case None
  then show ?thesis using assms by (simp add: append_checkpoint_def)
next
  case (Some run)
  let ?s1 = "append_run_events (ck_run_id c) es s"
  obtain run' where run': "dget (st_runs ?s1) (ck_run_id c) = Some run'"
    using runs_append_run_events [OF assms Some, of es] by blast
  note s1 = append_run_events_ok [OF assms, of "ck_run_id c" es]
  show ?thesis
    using stamped_checkpoint_ok [OF s1(1) run' refl] log_ext_trans [OF s1(2)]
    by (simp add: append_checkpoint_def Some run')
qed

text \<open>What \<open>append_loop_iteration\<close> does once every check has passed and its run was found.\<close>

definition commit_iteration ::
  "timestamp \<Rightarrow> string \<Rightarrow> LoopIteration \<Rightarrow> LoopState \<Rightarrow> LoopExecutionStatus option \<Rightarrow>
     LoopStopReason option \<Rightarrow> VerificationResult list \<Rightarrow> AgentEvent list \<Rightarrow> Checkpoint option \<Rightarrow>
     LoopExecution \<Rightarrow> LoopIteration list \<Rightarrow> Run \<Rightarrow> LoopExecution op" where
  "commit_iteration now eid it st status sr vs es ck current its run s =
    (let s1 = fold record_verification vs
           (s\<lparr>st_loop_iterations := dset eid (its @ [it]) (st_loop_iterations s)\<rparr>);
         s2 = append_run_events (it_run_id it) es s1;
         run2 = (case dget (st_runs s2) (it_run_id it) of Some r \<Rightarrow> r | None \<Rightarrow> run)
     in case ck of
          None \<Rightarrow> update_memory_loop_execution now eid st status sr (Some (lx_revision current)) s2
        | Some c \<Rightarrow>
            (case append_memory_checkpoint (c\<lparr>ck_sequence := rn_last_sequence run2\<rparr>) s2 of
               (Inl e, t) \<Rightarrow> (Inl e, t)
             | (Inr _, t) \<Rightarrow>
                 update_memory_loop_execution now eid st status sr (Some (lx_revision current)) t))"

definition iteration_guard ::
  "string \<Rightarrow> LoopIteration \<Rightarrow> LoopState \<Rightarrow> int option \<Rightarrow> VerificationResult list \<Rightarrow>
     AgentEvent list \<Rightarrow> store \<Rightarrow> LoopExecution \<Rightarrow> LoopIteration list \<Rightarrow> bool" where
  "iteration_guard eid it st rv vs es s current its \<longleftrightarrow>
     dget (st_loop_executions s) eid = Some current \<and>
     dget (st_loop_iterations s) eid = Some its \<and>
     validate_iteration_transition current it st = Inr () \<and>
     (rv = None \<or> rv = Some (lx_revision current)) \<and>
     validate_iteration_evidence it vs es = Inr () \<and>
     \<not> iteration_exists s (it_iteration_id it) \<and>
     (\<forall>r \<in> set vs. \<not> dhas (st_verifications s) (vr_verification_id r)) \<and>
     distinct (map ev_event_id es) \<and>
     set (map ev_event_id (events_of s (it_run_id it))) \<inter> set (map ev_event_id es) = {}"

lemma runs_record_verifications [simp]: "st_runs (fold record_verification vs s) = st_runs s"
  by (induction vs arbitrary: s) (auto simp: record_verification_def)

lemma run_events_record_verifications [simp]:
  "st_run_events (fold record_verification vs s) = st_run_events s"
  by (induction vs arbitrary: s) (auto simp: record_verification_def)

lemma append_loop_iteration_commit:
  assumes g: "iteration_guard eid it st rv vs es s current its"
    and run: "dget (st_runs s) (it_run_id it) = Some run"
  shows "append_loop_iteration now eid it st status sr rv vs es ck s =
    commit_iteration now eid it st status sr vs es ck current its run s"
proof -
  have ids: "card (ev_event_id ` set es) = length es"
    using g distinct_card [of "map ev_event_id es"] by (simp add: iteration_guard_def)
  show ?thesis
    using g [unfolded iteration_guard_def] run ids
    by (cases rv) (simp_all add: append_loop_iteration_def commit_iteration_def list_ex_iff Let_def
      split: option.splits prod.splits sum.splits)
qed

lemma append_loop_iteration_cases:
  obtains (rejected) e where
      "append_loop_iteration now eid it st status sr rv vs es ck s = (Inl e, s)"
  | (no_run) current its t where "iteration_guard eid it st rv vs es s current its"
      "dget (st_runs s) (it_run_id it) = None"
      "append_loop_iteration now eid it st status sr rv vs es ck s = (Inl (KeyError ''run''), t)"
      "same_log s t"
  | (commit) current its run where "iteration_guard eid it st rv vs es s current its"
      "dget (st_runs s) (it_run_id it) = Some run"
      "append_loop_iteration now eid it st status sr rv vs es ck s =
        commit_iteration now eid it st status sr vs es ck current its run s"
proof (cases "\<exists>current its. iteration_guard eid it st rv vs es s current its")
  case False
  have ids: "card (ev_event_id ` set es) = length es \<longleftrightarrow> distinct (map ev_event_id es)"
    using length_card_set_distinct [of "map ev_event_id es"] by simp
  have "\<exists>e. append_loop_iteration now eid it st status sr rv vs es ck s = (Inl e, s)"
    using False
    by (auto simp: append_loop_iteration_def iteration_guard_def list_ex_iff ids
        split: option.splits sum.splits)
  then show ?thesis using rejected by blast
next
  case True
  then obtain current its where g: "iteration_guard eid it st rv vs es s current its" by blast
  note gs = g [unfolded iteration_guard_def]
  have ids: "card (ev_event_id ` set es) = length es"
    using gs distinct_card [of "map ev_event_id es"] by simp
  show ?thesis
  proof (cases "dget (st_runs s) (it_run_id it)")
    case None
    define t where "t = (let s1 = fold record_verification vs
       (s\<lparr>st_loop_iterations := dset eid (its @ [it]) (st_loop_iterations s)\<rparr>) in
       s1\<lparr>st_run_events := dset (it_run_id it) (events_of s1 (it_run_id it)) (st_run_events s1)\<rparr>)"
    have "append_loop_iteration now eid it st status sr rv vs es ck s = (Inl (KeyError ''run''), t)"
      using gs None ids
      by (cases rv) (simp_all add: append_loop_iteration_def list_ex_iff t_def Let_def)
    moreover have "same_log s t"
      using same_log_record_verifications
        [of "s\<lparr>st_loop_iterations := dset eid (its @ [it]) (st_loop_iterations s)\<rparr>" vs]
      by (auto simp: t_def Let_def same_log_def events_of_def last_seq_def checkpoints_of_def
        fun_eq_iff)
    ultimately show ?thesis using no_run g None by blast
  next
    case (Some run)
    then show ?thesis using commit g Some append_loop_iteration_commit by blast
  qed
qed


lemma commit_iteration_ok:
  assumes "log_ok s" "dget (st_runs s) (it_run_id it) = Some run"
    "\<forall>c. ck = Some c \<longrightarrow> ck_run_id c = it_run_id it"
  shows "log_ok (snd (commit_iteration now eid it st status sr vs es ck current its run s)) \<and>
    log_ext s (snd (commit_iteration now eid it st status sr vs es ck current its run s))"
proof -
  define s1 where "s1 = fold record_verification vs
    (s\<lparr>st_loop_iterations := dset eid (its @ [it]) (st_loop_iterations s)\<rparr>)"
  define s2 where "s2 = append_run_events (it_run_id it) es s1"
  have "same_log s (s\<lparr>st_loop_iterations := dset eid (its @ [it]) (st_loop_iterations s)\<rparr>)"
    by (intro same_logI last_seq_runs) simp_all
  then have s1: "same_log s s1"
    unfolding s1_def using same_log_record_verifications same_log_trans by blast
  then have ok1: "log_ok s1" using assms(1) same_log_ok by blast
  have run1: "dget (st_runs s1) (it_run_id it) = Some run" using assms(2) by (simp add: s1_def)
  have ok2: "log_ok s2" "log_ext s s2"
    using append_run_events_ok [OF ok1, of "it_run_id it" es] same_log_ext [OF s1] log_ext_trans
    unfolding s2_def by blast+
  obtain run2 where run2: "dget (st_runs s2) (it_run_id it) = Some run2"
    using runs_append_run_events [OF ok1 run1, of es] unfolding s2_def by blast
  have upd: "log_ok (snd (update_memory_loop_execution now eid st status sr rv t)) \<and>
      log_ext s (snd (update_memory_loop_execution now eid st status sr rv t))"
    if "log_ok t" "log_ext s t" for t rv
    using that same_log_update_memory_loop_execution same_log_ok same_log_ext log_ext_trans by blast
  show ?thesis
  proof (cases ck)
    case None
    then show ?thesis
      using upd [OF ok2] by (simp add: commit_iteration_def flip: s1_def s2_def)
  next
    case (Some c)
    let ?r = "append_memory_checkpoint (c\<lparr>ck_sequence := rn_last_sequence run2\<rparr>) s2"
    have "ck_run_id c = it_run_id it" using assms(3) Some by simp
    note stamped = stamped_checkpoint_ok [OF ok2(1) run2 this]
    then have t: "log_ok (snd ?r)" "log_ext s (snd ?r)"
      using log_ext_trans [OF ok2(2)] by blast+
    have "commit_iteration now eid it st status sr vs es ck current its run s =
      (case ?r of (Inl e, t) \<Rightarrow> (Inl e, t)
       | (Inr _, t) \<Rightarrow> update_memory_loop_execution now eid st status sr (Some (lx_revision current)) t)"
      using Some run2 by (simp add: commit_iteration_def flip: s1_def s2_def)
    then show ?thesis
      using t upd [OF t] by (cases ?r) (auto split: sum.splits)
  qed
qed

lemma append_loop_iteration_ok:
  assumes "log_ok s" "\<forall>c. ck = Some c \<longrightarrow> ck_run_id c = it_run_id it"
  shows "log_ok (snd (append_loop_iteration now eid it st status sr rv vs es ck s)) \<and>
    log_ext s (snd (append_loop_iteration now eid it st status sr rv vs es ck s))"
  using commit_iteration_ok [OF assms(1) _ assms(2)] assms(1) same_log_ok same_log_ext
  by (cases rule: append_loop_iteration_cases
    [of now eid it st status sr rv vs es ck s]) auto

subsection \<open>Steps of the store\<close>

text \<open>One completed call, raising or not. Identifiers given to \<open>create_run\<close> and \<open>save_approval\<close> are
  fresh (the callers draw them from \<open>new_id\<close>), a new run starts at sequence 0 with an empty log, and
  the checkpoint of an iteration belongs to the iteration's run.\<close>

inductive store_step :: "store \<Rightarrow> store \<Rightarrow> bool" where
  step_create_run:
    "\<not> dhas (st_runs s) (rn_run_id run) \<Longrightarrow> events_of s (rn_run_id run) = [] \<Longrightarrow>
     rn_last_sequence run = 0 \<Longrightarrow> store_step s (snd (create_run run s))"
| step_update_run: "store_step s (snd (update_run now r state u s))"
| step_save_acceptance_policy: "store_step s (snd (save_acceptance_policy p s))"
| step_create_loop_execution: "store_step s (snd (create_loop_execution now x s))"
| step_update_loop_execution: "store_step s (snd (update_loop_execution now eid st status sr rv s))"
| step_append_loop_iteration:
    "\<forall>c. ck = Some c \<longrightarrow> ck_run_id c = it_run_id it \<Longrightarrow>
     store_step s (snd (append_loop_iteration now eid it st status sr rv vs es ck s))"
| step_save_verification: "store_step s (snd (save_verification v s))"
| step_create_project: "store_step s (snd (create_project p s))"
| step_create_task: "store_step s (snd (create_task tk s))"
| step_create_task_with_planning: "store_step s (snd (create_task_with_planning tk pr cx pf d s))"
| step_save_task_planning: "store_step s (snd (save_task_planning tid pr cx pf d s))"
| step_append_strategy_override: "store_step s (snd (append_strategy_override ov dopt s))"
| step_save_lease: "store_step s (snd (save_lease l s))"
| step_save_session: "store_step s (snd (save_session x s))"
| step_save_artifact: "store_step s (snd (save_artifact a s))"
| step_append_event: "store_step s (snd (append_event e s))"
| step_upsert_workflow_template: "store_step s (snd (upsert_workflow_template t s))"
| step_create_run_graph: "store_step s (snd (create_run_graph g s))"
| step_update_run_graph: "store_step s (snd (update_run_graph gid ns eds n s))"
| step_replace_run_graph: "store_step s (snd (replace_run_graph g n s))"
| step_append_checkpoint: "store_step s (snd (append_checkpoint c es s))"
| step_save_approval:
    "\<not> dhas (st_approvals s) (ar_approval_id a) \<Longrightarrow> store_step s (snd (save_approval a s))"
| step_decide_approval: "store_step s (snd (decide_approval now aid d s))"
| step_add_budget_spent: "store_step s (snd (add_budget_spent r turns calls s))"

abbreviation store_steps :: "store \<Rightarrow> store \<Rightarrow> bool" where
  "store_steps \<equiv> store_step\<^sup>*\<^sup>*"

lemma create_run_ok:
  assumes "log_ok s" "\<not> dhas (st_runs s) (rn_run_id run)" "events_of s (rn_run_id run) = []"
    "rn_last_sequence run = 0"
  shows "log_ok (snd (create_run run s)) \<and> log_ext s (snd (create_run run s))"
proof -
  have "events_of (snd (create_run run s)) = events_of s"
    "checkpoints_of (snd (create_run run s)) = checkpoints_of s"
    "last_seq (snd (create_run run s)) = (last_seq s)(rn_run_id run \<mapsto> 0)"
    using assms(4) by (auto simp: create_run_def events_of_def checkpoints_of_def last_seq_def
      fun_eq_iff)
  then show ?thesis
    using assms(1,3) by (auto simp: log_ok_def log_ext_def)
qed

lemma same_log_step: "same_log s t \<Longrightarrow> log_ok s \<Longrightarrow> log_ok t \<and> log_ext s t"
  using same_log_ok same_log_ext by blast

lemma store_step_log: "store_step s t \<Longrightarrow> log_ok s \<Longrightarrow> log_ok t \<and> log_ext s t"
proof (induction rule: store_step.induct)
  case (step_append_event s e)
  then show ?case
    using append_run_events_ok [of s "ev_run_id e" "[e]"] append_event_as_batch by simp
qed (unfold update_loop_execution_def update_run_graph_def,
  (rule create_run_ok append_loop_iteration_ok append_checkpoint_ok same_log_step log_frame |
   assumption)+)

lemma store_steps_log: "store_steps s t \<Longrightarrow> log_ok s \<Longrightarrow> log_ok t \<and> log_ext s t"
proof (induction rule: rtranclp_induct)
  case base
  then show ?case by simp
next
  case (step t u)
  then show ?case using store_step_log log_ext_trans by blast
qed

lemma empty_store_ok: "log_ok empty_store"
  by (simp add: log_ok_def empty_store_def events_of_def checkpoints_of_def last_seq_def dget_or_def)


subsection \<open>Evidence that never changes\<close>

lemma dict_eq_iff: "dict_eq a b \<longleftrightarrow> dget a = dget b"
proof
  assume *: "dict_eq a b"
  show "dget a = dget b"
  proof
    fix k
    show "dget a k = dget b k"
    proof (cases "k \<in> set (map fst a @ map fst b)")
      case True
      with * show ?thesis by (simp add: dict_eq_def)
    next
      case False
      then have "dget a k = None" "dget b k = None"
        unfolding map_of_eq_None_iff by auto
      then show ?thesis by simp
    qed
  qed
qed (simp add: dict_eq_def)

lemma policy_eq_refl [simp]: "policy_eq p p"
  by (simp add: policy_eq_def dict_eq_iff)

lemma policy_eq_trans: "policy_eq p q \<Longrightarrow> policy_eq q r \<Longrightarrow> policy_eq p r"
  by (simp add: policy_eq_def dict_eq_iff)

definition loops_evolve :: "store \<Rightarrow> store \<Rightarrow> bool" where
  "loops_evolve s t \<longleftrightarrow> (\<forall>eid x. dget (st_loop_executions s) eid = Some x \<longrightarrow>
     (\<exists>y. dget (st_loop_executions t) eid = Some y \<and> lx_revision x \<le> lx_revision y \<and>
       (terminal_loop (lx_status x) \<longrightarrow> y = x)))"

definition records_evolve :: "store \<Rightarrow> store \<Rightarrow> bool" where
  "records_evolve s t \<longleftrightarrow>
     (\<forall>aid a. dget (st_approvals s) aid = Some a \<and> ar_status a \<noteq> Appr_PENDING \<longrightarrow>
        dget (st_approvals t) aid = Some a) \<and>
     (\<forall>vid v. dget (st_verifications s) vid = Some v \<longrightarrow> dget (st_verifications t) vid = Some v) \<and>
     (\<forall>k w. dget (st_workflow_templates s) k = Some w \<longrightarrow> dget (st_workflow_templates t) k = Some w) \<and>
     (\<forall>pid p. dget (st_acceptance_policies s) pid = Some p \<longrightarrow>
        (\<exists>q. dget (st_acceptance_policies t) pid = Some q \<and> policy_eq p q))"

lemma loops_evolve_refl [simp]: "loops_evolve s s"
  by (simp add: loops_evolve_def)

lemma loops_evolve_trans: "loops_evolve s t \<Longrightarrow> loops_evolve t u \<Longrightarrow> loops_evolve s u"
  unfolding loops_evolve_def by (fastforce intro: order_trans)

lemma loops_evolve_same: "st_loop_executions t = st_loop_executions s \<Longrightarrow> loops_evolve s t"
  by (simp add: loops_evolve_def)

lemma records_evolve_refl [simp]: "records_evolve s s"
  by (simp add: records_evolve_def)

lemma records_evolve_trans: "records_evolve s t \<Longrightarrow> records_evolve t u \<Longrightarrow> records_evolve s u"
  unfolding records_evolve_def by (meson policy_eq_trans)

lemma records_evolve_same:
  "st_approvals t = st_approvals s \<Longrightarrow> st_verifications t = st_verifications s \<Longrightarrow>
   st_workflow_templates t = st_workflow_templates s \<Longrightarrow>
   st_acceptance_policies t = st_acceptance_policies s \<Longrightarrow> records_evolve s t"
  by (simp add: records_evolve_def)

named_theorems evolution

lemmas evolve_same_intros = loops_evolve_same records_evolve_same

lemma evolve_create_run [evolution]:
  "loops_evolve s (snd (create_run run s))" "records_evolve s (snd (create_run run s))"
  by (auto simp: create_run_def intro!: evolve_same_intros)

lemma evolve_update_run [evolution]:
  "loops_evolve s (snd (update_run now r st u s))" "records_evolve s (snd (update_run now r st u s))"
  by (auto simp: update_run_def Let_def intro!: evolve_same_intros split: option.splits)

lemma evolve_save_acceptance_policy [evolution]:
  "loops_evolve s (snd (save_acceptance_policy p s))"
  "records_evolve s (snd (save_acceptance_policy p s))"
  by (auto simp: save_acceptance_policy_def records_evolve_def intro!: loops_evolve_same
    split: option.splits)

lemma evolve_create_loop_execution [evolution]:
  "loops_evolve s (snd (create_loop_execution now x s))"
  "records_evolve s (snd (create_loop_execution now x s))"
proof -
  show "records_evolve s (snd (create_loop_execution now x s))"
    by (auto simp: create_loop_execution_def Let_def intro!: records_evolve_same split: option.splits)
  show "loops_evolve s (snd (create_loop_execution now x s))"
    by (auto simp: create_loop_execution_def Let_def loops_evolve_def dest: dget_dhas
      split: option.splits)
qed

lemma evolve_update_memory_loop_execution [evolution]:
  "loops_evolve s (snd (update_memory_loop_execution now eid st status sr rv s))"
  "records_evolve s (snd (update_memory_loop_execution now eid st status sr rv s))"
proof -
  show "records_evolve s (snd (update_memory_loop_execution now eid st status sr rv s))"
    by (auto simp: update_memory_loop_execution_def Let_def intro!: records_evolve_same
      split: option.splits)
  show "loops_evolve s (snd (update_memory_loop_execution now eid st status sr rv s))"
    by (auto simp: update_memory_loop_execution_def Let_def loops_evolve_def split: option.splits)
qed

lemma loops_record_verifications [simp]:
  "st_loop_executions (fold record_verification vs s) = st_loop_executions s"
  by (induction vs arbitrary: s) (auto simp: record_verification_def)

lemma records_record_verification:
  "\<not> dhas (st_verifications s) (vr_verification_id v) \<Longrightarrow> records_evolve s (record_verification v s)"
  by (auto simp: record_verification_def records_evolve_def dest: dget_dhas)

lemma verifications_record_verification:
  "st_verifications (record_verification v s) = dset (vr_verification_id v) v (st_verifications s)"
  by (simp add: record_verification_def)

lemma records_record_verifications:
  assumes "\<forall>v \<in> set vs. \<not> dhas (st_verifications s) (vr_verification_id v)"
    "distinct (map vr_verification_id vs)"
  shows "records_evolve s (fold record_verification vs s)"
  using assms
proof (induction vs arbitrary: s)
  case Nil
  then show ?case by simp
next
  case (Cons v vs)
  have "\<forall>w \<in> set vs. \<not> dhas (st_verifications (record_verification v s)) (vr_verification_id w)"
  proof
    fix w assume w: "w \<in> set vs"
    then have "vr_verification_id w \<noteq> vr_verification_id v" using Cons.prems(2) by (auto simp: image_iff)
    with w Cons.prems(1) show "\<not> dhas (st_verifications (record_verification v s)) (vr_verification_id w)"
      unfolding verifications_record_verification dhas_dset by simp
  qed
  from Cons.IH [OF this] Cons.prems have "records_evolve (record_verification v s)
    (fold record_verification (v # vs) s)" by simp
  with records_record_verification Cons.prems(1) show ?case
    by (meson list.set_intros(1) records_evolve_trans)
qed

lemma evolve_save_verification [evolution]:
  "loops_evolve s (snd (save_verification v s))" "records_evolve s (snd (save_verification v s))"
  by (auto simp: save_verification_def map_of_eq_None_iff record_verification_def
    intro!: loops_evolve_same records_record_verification [unfolded record_verification_def]
    split: option.splits)

lemma evolve_append_run_events:
  "loops_evolve s (append_run_events r es s)" "records_evolve s (append_run_events r es s)"
  by (auto simp: append_run_events_def Let_def intro!: evolve_same_intros)

lemma evolve_append_event [evolution]:
  "loops_evolve s (snd (append_event e s))" "records_evolve s (snd (append_event e s))"
  by (auto simp: append_event_def Let_def intro!: evolve_same_intros)

lemma evolve_append_memory_checkpoint:
  "loops_evolve s (snd (append_memory_checkpoint c s))"
  "records_evolve s (snd (append_memory_checkpoint c s))"
  by (auto simp: append_memory_checkpoint_def Let_def intro!: evolve_same_intros
    split: option.splits)

lemma evolve_append_checkpoint [evolution]:
  "loops_evolve s (snd (append_checkpoint c es s))"
  "records_evolve s (snd (append_checkpoint c es s))"
  unfolding append_checkpoint_def Let_def
  by (auto split: option.splits intro: loops_evolve_trans records_evolve_trans
    evolve_append_run_events evolve_append_memory_checkpoint)

lemma evolve_upsert_workflow_template [evolution]:
  "loops_evolve s (snd (upsert_workflow_template t s))"
  "records_evolve s (snd (upsert_workflow_template t s))"
  by (auto simp: upsert_workflow_template_def Let_def records_evolve_def intro!: loops_evolve_same
    split: option.splits)

lemma evolve_graph_ops [evolution]:
  "loops_evolve s (snd (create_run_graph g s))" "records_evolve s (snd (create_run_graph g s))"
  "loops_evolve s (snd (update_memory_run_graph gid ns eds n s))"
  "records_evolve s (snd (update_memory_run_graph gid ns eds n s))"
  "loops_evolve s (snd (replace_run_graph g n s))" "records_evolve s (snd (replace_run_graph g n s))"
  by (auto simp: create_run_graph_def update_memory_run_graph_def replace_run_graph_def Let_def
    intro!: evolve_same_intros split: option.splits sum.splits)

lemma loops_approval_ops [evolution]:
  "loops_evolve s (snd (save_approval a s))" "loops_evolve s (snd (decide_approval now aid d s))"
  "loops_evolve s (snd (add_budget_spent r turns calls s))"
  by (auto simp: save_approval_def decide_approval_def add_budget_spent_def Let_def split_beta
    intro!: loops_evolve_same split: option.splits)

lemma evolve_planning_ops [evolution]:
  "loops_evolve s (snd (create_project p s))" "records_evolve s (snd (create_project p s))"
  "loops_evolve s (snd (create_task tk s))" "records_evolve s (snd (create_task tk s))"
  "loops_evolve s (snd (create_task_with_planning tk pr cx pf d s))" "records_evolve s (snd (create_task_with_planning tk pr cx pf d s))"
  "loops_evolve s (snd (save_task_planning tid pr cx pf d s))" "records_evolve s (snd (save_task_planning tid pr cx pf d s))"
  "loops_evolve s (snd (append_strategy_override ov dopt s))" "records_evolve s (snd (append_strategy_override ov dopt s))"
  "loops_evolve s (snd (save_lease l s))" "records_evolve s (snd (save_lease l s))"
  "loops_evolve s (snd (save_session x s))" "records_evolve s (snd (save_session x s))"
  by (auto simp: create_project_def create_task_def create_task_with_planning_def save_task_planning_def
    append_strategy_override_def save_lease_def save_session_def record_planning_def Let_def
    intro!: evolve_same_intros split: option.splits sum.splits)

lemma evolve_save_artifact [evolution]:
  "loops_evolve s (snd (save_artifact a s))" "records_evolve s (snd (save_artifact a s))"
  by (auto simp: save_artifact_def intro!: evolve_same_intros)

lemma records_save_approval [evolution]:
  "\<not> dhas (st_approvals s) (ar_approval_id a) \<Longrightarrow> records_evolve s (snd (save_approval a s))"
  by (auto simp: save_approval_def Let_def records_evolve_def dest: dget_dhas split: option.splits)

lemma records_decide_approval [evolution]: "records_evolve s (snd (decide_approval now aid d s))"
  by (auto simp: decide_approval_def Let_def records_evolve_def split: option.splits)

lemma records_add_budget_spent [evolution]: "records_evolve s (snd (add_budget_spent r turns calls s))"
  by (auto simp: add_budget_spent_def Let_def split_beta intro!: records_evolve_same)


lemma iteration_guard_distinct:
  "iteration_guard eid it st rv vs es s current its \<Longrightarrow> distinct (map vr_verification_id vs)"
  using length_card_set_distinct [of "map vr_verification_id vs"]
  by (auto simp: iteration_guard_def validate_iteration_evidence_def Let_def split: if_splits)

lemma guard_records:
  assumes "iteration_guard eid it st rv vs es s current its"
  shows "loops_evolve s (fold record_verification vs
      (s\<lparr>st_loop_iterations := dset eid (its @ [it]) (st_loop_iterations s)\<rparr>))"
    and "records_evolve s (fold record_verification vs
      (s\<lparr>st_loop_iterations := dset eid (its @ [it]) (st_loop_iterations s)\<rparr>))"
proof -
  let ?s0 = "s\<lparr>st_loop_iterations := dset eid (its @ [it]) (st_loop_iterations s)\<rparr>"
  show "loops_evolve s (fold record_verification vs ?s0)"
    by (rule loops_evolve_same) simp
  have "records_evolve s ?s0" by (rule records_evolve_same) simp_all
  moreover have "records_evolve ?s0 (fold record_verification vs ?s0)"
    by (rule records_record_verifications)
      (use assms iteration_guard_distinct in \<open>auto simp: iteration_guard_def\<close>)
  ultimately show "records_evolve s (fold record_verification vs ?s0)"
    by (rule records_evolve_trans)
qed

lemma evolve_commit_iteration:
  assumes "iteration_guard eid it st rv vs es s current its"
  shows "loops_evolve s (snd (commit_iteration now eid it st status sr vs es ck current its run s)) \<and>
    records_evolve s (snd (commit_iteration now eid it st status sr vs es ck current its run s))"
proof -
  define s1 where "s1 = fold record_verification vs
    (s\<lparr>st_loop_iterations := dset eid (its @ [it]) (st_loop_iterations s)\<rparr>)"
  define s2 where "s2 = append_run_events (it_run_id it) es s1"
  have s2: "loops_evolve s s2 \<and> records_evolve s s2"
    unfolding s2_def s1_def
    using guard_records [OF assms] evolve_append_run_events loops_evolve_trans records_evolve_trans
    by blast
  have upd: "loops_evolve s (snd (update_memory_loop_execution now eid st status sr rv t)) \<and>
      records_evolve s (snd (update_memory_loop_execution now eid st status sr rv t))"
    if "loops_evolve s t \<and> records_evolve s t" for t rv
    using that evolve_update_memory_loop_execution loops_evolve_trans records_evolve_trans by blast
  have ck: "loops_evolve s (snd (append_memory_checkpoint c s2)) \<and>
      records_evolve s (snd (append_memory_checkpoint c s2))" for c
    using s2 evolve_append_memory_checkpoint loops_evolve_trans records_evolve_trans by blast
  show ?thesis
  proof (cases ck)
    case None
    then show ?thesis using upd [OF s2] by (simp add: commit_iteration_def flip: s1_def s2_def)
  next
    case (Some c)
    let ?run2 = "case dget (st_runs s2) (it_run_id it) of Some r \<Rightarrow> r | None \<Rightarrow> run"
    obtain out t where r:
      "append_memory_checkpoint (c\<lparr>ck_sequence := rn_last_sequence ?run2\<rparr>) s2 = (out, t)"
      by force
    have t: "loops_evolve s t \<and> records_evolve s t"
      using ck [of "c\<lparr>ck_sequence := rn_last_sequence ?run2\<rparr>"] unfolding r by simp
    have "commit_iteration now eid it st status sr vs es ck current its run s =
      (case out of Inl e \<Rightarrow> (Inl e, t)
       | Inr _ \<Rightarrow> update_memory_loop_execution now eid st status sr (Some (lx_revision current)) t)"
      using Some r by (simp add: commit_iteration_def flip: s1_def s2_def split: sum.splits)
    then show ?thesis using t upd [OF t] by (simp split: sum.splits)
  qed
qed

lemma evolve_append_loop_iteration [evolution]:
  "loops_evolve s (snd (append_loop_iteration now eid it st status sr rv vs es ck s))"
  "records_evolve s (snd (append_loop_iteration now eid it st status sr rv vs es ck s))"
proof -
  have "loops_evolve s (snd (append_loop_iteration now eid it st status sr rv vs es ck s)) \<and>
    records_evolve s (snd (append_loop_iteration now eid it st status sr rv vs es ck s))"
  proof (cases rule: append_loop_iteration_cases [of now eid it st status sr rv vs es ck s])
    case (no_run current its t)
    have "t = (let s1 = fold record_verification vs
       (s\<lparr>st_loop_iterations := dset eid (its @ [it]) (st_loop_iterations s)\<rparr>) in
       s1\<lparr>st_run_events := dset (it_run_id it) (events_of s1 (it_run_id it)) (st_run_events s1)\<rparr>)"
      using no_run(1,2,3) distinct_card [of "map ev_event_id es"]
      by (cases rv) (simp_all add: append_loop_iteration_def iteration_guard_def list_ex_iff Let_def)
    then have "loops_evolve (fold record_verification vs
        (s\<lparr>st_loop_iterations := dset eid (its @ [it]) (st_loop_iterations s)\<rparr>)) t \<and>
      records_evolve (fold record_verification vs
        (s\<lparr>st_loop_iterations := dset eid (its @ [it]) (st_loop_iterations s)\<rparr>)) t"
      by (auto simp: Let_def intro!: evolve_same_intros)
    with guard_records [OF no_run(1)] show ?thesis
      unfolding no_run(3) snd_conv using loops_evolve_trans records_evolve_trans by blast
  next
    case (commit current its run)
    then show ?thesis using evolve_commit_iteration by simp
  qed simp
  then show "loops_evolve s (snd (append_loop_iteration now eid it st status sr rv vs es ck s))"
    "records_evolve s (snd (append_loop_iteration now eid it st status sr rv vs es ck s))" by blast+
qed

lemma store_step_evolves: "store_step s t \<Longrightarrow> loops_evolve s t \<and> records_evolve s t"
  by (induction rule: store_step.induct)
    (unfold update_loop_execution_def update_run_graph_def, (rule conjI evolution | assumption)+)

lemma store_steps_evolve: "store_steps s t \<Longrightarrow> loops_evolve s t \<and> records_evolve s t"
proof (induction rule: rtranclp_induct)
  case base
  then show ?case by simp
next
  case (step t u)
  then show ?case using store_step_evolves loops_evolve_trans records_evolve_trans by blast
qed

end
