(* ===== verification/Store_Properties.thy ===== *)
theory Store_Properties
  imports Store_Invariants
begin

text \<open>
  What the rest of the service relies on in \<open>MemoryStore\<close>: the event stream of a run can be resumed
  from any cursor without loss or duplication, committed evidence never changes, conditional writes
  have at most one winner, an iteration commit is all of its parts, and one place where it is not.
\<close>

subsection \<open>A small run\<close>

definition sample_run :: Run where
  "sample_run = \<lparr>rn_run_id = ''run_1'', rn_task_id = ''task_1'', rn_project_id = ''p'',
     rn_provider = Prov_CODEX, rn_state = Run_RUNNING, rn_principal_id = None, rn_last_sequence = 0,
     rn_revision = 0, rn_session_id = None, rn_workspace_lease_id = None,
     rn_strategy_decision_id = None, rn_execution_mode = None, rn_workflow_template_id = None,
     rn_acceptance_policy_id = None, rn_loop_execution_id = None, rn_error = None,
     rn_created_at = 0, rn_updated_at = 0\<rparr>"

definition sample_event :: "string \<Rightarrow> AgentEvent" where
  "sample_event eid = \<lparr>ev_event_id = eid, ev_run_id = ''run_1'', ev_session_id = ''s'',
     ev_provider = Prov_CODEX, ev_native_type = ''n'', ev_normalized_type = Ev_RUN_STARTED,
     ev_sequence = 0, ev_timestamp = 0, ev_correlation_id = ''c'', ev_causation_id = None,
     ev_node_id = None, ev_payload = [], ev_adapter_version = ''1''\<rparr>"

definition sample_store :: store where
  "sample_store = snd (append_event (sample_event ''e2'')
     (snd (append_event (sample_event ''e1'') (snd (create_run sample_run empty_store)))))"

lemma sample_store_step: "store_steps empty_store sample_store"
proof -
  have "store_step empty_store (snd (create_run sample_run empty_store))"
    by (rule step_create_run)
      (simp_all add: empty_store_def sample_run_def events_of_def dget_or_def)
  then have "store_steps empty_store (snd (create_run sample_run empty_store))" by blast
  moreover have "store_steps t (snd (append_event e t))" for e t
    using step_append_event by blast
  ultimately show ?thesis unfolding sample_store_def by (meson rtranclp_trans)
qed

subsection \<open>The event stream\<close>

text \<open>C3: In every store reachable from the empty one, whatever operations ran and whichever of them
  raised: the events of each run are numbered 1, 2, 3, ... in storage order, a run's
  \<open>last_sequence\<close> is the length of its log, and its checkpoints carry distinct sequence numbers that
  never exceed that length.\<close>

theorem store_log_invariant:
  assumes "store_steps empty_store s"
  shows "log_ok s"
  using store_steps_log [OF assms empty_store_ok] by blast

theorem store_log_invariant_witness: "log_ok sample_store"
  using store_log_invariant [OF sample_store_step] .

text \<open>C13: Resumption. A reader that holds cursor \<open>c\<close> gets exactly the entries after the first \<open>c\<close>; and
  if it had read a run's whole log when the run's last sequence was \<open>n\<close>, then after any further
  operations \<open>list_events(run, after=n)\<close> returns precisely the events added since: nothing is lost,
  repeated or renumbered.\<close>

theorem event_stream_resume:
  assumes "store_steps empty_store s" "store_steps s t" "0 \<le> c" "last_seq s r = Some n"
  shows "list_events t r c = drop (nat c) (list_events t r 0) \<and>
    list_events s r 0 @ list_events t r n = list_events t r 0"
proof -
  have ok: "log_ok s" "log_ok t" "log_ext s t"
    using store_steps_log [OF assms(1) empty_store_ok] store_steps_log [OF assms(2)] by blast+
  have after: "list_events u r k = drop (nat k) (events_of u r)" if "log_ok u" "0 \<le> k" for u k
    unfolding list_events_def
    by (rule run_log.filter_after_cursor [OF log_okD(1) [OF that(1)] that(2)])
  have "list_events t r c = drop (nat c) (list_events t r 0)"
    using after [OF ok(2) assms(3)] after [OF ok(2), of 0] by simp
  moreover
  have n: "n = int (length (events_of s r))" using log_okD(2) [OF ok(1) assms(4)] .
  obtain more where "events_of t r = events_of s r @ more"
    using ok(3) unfolding log_ext_def prefix_def by blast
  with n have "list_events s r 0 @ list_events t r n = list_events t r 0"
    using after [OF ok(1), of 0] after [OF ok(2), of n] after [OF ok(2), of 0] by simp
  ultimately show ?thesis by blast
qed

lemma sample_last_seq: "last_seq (snd (create_run sample_run empty_store)) ''run_1'' = Some 0"
  by (simp add: create_run_def empty_store_def sample_run_def last_seq_def)

theorem event_stream_resume_witness:
  "list_events sample_store ''run_1'' 1 = [(sample_event ''e2'')\<lparr>ev_sequence := 2\<rparr>] \<and>
   last_seq sample_store ''run_1'' = Some 2"
proof -
  have all: "list_events sample_store ''run_1'' 0 =
    [(sample_event ''e1'')\<lparr>ev_sequence := 1\<rparr>, (sample_event ''e2'')\<lparr>ev_sequence := 2\<rparr>]"
    and seq: "last_seq sample_store ''run_1'' = Some 2"
    by (simp_all add: sample_store_def append_event_def create_run_def empty_store_def sample_run_def
      sample_event_def list_events_def events_of_def dget_or_def push_event_def number_event_def
      set_last_sequence_def last_seq_def Let_def)
  have "list_events sample_store ''run_1'' 1 = drop (nat 1) (list_events sample_store ''run_1'' 0)"
    by (rule event_stream_resume [OF sample_store_step rtranclp.rtrancl_refl _ seq, THEN conjunct1]) simp
  with all seq show ?thesis by simp
qed

subsection \<open>Committed evidence\<close>

text \<open>C14: Under any further operations a loop execution that has reached a terminal status keeps every
  field, a live one never disappears and its revision never decreases; a decided approval, a stored
  verification and a registered workflow template stay as they are, and a stored acceptance policy
  stays equal to itself.\<close>

theorem committed_evidence_is_immutable:
  assumes "store_steps s t"
  shows "(\<forall>eid x. dget (st_loop_executions s) eid = Some x \<longrightarrow>
      (\<exists>y. dget (st_loop_executions t) eid = Some y \<and> lx_revision x \<le> lx_revision y \<and>
        (terminal_loop (lx_status x) \<longrightarrow> y = x))) \<and>
    (\<forall>aid a. dget (st_approvals s) aid = Some a \<and> ar_status a \<noteq> Appr_PENDING \<longrightarrow>
      dget (st_approvals t) aid = Some a) \<and>
    (\<forall>vid v. dget (st_verifications s) vid = Some v \<longrightarrow> dget (st_verifications t) vid = Some v) \<and>
    (\<forall>k w. dget (st_workflow_templates s) k = Some w \<longrightarrow>
      dget (st_workflow_templates t) k = Some w) \<and>
    (\<forall>pid p. dget (st_acceptance_policies s) pid = Some p \<longrightarrow>
      (\<exists>q. dget (st_acceptance_policies t) pid = Some q \<and> policy_eq p q))"
  using store_steps_evolve [OF assms] unfolding loops_evolve_def records_evolve_def by blast

definition sample_approval :: ApprovalRecord where
  "sample_approval = \<lparr>ar_approval_id = ''ap_1'', ar_run_id = ''run_1'', ar_node_id = None,
     ar_native_request_id = ''req_1'', ar_method = ''exec'', ar_summary = ''rm'', ar_payload = [],
     ar_status = Appr_PENDING, ar_decision = None, ar_created_at = 0, ar_decided_at = None\<rparr>"

definition decided_store :: store where
  "decided_store = snd (decide_approval 5 ''ap_1'' Dec_DENY (snd (save_approval sample_approval sample_store)))"

definition denied_approval :: ApprovalRecord where
  "denied_approval = sample_approval\<lparr>ar_status := Appr_DENIED, ar_decision := Some Dec_DENY,
     ar_decided_at := Some 5\<rparr>"

lemmas sample_defs = sample_store_def append_event_def create_run_def empty_store_def sample_run_def
  sample_event_def events_of_def dget_or_def push_event_def number_event_def set_last_sequence_def
  last_seq_def

theorem committed_evidence_is_immutable_witness:
  "dget (st_approvals decided_store) ''ap_1'' = Some denied_approval \<and>
   dget (st_approvals (snd (decide_approval 6 ''ap_1'' Dec_APPROVE decided_store))) ''ap_1'' =
     Some denied_approval"
proof -
  have 1: "dget (st_approvals decided_store) ''ap_1'' = Some denied_approval"
    by (simp add: decided_store_def denied_approval_def decide_approval_def save_approval_def
      sample_approval_def sample_defs Let_def)
  have "store_steps decided_store (snd (decide_approval 6 ''ap_1'' Dec_APPROVE decided_store))"
    by (simp add: r_into_rtranclp step_decide_approval)
  from committed_evidence_is_immutable [OF this] 1 show ?thesis
    by (simp add: denied_approval_def)
qed


subsection \<open>Conditional writes\<close>

text \<open>The number of writes of a sequence that succeed when all of them name revision \<open>n\<close>.\<close>

fun winners :: "(int \<Rightarrow> 'w \<Rightarrow> 's \<Rightarrow> 'a res \<times> 's) \<Rightarrow> int \<Rightarrow> 'w list \<Rightarrow> 's \<Rightarrow> nat" where
  "winners put n [] s = 0"
| "winners put n (w # ws) s =
    (case put n w s of
       (Inl _, t) \<Rightarrow> winners put n ws t
     | (Inr _, t) \<Rightarrow> Suc (winners put n ws t))"

locale conditional_update =
  fixes inv :: "'s \<Rightarrow> bool"
    and revision :: "'s \<Rightarrow> int option"
    and put :: "int \<Rightarrow> 'w \<Rightarrow> 's \<Rightarrow> 'a res \<times> 's"
  assumes write_succeeds: "inv s \<Longrightarrow> put n w s = (Inr a, t) \<Longrightarrow>
      revision s = Some n \<and> revision t = Some (n + 1) \<and> inv t"
    and write_raises: "inv s \<Longrightarrow> put n w s = (Inl e, t) \<Longrightarrow> t = s"
begin

lemma stale_write_loses:
  assumes "inv s" "revision s \<noteq> Some n"
  shows "\<exists>e. put n w s = (Inl e, s)"
proof (cases "put n w s")
  case (Pair out t)
  show ?thesis
  proof (cases out)
    case (Inl e)
    then show ?thesis using Pair write_raises [OF assms(1)] by blast
  next
    case (Inr a)
    then show ?thesis using Pair write_succeeds [OF assms(1)] assms(2) by blast
  qed
qed

lemma no_winner_when_stale: "inv s \<Longrightarrow> revision s \<noteq> Some n \<Longrightarrow> winners put n ws s = 0"
proof (induction ws arbitrary: s)
  case (Cons w ws)
  then obtain e where "put n w s = (Inl e, s)" using stale_write_loses by blast
  with Cons show ?case by simp
qed simp

lemma at_most_one_winner: "inv s \<Longrightarrow> winners put n ws s \<le> 1"
proof (induction ws arbitrary: s)
  case (Cons w ws)
  obtain out t where w: "put n w s = (out, t)" by force
  show ?case
  proof (cases out)
    case (Inl e)
    then have "t = s" using w write_raises [OF Cons.prems] by blast
    with Inl w Cons show ?thesis by simp
  next
    case (Inr a)
    then have "revision t = Some (n + 1)" "inv t" using w write_succeeds [OF Cons.prems] by blast+
    then have "winners put n ws t = 0" by (intro no_winner_when_stale) simp_all
    with Inr w show ?thesis by simp
  qed
qed simp

end

definition write_loop ::
  "string \<Rightarrow> int \<Rightarrow> timestamp \<times> LoopState \<times> LoopExecutionStatus option \<times> LoopStopReason option \<Rightarrow>
     LoopExecution op" where
  "write_loop eid n = (\<lambda>(now, st, status, sr). update_loop_execution now eid st status sr (Some n))"

interpretation loop_cas: conditional_update
  "\<lambda>_. True" "\<lambda>s. map_option lx_revision (dget (st_loop_executions s) eid)" "write_loop eid"
  for eid
  by unfold_locales
    (auto simp: write_loop_def update_loop_execution_def update_memory_loop_execution_def Let_def
      split: option.splits if_splits)

text \<open>Run graphs are stored under their run, one per run.\<close>

definition graphs_ok :: "store \<Rightarrow> bool" where
  "graphs_ok s \<longleftrightarrow> distinct (map fst (st_run_graphs s)) \<and>
     (\<forall>(k, g) \<in> set (st_run_graphs s). rg_run_id g = k)"

lemma graphs_ok_dset:
  "graphs_ok s \<Longrightarrow> rg_run_id g = k \<Longrightarrow> st_run_graphs t = dset k g (st_run_graphs s) \<Longrightarrow> graphs_ok t"
  using set_dset_subset [of k g "st_run_graphs s"]
  by (auto simp: graphs_ok_def distinct_update)

lemma graphs_ok_put:
  "graphs_ok s \<Longrightarrow> rg_run_id g = k \<Longrightarrow> graphs_ok (s\<lparr>st_run_graphs := dset k g (st_run_graphs s)\<rparr>)"
  by (rule graphs_ok_dset) simp_all

lemma graphs_ok_same: "graphs_ok s \<Longrightarrow> st_run_graphs t = st_run_graphs s \<Longrightarrow> graphs_ok t"
  by (simp add: graphs_ok_def)

lemma find_dset:
  "distinct (map fst d) \<Longrightarrow> \<forall>(k, x) \<in> set d. key x = k \<Longrightarrow> find P (dvalues d) = Some g \<Longrightarrow> P v \<Longrightarrow>
   find P (dvalues (dset (key g) v d)) = Some v"
proof (induction d)
  case (Cons p d)
  obtain k x where p: "p = (k, x)" by force
  show ?case
  proof (cases "P x")
    case True
    with Cons.prems p show ?thesis by auto
  next
    case False
    with Cons.prems p have g: "find P (dvalues d) = Some g" by simp
    then obtain k' where "(k', g) \<in> set d" using find_eq_SomeD [OF g] by auto
    with Cons.prems(1,2) p have "key g \<noteq> k" by force
    with False g Cons p show ?thesis by simp
  qed
qed simp

definition graph_revision_of :: "string \<Rightarrow> store \<Rightarrow> int option" where
  "graph_revision_of gid s = map_option rg_graph_revision
     (find (\<lambda>g. rg_run_graph_id g = gid) (dvalues (st_run_graphs s)))"

definition write_graph :: "string \<Rightarrow> int \<Rightarrow> RunNode list \<times> RunEdge list \<Rightarrow> RunGraph op" where
  "write_graph gid n = (\<lambda>(ns, es). update_run_graph gid ns es n)"

lemma update_run_graph_Inr:
  assumes "update_memory_run_graph gid ns es n s = (Inr u, t)"
  obtains g where "find (\<lambda>g. rg_run_graph_id g = gid) (dvalues (st_run_graphs s)) = Some g"
    "rg_graph_revision g = n" "rg_run_graph_id u = gid" "rg_run_id u = rg_run_id g"
    "rg_graph_revision u = n + 1" "t = s\<lparr>st_run_graphs := dset (rg_run_id g) u (st_run_graphs s)\<rparr>"
proof (cases "find (\<lambda>g. rg_run_graph_id g = gid) (dvalues (st_run_graphs s))")
  case None
  then show ?thesis using assms by (simp add: update_memory_run_graph_def)
next
  case (Some g)
  then show ?thesis
    using assms find_eq_SomeD [OF Some]
    by (intro that [of g])
      (auto simp: update_memory_run_graph_def bind_res_eq_Inr split: if_splits sum.splits)
qed

lemma update_run_graph_Inl: "update_memory_run_graph gid ns es n s = (Inl e, t) \<Longrightarrow> t = s"
  by (auto simp: update_memory_run_graph_def split: option.splits if_splits sum.splits)

interpretation graph_cas: conditional_update graphs_ok "graph_revision_of gid" "write_graph gid"
  for gid
proof unfold_locales
  fix s n w a t
  assume ok: "graphs_ok s" and w: "write_graph gid n w s = (Inr a, t)"
  obtain ns es where ns: "w = (ns, es)" by force
  from w ns have "update_memory_run_graph gid ns es n s = (Inr a, t)"
    by (simp add: write_graph_def update_run_graph_def)
  then obtain g where g: "find (\<lambda>g. rg_run_graph_id g = gid) (dvalues (st_run_graphs s)) = Some g"
    "rg_graph_revision g = n" "rg_run_graph_id a = gid" "rg_run_id a = rg_run_id g"
    "rg_graph_revision a = n + 1" "t = s\<lparr>st_run_graphs := dset (rg_run_id g) a (st_run_graphs s)\<rparr>"
    by (rule update_run_graph_Inr)
  have "find (\<lambda>g. rg_run_graph_id g = gid)
      (dvalues (dset (rg_run_id g) a (st_run_graphs s))) = Some a"
    by (rule find_dset [where key = rg_run_id]) (use ok g in \<open>auto simp: graphs_ok_def\<close>)
  then show "graph_revision_of gid s = Some n \<and> graph_revision_of gid t = Some (n + 1) \<and> graphs_ok t"
    using g graphs_ok_dset [OF ok, of a "rg_run_id g" t] by (simp add: graph_revision_of_def)
next
  show "write_graph gid n w s = (Inl e, t) \<Longrightarrow> t = s" for s n w e t
    using update_run_graph_Inl by (simp add: write_graph_def update_run_graph_def split_beta)
qed

definition rewrite_graph :: "string \<Rightarrow> int \<Rightarrow> RunGraph \<Rightarrow> RunGraph op" where
  "rewrite_graph r n g = replace_run_graph (g\<lparr>rg_run_id := r\<rparr>) n"

interpretation replace_cas: conditional_update
  "\<lambda>_. True" "\<lambda>s. map_option rg_graph_revision (dget (st_run_graphs s) r)" "rewrite_graph r"
  for r
  by unfold_locales
    (auto simp: rewrite_graph_def replace_run_graph_def Let_def split: option.splits if_splits)


named_theorems graph_frame

lemma graphs_run_ops [graph_frame]:
  "st_run_graphs (snd (create_run run s)) = st_run_graphs s"
  "st_run_graphs (snd (update_run now r st u s)) = st_run_graphs s"
  "st_run_graphs (snd (save_acceptance_policy p s)) = st_run_graphs s"
  "st_run_graphs (snd (append_event e s)) = st_run_graphs s"
  "st_run_graphs (snd (upsert_workflow_template w s)) = st_run_graphs s"
  by (simp_all add: create_run_def update_run_def save_acceptance_policy_def append_event_def
    upsert_workflow_template_def Let_def split: option.splits)

lemma graphs_loop_ops [graph_frame]:
  "st_run_graphs (snd (create_loop_execution now x s)) = st_run_graphs s"
  "st_run_graphs (snd (update_memory_loop_execution now eid lst status sr rv s)) = st_run_graphs s"
  by (simp_all add: create_loop_execution_def update_memory_loop_execution_def Let_def
    split: option.splits)

lemma graphs_planning_ops [graph_frame]:
  "st_run_graphs (snd (create_project p s)) = st_run_graphs s"
  "st_run_graphs (snd (create_task tk s)) = st_run_graphs s"
  "st_run_graphs (snd (create_task_with_planning tk pr cx pf d s)) = st_run_graphs s"
  "st_run_graphs (snd (save_task_planning tid pr cx pf d s)) = st_run_graphs s"
  "st_run_graphs (snd (append_strategy_override ov dopt s)) = st_run_graphs s"
  "st_run_graphs (snd (save_lease l s)) = st_run_graphs s"
  "st_run_graphs (snd (save_session x s)) = st_run_graphs s"
  by (auto simp: create_project_def create_task_def create_task_with_planning_def save_task_planning_def
    append_strategy_override_def save_lease_def save_session_def record_planning_def Let_def
    split: option.splits sum.splits)

lemma graphs_approval_ops [graph_frame]:
  "st_run_graphs (snd (save_approval a s)) = st_run_graphs s"
  "st_run_graphs (snd (decide_approval now aid d s)) = st_run_graphs s"
  "st_run_graphs (snd (add_budget_spent r turns calls s)) = st_run_graphs s"
  "st_run_graphs (snd (save_verification v s)) = st_run_graphs s"
  "st_run_graphs (snd (save_artifact c s)) = st_run_graphs s"
  by (simp_all add: save_artifact_def save_approval_def decide_approval_def add_budget_spent_def save_verification_def
    record_verification_def Let_def split_beta split: option.splits)

lemma graphs_memory_checkpoint [graph_frame]:
  "st_run_graphs (snd (append_memory_checkpoint c s)) = st_run_graphs s"
  "st_run_graphs (append_run_events r es s) = st_run_graphs s"
  by (simp_all add: append_memory_checkpoint_def append_run_events_def Let_def split: option.splits)

lemma graphs_record_verifications [graph_frame]:
  "st_run_graphs (fold record_verification vs s) = st_run_graphs s"
  by (induction vs arbitrary: s) (auto simp: record_verification_def)

lemma graphs_append_checkpoint [graph_frame]:
  "st_run_graphs (snd (append_checkpoint c es s)) = st_run_graphs s"
  by (simp add: append_checkpoint_def graph_frame Let_def split: option.splits)

lemma graphs_memory_checkpoint_pair:
  "append_memory_checkpoint c s = (out, t) \<Longrightarrow> st_run_graphs t = st_run_graphs s"
  using graphs_memory_checkpoint(1) [of c s] by simp

lemma graphs_append_loop_iteration [graph_frame]:
  "st_run_graphs (snd (append_loop_iteration now eid it lst status sr rv vs es ck s)) =
    st_run_graphs s"
  unfolding append_loop_iteration_def Let_def
  by (simp add: graph_frame split: option.splits sum.splits prod.splits)
    (auto simp: graph_frame dest!: graphs_memory_checkpoint_pair)

lemma graphs_ok_create: "graphs_ok s \<Longrightarrow> graphs_ok (snd (create_run_graph g s))"
  by (auto simp: create_run_graph_def intro: graphs_ok_put)

lemma graphs_ok_replace: "graphs_ok s \<Longrightarrow> graphs_ok (snd (replace_run_graph g n s))"
  by (auto simp: replace_run_graph_def Let_def intro: graphs_ok_put split: option.splits)

lemma graphs_ok_update:
  assumes "graphs_ok s"
  shows "graphs_ok (snd (update_memory_run_graph gid ns es n s))"
proof (cases "update_memory_run_graph gid ns es n s")
  case (Pair out t)
  show ?thesis
  proof (cases out)
    case (Inl e)
    then show ?thesis using Pair update_run_graph_Inl assms by fastforce
  next
    case (Inr u)
    then have "write_graph gid n (ns, es) s = (Inr u, t)"
      using Pair by (simp add: write_graph_def update_run_graph_def)
    then show ?thesis using graph_cas.write_succeeds [OF assms] Pair by fastforce
  qed
qed

lemma store_step_graphs_ok: "store_step s t \<Longrightarrow> graphs_ok s \<Longrightarrow> graphs_ok t"
  by (induction rule: store_step.induct)
    (unfold update_loop_execution_def update_run_graph_def,
      (rule graphs_ok_create graphs_ok_replace graphs_ok_update | assumption |
       (erule graphs_ok_same, rule graph_frame))+)

lemma store_steps_graphs_ok: "store_steps empty_store s \<Longrightarrow> graphs_ok s"
proof (induction rule: rtranclp_induct)
  case base
  then show ?case by (simp add: graphs_ok_def empty_store_def)
next
  case (step t u)
  then show ?case using store_step_graphs_ok by blast
qed

text \<open>C16: Optimistic concurrency. In a reachable store, of any sequence of writers that all name the
  same expected revision at most one succeeds, for loop-execution updates, for run-graph updates and
  for run-graph replacements alike; every other writer is refused and changes nothing.\<close>

theorem conditional_writes_have_one_winner:
  assumes "store_steps empty_store s"
  shows "winners (write_loop eid) n lws s \<le> 1 \<and> winners (write_graph gid) n gws s \<le> 1 \<and>
    winners (rewrite_graph r) n rws s \<le> 1"
  using loop_cas.at_most_one_winner graph_cas.at_most_one_winner [OF store_steps_graphs_ok [OF assms]]
    replace_cas.at_most_one_winner by blast


definition sample_graph :: RunGraph where
  "sample_graph = \<lparr>rg_run_graph_id = ''g_1'', rg_run_id = ''run_1'', rg_task_id = ''task_1'',
     rg_template_record_id = ''tr_1'', rg_template_id = ''tpl'', rg_template_version = ''1'',
     rg_template_checksum = ''abc'', rg_nodes = [], rg_edges = [], rg_graph_revision = 0\<rparr>"

definition sample_template :: WorkflowTemplate where
  "sample_template = \<lparr>tp_template_record_id = ''tr_1'', tp_template_id = ''tpl'', tp_version = ''1'',
     tp_mode = Mode_DIRECT, tp_input_schema = [], tp_nodes = [], tp_edges = [],
     tp_global_budget_policy = budget_default, tp_required_verifiers = [], tp_required_approval_gates = [],
     tp_checksum = ''abc'', tp_status = Tpl_VALIDATED\<rparr>"

definition graph_store :: store where
  "graph_store = snd (create_run_graph sample_graph
     (snd (upsert_workflow_template sample_template sample_store)))"

lemma graph_store_steps: "store_steps empty_store graph_store"
proof -
  have "store_steps t (snd (create_run_graph g t))" "store_steps t (snd (upsert_workflow_template w t))"
    for t g w
    using step_create_run_graph step_upsert_workflow_template by blast+
  then show ?thesis unfolding graph_store_def by (meson rtranclp_trans sample_store_step)
qed

theorem conditional_writes_have_one_winner_witness:
  "winners (write_graph ''g_1'') 0 [([], []), ([], [])] graph_store = 1"
proof -
  have "winners (write_graph ''g_1'') 0 [([], []), ([], [])] graph_store \<le> 1"
    using conditional_writes_have_one_winner [OF graph_store_steps] by blast
  moreover have "graph_revision_of ''g_1'' graph_store = Some 0"
    "\<exists>u t. write_graph ''g_1'' 0 ([], []) graph_store = (Inr u, t)"
    by (simp_all add: graph_store_def create_run_graph_def upsert_workflow_template_def
      sample_template_def sample_graph_def sample_defs Let_def graph_revision_of_def write_graph_def
      update_run_graph_def update_memory_run_graph_def dict_of_def)
  ultimately show ?thesis by (auto split: sum.splits prod.splits)
qed

subsection \<open>Committing an iteration\<close>

lemma update_memory_loop_execution_Inr:
  assumes "update_memory_loop_execution now eid st status sr rv s = (Inr x', t)"
    "dget (st_loop_executions s) eid = Some x"
  shows "lx_state x' = st \<and> lx_revision x' = lx_revision x + 1 \<and> lx_stop_reason x' = sr \<and>
    lx_status x' = (case status of None \<Rightarrow> lx_status x | Some v \<Rightarrow> v) \<and>
    t = s\<lparr>st_loop_executions := dset eid x' (st_loop_executions s)\<rparr>"
  using assms by (auto simp: update_memory_loop_execution_def Let_def split: if_splits)

lemma append_memory_checkpoint_Inr:
  assumes "append_memory_checkpoint c s = (Inr c', t)"
  shows "c' \<in> set (checkpoints_of t (ck_run_id c)) \<and> ck_sequence c' = ck_sequence c \<and>
    same_evidence c' c \<and> st_loop_executions t = st_loop_executions s \<and>
    st_loop_iterations t = st_loop_iterations s \<and> st_run_events t = st_run_events s \<and>
    st_verifications t = st_verifications s"
  using assms
  by (auto simp: append_memory_checkpoint_def checkpoints_of_def dget_or_def Let_def
    same_evidence_def dict_eq_iff split: option.splits if_splits dest: find_eq_SomeD)

lemma append_run_events_frame [simp]:
  "st_loop_executions (append_run_events r es s) = st_loop_executions s"
  "st_loop_iterations (append_run_events r es s) = st_loop_iterations s"
  "st_verifications (append_run_events r es s) = st_verifications s"
  by (simp_all add: append_run_events_def Let_def)

lemma iterations_record_verifications [simp]:
  "st_loop_iterations (fold record_verification vs s) = st_loop_iterations s"
  by (induction vs arbitrary: s) (auto simp: record_verification_def)

lemma verifications_record_verifications:
  "distinct (map vr_verification_id vs) \<Longrightarrow> v \<in> set vs \<Longrightarrow>
   dget (st_verifications (fold record_verification vs s)) (vr_verification_id v) = Some v"
proof (induction vs arbitrary: s)
  case (Cons w vs)
  show ?case
  proof (cases "v \<in> set vs")
    case True
    then show ?thesis using Cons by simp
  next
    case False
    then have "v = w" using Cons.prems(2) by simp
    have "dget (st_verifications (fold record_verification us t)) k = dget (st_verifications t) k"
      if "k \<notin> vr_verification_id ` set us" for us t k
      using that by (induction us arbitrary: t) (auto simp: record_verification_def)
    from this [of "vr_verification_id v" vs "record_verification w s"] show ?thesis
      using \<open>v = w\<close> Cons.prems(1) by (simp add: verifications_record_verification)
  qed
qed simp


text \<open>The stored iterations of a loop are numbered 1, 2, ..., and the loop state counts them.\<close>

definition loop_numbered :: "store \<Rightarrow> string \<Rightarrow> bool" where
  "loop_numbered s eid \<longleftrightarrow>
     (case dget (st_loop_executions s) eid of
        None \<Rightarrow> False
      | Some x \<Rightarrow>
          map it_number (list_loop_iterations s eid) =
            map int [1..<Suc (length (list_loop_iterations s eid))] \<and>
          ls_iteration (lx_state x) = int (length (list_loop_iterations s eid)))"

definition committed ::
  "string \<Rightarrow> LoopIteration \<Rightarrow> VerificationResult list \<Rightarrow> AgentEvent list \<Rightarrow> store \<Rightarrow> store \<Rightarrow> bool" where
  "committed eid it vs es s t \<longleftrightarrow>
     list_loop_iterations t eid = list_loop_iterations s eid @ [it] \<and>
     events_of t (it_run_id it) = push_events es (events_of s (it_run_id it)) \<and>
     (\<forall>v \<in> set vs. dget (st_verifications t) (vr_verification_id v) = Some v)"

lemma committed_s2:
  assumes "iteration_guard eid it st rv vs es s current its"
  defines "s2 \<equiv> append_run_events (it_run_id it) es (fold record_verification vs
      (s\<lparr>st_loop_iterations := dset eid (its @ [it]) (st_loop_iterations s)\<rparr>))"
  shows "committed eid it vs es s s2" and "st_loop_executions s2 = st_loop_executions s"
proof -
  have "list_loop_iterations s2 eid = list_loop_iterations s eid @ [it]"
    using assms(1) by (simp add: s2_def list_loop_iterations_def dget_or_def iteration_guard_def)
  moreover have "events_of s2 (it_run_id it) = push_events es (events_of s (it_run_id it))"
    by (simp add: s2_def events_of_append_run_events) (simp add: events_of_def)
  moreover have "dget (st_verifications s2) (vr_verification_id v) = Some v" if "v \<in> set vs" for v
    using verifications_record_verifications [OF iteration_guard_distinct [OF assms(1)] that]
    by (simp add: s2_def)
  ultimately show "committed eid it vs es s s2" by (simp add: committed_def)
  show "st_loop_executions s2 = st_loop_executions s" by (simp add: s2_def)
qed

lemma committed_frame:
  "committed eid it vs es s t \<Longrightarrow> st_loop_iterations u = st_loop_iterations t \<Longrightarrow>
   st_run_events u = st_run_events t \<Longrightarrow> st_verifications u = st_verifications t \<Longrightarrow>
   committed eid it vs es s u"
  by (simp add: committed_def list_loop_iterations_def events_of_def)

text \<open>The store just before the loop execution itself is updated: every other part is committed.\<close>

lemma commit_iteration_Inr:
  assumes g: "iteration_guard eid it st rv vs es s x its"
    and run: "dget (st_runs s) (it_run_id it) = Some run"
    and ok: "log_ok s"
    and call: "commit_iteration now eid it st status sr vs es ck x its run s = (Inr x', t)"
  obtains u where "committed eid it vs es s u" "st_loop_executions u = st_loop_executions s"
    "\<forall>c. ck = Some c \<longrightarrow> (\<exists>c' \<in> set (checkpoints_of u (ck_run_id c)). same_evidence c'
       (c\<lparr>ck_sequence := int (length (events_of s (it_run_id it)) + length es)\<rparr>))"
    "update_memory_loop_execution now eid st status sr (Some (lx_revision x)) u = (Inr x', t)"
proof -
  define s1 where "s1 = fold record_verification vs
    (s\<lparr>st_loop_iterations := dset eid (its @ [it]) (st_loop_iterations s)\<rparr>)"
  define s2 where "s2 = append_run_events (it_run_id it) es s1"
  note s2 = committed_s2 [OF g, folded s1_def, folded s2_def]
  have "same_log s (s\<lparr>st_loop_iterations := dset eid (its @ [it]) (st_loop_iterations s)\<rparr>)"
    by (intro same_logI last_seq_runs) simp_all
  then have "same_log s s1" unfolding s1_def
    using same_log_record_verifications same_log_trans by blast
  then have ok1: "log_ok s1" and ev1: "events_of s1 = events_of s"
    using ok same_log_ok by (auto simp: same_log_def)
  obtain run2 where run2: "dget (st_runs s2) (it_run_id it) = Some run2"
    "rn_last_sequence run2 = int (length (events_of s (it_run_id it)) + length es)"
    using runs_append_run_events [OF ok1, of "it_run_id it" run es] run push_events_facts(3)
    by (auto simp: s1_def s2_def ev1 [unfolded s1_def])
  show thesis
  proof (cases ck)
    case None
    then show thesis
      using call s2 that [of s2] by (simp add: commit_iteration_def flip: s1_def s2_def)
  next
    case (Some c)
    then obtain c' u where c':
      "append_memory_checkpoint (c\<lparr>ck_sequence := rn_last_sequence run2\<rparr>) s2 = (Inr c', u)"
      "update_memory_loop_execution now eid st status sr (Some (lx_revision x)) u = (Inr x', t)"
      using call run2(1)
      by (auto simp: commit_iteration_def simp flip: s1_def s2_def split: prod.splits sum.splits)
    note u = append_memory_checkpoint_Inr [OF c'(1)]
    show thesis
    proof (rule that [of u])
      show "committed eid it vs es s u" using committed_frame [OF s2(1)] u by blast
      show "st_loop_executions u = st_loop_executions s" using u s2(2) by simp
    qed (use c'(2) u Some run2(2) in auto)
  qed
qed

text \<open>C15: A successful \<open>append_loop_iteration\<close> commits all of its parts: the iteration is appended
  and is the next in number, its events are appended to the run's log with the next sequence numbers,
  its verifications are readable, the loop execution holds the new state with its revision raised by
  one, and the checkpoint, if one was given, is stored at the run's new last sequence. A loop whose
  iterations were numbered consecutively stays so.\<close>

theorem iteration_commit:
  assumes "append_loop_iteration now eid it st status sr rv vs es ck s = (Inr x', t)"
    and "log_ok s" and "dget (st_loop_executions s) eid = Some x"
  shows "committed eid it vs es s t \<and> dget (st_loop_executions t) eid = Some x' \<and>
    lx_state x' = st \<and> lx_revision x' = lx_revision x + 1 \<and> it_run_id it = lx_run_id x \<and>
    (\<forall>c. ck = Some c \<longrightarrow> (\<exists>c' \<in> set (checkpoints_of t (ck_run_id c)). same_evidence c'
       (c\<lparr>ck_sequence := int (length (events_of s (it_run_id it)) + length es)\<rparr>))) \<and>
    (loop_numbered s eid \<longrightarrow> loop_numbered t eid)"
proof -
  obtain its run where g: "iteration_guard eid it st rv vs es s x its"
    and run: "dget (st_runs s) (it_run_id it) = Some run"
    and call: "commit_iteration now eid it st status sr vs es ck x its run s = (Inr x', t)"
    using assms(1,3)
    by (cases rule: append_loop_iteration_cases [of now eid it st status sr rv vs es ck s])
      (auto simp: iteration_guard_def)
  obtain u where u: "committed eid it vs es s u" "st_loop_executions u = st_loop_executions s"
    "\<forall>c. ck = Some c \<longrightarrow> (\<exists>c' \<in> set (checkpoints_of u (ck_run_id c)). same_evidence c'
       (c\<lparr>ck_sequence := int (length (events_of s (it_run_id it)) + length es)\<rparr>))"
    "update_memory_loop_execution now eid st status sr (Some (lx_revision x)) u = (Inr x', t)"
    by (rule commit_iteration_Inr [OF g run assms(2) call])
  have x: "dget (st_loop_executions u) eid = Some x" using u(2) assms(3) by simp
  note x' = update_memory_loop_execution_Inr [OF u(4) x]
  have com: "committed eid it vs es s t"
    by (rule committed_frame [OF u(1)]) (use x' in simp_all)
  have num: "it_run_id it = lx_run_id x" "it_number it = ls_iteration (lx_state x) + 1"
    "ls_iteration st = ls_iteration (lx_state x) + 1"
    using g by (auto simp: iteration_guard_def validate_iteration_transition_def Let_def
      split: if_splits)
  have "loop_numbered t eid" if "loop_numbered s eid"
    using that com x' num assms(3) by (simp add: loop_numbered_def committed_def)
  then show ?thesis
    using com x' num(1) u(3) by (simp add: checkpoints_of_def)
qed


text \<open>On a live run an iteration that passes the checks is always committed.\<close>

lemma fresh_checkpoint_appended:
  assumes "log_ok s" "dget (st_runs s) (ck_run_id c) = Some run" "rn_state run \<notin> TERMINAL_RUN_STATES"
    and "\<forall>x \<in> set (checkpoints_of s (ck_run_id c)). ck_sequence x < ck_sequence c"
  shows "append_memory_checkpoint c s = (Inr c, s\<lparr>st_checkpoints :=
    dset (ck_run_id c) (checkpoints_of s (ck_run_id c) @ [c]) (st_checkpoints s)\<rparr>)"
proof -
  have "find (\<lambda>x. ck_sequence x = ck_sequence c) (checkpoints_of s (ck_run_id c)) = None"
    using assms(4) by (auto simp: find_eq_None)
  with assms(2,3) show ?thesis by (simp add: append_memory_checkpoint_def Let_def)
qed

lemma iteration_append_succeeds:
  assumes g: "iteration_guard eid it st rv vs es s x its" and ok: "log_ok s" and es: "es \<noteq> []"
    and run: "dget (st_runs s) (it_run_id it) = Some run" "rn_state run \<notin> TERMINAL_RUN_STATES"
    and c: "ck_run_id c = it_run_id it"
  shows "\<exists>x' t. append_loop_iteration now eid it st status sr rv vs es (Some c) s = (Inr x', t) \<and>
    dget (st_runs t) (it_run_id it) \<noteq> None"
proof -
  define s1 where "s1 = fold record_verification vs
    (s\<lparr>st_loop_iterations := dset eid (its @ [it]) (st_loop_iterations s)\<rparr>)"
  define s2 where "s2 = append_run_events (it_run_id it) es s1"
  have "same_log s (s\<lparr>st_loop_iterations := dset eid (its @ [it]) (st_loop_iterations s)\<rparr>)"
    by (intro same_logI last_seq_runs) simp_all
  then have "same_log s s1" unfolding s1_def
    using same_log_record_verifications same_log_trans by blast
  then have ok1: "log_ok s1" and ev1: "events_of s1 = events_of s"
    and ck1: "checkpoints_of s1 = checkpoints_of s"
    using ok same_log_ok by (auto simp: same_log_def)
  have "dget (st_runs s1) (it_run_id it) = Some run" using run by (simp add: s1_def)
  from runs_append_run_events [OF ok1 this, of es] obtain run2 where
    run2: "dget (st_runs s2) (it_run_id it) = Some run2" "rn_state run2 = rn_state run"
      "rn_last_sequence run2 = int (length (push_events es (events_of s1 (it_run_id it))))"
    unfolding s2_def by blast
  have "ck_sequence y < rn_last_sequence run2" if "y \<in> set (checkpoints_of s2 (it_run_id it))" for y
  proof -
    have "ck_sequence y \<le> int (length (events_of s (it_run_id it)))"
      using that log_okD(4) [OF ok, of y "it_run_id it"] by (simp add: s2_def ck1)
    also have "\<dots> < rn_last_sequence run2"
      using run2(3) push_events_facts(3) [of es "events_of s1 (it_run_id it)"] es by (simp add: ev1)
    finally show ?thesis .
  qed
  then have ck: "append_memory_checkpoint (c\<lparr>ck_sequence := rn_last_sequence run2\<rparr>) s2 =
    (Inr (c\<lparr>ck_sequence := rn_last_sequence run2\<rparr>), s2\<lparr>st_checkpoints := dset (it_run_id it)
      (checkpoints_of s2 (it_run_id it) @ [c\<lparr>ck_sequence := rn_last_sequence run2\<rparr>])
      (st_checkpoints s2)\<rparr>)"
    using fresh_checkpoint_appended [of s2 "c\<lparr>ck_sequence := rn_last_sequence run2\<rparr>" run2]
      append_run_events_ok(1) [OF ok1, of "it_run_id it" es] run run2 c
    by (simp add: s2_def)
  have "dget (st_loop_executions s2) eid = Some x" "\<not> terminal_loop (lx_status x)"
    using g by (auto simp: s2_def s1_def iteration_guard_def validate_iteration_transition_def
      split: if_splits)
  with ck run2(1) show ?thesis
    unfolding append_loop_iteration_commit [OF g run(1)]
    by (simp add: commit_iteration_def update_memory_loop_execution_def Let_def flip: s1_def s2_def)
qed

subsection \<open>A loop in the store\<close>

definition loop_policy :: AcceptancePolicy where
  "loop_policy = \<lparr>ap_policy_id = ''pol_1'', ap_required_verifiers = [''tests''],
     ap_all_required_must_pass = True, ap_score_thresholds = [], ap_allow_inconclusive = False,
     ap_require_independent_reviewer = False, ap_independent_reviewer_ref = None,
     ap_require_human_if_risk_gte = None, ap_outcome_check = None, ap_created_at = 0\<rparr>"

definition loop_state :: "int \<Rightarrow> LoopState" where
  "loop_state n = \<lparr>ls_iteration = n, ls_latest_observation_ref = None,
     ls_accumulated_evidence_refs = [], ls_progress_score = None,
     ls_repeated_failure_signature = None, ls_consecutive_no_progress = 0,
     ls_repeated_failure_count = 0, ls_provider_failure_count = 0,
     ls_budget_remaining = \<lparr>br_wall_time_seconds = 60, br_tool_calls = 9, br_turns = 9,
       br_iterations = 3 - n\<rparr>\<rparr>"

definition loop_execution :: LoopExecution where
  "loop_execution = \<lparr>lx_loop_execution_id = ''lx_1'', lx_run_id = ''run_1'', lx_node_key = ''n'',
     lx_attempt = 1,
     lx_spec = \<lparr>sp_loop_id = ''l'', sp_max_iterations = 3, sp_max_wall_time_seconds = 60,
       sp_max_tool_calls = 9, sp_max_turns = 9, sp_no_progress_window = 2,
       sp_repeated_failure_threshold = 2, sp_provider_failure_threshold = 2,
       sp_escalation_target = ''human'', sp_verifier_refs = [''tests'']\<rparr>,
     lx_state = loop_state 0, lx_acceptance_policy_ref = ''pol_1'', lx_acceptance_policy = None,
     lx_status = Loop_RUNNING, lx_stop_reason = None, lx_revision = 0, lx_created_at = 0,
     lx_updated_at = 0, lx_completed_at = None\<rparr>"

definition loop_iteration :: LoopIteration where
  "loop_iteration = \<lparr>it_iteration_id = ''it_1'', it_loop_execution_id = ''lx_1'',
     it_run_id = ''run_1'', it_number = 1, it_status = Iter_COMPLETED, it_runtime_call_ref = None,
     it_observation_ref = None, it_diff_artifact_ref = None, it_artifact_refs = [],
     it_verification_refs = [], it_evidence_refs = [], it_diff_sha256 = None,
     it_output_fingerprint = None, it_finding_signature = None, it_tool_calls = 0, it_turns = 1,
     it_error = None\<rparr>"

definition loop_checkpoint :: Checkpoint where
  "loop_checkpoint = \<lparr>ck_checkpoint_id = ''ck_1'', ck_run_id = ''run_1'', ck_kind = Ck_NODE_BOUNDARY,
     ck_sequence = 0, ck_run_state = Run_RUNNING, ck_run_revision = 0, ck_active_node_ids = [],
     ck_arrival_edge_key = None, ck_node_statuses = [], ck_loop_cursors = [], ck_run_graph_id = None,
     ck_graph_revision = None, ck_budget_remaining = None, ck_workspace_lease_id = None,
     ck_workspace_revision = None, ck_workspace_diff_sha256 = None,
     ck_side_effect_operation_id = None, ck_created_at = 0\<rparr>"

definition loop_store :: store where
  "loop_store = snd (create_loop_execution 1 loop_execution
     (snd (save_acceptance_policy loop_policy sample_store)))"


lemmas loop_sample_defs = loop_policy_def loop_state_def loop_execution_def loop_iteration_def
  loop_checkpoint_def

lemma sample_store_fields:
  "st_runs sample_store = [(''run_1'', sample_run\<lparr>rn_last_sequence := 2\<rparr>)]"
  "st_acceptance_policies sample_store = []" "st_loop_executions sample_store = []"
  "st_loop_execution_by_run sample_store = []" "st_loop_execution_by_node sample_store = []"
  "st_loop_iterations sample_store = []" "st_verifications sample_store = []"
  "st_checkpoints sample_store = []"
  "st_run_events sample_store = [(''run_1'',
     [(sample_event ''e1'')\<lparr>ev_sequence := 1\<rparr>, (sample_event ''e2'')\<lparr>ev_sequence := 2\<rparr>])]"
  by (simp_all add: sample_defs Let_def)

lemma loop_store_fields:
  "st_runs loop_store = [(''run_1'', sample_run\<lparr>rn_last_sequence := 2,
     rn_acceptance_policy_id := Some ''pol_1'', rn_loop_execution_id := Some ''lx_1'',
     rn_revision := 1, rn_updated_at := 1\<rparr>)]"
  "st_loop_executions loop_store =
     [(''lx_1'', loop_execution\<lparr>lx_acceptance_policy := Some loop_policy\<rparr>)]"
  "st_loop_iterations loop_store = [(''lx_1'', [])]"
  "st_verifications loop_store = []" "st_checkpoints loop_store = []"
  "st_run_events loop_store = st_run_events sample_store"
  "st_acceptance_policies loop_store = [(''pol_1'', loop_policy)]"
  "st_loop_execution_by_run loop_store = [(''run_1'', ''lx_1'')]"
  by (simp_all add: loop_store_def create_loop_execution_def save_acceptance_policy_def
    sample_store_fields loop_sample_defs Let_def)
    (simp_all add: sample_run_def)

lemma loop_store_steps: "store_steps empty_store loop_store"
proof -
  have "store_steps t (snd (create_loop_execution now x t))"
    "store_steps t (snd (save_acceptance_policy p t))" for t now x p
    using step_create_loop_execution step_save_acceptance_policy by blast+
  then show ?thesis unfolding loop_store_def by (meson rtranclp_trans sample_store_step)
qed

abbreviation sample_append :: "store \<Rightarrow> LoopExecution res \<times> store" where
  "sample_append \<equiv> append_loop_iteration 2 ''lx_1'' loop_iteration (loop_state 1) None None (Some 0)
     [] [sample_event ''e3''] (Some loop_checkpoint)"

lemma loop_guard:
  "iteration_guard ''lx_1'' loop_iteration (loop_state 1) (Some 0) [] [sample_event ''e3''] loop_store
     (loop_execution\<lparr>lx_acceptance_policy := Some loop_policy\<rparr>) []"
  by (simp add: iteration_guard_def loop_store_fields validate_iteration_transition_def
    validate_iteration_evidence_def iteration_exists_def events_of_def dget_or_def sample_store_fields
    loop_sample_defs terminal_loop_def sample_event_def)

lemma sample_append_succeeds: "\<exists>x' t. sample_append loop_store = (Inr x', t)"
proof -
  let ?x = "loop_execution\<lparr>lx_acceptance_policy := Some loop_policy\<rparr>"
  let ?run = "sample_run\<lparr>rn_last_sequence := 2,
     rn_acceptance_policy_id := Some ''pol_1'', rn_loop_execution_id := Some ''lx_1'',
     rn_revision := 1, rn_updated_at := 1\<rparr>"
  have "sample_append loop_store = commit_iteration 2 ''lx_1'' loop_iteration (loop_state 1) None None
      [] [sample_event ''e3''] (Some loop_checkpoint) ?x [] ?run loop_store"
    by (rule append_loop_iteration_commit [OF loop_guard])
      (simp add: loop_store_fields loop_iteration_def)
  then show ?thesis
    by (simp add: commit_iteration_def append_run_events_def loop_store_fields push_events_def
      push_event_def number_event_def events_of_def dget_or_def sample_store_fields
      set_last_sequence_def append_memory_checkpoint_def update_memory_loop_execution_def
      checkpoints_of_def loop_sample_defs sample_run_def sample_event_def TERMINAL_RUN_STATES_def
      terminal_loop_def Let_def)
qed

theorem iteration_commit_witness:
  "\<exists>x' t. sample_append loop_store = (Inr x', t) \<and> lx_revision x' = 1 \<and>
     list_loop_iterations t ''lx_1'' = [loop_iteration] \<and> loop_numbered t ''lx_1''"
proof -
  obtain x' t where *: "sample_append loop_store = (Inr x', t)" using sample_append_succeeds by blast
  have ok: "log_ok loop_store" using store_steps_log [OF loop_store_steps empty_store_ok] by blast
  have x: "dget (st_loop_executions loop_store) ''lx_1'' =
      Some (loop_execution\<lparr>lx_acceptance_policy := Some loop_policy\<rparr>)"
    by (simp add: loop_store_fields)
  have "loop_numbered loop_store ''lx_1''"
    by (simp add: loop_numbered_def list_loop_iterations_def dget_or_def loop_store_fields
      loop_sample_defs)
  with iteration_commit [OF * ok x] * show ?thesis
    by (simp add: committed_def list_loop_iterations_def dget_or_def loop_store_fields
      loop_execution_def)
qed

text \<open>C24: When the run has already reached a terminal state (a cancellation that arrived while the
  iteration was running, say), an otherwise valid \<open>append_loop_iteration\<close> with a checkpoint raises
  only after the iteration and its events were stored: the log and the iteration list have grown, the
  loop execution still counts the iteration as not done, and the same call can never succeed again,
  because its iteration identifier is now taken.\<close>

theorem failed_iteration_append_leaves_parts:
  assumes "iteration_guard eid it st rv vs es s x its" and "log_ok s"
    and "dget (st_runs s) (it_run_id it) = Some run" and "rn_state run \<in> TERMINAL_RUN_STATES"
    and "ck_run_id c = it_run_id it"
  shows "\<exists>t. append_loop_iteration now eid it st status sr rv vs es (Some c) s =
      (Inl (ValueError ''terminal run cannot accept new checkpoints''), t) \<and>
    committed eid it vs es s t \<and> st_loop_executions t = st_loop_executions s \<and>
    append_loop_iteration later eid it st status sr rv vs es (Some c) t =
      (Inl (ValueError ''iteration identifier already exists''), t)"
proof -
  define s1 where "s1 = fold record_verification vs
    (s\<lparr>st_loop_iterations := dset eid (its @ [it]) (st_loop_iterations s)\<rparr>)"
  define s2 where "s2 = append_run_events (it_run_id it) es s1"
  have "same_log s (s\<lparr>st_loop_iterations := dset eid (its @ [it]) (st_loop_iterations s)\<rparr>)"
    by (intro same_logI last_seq_runs) simp_all
  then have "same_log s s1" unfolding s1_def
    using same_log_record_verifications same_log_trans by blast
  then have ok1: "log_ok s1" using assms(2) same_log_ok by blast
  have "dget (st_runs s1) (it_run_id it) = Some run" using assms(3) by (simp add: s1_def)
  then obtain run2 where run2: "dget (st_runs s2) (it_run_id it) = Some run2"
      "rn_state run2 \<in> TERMINAL_RUN_STATES"
    using runs_append_run_events [OF ok1, of "it_run_id it" run es] assms(4)
    unfolding s2_def by auto
  have com: "committed eid it vs es s s2" "st_loop_executions s2 = st_loop_executions s"
    using committed_s2 [OF assms(1)] unfolding s2_def s1_def by blast+
  have call: "append_loop_iteration now eid it st status sr rv vs es (Some c) s =
      commit_iteration now eid it st status sr vs es (Some c) x its run s"
    by (rule append_loop_iteration_commit [OF assms(1,3)])
  have first: "append_loop_iteration now eid it st status sr rv vs es (Some c) s =
      (Inl (ValueError ''terminal run cannot accept new checkpoints''), s2)"
    unfolding call
    using run2 assms(5)
    by (simp add: commit_iteration_def append_memory_checkpoint_def flip: s1_def s2_def)
  have "dget (st_loop_iterations s2) eid = Some (its @ [it])" by (simp add: s2_def s1_def)
  then have taken: "iteration_exists s2 (it_iteration_id it)"
    unfolding iteration_exists_def list_ex_iff by (force dest: dget_in_dvalues)
  have "append_loop_iteration later eid it st status sr rv vs es (Some c) s2 =
      (Inl (ValueError ''iteration identifier already exists''), s2)"
    using assms(1) [unfolded iteration_guard_def] com(2) taken
    by (cases rv) (simp_all add: append_loop_iteration_def)
  with first com show ?thesis by blast
qed


definition cancelled_store :: store where
  "cancelled_store = snd (update_run 3 ''run_1'' Run_CANCELLED no_update loop_store)"

lemma cancelled_store_fields:
  "st_loop_executions cancelled_store = st_loop_executions loop_store"
  "st_loop_iterations cancelled_store = st_loop_iterations loop_store"
  "st_verifications cancelled_store = st_verifications loop_store"
  "st_run_events cancelled_store = st_run_events loop_store"
  by (simp_all add: cancelled_store_def update_run_def loop_store_fields(1) Let_def)

theorem failed_iteration_append_leaves_parts_witness:
  "\<exists>t. sample_append cancelled_store =
      (Inl (ValueError ''terminal run cannot accept new checkpoints''), t) \<and>
    list_loop_iterations t ''lx_1'' = [loop_iteration] \<and> \<not> loop_numbered t ''lx_1''"
proof -
  have g: "iteration_guard ''lx_1'' loop_iteration (loop_state 1) (Some 0) []
      [sample_event ''e3''] cancelled_store
      (loop_execution\<lparr>lx_acceptance_policy := Some loop_policy\<rparr>) []"
    using loop_guard
    by (simp add: iteration_guard_def iteration_exists_def events_of_def cancelled_store_fields)
  have "store_steps loop_store cancelled_store"
    unfolding cancelled_store_def using step_update_run by blast
  with loop_store_steps have "store_steps empty_store cancelled_store" by (rule rtranclp_trans)
  then have ok: "log_ok cancelled_store" using store_steps_log empty_store_ok by blast
  obtain run where run: "dget (st_runs cancelled_store) (it_run_id loop_iteration) = Some run"
      "rn_state run \<in> TERMINAL_RUN_STATES"
    by (simp add: cancelled_store_def update_run_def loop_store_fields(1) loop_iteration_def
      TERMINAL_RUN_STATES_def Let_def)
  have "ck_run_id loop_checkpoint = it_run_id loop_iteration"
    by (simp add: loop_checkpoint_def loop_iteration_def)
  from failed_iteration_append_leaves_parts [OF g ok run this]
  obtain t where t: "sample_append cancelled_store =
      (Inl (ValueError ''terminal run cannot accept new checkpoints''), t)"
    "committed ''lx_1'' loop_iteration [] [sample_event ''e3''] cancelled_store t"
    "st_loop_executions t = st_loop_executions cancelled_store" by blast
  then show ?thesis
    by (simp add: committed_def loop_numbered_def list_loop_iterations_def dget_or_def
      cancelled_store_fields loop_store_fields loop_execution_def loop_state_def)
qed

subsection \<open>Checkpoints\<close>

lemma max_sequence_max:
  "max_sequence b cs \<in> set (b # cs) \<and> (\<forall>c \<in> set (b # cs). ck_sequence c \<le> ck_sequence (max_sequence b cs))"
proof (induction cs arbitrary: b)
  case (Cons c cs)
  show ?case using Cons.IH [of "if ck_sequence c > ck_sequence b then c else b"] by fastforce
qed simp

lemma sort_key_strict:
  assumes "distinct (map f xs)"
  shows "sorted_wrt (\<lambda>a b. f a < f b) (sort_key f xs)"
proof -
  have "distinct (map f (sort_key f xs))"
    using assms by (simp add: distinct_map)
  moreover have "sorted (map f (sort_key f xs))" by simp
  ultimately have "sorted_wrt (<) (map f (sort_key f xs))"
    by (simp add: strict_sorted_iff)
  then show ?thesis by (simp add: sorted_wrt_map)
qed

lemma dset_same: "dget d k = Some v \<Longrightarrow> dset k v d = d"
  by (induction d) auto

lemma find_key_eq:
  "distinct (map f xs) \<Longrightarrow> x \<in> set xs \<Longrightarrow> find (\<lambda>y. f y = f x) xs = Some x"
  by (induction xs) auto

lemma append_memory_checkpoint_again:
  assumes "append_memory_checkpoint c s = (Inr c', t)"
    "distinct (map ck_sequence (checkpoints_of t (ck_run_id c)))"
  shows "append_memory_checkpoint c t = (Inr c', t)"
proof -
  note c' = append_memory_checkpoint_Inr [OF assms(1)]
  have stored: "dget (st_checkpoints t) (ck_run_id c) = Some (checkpoints_of t (ck_run_id c))"
    and run: "\<exists>run. dget (st_runs t) (ck_run_id c) = Some run \<and> rn_state run \<notin> TERMINAL_RUN_STATES"
    using assms(1)
    by (auto simp: append_memory_checkpoint_def checkpoints_of_def dget_or_def Let_def
      split: option.splits if_splits)
  have "find (\<lambda>x. ck_sequence x = ck_sequence c) (checkpoints_of t (ck_run_id c)) = Some c'"
    using find_key_eq [OF assms(2), of c'] c' by simp
  with c' run dset_same [OF stored] show ?thesis
    by (auto simp: append_memory_checkpoint_def Let_def)
qed

lemma append_checkpoint_Inr:
  assumes "append_checkpoint c es s = (Inr c', t)" "log_ok s"
  obtains run1 where
    "append_memory_checkpoint (c\<lparr>ck_sequence := rn_last_sequence run1\<rparr>)
       (append_run_events (ck_run_id c) es s) = (Inr c', t)"
    "dget (st_runs (append_run_events (ck_run_id c) es s)) (ck_run_id c) = Some run1"
    "dget (st_runs t) (ck_run_id c) = Some run1"
    "dget (st_run_events t) (ck_run_id c) = Some (events_of t (ck_run_id c))"
proof -
  obtain run where "dget (st_runs s) (ck_run_id c) = Some run"
    using assms(1) by (auto simp: append_checkpoint_def split: option.splits)
  moreover from runs_append_run_events [OF assms(2) this] obtain run1 where run1:
    "dget (st_runs (append_run_events (ck_run_id c) es s)) (ck_run_id c) = Some run1" by blast
  ultimately have call: "append_memory_checkpoint (c\<lparr>ck_sequence := rn_last_sequence run1\<rparr>)
       (append_run_events (ck_run_id c) es s) = (Inr c', t)"
    using assms(1) by (simp add: append_checkpoint_def)
  have "st_runs t = st_runs (append_run_events (ck_run_id c) es s)"
    using call by (auto simp: append_memory_checkpoint_def Let_def split: option.splits if_splits)
  moreover have "st_run_events t = st_run_events (append_run_events (ck_run_id c) es s)"
    using append_memory_checkpoint_Inr [OF call] by simp
  ultimately show thesis
    using that call run1
    by (simp add: events_of_def dget_or_def) (simp add: append_run_events_def Let_def)
qed

text \<open>C17: After a successful \<open>append_checkpoint\<close> in a reachable store the returned checkpoint is
  stored, is stamped with the run's current last sequence, and is the one recovery will find:
  \<open>get_latest_checkpoint\<close> returns a checkpoint with exactly that sequence. \<open>list_checkpoints\<close> is in
  strictly increasing sequence order. Appending the same evidence again without new events changes
  nothing and returns the stored checkpoint.\<close>

theorem checkpoint_append_is_latest:
  assumes "store_steps empty_store s" and "append_checkpoint c es s = (Inr c', t)"
  shows "c' \<in> set (checkpoints_of t (ck_run_id c)) \<and>
    last_seq t (ck_run_id c) = Some (ck_sequence c') \<and>
    (\<exists>l. get_latest_checkpoint t (ck_run_id c) = Some l \<and> ck_sequence l = ck_sequence c') \<and>
    sorted_wrt (\<lambda>a b. ck_sequence a < ck_sequence b) (list_checkpoints t (ck_run_id c)) \<and>
    append_checkpoint c [] t = (Inr c', t)"
proof -
  let ?r = "ck_run_id c"
  have ok: "log_ok s" "log_ok t"
    using store_steps_log [OF assms(1) empty_store_ok] append_checkpoint_ok [of s c es] assms(2) by auto
  obtain run1 where call: "append_memory_checkpoint (c\<lparr>ck_sequence := rn_last_sequence run1\<rparr>)
       (append_run_events ?r es s) = (Inr c', t)"
    and run: "dget (st_runs t) ?r = Some run1"
    and log: "dget (st_run_events t) ?r = Some (events_of t ?r)"
    using append_checkpoint_Inr [OF assms(2) ok(1)] by metis
  note c' = append_memory_checkpoint_Inr [OF call]
  from c' run have seq: "last_seq t ?r = Some (ck_sequence c')" by (simp add: last_seq_def)
  note n = log_okD(2) [OF ok(2) seq]
  obtain b cs where cs: "checkpoints_of t ?r = b # cs" using c' by (cases "checkpoints_of t ?r") auto
  have "c' \<in> set (b # cs)" using c' cs by simp
  then have "ck_sequence c' \<le> ck_sequence (max_sequence b cs)" using max_sequence_max by blast
  moreover have "ck_sequence (max_sequence b cs) \<le> ck_sequence c'"
    using log_okD(4) [OF ok(2), of "max_sequence b cs" ?r] max_sequence_max [of b cs] n cs by simp
  ultimately have latest: "\<exists>l. get_latest_checkpoint t ?r = Some l \<and> ck_sequence l = ck_sequence c'"
    by (simp add: get_latest_checkpoint_def cs)
  have "append_run_events ?r [] t = t"
    by (simp add: append_run_events_def push_events_def dset_same [OF log])
  moreover have "append_memory_checkpoint (c\<lparr>ck_sequence := rn_last_sequence run1\<rparr>) t = (Inr c', t)"
    by (rule append_memory_checkpoint_again [OF call]) (use log_okD(3) [OF ok(2)] in simp)
  ultimately have "append_checkpoint c [] t = (Inr c', t)"
    using run by (simp add: append_checkpoint_def)
  with c' seq latest sort_key_strict [OF log_okD(3) [OF ok(2)]] show ?thesis
    by (simp add: list_checkpoints_def)
qed


theorem checkpoint_append_is_latest_witness:
  "\<exists>c' t. append_checkpoint loop_checkpoint [sample_event ''e3''] sample_store = (Inr c', t) \<and>
     ck_sequence c' = 3 \<and> append_checkpoint loop_checkpoint [] t = (Inr c', t)"
proof -
  have "\<exists>t. append_checkpoint loop_checkpoint [sample_event ''e3''] sample_store =
      (Inr (loop_checkpoint\<lparr>ck_sequence := 3\<rparr>), t)"
    by (simp add: append_checkpoint_def append_run_events_def sample_store_fields push_events_def
      push_event_def number_event_def events_of_def dget_or_def set_last_sequence_def
      append_memory_checkpoint_def checkpoints_of_def loop_checkpoint_def sample_run_def
      sample_event_def TERMINAL_RUN_STATES_def Let_def)
  then obtain t where t: "append_checkpoint loop_checkpoint [sample_event ''e3''] sample_store =
      (Inr (loop_checkpoint\<lparr>ck_sequence := 3\<rparr>), t)" ..
  from checkpoint_append_is_latest [OF sample_store_step t] t show ?thesis by auto
qed

end
