(* ===== verification/Acceptance.thy ===== *)
theory Acceptance
  imports Contracts
begin

text \<open>
  The acceptance policy over verifier results: \<open>evaluate_acceptance\<close> of
  \<^verbatim>\<open>src/accretion/verifiers/policy.py\<close> (the one the run manager and the candidate search call) and
  the older \<open>evaluate_acceptance\<close> of \<^verbatim>\<open>src/accretion/looping.py\<close>, here \<open>loop_acceptance\<close>. The
  rendered reason sentence of an evaluation is a value of \<open>acceptance_reason\<close> that carries the
  names the sentence interpolates.

  Shown: exactly when a candidate is accepted, that uncertainty never accepts, and that the two
  evaluators are ordered.
\<close>

subsection \<open>The persisted policy\<close>

datatype acceptance_reason =
    Reviewer_unavailable
  | Risk_requires_human RiskLevel
  | No_required_verifiers
  | Verifiers_unavailable "string list"
  | Checks_failed "string list"
  | Verifiers_inconclusive "string list"
  | Not_every_pass
  | All_checks_passed

record AcceptanceEvaluation =
  ae_status :: VerificationStatus
  ae_accepted :: bool
  ae_requires_human :: bool
  ae_reasons :: "acceptance_reason list"

text \<open>\<open>{result.verifier_id: result for result in results}\<close>: the last result of a verifier counts.\<close>

definition by_verifier :: "VerificationResult list \<Rightarrow> (string, VerificationResult) dict" where
  "by_verifier results = dict_of (map (\<lambda>r. (vr_verifier_id r, r)) results)"

definition below_threshold :: "VerificationResult \<Rightarrow> pyfloat \<Rightarrow> bool" where
  "below_threshold r threshold = (case vr_score r of None \<Rightarrow> True | Some s \<Rightarrow> s < threshold)"

definition escalate :: "acceptance_reason \<Rightarrow> AcceptanceEvaluation" where
  "escalate why = \<lparr>ae_status = V_INCONCLUSIVE, ae_accepted = False, ae_requires_human = True,
     ae_reasons = [why]\<rparr>"

definition reviewer_missing :: "AcceptancePolicy \<Rightarrow> (string, VerificationResult) dict \<Rightarrow> bool" where
  "reviewer_missing policy latest \<longleftrightarrow> ap_require_independent_reviewer policy \<and>
     (case ap_independent_reviewer_ref policy of None \<Rightarrow> True | Some ref \<Rightarrow> \<not> dhas latest ref)"

definition risk_needs_human :: "AcceptancePolicy \<Rightarrow> RiskLevel option \<Rightarrow> bool" where
  "risk_needs_human policy risk =
     (case (risk, ap_require_human_if_risk_gte policy) of
        (Some r, Some bar) \<Rightarrow> RISK_RANK r \<ge> RISK_RANK bar
      | _ \<Rightarrow> False)"

definition threshold_failures ::
  "AcceptancePolicy \<Rightarrow> (string, VerificationResult) dict \<Rightarrow> string list" where
  "threshold_failures policy latest =
     map fst (filter (\<lambda>(v, threshold). case dget latest v of None \<Rightarrow> False
       | Some r \<Rightarrow> below_threshold r threshold) (ap_score_thresholds policy))"

definition evaluate_acceptance ::
  "AcceptancePolicy \<Rightarrow> VerificationResult list \<Rightarrow> RiskLevel option \<Rightarrow> AcceptanceEvaluation" where
  "evaluate_acceptance policy results risk =
    (let latest = by_verifier results;
         required = ap_required_verifiers policy;
         missing = filter (\<lambda>v. \<not> dhas latest v) required
     in if reviewer_missing policy latest then escalate Reviewer_unavailable
        else if risk_needs_human policy risk then escalate (Risk_requires_human (the risk))
        else if required = [] then escalate No_required_verifiers
        else if missing \<noteq> [] then escalate (Verifiers_unavailable (sort missing))
        else
          let required_results = map (\<lambda>v. the (dget latest v)) required;
              failed = map vr_verifier_id (filter (\<lambda>r. vr_status r = V_FAIL) required_results);
              low = threshold_failures policy latest;
              inconclusive = map vr_verifier_id
                (filter (\<lambda>r. vr_status r = V_INCONCLUSIVE) required_results)
          in if failed \<noteq> [] \<or> low \<noteq> [] then
               \<lparr>ae_status = V_FAIL, ae_accepted = False, ae_requires_human = False,
                ae_reasons = [Checks_failed (sorted_list_of_set (set (failed @ low)))]\<rparr>
             else if inconclusive \<noteq> [] \<and> \<not> ap_allow_inconclusive policy then
               escalate (Verifiers_inconclusive (sort inconclusive))
             else if ap_all_required_must_pass policy \<and>
               list_ex (\<lambda>r. vr_status r \<noteq> V_PASS \<and>
                 \<not> (ap_allow_inconclusive policy \<and> vr_status r = V_INCONCLUSIVE)) required_results
               then escalate Not_every_pass
             else \<lparr>ae_status = V_PASS, ae_accepted = True, ae_requires_human = False,
                ae_reasons = [All_checks_passed]\<rparr>)"

subsection \<open>The loop module's evaluator\<close>

definition loop_acceptance :: "AcceptancePolicy \<Rightarrow> VerificationResult list \<Rightarrow> VerificationStatus" where
  "loop_acceptance policy results =
    (let latest = by_verifier results;
         required_ids = ap_required_verifiers policy
     in if list_ex (\<lambda>v. \<not> dhas latest v) required_ids then V_INCONCLUSIVE
        else
          let required = map (\<lambda>v. the (dget latest v)) required_ids
          in if required = [] then V_INCONCLUSIVE
             else if list_ex (\<lambda>r. vr_status r = V_FAIL) required then V_FAIL
             else if list_ex (\<lambda>r. case dget (ap_score_thresholds policy) (vr_verifier_id r) of
                 None \<Rightarrow> False | Some threshold \<Rightarrow> below_threshold r threshold) required then V_FAIL
             else if list_ex (\<lambda>r. vr_status r = V_INCONCLUSIVE) required then
               (if ap_allow_inconclusive policy then V_PASS else V_INCONCLUSIVE)
             else V_PASS)"

subsection \<open>Lemmas\<close>

lemma status_cases: "s \<noteq> V_FAIL \<Longrightarrow> s \<noteq> V_INCONCLUSIVE \<Longrightarrow> s = V_PASS"
  by (cases s) auto

lemma by_verifier_id: "dget (by_verifier rs) v = Some r \<Longrightarrow> vr_verifier_id r = v"
  by (auto simp: by_verifier_def dget_dict_of rev_map dest!: map_of_SomeD)

lemma by_verifier_in: "dget (by_verifier rs) v = Some r \<Longrightarrow> r \<in> set rs"
  by (auto simp: by_verifier_def dget_dict_of rev_map dest!: map_of_SomeD)

text \<open>What a latest result must be for its verifier not to stand in the way.\<close>

definition verifier_satisfied ::
  "AcceptancePolicy \<Rightarrow> (string, VerificationResult) dict \<Rightarrow> string \<Rightarrow> bool" where
  "verifier_satisfied policy latest v \<longleftrightarrow>
     (\<exists>r. dget latest v = Some r \<and>
        (vr_status r = V_PASS \<or> vr_status r = V_INCONCLUSIVE \<and> ap_allow_inconclusive policy))"

definition thresholds_met :: "AcceptancePolicy \<Rightarrow> (string, VerificationResult) dict \<Rightarrow> bool" where
  "thresholds_met policy latest \<longleftrightarrow>
     (\<forall>(v, threshold) \<in> set (ap_score_thresholds policy). \<forall>r. dget latest v = Some r \<longrightarrow>
        \<not> below_threshold r threshold)"

lemma threshold_failures_Nil: "threshold_failures p latest = [] \<longleftrightarrow> thresholds_met p latest"
  unfolding threshold_failures_def thresholds_met_def map_is_Nil_conv filter_eq_Nil_iff
  by (rule ball_cong [OF refl]) (force split: option.split)

lemma all_satisfied_iff:
  assumes "\<forall>v \<in> set vs. dhas latest v"
  shows "(\<forall>v \<in> set vs. verifier_satisfied p latest v) \<longleftrightarrow>
    (\<forall>v \<in> set vs. vr_status (the (dget latest v)) \<noteq> V_FAIL \<and>
      (vr_status (the (dget latest v)) = V_INCONCLUSIVE \<longrightarrow> ap_allow_inconclusive p))"
proof (rule ball_cong [OF refl])
  fix v
  assume "v \<in> set vs"
  with assms have "dhas latest v" by (rule bspec)
  from dhas_ex [OF this] obtain r where "dget latest v = Some r" by (rule exE)
  then show "verifier_satisfied p latest v \<longleftrightarrow> vr_status (the (dget latest v)) \<noteq> V_FAIL \<and>
      (vr_status (the (dget latest v)) = V_INCONCLUSIVE \<longrightarrow> ap_allow_inconclusive p)"
    by (cases "vr_status r") (auto simp: verifier_satisfied_def)
qed

lemma accepted_iff:
  "ae_accepted (evaluate_acceptance p rs risk) \<longleftrightarrow>
     \<not> reviewer_missing p (by_verifier rs) \<and> \<not> risk_needs_human p risk \<and>
     ap_required_verifiers p \<noteq> [] \<and>
     (\<forall>v \<in> set (ap_required_verifiers p). verifier_satisfied p (by_verifier rs) v) \<and>
     thresholds_met p (by_verifier rs)"
proof (cases "\<forall>v \<in> set (ap_required_verifiers p). dhas (by_verifier rs) v")
  case True
  let ?L = "by_verifier rs" and ?req = "ap_required_verifiers p"
  let ?st = "\<lambda>v. vr_status (the (dget ?L v))"
  have m: "filter (\<lambda>v. \<not> dhas ?L v) ?req = []"
    using True unfolding filter_eq_Nil_iff by blast
  have f: "filter (\<lambda>r. vr_status r = s) (map (\<lambda>v. the (dget ?L v)) ?req) = [] \<longleftrightarrow>
      (\<forall>v \<in> set ?req. ?st v \<noteq> s)" for s
    unfolding filter_eq_Nil_iff by simp
  have ex: "list_ex P (map (\<lambda>v. the (dget ?L v)) ?req) \<longleftrightarrow>
      (\<exists>v \<in> set ?req. P (the (dget ?L v)))" for P
    unfolding list_ex_iff by simp
  show ?thesis
    unfolding evaluate_acceptance_def Let_def m all_satisfied_iff [OF True] map_is_Nil_conv f ex
      threshold_failures_Nil escalate_def
    by (simp only: if_distrib [of ae_accepted] AcceptanceEvaluation.simps split: if_split)
      (use status_cases in blast)
next
  case False
  then obtain v where v: "v \<in> set (ap_required_verifiers p)" "\<not> dhas (by_verifier rs) v" by blast
  then have "dget (by_verifier rs) v = None" unfolding map_of_eq_None_iff by blast
  then have "\<not> verifier_satisfied p (by_verifier rs) v"
    by (simp add: verifier_satisfied_def)
  moreover have "filter (\<lambda>v. \<not> dhas (by_verifier rs) v) (ap_required_verifiers p) \<noteq> []"
    using v unfolding filter_eq_Nil_iff by blast
  ultimately show ?thesis
    using v(1) by (auto simp: evaluate_acceptance_def Let_def escalate_def)
qed

lemma evaluation_coherent:
  "(ae_accepted (evaluate_acceptance p rs risk) \<longleftrightarrow> ae_status (evaluate_acceptance p rs risk) = V_PASS) \<and>
   (ae_requires_human (evaluate_acceptance p rs risk) \<longleftrightarrow>
      ae_status (evaluate_acceptance p rs risk) = V_INCONCLUSIVE)"
  by (simp add: evaluate_acceptance_def Let_def escalate_def)

subsection \<open>Properties\<close>

text \<open>C12: Exactly when a candidate is accepted. The independent reviewer, if the policy asks for one,
  has reported; the risk is below the level reserved to humans; there is at least one required
  verifier and the latest result of every one of them is PASS (or INCONCLUSIVE where the policy
  allows it); and no latest result lies below its score threshold. A verifier that has not
  reported, an empty policy or missing evidence never accepts.\<close>

theorem acceptance_exactly_when:
  "ae_accepted (evaluate_acceptance p rs risk) \<longleftrightarrow>
     \<not> reviewer_missing p (by_verifier rs) \<and> \<not> risk_needs_human p risk \<and>
     ap_required_verifiers p \<noteq> [] \<and>
     (\<forall>v \<in> set (ap_required_verifiers p). verifier_satisfied p (by_verifier rs) v) \<and>
     thresholds_met p (by_verifier rs)"
  by (rule accepted_iff)

definition sample_policy :: AcceptancePolicy where
  "sample_policy = \<lparr>ap_policy_id = ''policy'', ap_required_verifiers = [''tests''],
     ap_all_required_must_pass = True, ap_score_thresholds = [], ap_allow_inconclusive = False,
     ap_require_independent_reviewer = False, ap_independent_reviewer_ref = None,
     ap_require_human_if_risk_gte = Some Risk_HIGH, ap_outcome_check = None, ap_created_at = 0\<rparr>"

definition sample_result :: "string \<Rightarrow> VerificationStatus \<Rightarrow> VerificationResult" where
  "sample_result v st = \<lparr>vr_verification_id = ''ver-'' @ v, vr_run_id = ''run'',
     vr_iteration_id = None, vr_verifier_id = v, vr_verifier_version = ''1'', vr_target_ref = ''t'',
     vr_status = st, vr_score = None, vr_findings = [], vr_evidence_refs = [],
     vr_false_accept_risk_estimate = None, vr_executed_at = 0, vr_duration_ms = 0\<rparr>"

theorem acceptance_exactly_when_witness:
  "ae_accepted (evaluate_acceptance sample_policy [sample_result ''tests'' V_PASS] (Some Risk_LOW))
   \<and> \<not> ae_accepted (evaluate_acceptance sample_policy
         [sample_result ''tests'' V_PASS, sample_result ''tests'' V_FAIL] (Some Risk_LOW))"
  unfolding acceptance_exactly_when
  by (simp add: sample_policy_def sample_result_def by_verifier_def dict_of_def
      reviewer_missing_def risk_needs_human_def verifier_satisfied_def thresholds_met_def)

text \<open>A policy that demands no more than another: fewer required verifiers, lower thresholds, a later
  escalation to humans, no reviewer the other does not ask for.\<close>

definition demands_at_most :: "AcceptancePolicy \<Rightarrow> AcceptancePolicy \<Rightarrow> bool" where
  "demands_at_most q p \<longleftrightarrow>
     ap_required_verifiers q \<noteq> [] \<and> set (ap_required_verifiers q) \<subseteq> set (ap_required_verifiers p) \<and>
     (\<forall>(v, b) \<in> set (ap_score_thresholds q). \<exists>a \<ge> b. (v, a) \<in> set (ap_score_thresholds p)) \<and>
     (ap_allow_inconclusive p \<longrightarrow> ap_allow_inconclusive q) \<and>
     (ap_require_independent_reviewer q \<longrightarrow> ap_require_independent_reviewer p \<and>
        ap_independent_reviewer_ref q = ap_independent_reviewer_ref p) \<and>
     (case ap_require_human_if_risk_gte q of None \<Rightarrow> True
      | Some b \<Rightarrow> (\<exists>a. ap_require_human_if_risk_gte p = Some a \<and> RISK_RANK a \<le> RISK_RANK b))"

lemma accepted_mono:
  assumes "demands_at_most q p" "ae_accepted (evaluate_acceptance p rs risk)"
  shows "ae_accepted (evaluate_acceptance q rs risk)"
proof -
  let ?L = "by_verifier rs"
  note d = assms(1) [unfolded demands_at_most_def]
  note acc = assms(2) [unfolded accepted_iff]
  have "\<not> reviewer_missing q ?L" using d acc by (auto simp: reviewer_missing_def)
  moreover have "\<not> risk_needs_human q risk"
    using d acc by (auto simp: risk_needs_human_def split: option.splits)
  moreover have "verifier_satisfied q ?L v" if "v \<in> set (ap_required_verifiers q)" for v
    using that d acc unfolding verifier_satisfied_def by blast
  moreover have "thresholds_met q ?L"
    unfolding thresholds_met_def
  proof (clarify)
    fix v b r
    assume q: "(v, b) \<in> set (ap_score_thresholds q)" and r: "dget ?L v = Some r" "below_threshold r b"
    from q d obtain a where a: "b \<le> a" "(v, a) \<in> set (ap_score_thresholds p)" by blast
    with r have "below_threshold r a" by (auto simp: below_threshold_def split: option.splits)
    with a(2) r(1) acc show False unfolding thresholds_met_def by blast
  qed
  ultimately show ?thesis using d unfolding accepted_iff by blast
qed

text \<open>C21: The three fields of an evaluation never disagree. Acceptance is monotone in what the policy demands: what a
  policy accepts, every policy that demands no more accepts on the same results. And the retired evaluator of
  the loop module is at least as permissive: whatever the policy evaluator accepts it passes too.\<close>

theorem acceptance_coherent:
  "(ae_accepted (evaluate_acceptance p rs risk) =
      (ae_status (evaluate_acceptance p rs risk) = V_PASS)) \<and>
   (ae_requires_human (evaluate_acceptance p rs risk) =
      (ae_status (evaluate_acceptance p rs risk) = V_INCONCLUSIVE)) \<and>
   (ae_accepted (evaluate_acceptance p rs risk) \<longrightarrow> loop_acceptance p rs = V_PASS) \<and>
   (ae_accepted (evaluate_acceptance p rs risk) \<longrightarrow> demands_at_most q p \<longrightarrow>
      ae_accepted (evaluate_acceptance q rs risk))"
proof -
  let ?L = "by_verifier rs" and ?req = "ap_required_verifiers p"
  let ?R = "map (\<lambda>v. the (dget ?L v)) ?req"
  have "loop_acceptance p rs = V_PASS" if acc: "ae_accepted (evaluate_acceptance p rs risk)"
  proof -
    from acc have req: "?req \<noteq> []" and thr: "thresholds_met p ?L"
      and sat: "\<And>v. v \<in> set ?req \<Longrightarrow> verifier_satisfied p ?L v"
      by (auto simp: accepted_iff)
    have sat': "\<exists>r. dget ?L v = Some r \<and> vr_status r \<noteq> V_FAIL \<and>
        (vr_status r = V_INCONCLUSIVE \<longrightarrow> ap_allow_inconclusive p)" if "v \<in> set ?req" for v
      using sat [OF that] by (auto simp: verifier_satisfied_def)
    have 1: "\<not> list_ex (\<lambda>v. \<not> dhas ?L v) ?req"
      unfolding list_ex_iff using sat' by (meson dget_dhas)
    have 2: "\<not> list_ex (\<lambda>r. vr_status r = V_FAIL) ?R"
      using sat' by (force simp: list_ex_iff)
    have 3: "\<not> list_ex (\<lambda>r. case dget (ap_score_thresholds p) (vr_verifier_id r) of
        None \<Rightarrow> False | Some threshold \<Rightarrow> below_threshold r threshold) ?R"
    proof (clarsimp simp: list_ex_iff split: option.splits)
      fix v t
      assume v: "v \<in> set ?req" and t: "dget (ap_score_thresholds p) (vr_verifier_id (the (dget ?L v))) = Some t"
        and low: "below_threshold (the (dget ?L v)) t"
      from sat' [OF v] obtain r where r: "dget ?L v = Some r" by blast
      from r by_verifier_id have "vr_verifier_id r = v" by blast
      with t r have "(v, t) \<in> set (ap_score_thresholds p)" by (simp add: map_of_SomeD)
      with thr r low show False unfolding thresholds_met_def by fastforce
    qed
    have 4: "list_ex (\<lambda>r. vr_status r = V_INCONCLUSIVE) ?R \<Longrightarrow> ap_allow_inconclusive p"
      using sat' by (force simp: list_ex_iff)
    from 1 2 3 4 req show ?thesis by (simp add: loop_acceptance_def Let_def)
  qed
  then show ?thesis using evaluation_coherent accepted_mono by blast
qed

definition strict_policy :: AcceptancePolicy where
  "strict_policy = sample_policy\<lparr>ap_required_verifiers := [''tests'', ''lint''], ap_require_human_if_risk_gte := Some Risk_MEDIUM\<rparr>"

theorem acceptance_coherent_witness:
  "loop_acceptance strict_policy [sample_result ''tests'' V_PASS, sample_result ''lint'' V_PASS] = V_PASS \<and>
   ae_accepted (evaluate_acceptance sample_policy [sample_result ''tests'' V_PASS, sample_result ''lint'' V_PASS] (Some Risk_LOW))"
proof -
  let ?rs = "[sample_result ''tests'' V_PASS, sample_result ''lint'' V_PASS]"
  have "ae_accepted (evaluate_acceptance strict_policy ?rs (Some Risk_LOW))" by code_simp
  moreover have "demands_at_most sample_policy strict_policy"
    by (simp add: demands_at_most_def strict_policy_def sample_policy_def)
  ultimately show ?thesis using acceptance_coherent [of strict_policy ?rs "Some Risk_LOW" sample_policy] by blast
qed

text \<open>C23: The switch \<open>all_required_must_pass\<close> decides nothing: its check comes after the checks for
  failed and inconclusive results, which leave no result it could still object to.\<close>

theorem all_required_must_pass_has_no_effect:
  "evaluate_acceptance (p\<lparr>ap_all_required_must_pass := b\<rparr>) rs risk = evaluate_acceptance p rs risk"
proof -
  let ?q = "p\<lparr>ap_all_required_must_pass := b\<rparr>"
  have aux: "reviewer_missing ?q = reviewer_missing p" "risk_needs_human ?q = risk_needs_human p"
    "threshold_failures ?q = threshold_failures p"
    by (simp_all add: fun_eq_iff reviewer_missing_def risk_needs_human_def threshold_failures_def)
  have dead: "\<not> list_ex (\<lambda>r. vr_status r \<noteq> V_PASS \<and>
        \<not> (ap_allow_inconclusive p \<and> vr_status r = V_INCONCLUSIVE)) R"
    if "filter (\<lambda>r. vr_status r = V_FAIL) R = []"
      "filter (\<lambda>r. vr_status r = V_INCONCLUSIVE) R = [] \<or> ap_allow_inconclusive p" for R
    using that status_cases by (auto simp: filter_eq_Nil_iff list_ex_iff)
  show ?thesis
    unfolding evaluate_acceptance_def aux Let_def
    using dead [of "map (\<lambda>v. the (dget (by_verifier rs) v)) (ap_required_verifiers p)"]
    by auto
qed

end
