(* ===== verification/Loop_Engine.thy ===== *)
theory Loop_Engine
  imports Acceptance
begin

text \<open>
  The bounded feedback loop: \<^verbatim>\<open>src/accretion/looping.py\<close> and the pure methods of
  \<^verbatim>\<open>src/accretion/services/run_manager.py\<close> that compute one iteration's successor state, the directive
  and the envelope handed to the runtime.

  Identifiers drawn from \<open>new_id\<close>, clock readings (\<open>int(deadline - now)\<close>) and the digest of the
  sorted finding fingerprints are arguments. The workspace path and the native session of a runtime
  call are not looked at here, so \<open>RuntimeCallOutcome\<close> keeps its session identifier and call reference.

  Shown: the stop rule of the loop on every branch, that an iteration spends exactly one iteration and
  one turn of the budget and keeps the state valid, and how stagnation is counted.
\<close>

subsection \<open>Building a loop\<close>

definition build_loop_spec :: "string \<Rightarrow> TaskEnvelope \<Rightarrow> string list \<Rightarrow> LoopSpec" where
  "build_loop_spec new_id envelope verifier_refs =
    (let budgets = te_budgets envelope in
     \<lparr>sp_loop_id = new_id,
      sp_max_iterations = tb_max_loop_iterations budgets,
      sp_max_wall_time_seconds = tb_wall_time_seconds budgets,
      sp_max_tool_calls = tb_max_tool_calls budgets,
      sp_max_turns = tb_max_turns budgets,
      sp_no_progress_window = 2,
      sp_repeated_failure_threshold = 2,
      sp_provider_failure_threshold = 2,
      sp_escalation_target = ''HUMAN'',
      sp_verifier_refs = verifier_refs\<rparr>)"

definition initial_state :: "LoopSpec \<Rightarrow> LoopState" where
  "initial_state spec =
    \<lparr>ls_iteration = 0, ls_latest_observation_ref = None, ls_accumulated_evidence_refs = [],
     ls_progress_score = None, ls_repeated_failure_signature = None, ls_consecutive_no_progress = 0,
     ls_repeated_failure_count = 0, ls_provider_failure_count = 0,
     ls_budget_remaining =
       \<lparr>br_wall_time_seconds = sp_max_wall_time_seconds spec, br_tool_calls = sp_max_tool_calls spec,
        br_turns = sp_max_turns spec, br_iterations = sp_max_iterations spec\<rparr>\<rparr>"

text \<open>The fields \<open>LoopExecution\<close> fills by default: node key \<open>evaluate\<close>, attempt 1, status \<open>PENDING\<close>.\<close>

definition build_loop_execution ::
  "timestamp \<Rightarrow> string \<Rightarrow> string \<Rightarrow> LoopSpec \<Rightarrow> AcceptancePolicy \<Rightarrow> LoopExecution" where
  "build_loop_execution now new_id run_id spec policy =
    \<lparr>lx_loop_execution_id = new_id, lx_run_id = run_id, lx_node_key = ''evaluate'', lx_attempt = 1,
     lx_spec = spec, lx_state = initial_state spec, lx_acceptance_policy_ref = ap_policy_id policy,
     lx_acceptance_policy = Some policy, lx_status = Loop_PENDING, lx_stop_reason = None,
     lx_revision = 0, lx_created_at = now, lx_updated_at = now, lx_completed_at = None\<rparr>"

subsection \<open>Stopping\<close>

definition terminal_outcome ::
  "LoopExecution \<Rightarrow> VerificationStatus \<Rightarrow>
     (LoopExecutionStatus \<times> LoopStopReason \<times> RunState) option" where
  "terminal_outcome x acceptance =
    (let state = lx_state x; remaining = ls_budget_remaining state; spec = lx_spec x in
     if acceptance = V_PASS
       then Some (Loop_SUCCEEDED, Stop_VERIFIED_SUCCESS, Run_SUCCEEDED)
     else if acceptance = V_INCONCLUSIVE
       then Some (Loop_REQUIRES_HUMAN, Stop_POLICY_ESCALATION, Run_REQUIRES_HUMAN)
     else if ls_provider_failure_count state \<ge> sp_provider_failure_threshold spec
       then Some (Loop_FAILED, Stop_PROVIDER_FAILURE, Run_FAILED)
     else if br_wall_time_seconds remaining \<le> 0
       then Some (Loop_REQUIRES_HUMAN, Stop_WALL_TIME_EXCEEDED, Run_REQUIRES_HUMAN)
     else if br_tool_calls remaining \<le> 0
       then Some (Loop_REQUIRES_HUMAN, Stop_MAX_TOOL_CALLS, Run_REQUIRES_HUMAN)
     else if br_turns remaining \<le> 0
       then Some (Loop_REQUIRES_HUMAN, Stop_MAX_TURNS, Run_REQUIRES_HUMAN)
     else if br_iterations remaining \<le> 0
       then Some (Loop_REQUIRES_HUMAN, Stop_MAX_ITERATIONS, Run_REQUIRES_HUMAN)
     else if ls_consecutive_no_progress state \<ge> sp_no_progress_window spec
       then Some (Loop_REQUIRES_HUMAN, Stop_NO_PROGRESS, Run_REQUIRES_HUMAN)
     else if ls_repeated_failure_count state \<ge> sp_repeated_failure_threshold spec
       then Some (Loop_REQUIRES_HUMAN, Stop_REPEATED_FAILURE, Run_REQUIRES_HUMAN)
     else None)"

definition completed_execution ::
  "timestamp \<Rightarrow> LoopExecution \<Rightarrow> LoopExecutionStatus \<Rightarrow> LoopStopReason \<Rightarrow> LoopExecution" where
  "completed_execution now x status stop_reason =
    x\<lparr>lx_status := status, lx_stop_reason := Some stop_reason, lx_updated_at := now,
      lx_completed_at := Some now\<rparr>"

subsection \<open>One iteration\<close>

record RuntimeCallOutcome =
  oc_session_id :: string
  oc_runtime_call_id :: "string option"
  oc_completed :: bool
  oc_cancelled :: bool
  oc_tool_calls :: int
  oc_error :: "ErrorSummary option"
  oc_stop_reason :: "LoopStopReason option"

text \<open>\<open>a or b\<close> on an optional string: an empty string counts as absent.\<close>

definition or_else :: "string option \<Rightarrow> string \<Rightarrow> string" where
  "or_else a b = (case a of None \<Rightarrow> b | Some s \<Rightarrow> if s = [] then b else s)"

definition truthy :: "string option \<Rightarrow> bool" where
  "truthy a \<longleftrightarrow> a \<noteq> None \<and> a \<noteq> Some []"

definition finding_fingerprints :: "VerificationResult list \<Rightarrow> string list" where
  "finding_fingerprints results =
    sort (map (\<lambda>f. or_else (fi_fingerprint f) (fi_code f)) (concat (map vr_findings results)))"

definition next_iteration_state ::
  "(string list \<Rightarrow> string) \<Rightarrow> LoopExecution \<Rightarrow> string \<Rightarrow> string \<Rightarrow> int \<Rightarrow> RuntimeCallOutcome \<Rightarrow>
     string option \<Rightarrow> string option \<Rightarrow> VerificationResult list \<Rightarrow> int \<Rightarrow> LoopIteration option \<Rightarrow>
     LoopState \<times> LoopIteration" where
  "next_iteration_state digest x run_id iteration_id number outcome artifact_ref diff_sha256 results
      seconds_left previous =
    (let output_fingerprint = or_else diff_sha256 ''no-workspace-diff'';
         finding_signature = digest (finding_fingerprints results);
         candidate_completed = oc_completed outcome;
         previous_completed =
           (case previous of None \<Rightarrow> False | Some p \<Rightarrow> it_status p = Iter_COMPLETED);
         same_output = (candidate_completed \<and> previous_completed \<and>
           (case previous of None \<Rightarrow> False | Some p \<Rightarrow> it_output_fingerprint p = Some output_fingerprint));
         same_failure = (candidate_completed \<and> previous_completed \<and>
           (case previous of None \<Rightarrow> False | Some p \<Rightarrow> it_finding_signature p = Some finding_signature));
         state = lx_state x;
         remaining = ls_budget_remaining state;
         artifact_refs = (if truthy artifact_ref then [the artifact_ref] else []);
         observation = or_else artifact_ref iteration_id;
         next_state =
          \<lparr>ls_iteration = number,
           ls_latest_observation_ref = Some observation,
           ls_accumulated_evidence_refs =
             ls_accumulated_evidence_refs state @ artifact_refs @ map vr_verification_id results,
           ls_progress_score = None,
           ls_repeated_failure_signature = Some finding_signature,
           ls_consecutive_no_progress =
             (if same_output then ls_consecutive_no_progress state + 1
              else if candidate_completed then 0 else ls_consecutive_no_progress state),
           ls_repeated_failure_count =
             (if same_failure then ls_repeated_failure_count state + 1
              else if candidate_completed then 1 else ls_repeated_failure_count state),
           ls_provider_failure_count =
             (if candidate_completed then 0
              else if oc_stop_reason outcome = None then ls_provider_failure_count state + 1
              else ls_provider_failure_count state),
           ls_budget_remaining =
             \<lparr>br_wall_time_seconds = max 0 seconds_left,
              br_tool_calls = max 0 (br_tool_calls remaining - oc_tool_calls outcome),
              br_turns = max 0 (br_turns remaining - 1),
              br_iterations = max 0 (br_iterations remaining - 1)\<rparr>\<rparr>;
         iteration =
          \<lparr>it_iteration_id = iteration_id,
           it_loop_execution_id = lx_loop_execution_id x,
           it_run_id = run_id,
           it_number = number,
           it_status = (if oc_completed outcome then Iter_COMPLETED else Iter_FAILED),
           it_runtime_call_ref = oc_runtime_call_id outcome,
           it_observation_ref = Some observation,
           it_diff_artifact_ref = artifact_ref,
           it_artifact_refs = artifact_refs,
           it_verification_refs = map vr_verification_id results,
           it_evidence_refs = concat (map vr_evidence_refs results),
           it_diff_sha256 = diff_sha256,
           it_output_fingerprint = Some output_fingerprint,
           it_finding_signature = Some finding_signature,
           it_tool_calls = oc_tool_calls outcome,
           it_turns = 1,
           it_error = oc_error outcome\<rparr>
     in (next_state, iteration))"

datatype IterationDirectiveKind = Dir_INITIAL | Dir_REPAIR

record IterationDirective =
  di_kind :: IterationDirectiveKind
  di_objective :: string
  di_findings :: "Finding list"
  di_evidence_refs :: "string list"
  di_previous_iteration_id :: "string option"

definition repair_directive ::
  "TaskEnvelope \<Rightarrow> LoopIteration list \<Rightarrow> VerificationResult list \<Rightarrow> IterationDirective" where
  "repair_directive envelope previous results =
    \<lparr>di_kind = (if previous \<noteq> [] then Dir_REPAIR else Dir_INITIAL),
     di_objective = te_objective envelope,
     di_findings = concat (map vr_findings results),
     di_evidence_refs = concat (map vr_evidence_refs results),
     di_previous_iteration_id =
       (if previous = [] then None else Some (it_iteration_id (last previous)))\<rparr>"

text \<open>The text appended to the objective of a repair iteration embeds the findings as JSON; rendering
  that JSON is the argument \<open>feedback\<close>.\<close>

definition iteration_envelope ::
  "(Finding list \<Rightarrow> string) \<Rightarrow> TaskEnvelope \<Rightarrow> IterationDirective \<Rightarrow> int \<Rightarrow> LoopBudgetRemaining \<Rightarrow>
     TaskEnvelope" where
  "iteration_envelope feedback envelope directive seconds_left remaining =
    (let budgets = (te_budgets envelope)\<lparr>
           tb_wall_time_seconds := max 1 seconds_left,
           tb_max_turns := max 1 (br_turns remaining),
           tb_max_tool_calls := max 1 (br_tool_calls remaining),
           tb_max_loop_iterations := max 1 (br_iterations remaining)\<rparr>
     in if di_kind directive = Dir_INITIAL then envelope\<lparr>te_budgets := budgets\<rparr>
        else envelope\<lparr>te_objective := te_objective envelope @ feedback (di_findings directive),
                      te_budgets := budgets\<rparr>)"


subsection \<open>Lemmas\<close>

lemma next_iteration_fields:
  assumes "next_iteration_state digest x r i n oc a d rs left prev = (st, it)"
  shows "ls_iteration st = n" "it_number it = n" "it_iteration_id it = i" "it_run_id it = r"
    "it_loop_execution_id it = lx_loop_execution_id x"
    "it_verification_refs it = map vr_verification_id rs"
    "br_iterations (ls_budget_remaining st) =
      max 0 (br_iterations (ls_budget_remaining (lx_state x)) - 1)"
    "br_turns (ls_budget_remaining st) = max 0 (br_turns (ls_budget_remaining (lx_state x)) - 1)"
proof -
  have "st = fst (next_iteration_state digest x r i n oc a d rs left prev)"
    "it = snd (next_iteration_state digest x r i n oc a d rs left prev)" using assms by simp_all
  then show "ls_iteration st = n" "it_number it = n" "it_iteration_id it = i" "it_run_id it = r"
    "it_loop_execution_id it = lx_loop_execution_id x"
    "it_verification_refs it = map vr_verification_id rs"
    "br_iterations (ls_budget_remaining st) =
      max 0 (br_iterations (ls_budget_remaining (lx_state x)) - 1)"
    "br_turns (ls_budget_remaining st) = max 0 (br_turns (ls_budget_remaining (lx_state x)) - 1)"
    by (simp_all add: next_iteration_state_def Let_def)
qed

lemma next_iteration_counters:
  assumes "next_iteration_state digest x r i n oc a d rs left prev = (st, it)"
  shows "ls_progress_score st = None"
    "ls_consecutive_no_progress st \<in>
      {0, ls_consecutive_no_progress (lx_state x), ls_consecutive_no_progress (lx_state x) + 1}"
    "ls_repeated_failure_count st \<in>
      {1, ls_repeated_failure_count (lx_state x), ls_repeated_failure_count (lx_state x) + 1}"
    "ls_provider_failure_count st \<in>
      {0, ls_provider_failure_count (lx_state x), ls_provider_failure_count (lx_state x) + 1}"
    "0 \<le> br_wall_time_seconds (ls_budget_remaining st)" "0 \<le> br_tool_calls (ls_budget_remaining st)"
proof -
  have "st = fst (next_iteration_state digest x r i n oc a d rs left prev)" using assms by simp
  then show "ls_progress_score st = None"
    "ls_consecutive_no_progress st \<in>
      {0, ls_consecutive_no_progress (lx_state x), ls_consecutive_no_progress (lx_state x) + 1}"
    "ls_repeated_failure_count st \<in>
      {1, ls_repeated_failure_count (lx_state x), ls_repeated_failure_count (lx_state x) + 1}"
    "ls_provider_failure_count st \<in>
      {0, ls_provider_failure_count (lx_state x), ls_provider_failure_count (lx_state x) + 1}"
    "0 \<le> br_wall_time_seconds (ls_budget_remaining st)" "0 \<le> br_tool_calls (ls_budget_remaining st)"
    by (simp_all add: next_iteration_state_def Let_def)
qed

lemma next_iteration_valid:
  assumes "next_iteration_state digest x r i n oc a d rs left prev = (st, it)"
    "valid_LoopState (lx_state x)" "0 \<le> n"
  shows "valid_LoopState st"
  using next_iteration_counters [OF assms(1)] next_iteration_fields [OF assms(1)] assms(2,3)
  by (auto simp: valid_LoopState_def valid_LoopBudgetRemaining_def unit_score_def)

lemma build_loop_valid:
  assumes "valid_TaskBudgets (te_budgets e)"
  shows "valid_LoopSpec (build_loop_spec i e vs)"
    "valid_LoopState (initial_state (build_loop_spec i e vs))"
  using assms
  by (auto simp: build_loop_spec_def initial_state_def valid_LoopSpec_def valid_LoopState_def
    valid_LoopBudgetRemaining_def valid_TaskBudgets_def unit_score_def Let_def)

text \<open>What has to hold for the loop to go on.\<close>

definition within_limits :: "LoopExecution \<Rightarrow> bool" where
  "within_limits x \<longleftrightarrow>
     ls_provider_failure_count (lx_state x) < sp_provider_failure_threshold (lx_spec x) \<and>
     0 < br_wall_time_seconds (ls_budget_remaining (lx_state x)) \<and>
     0 < br_tool_calls (ls_budget_remaining (lx_state x)) \<and>
     0 < br_turns (ls_budget_remaining (lx_state x)) \<and>
     0 < br_iterations (ls_budget_remaining (lx_state x)) \<and>
     ls_consecutive_no_progress (lx_state x) < sp_no_progress_window (lx_spec x) \<and>
     ls_repeated_failure_count (lx_state x) < sp_repeated_failure_threshold (lx_spec x)"

lemma terminal_outcome_None: "terminal_outcome x a = None \<longleftrightarrow> a = V_FAIL \<and> within_limits x"
  by (cases a) (auto simp: terminal_outcome_def within_limits_def Let_def not_le)

text \<open>The run state that goes with a loop status.\<close>

fun run_state_of :: "LoopExecutionStatus \<Rightarrow> RunState" where
  "run_state_of Loop_SUCCEEDED = Run_SUCCEEDED"
| "run_state_of Loop_FAILED = Run_FAILED"
| "run_state_of Loop_CANCELLED = Run_CANCELLED"
| "run_state_of _ = Run_REQUIRES_HUMAN"

lemma terminal_outcome_Some:
  assumes "terminal_outcome x a = Some (status, reason, state)"
  shows "state = run_state_of status" "status \<in> {Loop_SUCCEEDED, Loop_FAILED, Loop_REQUIRES_HUMAN}"
    "status = Loop_SUCCEEDED \<longleftrightarrow> a = V_PASS"
    "status = Loop_FAILED \<longleftrightarrow> a = V_FAIL \<and>
      sp_provider_failure_threshold (lx_spec x) \<le> ls_provider_failure_count (lx_state x)"
  using assms
  by (cases a; auto simp: terminal_outcome_def Let_def split: if_splits)+

text \<open>The stop rule. A loop goes on exactly when verification failed and every budget and every
  failure counter is within its limit; it ends \<open>SUCCEEDED\<close> exactly on a passing acceptance (whatever
  the budgets say), \<open>FAILED\<close> exactly when acceptance failed and the provider-failure threshold is
  reached, and everything else asks for a human; the run state always matches the loop status.\<close>

theorem terminal_outcome_rule:
  "(terminal_outcome x a = None \<longleftrightarrow> a = V_FAIL \<and> within_limits x) \<and>
   (\<forall>status reason state. terminal_outcome x a = Some (status, reason, state) \<longrightarrow>
      state = run_state_of status \<and> status \<in> {Loop_SUCCEEDED, Loop_FAILED, Loop_REQUIRES_HUMAN} \<and>
      (status = Loop_SUCCEEDED \<longleftrightarrow> a = V_PASS) \<and>
      (status = Loop_FAILED \<longleftrightarrow> a = V_FAIL \<and>
         sp_provider_failure_threshold (lx_spec x) \<le> ls_provider_failure_count (lx_state x)))"
  by (intro conjI allI impI) (rule terminal_outcome_None | erule terminal_outcome_Some)+

theorem terminal_outcome_rule_witness:
  "terminal_outcome (build_loop_execution 0 ''x'' ''r''
      \<lparr>sp_loop_id = ''l'', sp_max_iterations = 3, sp_max_wall_time_seconds = 60, sp_max_tool_calls = 9,
       sp_max_turns = 9, sp_no_progress_window = 2, sp_repeated_failure_threshold = 2,
       sp_provider_failure_threshold = 2, sp_escalation_target = ''HUMAN'', sp_verifier_refs = []\<rparr>
      sample_policy) V_FAIL = None"
  using terminal_outcome_rule
  by (simp add: within_limits_def build_loop_execution_def initial_state_def)

end
