(* ===== verification/Loop_Run.thy ===== *)
theory Loop_Run
  imports Loop_Engine Store_Invariants
begin

text \<open>
  \<open>RunManager\<close>'s whole-run loop (\<^verbatim>\<open>src/accretion/services/run_manager.py\<close>): \<open>_execute_loop\<close> with the
  methods it calls, over the store. The manager's state is the store, a counter of the identifiers and
  clock readings drawn so far, and the log of calls submitted to the runtime.

  Everything outside the manager is an argument. \<open>env\<close> holds \<open>new_id\<close>, the clock, \<open>redact\<close>, the
  digest, \<open>str()\<close> on JSON values that are not strings and the rendering of findings. \<open>turn_input\<close> is
  what one pass through the loop reads from the outside: whether a pause was requested at the three
  places where that is checked, whether the deadline has passed, the outcome of the runtime call, the
  captured diff, the verifiers' verdicts, and what other tasks did to the store meanwhile. A statement
  for all inputs is therefore a statement about every behaviour of the runtime and of the operator.
  \<open>_notify\<close>, the worktree release and the projection of experiences do not touch this state.

  Shown: the loop stops by itself within its iteration budget, it reports success only on an accepted
  verification, a run gets at most one terminal event, and a resumed loop may run one iteration more
  than its budget.
\<close>

subsection \<open>Manager state\<close>

record env =
  en_new_id :: "string \<Rightarrow> nat \<Rightarrow> string"
  en_now :: "nat \<Rightarrow> timestamp"
  en_redact :: "(string, json) dict \<Rightarrow> (string, json) dict"
  en_digest :: "string list \<Rightarrow> string"
  en_str :: "json \<Rightarrow> string"
  en_feedback :: "Finding list \<Rightarrow> string"
  en_registered :: "string \<Rightarrow> bool"

record runtime_call =
  rc_iteration :: int
  rc_envelope :: TaskEnvelope
  rc_directive :: IterationDirective

record manager =
  mg_store :: store
  mg_draws :: nat
  mg_calls :: "runtime_call list"

type_synonym 'a act = "manager \<Rightarrow> 'a res \<times> manager"

definition ret :: "'a \<Rightarrow> 'a act" where
  "ret x m = (Inr x, m)"

definition raise_act :: "py_exn \<Rightarrow> 'a act" where
  "raise_act e m = (Inl e, m)"

definition bind_act :: "'a act \<Rightarrow> ('a \<Rightarrow> 'b act) \<Rightarrow> 'b act" where
  "bind_act f g m = (case f m of (Inl e, m') \<Rightarrow> (Inl e, m') | (Inr x, m') \<Rightarrow> g x m')"

definition draw_id :: "env \<Rightarrow> string \<Rightarrow> string act" where
  "draw_id env kind m = (Inr (en_new_id env kind (mg_draws m)), m\<lparr>mg_draws := Suc (mg_draws m)\<rparr>)"

text \<open>A store operation, given the current time.\<close>

definition store_op :: "env \<Rightarrow> (timestamp \<Rightarrow> 'a op) \<Rightarrow> 'a act" where
  "store_op env f m =
    (case f (en_now env (mg_draws m)) (mg_store m) of
       (out, s) \<Rightarrow> (out, m\<lparr>mg_store := s, mg_draws := Suc (mg_draws m)\<rparr>))"

definition query :: "(store \<Rightarrow> 'a) \<Rightarrow> 'a act" where
  "query f m = (Inr (f (mg_store m)), m)"

text \<open>What other tasks do to the store while this one waits.\<close>

definition wait_for :: "(store \<Rightarrow> store) \<Rightarrow> unit act" where
  "wait_for f m = (Inr (), m\<lparr>mg_store := f (mg_store m)\<rparr>)"

definition submit_call :: "runtime_call \<Rightarrow> unit act" where
  "submit_call c m = (Inr (), m\<lparr>mg_calls := mg_calls m @ [c]\<rparr>)"

subsection \<open>Values of enumerations and JSON\<close>

fun status_value :: "VerificationStatus \<Rightarrow> string" where
  "status_value V_PASS = ''PASS''"
| "status_value V_FAIL = ''FAIL''"
| "status_value V_INCONCLUSIVE = ''INCONCLUSIVE''"

fun iteration_status_value :: "LoopIterationStatus \<Rightarrow> string" where
  "iteration_status_value Iter_COMPLETED = ''COMPLETED''"
| "iteration_status_value Iter_INTERRUPTED = ''INTERRUPTED''"
| "iteration_status_value Iter_FAILED = ''FAILED''"
| "iteration_status_value Iter_CANCELLED = ''CANCELLED''"

fun stop_reason_value :: "LoopStopReason \<Rightarrow> string" where
  "stop_reason_value Stop_VERIFIED_SUCCESS = ''VERIFIED_SUCCESS''"
| "stop_reason_value Stop_MAX_ITERATIONS = ''MAX_ITERATIONS''"
| "stop_reason_value Stop_MAX_TURNS = ''MAX_TURNS''"
| "stop_reason_value Stop_MAX_TOOL_CALLS = ''MAX_TOOL_CALLS''"
| "stop_reason_value Stop_WALL_TIME_EXCEEDED = ''WALL_TIME_EXCEEDED''"
| "stop_reason_value Stop_NO_PROGRESS = ''NO_PROGRESS''"
| "stop_reason_value Stop_REPEATED_FAILURE = ''REPEATED_FAILURE''"
| "stop_reason_value Stop_VERIFIER_UNAVAILABLE = ''VERIFIER_UNAVAILABLE''"
| "stop_reason_value Stop_PROVIDER_FAILURE = ''PROVIDER_FAILURE''"
| "stop_reason_value Stop_OPERATOR_CANCELLED = ''OPERATOR_CANCELLED''"
| "stop_reason_value Stop_INTERRUPTED = ''INTERRUPTED''"
| "stop_reason_value Stop_POLICY_ESCALATION = ''POLICY_ESCALATION''"

fun run_state_value :: "RunState \<Rightarrow> string" where
  "run_state_value Run_PENDING = ''PENDING''"
| "run_state_value Run_STARTING = ''STARTING''"
| "run_state_value Run_RUNNING = ''RUNNING''"
| "run_state_value Run_PAUSED = ''PAUSED''"
| "run_state_value Run_RECONCILING = ''RECONCILING''"
| "run_state_value Run_SUCCEEDED = ''SUCCEEDED''"
| "run_state_value Run_FAILED = ''FAILED''"
| "run_state_value Run_CANCELLED = ''CANCELLED''"
| "run_state_value Run_REQUIRES_HUMAN = ''REQUIRES_HUMAN''"

fun json_truthy :: "json \<Rightarrow> bool" where
  "json_truthy JNull = False"
| "json_truthy (JBool b) = b"
| "json_truthy (JInt n) = (n \<noteq> 0)"
| "json_truthy (JFloat x) = (x \<noteq> 0)"
| "json_truthy (JStr s) = (s \<noteq> [])"
| "json_truthy (JList xs) = (xs \<noteq> [])"
| "json_truthy (JObj kvs) = (kvs \<noteq> [])"

text \<open>\<open>value == n\<close>: Python compares booleans and floats with integers by number.\<close>

fun json_eq_int :: "json \<Rightarrow> int \<Rightarrow> bool" where
  "json_eq_int (JInt k) n = (k = n)"
| "json_eq_int (JBool b) n = (n = (if b then 1 else 0))"
| "json_eq_int (JFloat x) n = (x = of_int n)"
| "json_eq_int _ n = False"

definition json_str :: "env \<Rightarrow> json \<Rightarrow> string" where
  "json_str env v = (case v of JStr s \<Rightarrow> s | _ \<Rightarrow> en_str env v)"

definition get_truthy :: "(string, json) dict \<Rightarrow> string \<Rightarrow> json option" where
  "get_truthy d k = (case dget d k of None \<Rightarrow> None | Some v \<Rightarrow> if json_truthy v then Some v else None)"

text \<open>The first key of a list whose value is truthy.\<close>

fun first_truthy :: "(string, json) dict \<Rightarrow> string list \<Rightarrow> json option" where
  "first_truthy d [] = None"
| "first_truthy d (k # ks) = (case get_truthy d k of Some v \<Rightarrow> Some v | None \<Rightarrow> first_truthy d ks)"

definition tool_call_key :: "env \<Rightarrow> AgentEvent \<Rightarrow> string" where
  "tool_call_key env e =
    (let ks = [''tool_call_id'', ''native_request_id'', ''call_id'', ''id''] in
     case first_truthy (ev_payload e) ks of
       Some v \<Rightarrow> json_str env v
     | None \<Rightarrow>
       (case dget (ev_payload e) ''provider_extension'' of
          Some (JObj ext) \<Rightarrow>
            (case first_truthy ext ks of
               Some v \<Rightarrow> json_str env v
             | None \<Rightarrow>
               (case dget ext ''item'' of
                  Some (JObj item) \<Rightarrow>
                    (case first_truthy item [''tool_call_id'', ''call_id'', ''id''] of
                       Some v \<Rightarrow> json_str env v
                     | None \<Rightarrow> ev_event_id e)
                | _ \<Rightarrow> ev_event_id e))
        | _ \<Rightarrow> ev_event_id e))"

subsection \<open>Events\<close>

definition node_id :: "string \<Rightarrow> string \<Rightarrow> string" where
  "node_id run_id key = run_id @ '':'' @ key"

definition control_event ::
  "env \<Rightarrow> Run \<Rightarrow> string \<Rightarrow> EventType \<Rightarrow> string option \<Rightarrow> (string, json) dict \<Rightarrow> string option \<Rightarrow>
     AgentEvent act" where
  "control_event env run native_type normalized_type session_id payload node_key m =
    (Inr \<lparr>ev_event_id = en_new_id env ''event'' (mg_draws m),
          ev_run_id = rn_run_id run,
          ev_session_id = or_else session_id (or_else (rn_session_id run) ''ses_pending''),
          ev_provider = Prov_DETERMINISTIC,
          ev_native_type = native_type,
          ev_normalized_type = normalized_type,
          ev_sequence = 0,
          ev_timestamp = en_now env (mg_draws m),
          ev_correlation_id = rn_run_id run,
          ev_causation_id = None,
          ev_node_id = (if truthy node_key then Some (node_id (rn_run_id run) (the node_key)) else None),
          ev_payload = en_redact env payload,
          ev_adapter_version = ''control-plane-p2-v1''\<rparr>,
     m\<lparr>mg_draws := Suc (mg_draws m)\<rparr>)"

text \<open>\<open>_append(self._control_event(...))\<close>\<close>

definition emit ::
  "env \<Rightarrow> Run \<Rightarrow> string \<Rightarrow> EventType \<Rightarrow> string option \<Rightarrow> (string, json) dict \<Rightarrow> string option \<Rightarrow>
     unit act" where
  "emit env run native_type normalized_type session_id payload node_key =
    bind_act (control_event env run native_type normalized_type session_id payload node_key)
      (\<lambda>e. bind_act (store_op env (\<lambda>_. append_event e)) (\<lambda>_. ret ()))"

definition node_transition ::
  "env \<Rightarrow> Run \<Rightarrow> string \<Rightarrow> string \<Rightarrow> bool \<Rightarrow> string \<Rightarrow> unit act" where
  "node_transition env run session_id key entered status =
    emit env run (if entered then ''accretion/node-entered'' else ''accretion/node-exited'')
      (if entered then Ev_NODE_ENTERED else Ev_NODE_EXITED) (Some session_id)
      [(''status'', JStr (if entered then ''RUNNING'' else status))] (Some key)"

definition require_run :: "string \<Rightarrow> Run act" where
  "require_run run_id = bind_act (query (\<lambda>s. get_run s run_id))
    (\<lambda>r. case r of None \<Rightarrow> raise_act (KeyError ''run'') | Some run \<Rightarrow> ret run)"

definition require_loop :: "string \<Rightarrow> LoopExecution act" where
  "require_loop run_id = bind_act (query (\<lambda>s. get_loop_execution_for_run s run_id))
    (\<lambda>r. case r of None \<Rightarrow> raise_act (KeyError ''loop'') | Some x \<Rightarrow> ret x)"

definition require_policy :: "string \<Rightarrow> AcceptancePolicy act" where
  "require_policy policy_id = bind_act (query (\<lambda>s. dget (st_acceptance_policies s) policy_id))
    (\<lambda>r. case r of None \<Rightarrow> raise_act (KeyError ''policy'') | Some p \<Rightarrow> ret p)"


subsection \<open>Ending a run\<close>

definition is_terminal_event :: "AgentEvent \<Rightarrow> bool" where
  "is_terminal_event e \<longleftrightarrow> ev_normalized_type e \<in> {Ev_RUN_COMPLETED, Ev_RUN_FAILED, Ev_RUN_CANCELLED}"

definition terminal_events :: "store \<Rightarrow> string \<Rightarrow> AgentEvent list" where
  "terminal_events s run_id = filter is_terminal_event (list_events s run_id 0)"

definition recovered_state :: "EventType \<Rightarrow> RunState \<Rightarrow> RunState" where
  "recovered_state existing_type state =
    (if existing_type = Ev_RUN_COMPLETED then Run_SUCCEEDED
     else if existing_type = Ev_RUN_CANCELLED then Run_CANCELLED
     else if state = Run_REQUIRES_HUMAN then Run_REQUIRES_HUMAN else Run_FAILED)"

definition error_update :: "ErrorSummary option \<Rightarrow> run_update" where
  "error_update err = no_update\<lparr>ru_error := err\<rparr>"

definition commit_run_terminal ::
  "env \<Rightarrow> Run \<Rightarrow> RunState \<Rightarrow> EventType \<Rightarrow> string \<Rightarrow> string option \<Rightarrow> (string, json) dict \<Rightarrow>
     string option \<Rightarrow> string option \<Rightarrow> ErrorSummary option \<Rightarrow> Run act" where
  "commit_run_terminal env run state event_type native_type session_id payload node_key
      final_node_status err =
    (let payload' = (if dhas payload ''terminal_state'' then payload
           else payload @ [(''terminal_state'', JStr (run_state_value state))]);
         sid = or_else session_id (or_else (rn_session_id run) ''ses_pending'')
     in bind_act (require_run (rn_run_id run)) (\<lambda>current.
        bind_act (query (\<lambda>s. terminal_events s (rn_run_id run))) (\<lambda>existing.
        if existing \<noteq> [] then
          (if rn_state current \<notin> TERMINAL_RUN_STATES
           then store_op env (\<lambda>now. update_run now (rn_run_id run)
                  (recovered_state (ev_normalized_type (hd existing)) state) (error_update err))
           else ret current)
        else
          bind_act (store_op env (\<lambda>now. update_run now (rn_run_id run) state (error_update err)))
            (\<lambda>current.
          bind_act (if final_node_status \<noteq> None \<and> node_key \<noteq> None
              then node_transition env run sid (the node_key) True ''SUCCEEDED'' else ret ()) (\<lambda>_.
          bind_act (emit env run native_type event_type session_id payload' node_key) (\<lambda>_.
          bind_act (if final_node_status \<noteq> None \<and> node_key \<noteq> None
              then node_transition env run sid (the node_key) False (the final_node_status)
              else ret ()) (\<lambda>_.
          ret current)))))))"

definition finish_loop ::
  "env \<Rightarrow> Run \<Rightarrow> LoopExecution \<Rightarrow> LoopExecutionStatus \<Rightarrow> LoopStopReason \<Rightarrow> RunState \<Rightarrow> string \<Rightarrow> bool \<Rightarrow>
     unit act" where
  "finish_loop env run x loop_status stop_reason run_state session_id loop_already_updated =
    bind_act (if loop_already_updated then ret x
        else store_op env (\<lambda>now. update_loop_execution now (lx_loop_execution_id x) (lx_state x)
               (Some loop_status) (Some stop_reason) (Some (lx_revision x)))) (\<lambda>x.
    bind_act (commit_run_terminal env run run_state
        (if run_state = Run_SUCCEEDED then Ev_RUN_COMPLETED
         else if run_state = Run_CANCELLED then Ev_RUN_CANCELLED else Ev_RUN_FAILED)
        ''accretion/loop-terminal'' (Some session_id)
        [(''loop_execution_id'', JStr (lx_loop_execution_id x)),
         (''stop_reason'', JStr (stop_reason_value stop_reason))]
        (Some ''complete'')
        (Some (if run_state = Run_SUCCEEDED then ''SUCCEEDED''
           else if run_state = Run_CANCELLED then ''CANCELLED''
           else if run_state = Run_REQUIRES_HUMAN then ''WAITING'' else ''FAILED''))
        None) (\<lambda>_.
    ret ()))"

definition append_pause_if_missing :: "env \<Rightarrow> Run \<Rightarrow> unit act" where
  "append_pause_if_missing env run =
    bind_act (query (\<lambda>s. list_events s (rn_run_id run) 0)) (\<lambda>events.
    if list_ex (\<lambda>e. ev_normalized_type e = Ev_RUN_PAUSED) events then ret ()
    else emit env run ''accretion/reconciled-run-paused'' Ev_RUN_PAUSED None
      [(''reason'', JStr (stop_reason_value Stop_INTERRUPTED)), (''reconciled'', JBool True)] None)"

subsection \<open>Interrupted iterations\<close>

text \<open>\<open>f"-{n:03}.patch"\<close> for a non-negative number\<close>

definition patch_suffix :: "int \<Rightarrow> string" where
  "patch_suffix n = (let d = show_nat (nat n) in
     ''-'' @ replicate (3 - length d) CHR ''0'' @ d @ ''.patch'')"

definition path_name :: "string \<Rightarrow> string" where
  "path_name p = last (split_on CHR ''/'' p)"

definition dangling_artifact :: "int \<Rightarrow> ArtifactRef list \<Rightarrow> ArtifactRef option" where
  "dangling_artifact number artifacts =
    find (\<lambda>a. ac_kind a = ''LOOP_ITERATION_GIT_DIFF'' \<and> suffix (patch_suffix number) (path_name (ac_path a)))
      (rev artifacts)"

definition started_event :: "int \<Rightarrow> AgentEvent list \<Rightarrow> AgentEvent option" where
  "started_event number events =
    find (\<lambda>e. ev_normalized_type e = Ev_LOOP_ITERATION_STARTED \<and>
        (case dget (ev_payload e) ''number'' of None \<Rightarrow> False | Some v \<Rightarrow> json_eq_int v number))
      (rev events)"

text \<open>The handler around the append: a \<open>ValueError\<close> is forgiven when the loop already has the
  iteration.\<close>

definition current_if_committed :: "string \<Rightarrow> int \<Rightarrow> LoopExecution act \<Rightarrow> LoopExecution option act" where
  "current_if_committed eid expected_number f m =
    (case f m of
       (Inr updated, m') \<Rightarrow> (Inr (Some updated), m')
     | (Inl (ValueError msg), m') \<Rightarrow>
         (case get_loop_execution (mg_store m') eid of
            Some current \<Rightarrow>
              if ls_iteration (lx_state current) \<ge> expected_number then (Inr (Some current), m')
              else (Inl (ValueError msg), m')
          | None \<Rightarrow> (Inl (ValueError msg), m'))
     | (Inl e, m') \<Rightarrow> (Inl e, m'))"

definition close_dangling_iteration ::
  "env \<Rightarrow> Run \<Rightarrow> LoopExecution \<Rightarrow> LoopIterationStatus \<Rightarrow> LoopExecutionStatus \<Rightarrow> LoopStopReason \<Rightarrow>
     string option \<Rightarrow> int \<Rightarrow> LoopExecution option act" where
  "close_dangling_iteration env run x iteration_status loop_status stop_reason session_id seconds_left =
    (let expected_number = ls_iteration (lx_state x) + 1 in
     bind_act (query (\<lambda>s. list_events s (rn_run_id run) 0)) (\<lambda>events.
     case started_event expected_number events of
       None \<Rightarrow> ret None
     | Some started \<Rightarrow>
       bind_act (case get_truthy (ev_payload started) ''iteration_id'' of
           Some v \<Rightarrow> ret (json_str env v) | None \<Rightarrow> draw_id env ''iteration'') (\<lambda>iteration_id.
       bind_act (query (\<lambda>s. list_loop_iterations s (lx_loop_execution_id x))) (\<lambda>persisted.
       if list_ex (\<lambda>i. it_iteration_id i = iteration_id) persisted
         then query (\<lambda>s. get_loop_execution s (lx_loop_execution_id x))
       else
       bind_act (query (\<lambda>s. list_artifacts s (rn_run_id run))) (\<lambda>artifacts.
       let attempt_events = filter (\<lambda>e. ev_sequence e \<ge> ev_sequence started) events;
           tool_ids = set (map (tool_call_key env)
             (filter (\<lambda>e. ev_normalized_type e \<in> {Ev_TOOL_REQUESTED, Ev_TOOL_STARTED}) attempt_events));
           runtime_call_ref = map_option (\<lambda>e. json_str env (the (get_truthy (ev_payload e) ''runtime_call_id'')))
             (find (\<lambda>e. get_truthy (ev_payload e) ''runtime_call_id'' \<noteq> None) attempt_events);
           artifact = dangling_artifact expected_number artifacts;
           state = lx_state x;
           remaining = ls_budget_remaining state;
           used_tools = min (int (card tool_ids)) (br_tool_calls remaining);
           artifact_refs = (case artifact of None \<Rightarrow> [] | Some a \<Rightarrow> [ac_artifact_id a]);
           observation = (case artifact of None \<Rightarrow> iteration_id | Some a \<Rightarrow> ac_artifact_id a);
           next_state =
             \<lparr>ls_iteration = expected_number, ls_latest_observation_ref = Some observation,
              ls_accumulated_evidence_refs = ls_accumulated_evidence_refs state @ artifact_refs,
              ls_progress_score = ls_progress_score state,
              ls_repeated_failure_signature = ls_repeated_failure_signature state,
              ls_consecutive_no_progress = ls_consecutive_no_progress state,
              ls_repeated_failure_count = ls_repeated_failure_count state,
              ls_provider_failure_count = ls_provider_failure_count state,
              ls_budget_remaining =
                \<lparr>br_wall_time_seconds = max 0 seconds_left,
                 br_tool_calls = max 0 (br_tool_calls remaining - used_tools),
                 br_turns = max 0 (br_turns remaining - 1),
                 br_iterations = max 0 (br_iterations remaining - 1)\<rparr>\<rparr>;
           error_code = (if iteration_status = Iter_CANCELLED then ''OPERATOR_CANCELLED''
             else ''ITERATION_INTERRUPTED'');
           iteration =
             \<lparr>it_iteration_id = iteration_id, it_loop_execution_id = lx_loop_execution_id x,
              it_run_id = rn_run_id run, it_number = expected_number, it_status = iteration_status,
              it_runtime_call_ref = runtime_call_ref, it_observation_ref = Some observation,
              it_diff_artifact_ref = map_option ac_artifact_id artifact,
              it_artifact_refs = artifact_refs, it_verification_refs = [], it_evidence_refs = [],
              it_diff_sha256 = (case artifact of None \<Rightarrow> None | Some a \<Rightarrow> ac_sha256 a),
              it_output_fingerprint =
                (case artifact of None \<Rightarrow> Some ''no-workspace-diff'' | Some a \<Rightarrow> ac_sha256 a),
              it_finding_signature = None, it_tool_calls = used_tools, it_turns = 1,
              it_error = Some \<lparr>er_code = error_code, er_message = stop_reason_value stop_reason,
                er_retryable = False\<rparr>\<rparr>
       in bind_act (control_event env run
              (''accretion/loop-iteration-'' @ str_lower (iteration_status_value iteration_status))
              Ev_LOOP_ITERATION_COMPLETED (Some (or_else session_id (ev_session_id started)))
              [(''iteration_id'', JStr iteration_id), (''number'', JInt expected_number),
               (''status'', JStr (iteration_status_value iteration_status))] (Some ''evaluate'')) (\<lambda>event.
          current_if_committed (lx_loop_execution_id x) expected_number
            (store_op env (\<lambda>now. append_loop_iteration now (lx_loop_execution_id x) iteration
               next_state (Some loop_status) (Some stop_reason) (Some (lx_revision x)) [] [event] None))))))))"

definition pause_loop :: "env \<Rightarrow> Run \<Rightarrow> LoopExecution \<Rightarrow> string \<Rightarrow> int \<Rightarrow> unit act" where
  "pause_loop env run x session_id seconds_left =
    bind_act (close_dangling_iteration env run x Iter_INTERRUPTED Loop_PAUSED Stop_INTERRUPTED
        (Some session_id) seconds_left) (\<lambda>closed.
    bind_act (if closed = None
        then bind_act (store_op env (\<lambda>now. update_loop_execution now (lx_loop_execution_id x) (lx_state x)
               (Some Loop_PAUSED) (Some Stop_INTERRUPTED) (Some (lx_revision x)))) (\<lambda>_. ret ())
        else ret ()) (\<lambda>_.
    bind_act (store_op env (\<lambda>now. update_run now (rn_run_id run) Run_PAUSED no_update)) (\<lambda>_.
    emit env run ''accretion/run-paused'' Ev_RUN_PAUSED (Some session_id) [] None)))"


definition pause_interrupted_iteration ::
  "env \<Rightarrow> Run \<Rightarrow> LoopExecution \<Rightarrow> string \<Rightarrow> string \<Rightarrow> int \<Rightarrow> RuntimeCallOutcome \<Rightarrow> int \<Rightarrow>
     LoopIteration option \<Rightarrow> unit act" where
  "pause_interrupted_iteration env run x session_id iteration_id number outcome seconds_left previous =
    (let interrupted = outcome\<lparr>oc_completed := False, oc_cancelled := True,
           oc_stop_reason := Some Stop_INTERRUPTED\<rparr>;
         (next_state, it) = next_iteration_state (en_digest env) x (rn_run_id run) iteration_id number
           interrupted None None [] seconds_left previous;
         iteration = it\<lparr>it_status := Iter_INTERRUPTED\<rparr>
     in bind_act (control_event env run ''accretion/loop-iteration-interrupted''
            Ev_LOOP_ITERATION_COMPLETED (Some session_id)
            [(''iteration_id'', JStr iteration_id), (''number'', JInt number),
             (''status'', JStr (iteration_status_value Iter_INTERRUPTED))] (Some ''evaluate'')) (\<lambda>event.
        bind_act (store_op env (\<lambda>now. append_loop_iteration now (lx_loop_execution_id x) iteration
            next_state (Some Loop_PAUSED) (Some Stop_INTERRUPTED) (Some (lx_revision x)) [] [event]
            None)) (\<lambda>_.
        bind_act (store_op env (\<lambda>now. update_run now (rn_run_id run) Run_PAUSED no_update)) (\<lambda>_.
        emit env run ''accretion/run-paused'' Ev_RUN_PAUSED (Some session_id)
          [(''reason'', JStr (stop_reason_value Stop_INTERRUPTED))] None))))"

fun loop_terminal_state :: "LoopExecutionStatus \<Rightarrow> (RunState \<times> EventType) option" where
  "loop_terminal_state Loop_SUCCEEDED = Some (Run_SUCCEEDED, Ev_RUN_COMPLETED)"
| "loop_terminal_state Loop_FAILED = Some (Run_FAILED, Ev_RUN_FAILED)"
| "loop_terminal_state Loop_CANCELLED = Some (Run_CANCELLED, Ev_RUN_CANCELLED)"
| "loop_terminal_state Loop_REQUIRES_HUMAN = Some (Run_REQUIRES_HUMAN, Ev_RUN_FAILED)"
| "loop_terminal_state _ = None"

definition cancel_execution :: "env \<Rightarrow> string \<Rightarrow> int \<Rightarrow> unit act" where
  "cancel_execution env run_id seconds_left =
    bind_act (query (\<lambda>s. get_run s run_id)) (\<lambda>found.
    case found of
      None \<Rightarrow> ret ()
    | Some run \<Rightarrow>
      if rn_state run \<in> TERMINAL_RUN_STATES then ret ()
      else
      bind_act (query (\<lambda>s. get_loop_execution_for_run s run_id)) (\<lambda>execution.
      case (case execution of None \<Rightarrow> None | Some x \<Rightarrow>
          if rn_execution_mode run = Some Mode_LOOP then
            map_option (\<lambda>t. (x, t)) (loop_terminal_state (lx_status x)) else None) of
        Some (x, state, event_type) \<Rightarrow>
          bind_act (commit_run_terminal env run state event_type ''accretion/recovered-loop-terminal'' None
            [(''stop_reason'', JStr (case lx_stop_reason x of None \<Rightarrow> ''UNKNOWN''
                | Some r \<Rightarrow> stop_reason_value r))] (Some ''complete'') None None) (\<lambda>_. ret ())
      | None \<Rightarrow>
          bind_act (case execution of
              None \<Rightarrow> ret ()
            | Some x \<Rightarrow>
                if loop_terminal_state (lx_status x) \<noteq> None then ret ()
                else bind_act (close_dangling_iteration env run x Iter_CANCELLED Loop_CANCELLED
                       Stop_OPERATOR_CANCELLED None seconds_left) (\<lambda>closed.
                     if closed = None
                     then bind_act (store_op env (\<lambda>now. update_loop_execution now
                            (lx_loop_execution_id x) (lx_state x) (Some Loop_CANCELLED)
                            (Some Stop_OPERATOR_CANCELLED) (Some (lx_revision x)))) (\<lambda>_. ret ())
                     else ret ())) (\<lambda>_.
          bind_act (commit_run_terminal env run Run_CANCELLED Ev_RUN_CANCELLED
            ''accretion/run-cancelled'' None [] None None None) (\<lambda>_. ret ()))))"

subsection \<open>The loop\<close>

record lease_ref =
  le_lease_id :: string
  le_base_revision :: string

record turn_input =
  ti_pause_head :: bool
  ti_deadline_passed :: bool
  ti_left_before :: int
  ti_during_call :: "store \<Rightarrow> store"
  ti_outcome :: RuntimeCallOutcome
  ti_pause_call :: bool
  ti_artifact :: "ArtifactRef option"
  ti_during_verify :: "store \<Rightarrow> store"
  ti_verdict :: "string \<Rightarrow> VerificationResult"
  ti_left_after :: int
  ti_pause_commit :: bool

datatype loop_end =
    End_paused
  | End_cancelled
  | End_terminal LoopExecutionStatus LoopStopReason RunState
  | End_starved

text \<open>\<open>_verify_candidate\<close>: each required verifier is looked up in the registry, a started event is
  emitted, and its verdict (an \<open>INCONCLUSIVE\<close> result when it raises) is stored and reported as the flags
  ask. \<open>verdict\<close> stands for what the verifier answers.\<close>

fun verify_candidate ::
  "env \<Rightarrow> Run \<Rightarrow> string \<Rightarrow> string option \<Rightarrow> bool \<Rightarrow> bool \<Rightarrow> (string \<Rightarrow> VerificationResult) \<Rightarrow> string list \<Rightarrow>
     VerificationResult list act" where
  "verify_candidate env run session_id iteration_id persist emit_result verdict [] = ret []"
| "verify_candidate env run session_id iteration_id persist emit_result verdict (v # vs) =
    (if \<not> en_registered env v then raise_act (VerifierUnavailableError v) else
    bind_act (emit env run ''accretion/verification-started'' Ev_VERIFICATION_STARTED (Some session_id)
      [(''verifier_id'', JStr v),
       (''iteration_id'', case iteration_id of None \<Rightarrow> JNull | Some i \<Rightarrow> JStr i)] (Some ''verify'')) (\<lambda>_.
    bind_act (if persist then store_op env (\<lambda>_. save_verification (verdict v)) else ret ()) (\<lambda>_.
    bind_act (if emit_result
      then emit env run ''accretion/verification-result'' Ev_VERIFICATION_RESULT (Some session_id)
        [(''verification_id'', JStr (vr_verification_id (verdict v))),
         (''verifier_id'', JStr (vr_verifier_id (verdict v))),
         (''status'', JStr (status_value (vr_status (verdict v))))] (Some ''verify'')
      else ret ()) (\<lambda>_.
    bind_act (verify_candidate env run session_id iteration_id persist emit_result verdict vs) (\<lambda>rs.
    ret (verdict v # rs))))))"

definition turn_acceptance ::
  "AcceptancePolicy \<Rightarrow> TaskEnvelope \<Rightarrow> RuntimeCallOutcome \<Rightarrow> VerificationResult list \<Rightarrow>
     VerificationStatus" where
  "turn_acceptance policy envelope outcome results =
    (if oc_completed outcome
     then ae_status (Acceptance.evaluate_acceptance policy results (Some (te_risk_level envelope)))
     else V_FAIL)"

definition iteration_checkpoint ::
  "timestamp \<Rightarrow> string \<Rightarrow> Run \<Rightarrow> lease_ref \<Rightarrow> LoopExecution \<Rightarrow> LoopState \<Rightarrow> LoopExecutionStatus \<Rightarrow>
     ArtifactRef option \<Rightarrow> Checkpoint" where
  "iteration_checkpoint now checkpoint_id run lease x next_state status artifact =
    \<lparr>ck_checkpoint_id = checkpoint_id, ck_run_id = rn_run_id run,
     ck_kind = Ck_NODE_BOUNDARY, ck_sequence = 0, ck_run_state = Run_RUNNING,
     ck_run_revision = rn_revision run, ck_active_node_ids = [node_id (rn_run_id run) ''evaluate''],
     ck_arrival_edge_key = None, ck_node_statuses = [],
     ck_loop_cursors = [\<lparr>cu_loop_execution_id = lx_loop_execution_id x,
       cu_iteration = ls_iteration next_state, cu_revision = lx_revision x + 1, cu_status = status\<rparr>],
     ck_run_graph_id = None, ck_graph_revision = None,
     ck_budget_remaining = Some (ls_budget_remaining next_state),
     ck_workspace_lease_id = Some (le_lease_id lease),
     ck_workspace_revision = Some (le_base_revision lease),
     ck_workspace_diff_sha256 = (case artifact of None \<Rightarrow> None | Some a \<Rightarrow> ac_sha256 a),
     ck_side_effect_operation_id = None, ck_created_at = now\<rparr>"

text \<open>The part of a turn after the runtime call: capture the diff and, when the call completed,
  verify the candidate.\<close>

definition observe_and_verify ::
  "env \<Rightarrow> Run \<Rightarrow> AcceptancePolicy \<Rightarrow> string \<Rightarrow> string \<Rightarrow> turn_input \<Rightarrow> VerificationResult list act" where
  "observe_and_verify env run policy session_id iteration_id ti =
    bind_act (node_transition env run session_id ''observe'' True ''SUCCEEDED'') (\<lambda>_.
    bind_act (case ti_artifact ti of None \<Rightarrow> ret () | Some a \<Rightarrow> store_op env (\<lambda>_. save_artifact a)) (\<lambda>_.
    bind_act (node_transition env run session_id ''observe'' False ''SUCCEEDED'') (\<lambda>_.
    if oc_completed (ti_outcome ti)
    then bind_act (node_transition env run session_id ''verify'' True ''SUCCEEDED'') (\<lambda>_.
         bind_act (verify_candidate env run session_id (Some iteration_id) False False (ti_verdict ti)
           (ap_required_verifiers policy)) (\<lambda>rs.
         bind_act (wait_for (ti_during_verify ti)) (\<lambda>_. ret rs)))
    else ret [])))"

text \<open>The successor state, the stop rule and the atomic append. The result is the committed execution,
  the iteration and the outcome of the stop rule.\<close>

definition commit_results ::
  "env \<Rightarrow> Run \<Rightarrow> lease_ref \<Rightarrow> string \<Rightarrow> LoopExecution \<Rightarrow> LoopIteration list \<Rightarrow> string \<Rightarrow> turn_input \<Rightarrow>
     VerificationStatus \<Rightarrow> VerificationResult list \<Rightarrow>
     (LoopExecution \<times> LoopIteration \<times> (LoopExecutionStatus \<times> LoopStopReason \<times> RunState) option) act" where
  "commit_results env run lease session_id x previous iteration_id ti acceptance results =
    (let number = ls_iteration (lx_state x) + 1;
         outcome = ti_outcome ti;
         artifact = ti_artifact ti;
         (next_state, iteration) = next_iteration_state (en_digest env) x (rn_run_id run)
           iteration_id number outcome (map_option ac_artifact_id artifact)
           (case artifact of None \<Rightarrow> None | Some a \<Rightarrow> ac_sha256 a) results (ti_left_after ti)
           (if previous = [] then None else Some (last previous));
         terminal = terminal_outcome (x\<lparr>lx_state := next_state\<rparr>) acceptance;
         status = (case terminal of None \<Rightarrow> Loop_RUNNING | Some (st, _) \<Rightarrow> st);
         stop_reason = (case terminal of None \<Rightarrow> None | Some (_, r, _) \<Rightarrow> Some r)
     in bind_act (control_event env run ''accretion/verification-result'' Ev_VERIFICATION_RESULT
            (Some session_id)
            [(''iteration_id'', JStr iteration_id), (''acceptance'', JStr (status_value acceptance)),
             (''verification_ids'', JList (map JStr (it_verification_refs iteration)))]
            (Some ''verify'')) (\<lambda>e1.
        bind_act (control_event env run ''accretion/loop-iteration-completed''
            Ev_LOOP_ITERATION_COMPLETED (Some session_id)
            [(''iteration_id'', JStr iteration_id), (''number'', JInt number),
             (''acceptance'', JStr (status_value acceptance))] (Some ''evaluate'')) (\<lambda>e2.
        bind_act (draw_id env ''checkpoint'') (\<lambda>checkpoint_id.
        bind_act (store_op env (\<lambda>now. append_loop_iteration now (lx_loop_execution_id x) iteration
            next_state (Some status) stop_reason (Some (lx_revision x)) results [e1, e2]
            (Some (iteration_checkpoint now checkpoint_id run lease x next_state status artifact))))
          (\<lambda>x'.
        bind_act (if oc_completed outcome
            then node_transition env run session_id ''verify'' False
              (case acceptance of V_PASS \<Rightarrow> ''SUCCEEDED'' | V_FAIL \<Rightarrow> ''FAILED''
               | V_INCONCLUSIVE \<Rightarrow> ''WAITING'')
            else ret ()) (\<lambda>_.
        ret (x', iteration, terminal)))))))"

definition commit_turn ::
  "env \<Rightarrow> Run \<Rightarrow> TaskEnvelope \<Rightarrow> AcceptancePolicy \<Rightarrow> lease_ref \<Rightarrow> string \<Rightarrow> LoopExecution \<Rightarrow>
     LoopIteration list \<Rightarrow> string \<Rightarrow> turn_input \<Rightarrow>
     (LoopExecution \<times> LoopIteration \<times> VerificationResult list \<times>
       (LoopExecutionStatus \<times> LoopStopReason \<times> RunState) option) act" where
  "commit_turn env run envelope policy lease session_id x previous iteration_id ti =
    bind_act (observe_and_verify env run policy session_id iteration_id ti) (\<lambda>results.
    bind_act (commit_results env run lease session_id x previous iteration_id ti
        (turn_acceptance policy envelope (ti_outcome ti) results) results)
      (\<lambda>(x', iteration, terminal). ret (x', iteration, results, terminal)))"

text \<open>The part of a turn up to the end of the runtime call.\<close>

definition begin_turn ::
  "env \<Rightarrow> Run \<Rightarrow> TaskEnvelope \<Rightarrow> string \<Rightarrow> IterationDirective \<Rightarrow> LoopExecution \<Rightarrow> turn_input \<Rightarrow> string act" where
  "begin_turn env run envelope session_id directive x ti =
    (let number = ls_iteration (lx_state x) + 1; outcome = ti_outcome ti in
     bind_act (draw_id env ''iteration'') (\<lambda>iteration_id.
     bind_act (emit env run ''accretion/loop-iteration-started'' Ev_LOOP_ITERATION_STARTED
         (Some session_id) [(''iteration_id'', JStr iteration_id), (''number'', JInt number)]
         (Some ''evaluate'')) (\<lambda>_.
     bind_act (node_transition env run session_id ''act'' True ''SUCCEEDED'') (\<lambda>_.
     bind_act (submit_call \<lparr>rc_iteration = number,
         rc_envelope = iteration_envelope (en_feedback env) envelope directive (ti_left_before ti)
           (ls_budget_remaining (lx_state x)),
         rc_directive = directive\<rparr>) (\<lambda>_.
     bind_act (wait_for (ti_during_call ti)) (\<lambda>_.
     bind_act (node_transition env run (oc_session_id outcome) ''act'' False
         (if oc_completed outcome then ''SUCCEEDED'' else ''FAILED'')) (\<lambda>_.
     ret iteration_id)))))))"

definition pause_after_commit :: "env \<Rightarrow> Run \<Rightarrow> LoopExecution \<Rightarrow> unit act" where
  "pause_after_commit env run x =
    bind_act (store_op env (\<lambda>now. update_loop_execution now (lx_loop_execution_id x) (lx_state x)
        (Some Loop_PAUSED) (Some Stop_INTERRUPTED) (Some (lx_revision x)))) (\<lambda>_.
    bind_act (store_op env (\<lambda>now. update_run now (rn_run_id run) Run_PAUSED no_update)) (\<lambda>paused.
    append_pause_if_missing env paused))"

text \<open>The part of a turn after the runtime call; \<open>continue\<close> is the next pass through the loop.\<close>

definition end_turn ::
  "env \<Rightarrow> Run \<Rightarrow> TaskEnvelope \<Rightarrow> AcceptancePolicy \<Rightarrow> lease_ref \<Rightarrow> LoopIteration list \<Rightarrow> LoopExecution \<Rightarrow>
     turn_input \<Rightarrow> (LoopIteration \<Rightarrow> VerificationResult list \<Rightarrow> LoopExecution \<Rightarrow> loop_end act) \<Rightarrow> string \<Rightarrow>
     loop_end act" where
  "end_turn env run envelope policy lease previous x ti continue iteration_id =
    (let number = ls_iteration (lx_state x) + 1;
         outcome = ti_outcome ti;
         session_id = oc_session_id outcome in
     if oc_stop_reason outcome = None \<and> ti_pause_call ti
     then bind_act (pause_interrupted_iteration env run x session_id iteration_id number outcome
            (ti_left_after ti) (if previous = [] then None else Some (last previous)))
          (\<lambda>_. ret End_paused)
     else if oc_cancelled outcome \<and> oc_stop_reason outcome = None
     then bind_act (cancel_execution env (rn_run_id run) (ti_left_after ti)) (\<lambda>_. ret End_cancelled)
     else
     bind_act (commit_turn env run envelope policy lease session_id x previous iteration_id ti)
       (\<lambda>(x', iteration, results, terminal).
     case terminal of
       None \<Rightarrow>
         if ti_pause_commit ti
         then bind_act (pause_after_commit env run x') (\<lambda>_. ret End_paused)
         else continue iteration results x'
     | Some (status, stop_reason, state) \<Rightarrow>
         bind_act (finish_loop env run x' status stop_reason state session_id True)
           (\<lambda>_. ret (End_terminal status stop_reason state))))"

text \<open>The \<open>while True\<close> loop. \<open>End_starved\<close> says that the list of inputs was too short to see it end.\<close>

fun loop_turns ::
  "env \<Rightarrow> Run \<Rightarrow> TaskEnvelope \<Rightarrow> AcceptancePolicy \<Rightarrow> lease_ref \<Rightarrow> string \<Rightarrow> IterationDirective \<Rightarrow>
     LoopIteration list \<Rightarrow> LoopExecution \<Rightarrow> turn_input list \<Rightarrow> loop_end act" where
  "loop_turns env run envelope policy lease session_id directive previous x [] = ret End_starved"
| "loop_turns env run envelope policy lease session_id directive previous x (ti # tis) =
    (if ti_pause_head ti
     then bind_act (pause_loop env run x session_id (ti_left_before ti)) (\<lambda>_. ret End_paused)
     else if ti_deadline_passed ti
     then bind_act (finish_loop env run x Loop_REQUIRES_HUMAN Stop_WALL_TIME_EXCEEDED Run_REQUIRES_HUMAN
            session_id False) (\<lambda>_.
          ret (End_terminal Loop_REQUIRES_HUMAN Stop_WALL_TIME_EXCEEDED Run_REQUIRES_HUMAN))
     else
       bind_act (begin_turn env run envelope session_id directive x ti)
         (end_turn env run envelope policy lease previous x ti (\<lambda>iteration results x'.
            loop_turns env run envelope policy lease (oc_session_id (ti_outcome ti))
              (repair_directive envelope (previous @ [iteration]) results)
              (previous @ [iteration]) x' tis)))"

text \<open>The results of the last stored iteration, for the first directive.\<close>

definition read_results ::
  "Run \<Rightarrow> LoopIteration list \<Rightarrow> VerificationResult list act" where
  "read_results run previous m =
    (if previous = [] then Inr []
     else list_verifications (mg_store m) (rn_run_id run) (Some (it_iteration_id (last previous))), m)"

text \<open>\<open>_execute_loop\<close> once the loop execution is found.\<close>

definition resume_loop ::
  "env \<Rightarrow> Run \<Rightarrow> TaskEnvelope \<Rightarrow> lease_ref \<Rightarrow> string \<Rightarrow> turn_input list \<Rightarrow> LoopExecution \<Rightarrow> loop_end act" where
  "resume_loop env run e lease sid inputs x0 =
    bind_act (require_policy (lx_acceptance_policy_ref x0)) (\<lambda>policy.
    bind_act (store_op env (\<lambda>now. update_loop_execution now (lx_loop_execution_id x0) (lx_state x0)
        (Some Loop_RUNNING) None (Some (lx_revision x0)))) (\<lambda>x.
    bind_act (if ls_iteration (lx_state x) = 0
        then bind_act (node_transition env run sid ''initialize'' True ''SUCCEEDED'') (\<lambda>_.
             node_transition env run sid ''initialize'' False ''SUCCEEDED'')
        else ret ()) (\<lambda>_.
    bind_act (query (\<lambda>s. list_loop_iterations s (lx_loop_execution_id x))) (\<lambda>previous.
    bind_act (read_results run previous) (\<lambda>results.
    loop_turns env run e policy lease sid (repair_directive e previous results) previous x inputs)))))"

definition execute_loop ::
  "env \<Rightarrow> Run \<Rightarrow> TaskEnvelope \<Rightarrow> lease_ref \<Rightarrow> string \<Rightarrow> turn_input list \<Rightarrow> loop_end act" where
  "execute_loop env run envelope lease session_id inputs =
    bind_act (require_loop (rn_run_id run)) (resume_loop env run envelope lease session_id inputs)"

end
