(* ===== verification/Act_Relations.thy ===== *)
theory Act_Relations
  imports Loop_Run
begin

text \<open>
  Relations every step of a run manager's method keeps. Many statements about the manager say how the
  state after a method is related to the state before it, whatever the method returns or raises: no
  runtime call was submitted, no other run was touched, no terminal event was added. Each of them follows
  for whole methods from the few store operations the methods are made of. The locales collect those
  operations as assumptions and derive the methods once: \<open>act_relation\<close> for plain sequencing,
  \<open>quiet_relation\<close> for the methods that do not end a run, \<open>run_relation\<close> for all of them.
\<close>

subsection \<open>Sequencing\<close>

lemma bind_act_Inr:
  "bind_act f g m = (Inr y, m') \<longleftrightarrow> (\<exists>x m1. f m = (Inr x, m1) \<and> g x m1 = (Inr y, m'))"
  by (auto simp: bind_act_def split: prod.splits sum.splits)

lemma ret_eq [simp]: "ret x m = (Inr y, m') \<longleftrightarrow> x = y \<and> m' = m"
  by (auto simp: ret_def)

lemma raise_act_eq [simp]: "raise_act e m = (Inr y, m') \<longleftrightarrow> False"
  by (simp add: raise_act_def)

lemma query_eq [simp]: "query f m = (Inr y, m') \<longleftrightarrow> y = f (mg_store m) \<and> m' = m"
  by (auto simp: query_def)

lemma store_op_Inr:
  "store_op env f m = (Inr y, m') \<longleftrightarrow>
    (\<exists>s. f (en_now env (mg_draws m)) (mg_store m) = (Inr y, s) \<and>
       m' = m\<lparr>mg_store := s, mg_draws := Suc (mg_draws m)\<rparr>)"
  by (auto simp: store_op_def split: prod.splits)

lemma bind_act_first:
  "f m = (Inr x, m1) \<Longrightarrow> bind_act f g m = g x m1"
  by (simp add: bind_act_def)

text \<open>Emitting an event never fails: it numbers the event and appends it.\<close>

definition ctl ::
  "env \<Rightarrow> Run \<Rightarrow> string \<Rightarrow> EventType \<Rightarrow> string option \<Rightarrow> (string, json) dict \<Rightarrow> string option \<Rightarrow> nat \<Rightarrow>
     AgentEvent" where
  "ctl env run nt ty sid p k n = (case fst (control_event env run nt ty sid p k
     \<lparr>mg_store = empty_store, mg_draws = n, mg_calls = []\<rparr>) of Inr e \<Rightarrow> e)"

definition push_to :: "AgentEvent \<Rightarrow> store \<Rightarrow> store" where
  "push_to e s = snd (append_event e s)"

lemma control_event_ctl:
  "control_event env run nt ty sid p k m =
    (Inr (ctl env run nt ty sid p k (mg_draws m)), m\<lparr>mg_draws := Suc (mg_draws m)\<rparr>)"
  by (simp add: control_event_def ctl_def)

lemma ctl_fields [simp]:
  "ev_run_id (ctl env run nt ty sid p k n) = rn_run_id run"
  "ev_event_id (ctl env run nt ty sid p k n) = en_new_id env ''event'' n"
  "ev_normalized_type (ctl env run nt ty sid p k n) = ty"
  by (simp_all add: ctl_def control_event_def)

lemma emit_push:
  "emit env run nt ty sid p k m = (Inr (), m\<lparr>mg_store := push_to (ctl env run nt ty sid p k (mg_draws m))
     (mg_store m), mg_draws := Suc (Suc (mg_draws m))\<rparr>)"
  by (simp add: emit_def control_event_ctl bind_act_def store_op_def push_to_def append_event_def Let_def
    ret_def)

subsection \<open>Relations\<close>

definition preserves :: "(manager \<Rightarrow> manager \<Rightarrow> bool) \<Rightarrow> 'a act \<Rightarrow> bool" where
  "preserves R f \<longleftrightarrow> (\<forall>m. R m (snd (f m)))"

lemma preservesD: "preserves R f \<Longrightarrow> f m = (out, m') \<Longrightarrow> R m m'"
  unfolding preserves_def by (metis snd_conv)

abbreviation after_op :: "manager \<Rightarrow> store \<Rightarrow> nat \<Rightarrow> manager" where
  "after_op m s n \<equiv> m\<lparr>mg_store := s, mg_draws := n\<rparr>"

locale act_relation =
  fixes R :: "manager \<Rightarrow> manager \<Rightarrow> bool"
  assumes R_refl: "R m m"
    and R_trans: "R a b \<Longrightarrow> R b c \<Longrightarrow> R a c"
    and R_draw: "R m (m\<lparr>mg_draws := n\<rparr>)"
begin

lemma p_bind: "preserves R f \<Longrightarrow> (\<And>x. preserves R (g x)) \<Longrightarrow> preserves R (bind_act f g)"
  unfolding preserves_def bind_act_def
  by (auto split: prod.splits sum.splits) (metis R_trans snd_conv)+

lemma p_ret: "preserves R (ret x)"
  by (simp add: preserves_def ret_def R_refl)

lemma p_raise: "preserves R (raise_act e)"
  by (simp add: preserves_def raise_act_def R_refl)

lemma p_query: "preserves R (query q)"
  by (simp add: preserves_def query_def R_refl)

lemma p_draw: "preserves R (draw_id env k)"
  by (simp add: preserves_def draw_id_def R_draw)

lemma p_control_event: "preserves R (control_event env run nt ty sid p k)"
  by (simp add: preserves_def control_event_def R_draw)

lemma p_if: "(b \<Longrightarrow> preserves R f) \<Longrightarrow> (\<not> b \<Longrightarrow> preserves R g) \<Longrightarrow> preserves R (if b then f else g)"
  by simp

lemma p_option:
  "(v = None \<Longrightarrow> preserves R f) \<Longrightarrow> (\<And>x. v = Some x \<Longrightarrow> preserves R (g x)) \<Longrightarrow>
   preserves R (case v of None \<Rightarrow> f | Some x \<Rightarrow> g x)"
  by (cases v) simp_all

lemma p_prod: "(\<And>a b. preserves R (g a b)) \<Longrightarrow> preserves R (case v of (a, b) \<Rightarrow> g a b)"
  by (cases v) simp

lemma p_store_op:
  "(\<And>now m n. R m (after_op m (snd (f now (mg_store m))) n)) \<Longrightarrow> preserves R (store_op env f)"
  by (auto simp: preserves_def store_op_def split: prod.splits) (metis snd_conv)

lemma p_committed: "preserves R f \<Longrightarrow> preserves R (current_if_committed eid n f)"
proof -
  have "snd (current_if_committed eid n f m) = snd (f m)" for m
    by (auto simp: current_if_committed_def split: prod.splits sum.splits py_exn.splits option.splits)
  then show "preserves R f \<Longrightarrow> preserves R (current_if_committed eid n f)" by (simp add: preserves_def)
qed

lemma p_require: "preserves R (require_run r)" "preserves R (require_loop r)" "preserves R (require_policy p)"
  unfolding require_run_def require_loop_def require_policy_def
  by (intro p_bind p_query p_option p_ret p_raise)+

lemmas p_basic = p_bind p_ret p_raise p_query p_draw p_control_event p_if p_option p_prod p_require

end

abbreviation terminal_type :: "EventType \<Rightarrow> bool" where
  "terminal_type ty \<equiv> ty \<in> {Ev_RUN_COMPLETED, Ev_RUN_FAILED, Ev_RUN_CANCELLED}"

locale quiet_relation = act_relation +
  fixes r :: string
  assumes R_event: "ev_run_id e = r \<Longrightarrow> \<not> terminal_type (ev_normalized_type e) \<Longrightarrow>
      R m (after_op m (snd (append_event e (mg_store m))) n)"
    and R_update_run: "R m (after_op m (snd (update_run now r st u (mg_store m))) n)"
    and R_update_loop:
      "R m (after_op m (snd (update_loop_execution now eid ls status sr rv (mg_store m))) n)"
    and R_iteration: "it_run_id it = r \<Longrightarrow> \<not> terminal_type (ev_normalized_type e) \<Longrightarrow>
      R m (after_op m (snd (append_loop_iteration now eid it ls status sr rv [] [e] None (mg_store m))) n)"
    and R_lease: "R m (after_op m (snd (save_lease l (mg_store m))) n)"
begin

lemma q_emit: "rn_run_id run = r \<Longrightarrow> \<not> terminal_type ty \<Longrightarrow> preserves R (emit env run nt ty sid p k)"
  by (simp add: preserves_def emit_push push_to_def R_event)

lemma q_node: "rn_run_id run = r \<Longrightarrow> preserves R (node_transition env run sid k b st)"
  unfolding node_transition_def by (rule q_emit) simp_all

lemma q_run: "rn_run_id run = r \<Longrightarrow> preserves R (store_op env (\<lambda>now. update_run now (rn_run_id run) st u))"
  by (rule p_store_op) (simp add: R_update_run)

lemma q_loop: "preserves R (store_op env (\<lambda>now. update_loop_execution now eid ls status sr rv))"
  by (rule p_store_op) (rule R_update_loop)

lemma q_iteration:
  "it_run_id it = r \<Longrightarrow> \<not> terminal_type (ev_normalized_type e) \<Longrightarrow>
   preserves R (store_op env (\<lambda>now. append_loop_iteration now eid it ls status sr rv [] [e] None))"
  by (rule p_store_op) (rule R_iteration)

lemma q_lease: "preserves R (store_op env (\<lambda>_. save_lease l))"
  by (rule p_store_op) (rule R_lease)

text \<open>A control event built from given fields has those fields.\<close>

lemma q_built:
  "(\<And>n. preserves R (g (ctl env run nt ty sid p k n))) \<Longrightarrow>
   preserves R (bind_act (control_event env run nt ty sid p k) g)"
  unfolding preserves_def bind_act_def control_event_ctl
  by (auto intro: R_trans [OF R_draw])

lemmas q_basic = q_built p_basic q_loop q_lease

lemma q_pause: "rn_run_id run = r \<Longrightarrow> preserves R (append_pause_if_missing env run)"
  unfolding append_pause_if_missing_def by (intro p_bind p_query p_if p_ret q_emit) simp_all

lemma q_close: "rn_run_id run = r \<Longrightarrow> preserves R (close_dangling_iteration env run x its ls sr sid left)"
  unfolding close_dangling_iteration_def Let_def
  by (intro q_built p_basic p_committed q_iteration) simp_all

lemma q_pause_loop: "rn_run_id run = r \<Longrightarrow> preserves R (pause_loop env run x sid left)"
  unfolding pause_loop_def by (intro q_basic q_close q_run q_emit) simp_all

lemma q_pause_interrupted:
  "rn_run_id run = r \<Longrightarrow> preserves R (pause_interrupted_iteration env run x sid i n oc left prev)"
  unfolding pause_interrupted_iteration_def Let_def
  by (split prod.split, intro allI impI q_built p_basic q_iteration q_run q_emit)
    (simp_all add: next_iteration_fields)

end

locale run_relation = quiet_relation +
  assumes R_terminal: "ev_run_id e = r \<Longrightarrow> R m (after_op m (snd (append_event e (mg_store m))) n)"
begin

lemma t_emit: "rn_run_id run = r \<Longrightarrow> preserves R (emit env run nt ty sid p k)"
  by (simp add: preserves_def emit_push push_to_def R_terminal)

lemma t_node: "rn_run_id run = r \<Longrightarrow> preserves R (node_transition env run sid k b st)"
  unfolding node_transition_def by (rule t_emit)

lemma t_commit: "rn_run_id run = r \<Longrightarrow> preserves R (commit_run_terminal env run st ty nt sid p k fin err)"
  unfolding commit_run_terminal_def Let_def by (intro p_basic q_run t_node t_emit) simp_all

lemma t_finish: "rn_run_id run = r \<Longrightarrow> preserves R (finish_loop env run x ls sr st sid b)"
  unfolding finish_loop_def by (intro q_basic t_commit) simp_all

end

end
