(* ===== verification/Loop_Properties.thy ===== *)
theory Loop_Properties
  imports Act_Relations Store_Properties
begin

text \<open>
  Properties of the whole-run loop: it stops within its budget whatever the runtime, the verifiers and
  the operator do; it reports success only on an accepted verification; a run gets one terminal event;
  and where the iteration budget is not enforced.
\<close>

subsection \<open>Actions that submit no runtime call\<close>

definition same_calls :: "manager \<Rightarrow> manager \<Rightarrow> bool" where
  "same_calls m m' \<longleftrightarrow> mg_calls m' = mg_calls m"

interpretation calls: run_relation same_calls r for r
  by unfold_locales (simp_all add: same_calls_def)

abbreviation silent :: "'a act \<Rightarrow> bool" where
  "silent \<equiv> preserves same_calls"

lemma silent_def: "silent f \<longleftrightarrow> (\<forall>m. mg_calls (snd (f m)) = mg_calls m)"
  by (simp add: preserves_def same_calls_def)

named_theorems silence

lemmas silent_parts [silence] = calls.p_basic calls.p_committed

lemma silent_store_op [silence]: "silent (store_op env f)"
  by (simp add: silent_def store_op_def split: prod.splits)

lemma silent_wait [silence]: "silent (wait_for f)"
  by (simp add: silent_def wait_for_def)

lemmas silent_methods [silence] = calls.t_emit [OF refl] calls.t_node [OF refl] calls.t_commit [OF refl]
  calls.t_finish [OF refl] calls.q_pause [OF refl] calls.q_close [OF refl] calls.q_pause_loop [OF refl]
  calls.q_pause_interrupted [OF refl]

lemma silent_cancel_execution [silence]: "silent (cancel_execution env r left)"
  unfolding cancel_execution_def by (intro silence)

lemma silent_verify_candidate [silence]: "silent (verify_candidate env run sid i p r verdict vs)"
  by (induction vs) (simp_all add: silence)


lemma silent_commit_turn [silence]:
  "silent (observe_and_verify env run p sid i ti)"
  "silent (commit_results env run lease sid x prev i ti a rs)"
  "silent (commit_turn env run e p lease sid x prev i ti)"
proof -
  show 1: "silent (observe_and_verify env run p sid i ti)" for p
    unfolding observe_and_verify_def by (intro silence)
  show 2: "silent (commit_results env run lease sid x prev i ti a rs)" for a rs
    unfolding commit_results_def Let_def by (intro silence)
  show "silent (commit_turn env run e p lease sid x prev i ti)"
    unfolding commit_turn_def by (intro 1 2 silence)
qed

lemma silent_pause_after_commit [silence]: "silent (pause_after_commit env run x)"
  unfolding pause_after_commit_def by (intro silence)

lemma silentD: "silent f \<Longrightarrow> f m = (out, m') \<Longrightarrow> mg_calls m' = mg_calls m"
  by (drule preservesD) (simp_all add: same_calls_def)

subsection \<open>What a committed turn yields\<close>

lemma append_loop_iteration_state:
  assumes "append_loop_iteration now eid it st status sr rv vs es ck s = (Inr x', t)"
  shows "lx_state x' = st"
proof (cases rule: append_loop_iteration_cases [of now eid it st status sr rv vs es ck s])
  case (commit current its run)
  have upd: "lx_state y = st" if "update_memory_loop_execution now eid st status sr rw u = (Inr y, v)"
    for rw u y v
    using that by (auto simp: update_memory_loop_execution_def Let_def split: option.splits if_splits)
  from commit(3) assms have "commit_iteration now eid it st status sr vs es ck current its run s = (Inr x', t)"
    by simp
  then show ?thesis
    by (auto simp: commit_iteration_def Let_def dest: upd split: option.splits prod.splits sum.splits)
qed (use assms in simp_all)

lemma verify_candidate_result:
  "verify_candidate env run sid i p r verdict vs m = (Inr rs, m') \<Longrightarrow> rs = map verdict vs"
  by (induction vs arbitrary: m rs m') (auto simp: bind_act_Inr split: if_splits)

lemma observe_and_verify_result:
  "observe_and_verify env run p sid i ti m = (Inr rs, m') \<Longrightarrow>
   rs = (if oc_completed (ti_outcome ti) then map (ti_verdict ti) (ap_required_verifiers p) else [])"
  by (auto simp: observe_and_verify_def bind_act_Inr dest: verify_candidate_result split: if_splits)

lemma commit_results_result:
  assumes "commit_results env run lease sid x prev i ti a rs m = (Inr (x', it, terminal), m')"
  shows "ls_iteration (lx_state x') = ls_iteration (lx_state x) + 1 \<and>
    br_iterations (ls_budget_remaining (lx_state x')) =
      max 0 (br_iterations (ls_budget_remaining (lx_state x)) - 1) \<and>
    terminal = terminal_outcome (x\<lparr>lx_state := lx_state x'\<rparr>) a"
proof -
  obtain st it0 where n: "next_iteration_state (en_digest env) x (rn_run_id run) i
    (ls_iteration (lx_state x) + 1) (ti_outcome ti) (map_option ac_artifact_id (ti_artifact ti))
    (case ti_artifact ti of None \<Rightarrow> None | Some a \<Rightarrow> ac_sha256 a) rs (ti_left_after ti)
    (if prev = [] then None else Some (last prev)) = (st, it0)" by force
  from assms have "lx_state x' = st \<and> terminal = terminal_outcome (x\<lparr>lx_state := st\<rparr>) a"
    unfolding commit_results_def Let_def n
    by (auto simp: bind_act_Inr store_op_Inr dest!: append_loop_iteration_state)
  with next_iteration_fields [OF n] show ?thesis by simp
qed

lemma commit_turn_result:
  assumes "commit_turn env run e p lease sid x prev i ti m = (Inr (x', it, rs, terminal), m')"
  shows "ls_iteration (lx_state x') = ls_iteration (lx_state x) + 1 \<and>
    br_iterations (ls_budget_remaining (lx_state x')) =
      max 0 (br_iterations (ls_budget_remaining (lx_state x)) - 1) \<and>
    rs = (if oc_completed (ti_outcome ti) then map (ti_verdict ti) (ap_required_verifiers p) else []) \<and>
    terminal = terminal_outcome (x\<lparr>lx_state := lx_state x'\<rparr>)
      (turn_acceptance p e (ti_outcome ti) rs)"
  using assms
  by (auto simp: commit_turn_def bind_act_Inr dest!: observe_and_verify_result commit_results_result)


subsection \<open>The loop stops\<close>

abbreviation iterations_left :: "LoopExecution \<Rightarrow> int" where
  "iterations_left x \<equiv> br_iterations (ls_budget_remaining (lx_state x))"

text \<open>The calls of a loop that has \<open>n\<close> iterations behind it: at most \<open>k\<close>, numbered from \<open>n + 1\<close>.\<close>

definition calls_from :: "int \<Rightarrow> nat \<Rightarrow> runtime_call list \<Rightarrow> bool" where
  "calls_from n k cs \<longleftrightarrow> length cs \<le> k \<and>
     (\<forall>i < length cs. rc_iteration (cs ! i) = n + 1 + int i)"

lemma calls_from_Nil [simp]: "calls_from n k []"
  by (simp add: calls_from_def)

lemma calls_from_Cons:
  assumes "rc_iteration c = n + 1" "calls_from (n + 1) k cs"
  shows "calls_from n (Suc k) (c # cs)"
  using assms by (auto simp: calls_from_def nth_Cons split: nat.splits)

definition calls_at_most :: "int \<Rightarrow> nat \<Rightarrow> 'a act \<Rightarrow> bool" where
  "calls_at_most n k f \<longleftrightarrow> (\<forall>m. \<exists>cs. mg_calls (snd (f m)) = mg_calls m @ cs \<and> calls_from n k cs)"

lemma calls_silent: "silent f \<Longrightarrow> calls_at_most n k f"
  unfolding silent_def calls_at_most_def by force

lemma bind_assoc: "bind_act (bind_act a b) c = bind_act a (\<lambda>x. bind_act (b x) c)"
  by (auto simp: bind_act_def fun_eq_iff split: prod.splits sum.splits)

lemma ret_bind: "bind_act (ret x) g = g x"
  by (simp add: bind_act_def ret_def fun_eq_iff)

lemma calls_bind:
  assumes "silent f" "\<And>m x m'. f m = (Inr x, m') \<Longrightarrow> calls_at_most n k (g x)"
  shows "calls_at_most n k (bind_act f g)"
  unfolding calls_at_most_def
proof
  fix m
  obtain out m1 where f: "f m = (out, m1)" by force
  note calls = silentD [OF assms(1) f]
  show "\<exists>cs. mg_calls (snd (bind_act f g m)) = mg_calls m @ cs \<and> calls_from n k cs"
  proof (cases out)
    case (Inl e)
    then show ?thesis using f calls by (simp add: bind_act_def)
  next
    case (Inr x)
    then have "calls_at_most n k (g x)" "bind_act f g m = g x m1"
      using assms(2) f by (auto simp: bind_act_def)
    then show ?thesis using calls unfolding calls_at_most_def by metis
  qed
qed

lemma calls_submit:
  assumes "rc_iteration c = n + 1" "calls_at_most (n + 1) k (g ())"
  shows "calls_at_most n (Suc k) (bind_act (submit_call c) g)"
  unfolding calls_at_most_def
proof
  fix m
  obtain cs where "mg_calls (snd (g () (m\<lparr>mg_calls := mg_calls m @ [c]\<rparr>))) = mg_calls m @ c # cs"
    "calls_from (n + 1) k cs"
    using assms(2) [unfolded calls_at_most_def, rule_format, of "m\<lparr>mg_calls := mg_calls m @ [c]\<rparr>"]
    by auto
  then show "\<exists>cs. mg_calls (snd (bind_act (submit_call c) g m)) = mg_calls m @ cs \<and>
      calls_from n (Suc k) cs"
    using calls_from_Cons [OF assms(1)] by (auto simp: bind_act_def submit_call_def)
qed

lemma calls_begin_turn:
  assumes "\<And>i. calls_at_most (ls_iteration (lx_state x) + 1) k (g i)"
  shows "calls_at_most (ls_iteration (lx_state x)) (Suc k)
    (bind_act (begin_turn env run e sid dir x ti) g)"
  unfolding begin_turn_def Let_def bind_assoc ret_bind
  by (intro calls_bind calls_submit silence assms) simp

text \<open>Enough inputs for the loop to end: one for each iteration left, and one when none is left.\<close>

definition turns_needed :: "LoopExecution \<Rightarrow> nat" where
  "turns_needed x = max 1 (nat (iterations_left x))"

lemma turns_needed_next:
  assumes "commit_turn env run e p lease sid x prev i ti m = (Inr (x', it, rs, None), m')"
  shows "turns_needed x = Suc (turns_needed x')" "ls_iteration (lx_state x') = ls_iteration (lx_state x) + 1"
proof -
  note r = commit_turn_result [OF assms]
  then have "within_limits (x\<lparr>lx_state := lx_state x'\<rparr>)"
    using terminal_outcome_None by metis
  then have "0 < iterations_left x'" by (simp add: within_limits_def)
  then show "turns_needed x = Suc (turns_needed x')" using r by (simp add: turns_needed_def)
  show "ls_iteration (lx_state x') = ls_iteration (lx_state x) + 1" using r by simp
qed

lemma turns_needed_pos: "\<exists>k. turns_needed x = Suc k"
  by (metis max.cobounded1 not0_implies_Suc not_one_le_zero turns_needed_def)

lemma end_turn_calls:
  assumes "\<And>it rs x'. calls_at_most (ls_iteration (lx_state x')) (turns_needed x') (continue it rs x')"
    and "turns_needed x = Suc k"
  shows "calls_at_most (ls_iteration (lx_state x) + 1) k
    (end_turn env run e p lease prev x ti continue i)"
proof -
  define rest where "rest = (\<lambda>(x', it, rs, terminal). case terminal of
         None \<Rightarrow>
           if ti_pause_commit ti then bind_act (pause_after_commit env run x') (\<lambda>_. ret End_paused)
           else continue it rs x'
       | Some (status, stop_reason, state) \<Rightarrow>
           bind_act (finish_loop env run x' status stop_reason state (oc_session_id (ti_outcome ti)) True)
             (\<lambda>_. ret (End_terminal status stop_reason state)))"
  have rest: "calls_at_most (ls_iteration (lx_state x) + 1) k (rest (x', it, rs, terminal))"
    if "commit_turn env run e p lease (oc_session_id (ti_outcome ti)) x prev i ti m =
      (Inr (x', it, rs, terminal), m')" for x' it rs terminal m m'
  proof (cases terminal)
    case None
    note n = turns_needed_next [OF that [unfolded None]]
    show ?thesis
      using assms(1) [of x'] n assms(2) None by (simp add: rest_def calls_silent silence)
  next
    case (Some t)
    then show ?thesis by (cases t) (simp add: rest_def calls_silent silence)
  qed
  have "calls_at_most (ls_iteration (lx_state x) + 1) k
    (bind_act (commit_turn env run e p lease (oc_session_id (ti_outcome ti)) x prev i ti) rest)"
    by (rule calls_bind [OF silent_commit_turn(3)]) (use rest in auto)
  then show ?thesis
    unfolding end_turn_def Let_def rest_def [symmetric] by (simp add: calls_silent silence)
qed

lemma loop_turns_calls:
  "calls_at_most (ls_iteration (lx_state x)) (turns_needed x)
     (loop_turns env run e p lease sid dir prev x tis)"
proof (induction tis arbitrary: x sid dir prev)
  case Nil
  then show ?case by (simp add: calls_silent silence)
next
  case (Cons ti tis)
  obtain k where k: "turns_needed x = Suc k" using turns_needed_pos by blast
  have "calls_at_most (ls_iteration (lx_state x) + 1) k
    (end_turn env run e p lease prev x ti (\<lambda>it rs x'. loop_turns env run e p lease
      (oc_session_id (ti_outcome ti)) (repair_directive e (prev @ [it]) rs) (prev @ [it]) x' tis) i)" for i
    by (rule end_turn_calls [OF Cons.IH k])
  then show ?case
    unfolding loop_turns.simps k by (simp add: calls_silent calls_begin_turn silence)
qed

lemma end_turnE:
  assumes "end_turn env run e p lease prev x ti continue i m1 = (Inr out, m')"
  obtains (other) "out \<in> {End_paused, End_cancelled}"
  | (stop) x' it rs m2 status reason state where
      "commit_turn env run e p lease (oc_session_id (ti_outcome ti)) x prev i ti m1 =
        (Inr (x', it, rs, Some (status, reason, state)), m2)" "out = End_terminal status reason state"
  | (go) x' it rs m2 where
      "commit_turn env run e p lease (oc_session_id (ti_outcome ti)) x prev i ti m1 =
        (Inr (x', it, rs, None), m2)" "continue it rs x' m2 = (Inr out, m')"
proof -
  define rest where "rest = (\<lambda>(x', it, rs, terminal). case terminal of
         None \<Rightarrow>
           if ti_pause_commit ti then bind_act (pause_after_commit env run x') (\<lambda>_. ret End_paused)
           else continue it rs x'
       | Some (status, stop_reason, state) \<Rightarrow>
           bind_act (finish_loop env run x' status stop_reason state (oc_session_id (ti_outcome ti)) True)
             (\<lambda>_. ret (End_terminal status stop_reason state)))"
  consider "out \<in> {End_paused, End_cancelled}"
    | (commit) x' it rs terminal m2 where
      "commit_turn env run e p lease (oc_session_id (ti_outcome ti)) x prev i ti m1 =
        (Inr (x', it, rs, terminal), m2)" "rest (x', it, rs, terminal) m2 = (Inr out, m')"
    using assms unfolding end_turn_def Let_def rest_def [symmetric]
    by (auto simp: bind_act_Inr split: if_split_asm)
  then show thesis
  proof cases
    case commit
    show thesis
    proof (cases terminal)
      case None
      then show thesis
        using commit that by (auto simp: rest_def bind_act_Inr split: if_split_asm)
    next
      case (Some t)
      then show thesis using commit that by (cases t) (auto simp: rest_def bind_act_Inr)
    qed
  qed (rule that)
qed

lemma loop_turns_ConsE:
  assumes "loop_turns env run e p lease sid dir prev x (ti # tis) m = (Inr out, m')"
  obtains (other) "out \<in> {End_paused, End_cancelled,
      End_terminal Loop_REQUIRES_HUMAN Stop_WALL_TIME_EXCEEDED Run_REQUIRES_HUMAN}"
  | (stop) i m1 x' it rs m2 status reason state where
      "commit_turn env run e p lease (oc_session_id (ti_outcome ti)) x prev i ti m1 =
        (Inr (x', it, rs, Some (status, reason, state)), m2)" "out = End_terminal status reason state"
  | (go) i m1 x' it rs m2 where
      "commit_turn env run e p lease (oc_session_id (ti_outcome ti)) x prev i ti m1 =
        (Inr (x', it, rs, None), m2)"
      "loop_turns env run e p lease (oc_session_id (ti_outcome ti))
        (repair_directive e (prev @ [it]) rs) (prev @ [it]) x' tis m2 = (Inr out, m')"
proof -
  consider "out \<in> {End_paused, End_cancelled,
      End_terminal Loop_REQUIRES_HUMAN Stop_WALL_TIME_EXCEEDED Run_REQUIRES_HUMAN}"
    | (turn) i m1 where "end_turn env run e p lease prev x ti (\<lambda>it rs x'. loop_turns env run e p lease
      (oc_session_id (ti_outcome ti)) (repair_directive e (prev @ [it]) rs) (prev @ [it]) x' tis) i m1 =
      (Inr out, m')"
    using assms unfolding loop_turns.simps by (auto simp: bind_act_Inr split: if_split_asm)
  then show thesis
  proof cases
    case turn
    show thesis
      by (rule end_turnE [OF turn]) (use that in blast)+
  qed (rule that)
qed

lemma loop_turns_not_starved:
  "turns_needed x \<le> length tis \<Longrightarrow>
   loop_turns env run e p lease sid dir prev x tis m \<noteq> (Inr End_starved, m')"
proof (induction tis arbitrary: x sid dir prev m)
  case Nil
  then show ?case using turns_needed_pos [of x] by auto
next
  case (Cons ti tis)
  show ?case
  proof
    assume "loop_turns env run e p lease sid dir prev x (ti # tis) m = (Inr End_starved, m')"
    then show False
    proof (cases rule: loop_turns_ConsE)
      case (go i m1 x' it rs m2)
      from turns_needed_next(1) [OF go(1)] Cons.prems have "turns_needed x' \<le> length tis" by simp
      from Cons.IH [OF this] go(2) show False by blast
    qed simp_all
  qed
qed

text \<open>The policy under which a loop's run succeeds.\<close>

lemma loop_turns_success:
  assumes "loop_turns env run e p lease sid dir prev x tis m =
    (Inr (End_terminal Loop_SUCCEEDED reason state), m')"
  shows "\<exists>ti \<in> set tis. oc_completed (ti_outcome ti) \<and>
    ae_accepted (Acceptance.evaluate_acceptance p (map (ti_verdict ti) (ap_required_verifiers p))
      (Some (te_risk_level e)))"
  using assms
proof (induction tis arbitrary: x sid dir prev m)
  case Nil
  then show ?case by simp
next
  case (Cons ti tis)
  from Cons.prems show ?case
  proof (cases rule: loop_turns_ConsE)
    case (stop i m1 x' it rs m2 status reason' state')
    then have "terminal_outcome (x\<lparr>lx_state := lx_state x'\<rparr>)
        (turn_acceptance p e (ti_outcome ti) rs) = Some (Loop_SUCCEEDED, reason', state')"
      and rs: "rs = (if oc_completed (ti_outcome ti)
        then map (ti_verdict ti) (ap_required_verifiers p) else [])"
      using commit_turn_result [OF stop(1)] by simp_all
    then have "turn_acceptance p e (ti_outcome ti) rs = V_PASS"
      using terminal_outcome_Some(3) by blast
    then have "oc_completed (ti_outcome ti) \<and>
      ae_status (Acceptance.evaluate_acceptance p rs (Some (te_risk_level e))) = V_PASS"
      by (simp add: turn_acceptance_def split: if_splits)
    with rs evaluation_coherent show ?thesis by auto
  next
    case (go i m1 x' it rs m2)
    then show ?thesis using Cons.IH by fastforce
  qed simp
qed


subsection \<open>Properties of \<open>_execute_loop\<close>\<close>

lemma silent_read_results [silence]: "silent (read_results run previous)"
  by (simp add: silent_def read_results_def)

lemma execute_loop_unfold:
  assumes "get_loop_execution_for_run (mg_store m) (rn_run_id run) = Some x"
  shows "execute_loop env run e lease sid inputs m = resume_loop env run e lease sid inputs x m"
  using assms by (simp add: execute_loop_def require_loop_def query_def bind_act_def ret_def)

lemma update_loop_execution_state:
  "update_loop_execution now eid st status sr rv s = (Inr x, t) \<Longrightarrow> lx_state x = st"
  by (auto simp: update_loop_execution_def update_memory_loop_execution_def Let_def
    split: option.splits if_splits)

lemma require_loop_Inr:
  "require_loop r m = (Inr x, m') \<longleftrightarrow> get_loop_execution_for_run (mg_store m) r = Some x \<and> m' = m"
  by (auto simp: require_loop_def bind_act_Inr split: option.splits)

lemma require_policy_Inr:
  "require_policy r m = (Inr x, m') \<longleftrightarrow> dget (st_acceptance_policies (mg_store m)) r = Some x \<and> m' = m"
  by (auto simp: require_policy_def bind_act_Inr split: option.splits)

text \<open>A result of \<open>execute_loop\<close> is one of its loop, run on the stored execution and its policy.\<close>

lemma resume_loopE:
  assumes "resume_loop env run e lease sid inputs x0 m = (Inr out, m')"
  obtains p x dir prev m1 where
    "dget (st_acceptance_policies (mg_store m)) (lx_acceptance_policy_ref x0) = Some p"
    "lx_state x = lx_state x0" "loop_turns env run e p lease sid dir prev x inputs m1 = (Inr out, m')"
proof -
  from assms obtain p m1 where p: "require_policy (lx_acceptance_policy_ref x0) m = (Inr p, m1)"
    and 1: "bind_act (store_op env (\<lambda>now. update_loop_execution now (lx_loop_execution_id x0) (lx_state x0)
        (Some Loop_RUNNING) None (Some (lx_revision x0)))) (\<lambda>x.
      bind_act (if ls_iteration (lx_state x) = 0
        then bind_act (node_transition env run sid ''initialize'' True ''SUCCEEDED'') (\<lambda>_.
             node_transition env run sid ''initialize'' False ''SUCCEEDED'')
        else ret ()) (\<lambda>_.
      bind_act (query (\<lambda>s. list_loop_iterations s (lx_loop_execution_id x))) (\<lambda>previous.
      bind_act (read_results run previous) (\<lambda>results.
      loop_turns env run e p lease sid (repair_directive e previous results) previous x inputs)))) m1
      = (Inr out, m')"
    unfolding resume_loop_def bind_act_Inr by blast
  from 1 obtain x m2 where x: "store_op env (\<lambda>now. update_loop_execution now (lx_loop_execution_id x0)
      (lx_state x0) (Some Loop_RUNNING) None (Some (lx_revision x0))) m1 = (Inr x, m2)"
    and 2: "\<exists>dir prev m3. loop_turns env run e p lease sid dir prev x inputs m3 = (Inr out, m')"
    unfolding bind_act_Inr by blast
  from x have "lx_state x = lx_state x0" by (auto simp: store_op_Inr dest: update_loop_execution_state)
  with p 2 that show thesis by (auto simp: require_policy_Inr)
qed

lemma resume_loop_calls:
  "calls_at_most (ls_iteration (lx_state x)) (turns_needed x) (resume_loop env run e lease sid inputs x)"
proof -
  have turns: "calls_at_most (ls_iteration (lx_state x)) (turns_needed x)
      (loop_turns env run e p lease sid dir prev x' inputs)"
    if "store_op env (\<lambda>now. update_loop_execution now (lx_loop_execution_id x) (lx_state x)
        (Some Loop_RUNNING) None (Some (lx_revision x))) m = (Inr x', m')" for p dir prev x' m m'
  proof -
    have "lx_state x' = lx_state x"
      using that by (auto simp: store_op_Inr dest: update_loop_execution_state)
    with loop_turns_calls [of x'] show ?thesis by (simp add: turns_needed_def)
  qed
  show ?thesis
    unfolding resume_loop_def
    by (rule calls_bind, (intro silence)[1], rule calls_bind, (intro silence)[1],
      (rule calls_bind, (intro silence)[1])+, erule turns)
qed

text \<open>C4: The whole-run loop is bounded. Whatever the runtime answers, whatever the verifiers say and
  however other tasks change the store meanwhile, one execution of the loop submits at most
  \<open>max(1, iterations remaining)\<close> runtime calls, numbered consecutively after the iterations already
  done, and it has ended (or raised) by then: it never asks for a further turn.\<close>

theorem execute_loop_bounded:
  assumes "get_loop_execution_for_run (mg_store m) (rn_run_id run) = Some x"
    and "max 1 (nat (br_iterations (ls_budget_remaining (lx_state x)))) \<le> length inputs"
  shows "fst (execute_loop env run e lease sid inputs m) \<noteq> Inr End_starved \<and>
    (\<exists>cs. mg_calls (snd (execute_loop env run e lease sid inputs m)) = mg_calls m @ cs \<and>
       length cs \<le> max 1 (nat (br_iterations (ls_budget_remaining (lx_state x)))) \<and>
       (\<forall>i < length cs. rc_iteration (cs ! i) = ls_iteration (lx_state x) + 1 + int i))"
proof -
  note run = execute_loop_unfold [OF assms(1), of env e lease sid inputs]
  have "fst (resume_loop env run e lease sid inputs x m) \<noteq> Inr End_starved"
  proof
    assume "fst (resume_loop env run e lease sid inputs x m) = Inr End_starved"
    then obtain m' where "resume_loop env run e lease sid inputs x m = (Inr End_starved, m')"
      by (metis fst_conv surj_pair)
    then obtain p x' dir prev m1 where "lx_state x' = lx_state x"
      "loop_turns env run e p lease sid dir prev x' inputs m1 = (Inr End_starved, m')"
      by (rule resume_loopE)
    with loop_turns_not_starved assms(2) show False by (simp add: turns_needed_def)
  qed
  with resume_loop_calls [of x env run e lease sid inputs] show ?thesis
    unfolding run calls_at_most_def calls_from_def turns_needed_def by blast
qed

text \<open>C5: Success is earned. If the loop ends a run as \<open>SUCCEEDED\<close>, then in some turn the runtime call
  completed and the run's own acceptance policy accepted the verdicts of all its required verifiers
  on that candidate at the task's risk level.\<close>

theorem execute_loop_success:
  assumes "execute_loop env run e lease sid inputs m =
      (Inr (End_terminal Loop_SUCCEEDED reason state), m')"
    and "get_loop_execution_for_run (mg_store m) (rn_run_id run) = Some x"
  shows "\<exists>p ti. dget (st_acceptance_policies (mg_store m)) (lx_acceptance_policy_ref x) = Some p \<and>
    ti \<in> set inputs \<and> oc_completed (ti_outcome ti) \<and>
    ae_accepted (Acceptance.evaluate_acceptance p (map (ti_verdict ti) (ap_required_verifiers p))
      (Some (te_risk_level e)))"
proof -
  from assms have "resume_loop env run e lease sid inputs x m =
      (Inr (End_terminal Loop_SUCCEEDED reason state), m')"
    using execute_loop_unfold [OF assms(2)] by simp
  then show ?thesis
    by (rule resume_loopE) (use loop_turns_success in blast)
qed


subsection \<open>A run of the loop\<close>

definition sample_env :: env where
  "sample_env = \<lparr>en_new_id = (\<lambda>k n. k @ replicate n CHR ''x''), en_now = (\<lambda>n. int n),
     en_redact = (\<lambda>p. p), en_digest = concat, en_str = (\<lambda>_. []), en_feedback = (\<lambda>_. []),
     en_registered = (\<lambda>_. True)\<rparr>"

definition sample_task :: TaskEnvelope where
  "sample_task = \<lparr>te_task_id = ''task_1'', te_project_id = ''p'', te_objective = ''o'',
     te_task_type = Task_IMPLEMENT, te_inputs = [], te_constraints = [], te_success_criteria = [],
     te_risk_level = Risk_LOW, te_requested_skills = [], te_allowed_capabilities = [],
     te_denied_capabilities = [], te_verifier_policy_ref = ''v'', te_prompt_contract_ref = ''p'',
     te_context_policy_ref = ''c'',
     te_budgets = \<lparr>tb_wall_time_seconds = 60, tb_max_turns = 9, tb_max_tool_calls = 9,
       tb_max_loop_iterations = 3, tb_max_parallel_runs = 1\<rparr>,
     te_required_outputs = []\<rparr>"

definition sample_outcome :: "bool \<Rightarrow> RuntimeCallOutcome" where
  "sample_outcome ok = \<lparr>oc_session_id = ''s'', oc_runtime_call_id = None, oc_completed = ok,
     oc_cancelled = False, oc_tool_calls = 1, oc_error = None, oc_stop_reason = None\<rparr>"

definition sample_verdict :: "string \<Rightarrow> VerificationStatus \<Rightarrow> string \<Rightarrow> VerificationResult" where
  "sample_verdict i status v = \<lparr>vr_verification_id = ''ver_'' @ v, vr_run_id = ''run_1'',
     vr_iteration_id = Some i, vr_verifier_id = v, vr_verifier_version = ''1'', vr_target_ref = ''t'',
     vr_status = status, vr_score = None, vr_findings = [], vr_evidence_refs = [],
     vr_false_accept_risk_estimate = None, vr_executed_at = 0, vr_duration_ms = 0\<rparr>"

text \<open>The iteration identifier of the first turn, the one its verdicts have to carry.\<close>

definition sample_turn :: "bool \<Rightarrow> VerificationStatus \<Rightarrow> turn_input" where
  "sample_turn interrupted status = \<lparr>ti_pause_head = False, ti_deadline_passed = False, ti_left_before = 50,
     ti_during_call = (\<lambda>s. s), ti_outcome = sample_outcome (\<not> interrupted), ti_pause_call = interrupted,
     ti_artifact = None, ti_during_verify = (\<lambda>s. s),
     ti_verdict = sample_verdict (en_new_id sample_env ''iteration'' 5) status, ti_left_after = 40,
     ti_pause_commit = False\<rparr>"

definition sample_manager :: manager where
  "sample_manager = \<lparr>mg_store = loop_store, mg_draws = 0, mg_calls = []\<rparr>"

abbreviation sample_execute :: "turn_input list \<Rightarrow> loop_end act" where
  "sample_execute \<equiv> execute_loop sample_env sample_run sample_task
     \<lparr>le_lease_id = ''lease'', le_base_revision = ''abc''\<rparr> ''s''"

lemma push_to_fields [simp]:
  "st_loop_executions (push_to e s) = st_loop_executions s"
  "st_loop_execution_by_run (push_to e s) = st_loop_execution_by_run s"
  "st_acceptance_policies (push_to e s) = st_acceptance_policies s"
  "st_loop_iterations (push_to e s) = st_loop_iterations s"
  "st_verifications (push_to e s) = st_verifications s"
  "st_checkpoints (push_to e s) = st_checkpoints s"
  "events_of (push_to e s) = (events_of s)(ev_run_id e := push_event e (events_of s (ev_run_id e)))"
  by (auto simp: push_to_def append_event_def events_of_def Let_def fun_eq_iff)

lemma push_to_run [simp]:
  "dget (st_runs (push_to e s)) r = (if r = ev_run_id e then map_option (\<lambda>run. run\<lparr>rn_last_sequence :=
      int (length (events_of s r)) + 1\<rparr>) (dget (st_runs s) r) else dget (st_runs s) r)"
  by (auto simp: push_to_def append_event_def set_last_sequence_def number_event_def Let_def
    split: option.splits)

lemma push_event_ids [simp]:
  "ev_event_id ` set (push_event e l) = insert (ev_event_id e) (ev_event_id ` set l)"
  "length (push_event e l) = Suc (length l)"
  by (simp_all add: push_event_def number_event_def)

lemmas turn_eval = bind_act_def ret_def store_op_def query_def wait_for_def draw_id_def submit_call_def
  node_transition_def emit_push control_event_ctl

definition running_execution :: LoopExecution where
  "running_execution = loop_execution\<lparr>lx_acceptance_policy := Some loop_policy, lx_status := Loop_RUNNING,
     lx_revision := 1, lx_updated_at := 0\<rparr>"

definition running_store :: store where
  "running_store = loop_store\<lparr>st_loop_executions := [(''lx_1'', running_execution)]\<rparr>"

lemma sample_fields [simp]:
  "rn_run_id sample_run = ''run_1''" "rn_session_id sample_run = None" "rn_revision sample_run = 0"
  "en_now sample_env n = int n" "en_registered sample_env v"
  "lx_loop_execution_id loop_execution = ''lx_1''" "lx_state loop_execution = loop_state 0"
  "lx_acceptance_policy_ref loop_execution = ''pol_1''" "lx_revision loop_execution = 0"
  "ls_iteration (loop_state i) = i"
  by (simp_all add: sample_run_def sample_env_def loop_execution_def loop_state_def)

lemma running_fields [simp]:
  "lx_loop_execution_id running_execution = ''lx_1''" "lx_state running_execution = loop_state 0"
  "lx_run_id running_execution = ''run_1''" "lx_revision running_execution = 1"
  "lx_status running_execution = Loop_RUNNING"
  by (simp_all add: running_execution_def loop_execution_def)

lemma running_store_fields [simp]:
  "st_runs running_store = st_runs loop_store" "st_loop_iterations running_store = [(''lx_1'', [])]"
  "st_loop_executions running_store = [(''lx_1'', running_execution)]"
  "st_verifications running_store = []" "events_of running_store = events_of loop_store"
  by (simp_all add: running_store_def loop_store_fields events_of_def fun_eq_iff)

lemma sample_update:
  "update_loop_execution 0 ''lx_1'' (loop_state 0) (Some Loop_RUNNING) None (Some 0) loop_store =
    (Inr running_execution, running_store)"
  by (simp add: update_loop_execution_def update_memory_loop_execution_def loop_store_fields
    running_execution_def running_store_def loop_execution_def terminal_loop_def Let_def)

definition started_manager :: manager where
  "started_manager = \<lparr>mg_store = push_to (ctl sample_env sample_run ''accretion/node-exited'' Ev_NODE_EXITED (Some ''s'')
           [(''status'', JStr ''SUCCEEDED'')] (Some ''initialize'') 3)
         (push_to (ctl sample_env sample_run ''accretion/node-entered'' Ev_NODE_ENTERED (Some ''s'')
           [(''status'', JStr ''RUNNING'')] (Some ''initialize'') 1) running_store),
      mg_draws = 5, mg_calls = []\<rparr>"

lemma sample_start:
  "sample_execute tis sample_manager =
   loop_turns sample_env sample_run sample_task loop_policy
     \<lparr>le_lease_id = ''lease'', le_base_revision = ''abc''\<rparr> ''s'' (repair_directive sample_task [] []) []
     running_execution tis started_manager"
proof -
  have x: "get_loop_execution_for_run (mg_store sample_manager) (rn_run_id sample_run) =
      Some (loop_execution\<lparr>lx_acceptance_policy := Some loop_policy\<rparr>)"
    by (simp add: sample_manager_def get_loop_execution_for_run_def loop_store_fields)
  show ?thesis
    unfolding execute_loop_unfold [OF x] resume_loop_def
    by (simp add: sample_manager_def require_policy_def turn_eval loop_store_fields 
      sample_update read_results_def list_loop_iterations_def dget_or_def started_manager_def
      numeral_eq_Suc)
qed

abbreviation pass_turn :: turn_input where
  "pass_turn \<equiv> sample_turn False V_PASS"

lemma turn_fields [simp]:
  "\<not> ti_pause_head (sample_turn b st)" "\<not> ti_deadline_passed (sample_turn b st)"
  "ti_during_call (sample_turn b st) = (\<lambda>s. s)" "ti_outcome (sample_turn b st) = sample_outcome (\<not> b)"
  "ti_pause_call (sample_turn b st) = b" "ti_artifact (sample_turn b st) = None"
  "ti_during_verify (sample_turn b st) = (\<lambda>s. s)" "ti_left_after (sample_turn b st) = 40"
  "\<not> ti_pause_commit (sample_turn b st)"
  "ti_verdict (sample_turn b st) = sample_verdict (en_new_id sample_env ''iteration'' 5) st"
  "oc_session_id (sample_outcome ok) = ''s''" "oc_stop_reason (sample_outcome ok) = None"
  "oc_completed (sample_outcome ok) = ok" "\<not> oc_cancelled (sample_outcome ok)"
  by (simp_all add: sample_turn_def sample_outcome_def)


text \<open>What emitting events keeps: nothing but the log and the draws change.\<close>

definition live :: "nat \<Rightarrow> manager \<Rightarrow> bool" where
  "live n m \<longleftrightarrow> store_steps empty_store (mg_store m) \<and> mg_draws m = n \<and>
     ev_event_id ` set (events_of (mg_store m) ''run_1'') \<subseteq>
       {''e1'', ''e2''} \<union> en_new_id sample_env ''event'' ` {..<n} \<and>
     st_loop_executions (mg_store m) = [(''lx_1'', running_execution)] \<and>
     st_loop_iterations (mg_store m) = [(''lx_1'', [])] \<and> st_verifications (mg_store m) = [] \<and>
     (\<exists>run. dget (st_runs (mg_store m)) ''run_1'' = Some run \<and> rn_state run = Run_RUNNING)"

definition runs :: "nat \<Rightarrow> 'a act \<Rightarrow> 'a \<Rightarrow> nat \<Rightarrow> bool" where
  "runs n f x k \<longleftrightarrow> (\<forall>m. live n m \<longrightarrow> (\<exists>m'. f m = (Inr x, m') \<and> live k m'))"

lemma runs_bind: "runs n f x k \<Longrightarrow> runs k (g x) y l \<Longrightarrow> runs n (bind_act f g) y l"
  by (fastforce simp: runs_def bind_act_def)

lemma runs_ret: "runs n (ret x) x n"
  by (simp add: runs_def)

lemma runs_emit: "runs n (emit sample_env sample_run nt ty s p k) () (Suc (Suc n))"
  unfolding runs_def
proof (intro allI impI)
  fix m assume m: "live n m"
  let ?e = "ctl sample_env sample_run nt ty s p k n"
  have "store_step (mg_store m) (push_to ?e (mg_store m))"
    unfolding push_to_def by (rule step_append_event)
  then have "store_steps empty_store (push_to ?e (mg_store m))"
    using m unfolding live_def by (meson rtranclp.rtrancl_into_rtrancl)
  moreover have "ev_event_id ` set (events_of (mg_store m) ''run_1'') \<subseteq>
       {''e1'', ''e2''} \<union> en_new_id sample_env ''event'' ` {..<Suc (Suc n)}"
    using m unfolding live_def by force
  ultimately show "\<exists>m'. emit sample_env sample_run nt ty s p k m = (Inr (), m') \<and> live (Suc (Suc n)) m'"
    using m by (auto simp: emit_push live_def)
qed

lemma runs_node: "runs n (node_transition sample_env sample_run s k b st) () (Suc (Suc n))"
  unfolding node_transition_def by (rule runs_emit)

lemma runs_draw: "runs n (draw_id sample_env k) (en_new_id sample_env k n) (Suc n)"
  by (force simp: runs_def draw_id_def live_def)

lemma runs_submit: "runs n (submit_call c) () n"
  by (simp add: runs_def submit_call_def live_def)

lemma runs_wait: "runs n (wait_for (\<lambda>s. s)) () n"
  by (simp add: runs_def wait_for_def live_def)

lemma runs_begin_turn:
  "runs n (begin_turn sample_env sample_run sample_task s dir x (sample_turn b st))
    (en_new_id sample_env ''iteration'' n) (Suc (Suc (Suc (Suc (Suc (Suc (Suc n)))))))"
  unfolding begin_turn_def Let_def turn_fields
  by (rule runs_bind, rule runs_draw)
    (rule runs_bind [OF runs_emit] runs_bind [OF runs_node] runs_bind [OF runs_submit]
      runs_bind [OF runs_wait] runs_ret)+

lemma runs_observe:
  "runs n (observe_and_verify sample_env sample_run loop_policy s i (sample_turn False st))
    [sample_verdict (en_new_id sample_env ''iteration'' 5) st ''tests'']
    (Suc (Suc (Suc (Suc (Suc (Suc (Suc (Suc n))))))))"
proof -
  have "ap_required_verifiers loop_policy = [''tests'']" by (simp add: loop_policy_def)
  then show ?thesis
    unfolding observe_and_verify_def turn_fields if_True simp_thms option.case
    by (auto simp: ret_bind intro!: runs_bind [OF runs_emit] runs_bind [OF runs_node] runs_bind [OF runs_wait]
      runs_bind [OF runs_ret] runs_bind [OF runs_bind [OF runs_emit runs_ret]]
      runs_ret)
qed

lemma live_started: "live 5 started_manager"
proof -
  have "store_steps loop_store running_store"
    using step_update_loop_execution [of loop_store 0 "''lx_1''" "loop_state 0" "Some Loop_RUNNING" None "Some 0"]
    by (simp add: sample_update)
  then have "store_steps empty_store running_store" using loop_store_steps by (rule rtranclp_trans [rotated])
  then have "live 1 \<lparr>mg_store = running_store, mg_draws = 1, mg_calls = []\<rparr>"
    by (simp add: live_def loop_store_fields events_of_def dget_or_def sample_store_fields sample_event_def sample_run_def)
  moreover have "runs 1 (bind_act (node_transition sample_env sample_run ''s'' ''initialize'' True ''SUCCEEDED'')
      (\<lambda>_. node_transition sample_env sample_run ''s'' ''initialize'' False ''SUCCEEDED'')) () (Suc (Suc (Suc (Suc 1))))"
    by (rule runs_bind [OF runs_node runs_node])
  ultimately show ?thesis
    by (auto simp: runs_def bind_act_def node_transition_def emit_push started_manager_def numeral_eq_Suc)
qed

lemma live_commit:
  assumes "live 20 m"
  shows "\<exists>x' it m'. commit_results sample_env sample_run lease ''s'' running_execution []
     (en_new_id sample_env ''iteration'' 5) (sample_turn False V_PASS) V_PASS [sample_verdict (en_new_id sample_env ''iteration'' 5) V_PASS ''tests''] m
    = (Inr (x', it, Some (Loop_SUCCEEDED, Stop_VERIFIED_SUCCESS, Run_SUCCEEDED)), m') \<and>
    dget (st_runs (mg_store m')) ''run_1'' \<noteq> None"
proof -
  let ?i = "en_new_id sample_env ''iteration'' 5"
  let ?rs = "[sample_verdict ?i V_PASS ''tests'']"
  obtain st it where n: "next_iteration_state (en_digest sample_env) running_execution ''run_1'' ?i 1
    (sample_outcome True) None None ?rs 40 None = (st, it)" by force
  note f = next_iteration_fields [OF n]
  define e1 where "e1 = ctl sample_env sample_run ''accretion/verification-result'' Ev_VERIFICATION_RESULT
            (Some ''s'')
            [(''iteration_id'', JStr ?i), (''acceptance'', JStr ''PASS''),
             (''verification_ids'', JList (map JStr (it_verification_refs it)))]
            (Some ''verify'') 20"
  define e2 where "e2 = ctl sample_env sample_run ''accretion/loop-iteration-completed''
            Ev_LOOP_ITERATION_COMPLETED (Some ''s'')
            [(''iteration_id'', JStr ?i), (''number'', JInt 1),
             (''acceptance'', JStr ''PASS'')] (Some ''evaluate'') 21"
  obtain run where run: "dget (st_runs (mg_store m)) ''run_1'' = Some run" "rn_state run = Run_RUNNING"
    using assms unfolding live_def by blast
  have ids: "en_new_id sample_env ''event'' k \<notin> ev_event_id ` set (events_of (mg_store m) ''run_1'')" if "k \<ge> 20" for k
  proof
    assume "en_new_id sample_env ''event'' k \<in> ev_event_id ` set (events_of (mg_store m) ''run_1'')"
    then have "en_new_id sample_env ''event'' k \<in> {''e1'', ''e2''} \<union> en_new_id sample_env ''event'' ` {..<20}"
      using assms unfolding live_def by blast
    then show False using that by (auto simp: sample_env_def)
  qed
  have "en_new_id sample_env ''event'' 20 \<noteq> en_new_id sample_env ''event'' 21"
    by (simp add: sample_env_def)
  then have g: "iteration_guard ''lx_1'' it st (Some 1) ?rs [e1, e2] (mg_store m) running_execution []"
    using assms ids [of 20] ids [of 21] f
    by (simp add: iteration_guard_def live_def validate_iteration_transition_def terminal_loop_def
      validate_iteration_evidence_def iteration_exists_def sample_verdict_def e1_def e2_def)
  have "log_ok (mg_store m)" using assms store_steps_log empty_store_ok unfolding live_def by blast
  note commit = iteration_append_succeeds [OF g this, of run "iteration_checkpoint 23 (en_new_id sample_env ''checkpoint'' 22) sample_run lease running_execution st Loop_SUCCEEDED None" 23 "Some Loop_SUCCEEDED" "Some Stop_VERIFIED_SUCCESS"]
  then obtain x' t where "append_loop_iteration 23 ''lx_1'' it st (Some Loop_SUCCEEDED) (Some Stop_VERIFIED_SUCCESS) (Some 1) ?rs [e1, e2]
     (Some (iteration_checkpoint 23 (en_new_id sample_env ''checkpoint'' 22) sample_run lease running_execution st Loop_SUCCEEDED None)) (mg_store m) = (Inr x', t)"
    "dget (st_runs t) ''run_1'' \<noteq> None"
    using run f by (auto simp: TERMINAL_RUN_STATES_def iteration_checkpoint_def)
  then show ?thesis
    using n assms
    by (simp add: commit_results_def turn_eval live_def terminal_outcome_def Let_def flip: e1_def e2_def)
qed

subsection \<open>Terminal commits\<close>

definition has_run :: "string \<Rightarrow> manager \<Rightarrow> bool" where
  "has_run r m \<longleftrightarrow> dget (st_runs (mg_store m)) r \<noteq> None"

text \<open>An action that does not raise as long as the run exists, and keeps it.\<close>

definition stays :: "string \<Rightarrow> 'a act \<Rightarrow> bool" where
  "stays r f \<longleftrightarrow> (\<forall>m. has_run r m \<longrightarrow> (\<exists>x m'. f m = (Inr x, m') \<and> has_run r m'))"

named_theorems staying

lemma stays_bind [staying]: "stays r f \<Longrightarrow> (\<And>x. stays r (g x)) \<Longrightarrow> stays r (bind_act f g)"
  by (fastforce simp: stays_def bind_act_def)

lemma stays_ret [staying]: "stays r (ret x)"
  by (simp add: stays_def)

lemma stays_query [staying]: "stays r (query f)"
  by (simp add: stays_def)

lemma stays_emit [staying]: "stays r (emit env run nt ty s p k)"
  by (auto simp: stays_def emit_push has_run_def)

lemma stays_node [staying]: "stays r (node_transition env run s k b st)"
  unfolding node_transition_def by (rule stays_emit)

lemma stays_update [staying]: "stays r (store_op env (\<lambda>now. update_run now r st u))"
  by (auto simp: stays_def has_run_def store_op_def update_run_def Let_def)

lemma stays_require [staying]: "stays r (require_run r)"
  by (auto simp: stays_def has_run_def require_run_def get_run_def bind_act_def query_def ret_def)

lemma stays_if [staying]: "(b \<Longrightarrow> stays r f) \<Longrightarrow> (\<not> b \<Longrightarrow> stays r g) \<Longrightarrow> stays r (if b then f else g)"
  by simp

lemma stays_commit [staying]:
  "stays (rn_run_id run) (commit_run_terminal env run st ty nt s p k fin err)"
  unfolding commit_run_terminal_def Let_def by (intro staying)

lemma stays_finish [staying]: "stays (rn_run_id run) (finish_loop env run x ls sr st sid True)"
  unfolding finish_loop_def if_True by (intro staying)

lemma sample_execute_succeeds:
  "\<exists>m'. sample_execute [sample_turn False V_PASS] sample_manager =
    (Inr (End_terminal Loop_SUCCEEDED Stop_VERIFIED_SUCCESS Run_SUCCEEDED), m')"
proof -
  let ?i = "en_new_id sample_env ''iteration'' 5" and ?lease = "\<lparr>le_lease_id = ''lease'', le_base_revision = ''abc''\<rparr>"
  let ?v = "sample_verdict ?i V_PASS ''tests''"
  obtain m1 where m1: "begin_turn sample_env sample_run sample_task ''s'' (repair_directive sample_task [] [])
      running_execution (sample_turn False V_PASS) started_manager = (Inr ?i, m1)" "live 12 m1"
    using runs_begin_turn [of 5 "''s''" "repair_directive sample_task [] []" running_execution False V_PASS] live_started
    by (auto simp: runs_def numeral_eq_Suc)
  obtain m2 where m2: "observe_and_verify sample_env sample_run loop_policy ''s'' ?i (sample_turn False V_PASS) m1 =
      (Inr [?v], m2)" "live 20 m2"
    using runs_observe [of 12 "''s''" ?i V_PASS] m1(2) by (auto simp: runs_def numeral_eq_Suc)
  have acc: "turn_acceptance loop_policy sample_task (sample_outcome True) [?v] = V_PASS"
    by (simp add: turn_acceptance_def evaluate_acceptance_def loop_policy_def sample_verdict_def Let_def
      by_verifier_def dict_of_def reviewer_missing_def risk_needs_human_def threshold_failures_def)
  obtain x' it m3 where m3: "commit_results sample_env sample_run ?lease ''s'' running_execution [] ?i
      (sample_turn False V_PASS) V_PASS [?v] m2 =
      (Inr (x', it, Some (Loop_SUCCEEDED, Stop_VERIFIED_SUCCESS, Run_SUCCEEDED)), m3)" "has_run ''run_1'' m3"
    using live_commit [OF m2(2)] unfolding has_run_def by blast
  obtain m4 where "finish_loop sample_env sample_run x' Loop_SUCCEEDED Stop_VERIFIED_SUCCESS Run_SUCCEEDED
      ''s'' True m3 = (Inr (), m4)"
    using stays_finish [of sample_run] m3(2) unfolding stays_def by fastforce
  with m1 m2 m3 acc show ?thesis
    unfolding sample_start by (simp add: end_turn_def commit_turn_def bind_act_def ret_def Let_def)
qed


lemma sample_loop_found:
  "get_loop_execution_for_run (mg_store sample_manager) (rn_run_id sample_run) =
    Some (loop_execution\<lparr>lx_acceptance_policy := Some loop_policy\<rparr>)"
  by (simp add: sample_manager_def get_loop_execution_for_run_def loop_store_fields)

theorem execute_loop_bounded_witness:
  "fst (sample_execute (replicate 3 (sample_turn False V_FAIL)) sample_manager) \<noteq> Inr End_starved"
proof -
  have "max 1 (nat (br_iterations (ls_budget_remaining
      (lx_state (loop_execution\<lparr>lx_acceptance_policy := Some loop_policy\<rparr>))))) \<le>
    length (replicate 3 (sample_turn False V_FAIL))"
    by (simp add: loop_state_def)
  from execute_loop_bounded [OF sample_loop_found this] show ?thesis by blast
qed

theorem execute_loop_success_witness:
  "\<exists>m'. sample_execute [sample_turn False V_PASS] sample_manager =
     (Inr (End_terminal Loop_SUCCEEDED Stop_VERIFIED_SUCCESS Run_SUCCEEDED), m') \<and>
   ae_accepted (Acceptance.evaluate_acceptance loop_policy
     [sample_verdict (en_new_id sample_env ''iteration'' 5) V_PASS ''tests''] (Some Risk_LOW))"
proof -
  obtain m' where m': "sample_execute [sample_turn False V_PASS] sample_manager =
     (Inr (End_terminal Loop_SUCCEEDED Stop_VERIFIED_SUCCESS Run_SUCCEEDED), m')"
    using sample_execute_succeeds by blast
  from execute_loop_success [OF m' sample_loop_found] m' show ?thesis
    by (simp add: sample_manager_def loop_store_fields sample_task_def)
      (simp add: loop_policy_def)
qed

subsection \<open>One terminal event\<close>

lemma list_events_all: "log_ok s \<Longrightarrow> list_events s r 0 = events_of s r"
  unfolding list_events_def
  using run_log.filter_after_cursor [OF log_okD(1), of s 0 r] by simp

lemma push_to_ok: "log_ok s \<Longrightarrow> log_ok (push_to e s)"
  unfolding push_to_def using store_step_log [OF step_append_event] by blast

lemma update_run_ok: "log_ok s \<Longrightarrow> log_ok (snd (update_run now r st u s))"
  using store_step_log [OF step_update_run] by blast

lemma is_terminal_number [simp]: "is_terminal_event (number_event e l) = is_terminal_event e"
  by (simp add: is_terminal_event_def number_event_def)

lemma terminal_events_push:
  assumes "log_ok s"
  shows "terminal_events (push_to e s) r = terminal_events s r @
    (if ev_run_id e = r \<and> is_terminal_event e then [number_event e (events_of s r)] else [])"
  by (simp add: terminal_events_def list_events_all assms push_to_ok push_event_def)

lemma terminal_events_update_run [simp]:
  "terminal_events (snd (update_run now r st u s)) r' = terminal_events s r'"
  using same_log_update_run [of s now r st u]
  by (simp add: terminal_events_def list_events_def same_log_def)

lemma recovered_state_terminal: "recovered_state ty st \<in> TERMINAL_RUN_STATES"
  by (simp add: recovered_state_def TERMINAL_RUN_STATES_def)

text \<open>Partial-correctness triples for actions.\<close>

definition triple :: "(manager \<Rightarrow> bool) \<Rightarrow> 'a act \<Rightarrow> (manager \<Rightarrow> bool) \<Rightarrow> bool" where
  "triple P f Q \<longleftrightarrow> (\<forall>m x m'. P m \<longrightarrow> f m = (Inr x, m') \<longrightarrow> Q m')"

lemma tripleD: "triple P f Q \<Longrightarrow> P m \<Longrightarrow> f m = (Inr x, m') \<Longrightarrow> Q m'"
  by (simp add: triple_def)

lemma triple_bind: "triple P f R \<Longrightarrow> (\<And>x. triple R (g x) Q) \<Longrightarrow> triple P (bind_act f g) Q"
  by (fastforce simp: triple_def bind_act_Inr)

lemma triple_ret: "(\<And>m. P m \<Longrightarrow> Q m) \<Longrightarrow> triple P (ret x) Q"
  by (simp add: triple_def)

lemma triple_if: "(b \<Longrightarrow> triple P f Q) \<Longrightarrow> (\<not> b \<Longrightarrow> triple P g Q) \<Longrightarrow> triple P (if b then f else g) Q"
  by simp

lemma triple_query:
  "(\<And>v. triple (\<lambda>m. P m \<and> v = f (mg_store m)) (g v) Q) \<Longrightarrow> triple P (bind_act (query f) g) Q"
  by (simp add: triple_def bind_act_Inr)

lemma triple_require_run:
  "(\<And>run. triple (\<lambda>m. P m \<and> get_run (mg_store m) r = Some run) (g run) Q) \<Longrightarrow>
   triple P (bind_act (require_run r) g) Q"
  by (auto simp: triple_def bind_act_Inr require_run_def split: option.splits)

lemma triple_weaken: "triple P f Q \<Longrightarrow> (\<And>m. P' m \<Longrightarrow> P m) \<Longrightarrow> (\<And>m. Q m \<Longrightarrow> Q' m) \<Longrightarrow> triple P' f Q'"
  unfolding triple_def by blast

text \<open>The types of a run's terminal events, and its state.\<close>

definition ended :: "string \<Rightarrow> EventType list \<Rightarrow> (RunState \<Rightarrow> bool) \<Rightarrow> manager \<Rightarrow> bool" where
  "ended r tys S m \<longleftrightarrow> log_ok (mg_store m) \<and>
     map ev_normalized_type (terminal_events (mg_store m) r) = tys \<and>
     (\<exists>run. get_run (mg_store m) r = Some run \<and> S (rn_state run))"

abbreviation logged :: "string \<Rightarrow> EventType list \<Rightarrow> manager \<Rightarrow> bool" where
  "logged r tys m \<equiv> log_ok (mg_store m) \<and> map ev_normalized_type (terminal_events (mg_store m) r) = tys"

lemma update_run_found:
  assumes "dget (st_runs s) r = Some run"
  shows "\<exists>run'. update_run now r st u s = (Inr run', snd (update_run now r st u s)) \<and>
    dget (st_runs (snd (update_run now r st u s))) r = Some run' \<and> rn_state run' = st"
  using assms by (simp add: update_run_def Let_def)

lemma triple_update:
  "triple (logged r tys) (store_op env (\<lambda>now. update_run now r st u)) (ended r tys (\<lambda>s. s = st))"
  unfolding triple_def
proof (intro allI impI)
  fix m x m'
  assume m: "logged r tys m" and "store_op env (\<lambda>now. update_run now r st u) m = (Inr x, m')"
  then obtain now where u: "update_run now r st u (mg_store m) = (Inr x, mg_store m')"
    by (auto simp: store_op_Inr)
  from u obtain run where run: "dget (st_runs (mg_store m)) r = Some run"
    by (auto simp: update_run_def split: option.splits)
  have "get_run (mg_store m') r = Some x \<and> rn_state x = st"
    using update_run_found [OF run, of now st u] unfolding u by (simp add: get_run_def)
  moreover have "log_ok (mg_store m') \<and> terminal_events (mg_store m') r = terminal_events (mg_store m) r"
    using u update_run_ok [of "mg_store m" now r st u] terminal_events_update_run [of now r st u "mg_store m" r] m
    by simp
  ultimately show "ended r tys (\<lambda>s. s = st) m'" using m by (simp add: ended_def)
qed

lemma triple_emit:
  "triple (ended (rn_run_id run) tys S) (emit env run nt ty s p k)
    (ended (rn_run_id run) (tys @ (if ty \<in> {Ev_RUN_COMPLETED, Ev_RUN_FAILED, Ev_RUN_CANCELLED}
       then [ty] else [])) S)"
  by (auto simp: triple_def emit_push ended_def terminal_events_push push_to_ok is_terminal_event_def
    number_event_def get_run_def)

lemma triple_node:
  "triple (ended (rn_run_id run) tys S) (node_transition env run s k b st) (ended (rn_run_id run) tys S)"
  unfolding node_transition_def by (rule triple_weaken [OF triple_emit]) (auto split: if_splits)

lemma triple_terminal:
  assumes "ty \<in> {Ev_RUN_COMPLETED, Ev_RUN_FAILED, Ev_RUN_CANCELLED}"
  shows "triple (ended (rn_run_id run) [] S) (emit env run nt ty s p k) (ended (rn_run_id run) [ty] S)"
  by (rule triple_weaken [OF triple_emit]) (use assms in auto)

lemma triple_commit:
  assumes "ty \<in> {Ev_RUN_COMPLETED, Ev_RUN_FAILED, Ev_RUN_CANCELLED}"
  shows "triple (logged (rn_run_id run) tys) (commit_run_terminal env run st ty nt s p k fin err)
    (ended (rn_run_id run) (if tys = [] then [ty] else tys)
      (\<lambda>q. if tys = [] then q = st else q \<in> TERMINAL_RUN_STATES))"
  unfolding commit_run_terminal_def Let_def
proof (rule triple_require_run, rule triple_query, rule triple_if, goal_cases)
  case (1 current existing)
  show ?case
  proof (rule triple_if)
    show "triple (\<lambda>m. (logged (rn_run_id run) tys m \<and> get_run (mg_store m) (rn_run_id run) = Some current) \<and>
        existing = terminal_events (mg_store m) (rn_run_id run))
      (store_op env (\<lambda>now. update_run now (rn_run_id run)
        (recovered_state (ev_normalized_type (hd existing)) st) (error_update err)))
      (ended (rn_run_id run) (if tys = [] then [ty] else tys)
        (\<lambda>q. if tys = [] then q = st else q \<in> TERMINAL_RUN_STATES))"
    proof (cases "tys = []")
      case True
      with 1 show ?thesis by (auto simp: triple_def)
    next
      case False
      then show ?thesis
        by (intro triple_weaken [OF triple_update [of "rn_run_id run" tys]])
          (use recovered_state_terminal in \<open>auto simp: ended_def\<close>)
    qed
    show "\<not> rn_state current \<notin> TERMINAL_RUN_STATES \<Longrightarrow>
      triple (\<lambda>m. (logged (rn_run_id run) tys m \<and> get_run (mg_store m) (rn_run_id run) = Some current) \<and>
        existing = terminal_events (mg_store m) (rn_run_id run)) (ret current)
      (ended (rn_run_id run) (if tys = [] then [ty] else tys)
        (\<lambda>q. if tys = [] then q = st else q \<in> TERMINAL_RUN_STATES))"
      by (rule triple_ret) (use 1 in \<open>auto simp: ended_def\<close>)
  qed
next
  case (2 current existing)
  show ?case
  proof (cases "tys = []")
    case True
    have "triple (logged (rn_run_id run) []) (bind_act (store_op env (\<lambda>now. update_run now (rn_run_id run) st (error_update err))) (\<lambda>current.
          bind_act (if fin \<noteq> None \<and> k \<noteq> None
              then node_transition env run s' (the k) True ''SUCCEEDED'' else ret ()) (\<lambda>_.
          bind_act (emit env run nt ty s p' k) (\<lambda>_.
          bind_act (if fin \<noteq> None \<and> k \<noteq> None
              then node_transition env run s' (the k) False (the fin) else ret ()) (\<lambda>_.
          ret current))))) (ended (rn_run_id run) [ty] (\<lambda>q. q = st))" for s' p'
      by (rule triple_bind [OF triple_update], rule triple_bind, rule triple_if, rule triple_node,
        rule triple_ret, assumption, rule triple_bind [OF triple_terminal [OF assms]], rule triple_bind,
        rule triple_if, rule triple_node, rule triple_ret, assumption, rule triple_ret)
    then show ?thesis by (rule triple_weaken) (auto simp: True)
  next
    case False
    then show ?thesis using 2 by (auto simp: triple_def)
  qed
qed


text \<open>C6: A run ends once. A terminal commit on a run without terminal events adds exactly one, of the
  given type, and leaves the run in the given state; a commit on a run that already has one adds none
  and leaves the run in a terminal state; and after either, any further terminal commit for the run
  (a cancellation racing with completion, reconciliation after a restart) returns without touching
  the store.\<close>

theorem terminal_commit_is_once:
  assumes "commit_run_terminal env run st ty nt s p k fin err m = (Inr c, m')"
    and "log_ok (mg_store m)" and "st \<in> TERMINAL_RUN_STATES"
    and "ty \<in> {Ev_RUN_COMPLETED, Ev_RUN_FAILED, Ev_RUN_CANCELLED}"
    and "rn_run_id run2 = rn_run_id run"
  shows "map ev_normalized_type (terminal_events (mg_store m') (rn_run_id run)) =
      (if terminal_events (mg_store m) (rn_run_id run) = [] then [ty]
       else map ev_normalized_type (terminal_events (mg_store m) (rn_run_id run))) \<and>
    (\<exists>current. get_run (mg_store m') (rn_run_id run) = Some current \<and>
      rn_state current \<in> TERMINAL_RUN_STATES \<and>
      (terminal_events (mg_store m) (rn_run_id run) = [] \<longrightarrow> rn_state current = st) \<and>
      commit_run_terminal env2 run2 st2 ty2 nt2 s2 p2 k2 fin2 err2 m' = (Inr current, m'))"
proof -
  let ?r = "rn_run_id run"
  let ?tys = "map ev_normalized_type (terminal_events (mg_store m) ?r)"
  have e: "ended ?r (if ?tys = [] then [ty] else ?tys)
      (\<lambda>q. if ?tys = [] then q = st else q \<in> TERMINAL_RUN_STATES) m'"
    by (rule tripleD [OF triple_commit [OF assms(4)] _ assms(1)]) (use assms(2) in simp)
  then obtain current where current: "get_run (mg_store m') ?r = Some current"
    "rn_state current \<in> TERMINAL_RUN_STATES" "?tys = [] \<longrightarrow> rn_state current = st"
    using assms(3) by (auto simp: ended_def split: if_splits)
  have tys: "map ev_normalized_type (terminal_events (mg_store m') ?r) = (if ?tys = [] then [ty] else ?tys)"
    using e by (simp add: ended_def)
  then have "terminal_events (mg_store m') ?r \<noteq> []" by (auto split: if_splits)
  then have "commit_run_terminal env2 run2 st2 ty2 nt2 s2 p2 k2 fin2 err2 m' = (Inr current, m')"
    using current assms(5)
    by (simp add: commit_run_terminal_def require_run_def bind_act_def query_def ret_def Let_def)
  with tys current show ?thesis by auto
qed

lemma sample_manager_ok: "log_ok (mg_store sample_manager)"
  using store_steps_log [OF loop_store_steps empty_store_ok] by (simp add: sample_manager_def)

theorem terminal_commit_is_once_witness:
  "\<exists>c m'. commit_run_terminal sample_env sample_run Run_CANCELLED Ev_RUN_CANCELLED ''n'' None [] None None
      None sample_manager = (Inr c, m') \<and>
    map ev_normalized_type (terminal_events (mg_store m') ''run_1'') = [Ev_RUN_CANCELLED]"
proof -
  have "has_run ''run_1'' sample_manager"
    by (simp add: has_run_def sample_manager_def loop_store_fields)
  then obtain c m' where c: "commit_run_terminal sample_env sample_run Run_CANCELLED Ev_RUN_CANCELLED ''n''
      None [] None None None sample_manager = (Inr c, m')"
    using stays_commit [of sample_run] unfolding stays_def by fastforce
  have "terminal_events (mg_store sample_manager) ''run_1'' = []"
    by (simp add: terminal_events_def list_events_all sample_manager_ok)
      (simp add: sample_manager_def events_of_def dget_or_def loop_store_fields sample_store_fields
        sample_event_def is_terminal_event_def)
  with terminal_commit_is_once [OF c sample_manager_ok, of sample_run] c show ?thesis
    by (auto simp: TERMINAL_RUN_STATES_def)
qed


subsection \<open>Resuming at the end of the budget\<close>

lemma begin_turn_submits:
  "\<exists>i m' c. begin_turn env run e sid dir x ti m = (Inr i, m') \<and> mg_calls m' = mg_calls m @ [c] \<and>
    rc_iteration c = ls_iteration (lx_state x) + 1"
  by (simp add: begin_turn_def bind_act_def draw_id_def emit_push node_transition_def submit_call_def
    wait_for_def ret_def Let_def)

text \<open>What runs under \<open>submits n\<close> adds at least one runtime call, the first of them for iteration \<open>n\<close>.\<close>

definition submits :: "int \<Rightarrow> 'a act \<Rightarrow> manager \<Rightarrow> bool" where
  "submits n f m \<longleftrightarrow> (\<exists>c cs. mg_calls (snd (f m)) = mg_calls m @ c # cs \<and> rc_iteration c = n)"

lemma loop_turns_submit:
  assumes "\<not> ti_pause_head ti" "\<not> ti_deadline_passed ti"
  shows "submits (ls_iteration (lx_state x) + 1)
    (loop_turns env run e p lease sid dir prev x (ti # tis)) m"
proof -
  obtain i m1 c where b: "begin_turn env run e sid dir x ti m = (Inr i, m1)"
    "mg_calls m1 = mg_calls m @ [c]" "rc_iteration c = ls_iteration (lx_state x) + 1"
    using begin_turn_submits by blast
  obtain k where k: "turns_needed x = Suc k" using turns_needed_pos by blast
  have "calls_at_most (ls_iteration (lx_state x) + 1) k
    (end_turn env run e p lease prev x ti (\<lambda>it rs x'. loop_turns env run e p lease
      (oc_session_id (ti_outcome ti)) (repair_directive e (prev @ [it]) rs) (prev @ [it]) x' tis) i)"
    by (rule end_turn_calls [OF loop_turns_calls k])
  with b assms show ?thesis
    unfolding calls_at_most_def submits_def
    by (simp add: bind_act_def) (metis append.assoc append_Cons append_Nil)
qed

lemma restart_loop:
  assumes "dget (st_loop_executions s) (lx_loop_execution_id x) = Some x"
    and "\<not> terminal_loop (lx_status x)"
  obtains y s' where "update_loop_execution now (lx_loop_execution_id x) (lx_state x) (Some Loop_RUNNING)
      None (Some (lx_revision x)) s = (Inr y, s')" "lx_state y = lx_state x"
    "st_verifications s' = st_verifications s"
    "st_verification_ids_by_run s' = st_verification_ids_by_run s"
  using assms by (simp add: update_loop_execution_def update_memory_loop_execution_def Let_def)

text \<open>C26: The iteration budget is not checked when a loop starts. A loop that has used up its
  \<open>max_iterations\<close> and is not terminal (which is how a pause during the last permitted iteration leaves
  it) runs once more when it is resumed: unless the first pass is paused or past its deadline, the
  execution submits a runtime call for iteration \<open>max_iterations + 1\<close>.\<close>

theorem resumed_loop_overruns_budget:
  assumes "get_loop_execution_for_run (mg_store m) (rn_run_id run) = Some x"
    and "dget (st_loop_executions (mg_store m)) (lx_loop_execution_id x) = Some x"
    and "\<not> terminal_loop (lx_status x)"
    and "dget (st_acceptance_policies (mg_store m)) (lx_acceptance_policy_ref x) = Some p"
    and "\<And>i. \<exists>rs. list_verifications (mg_store m) (rn_run_id run) i = Inr rs"
    and "0 < sp_max_iterations (lx_spec x)"
    and "ls_iteration (lx_state x) = sp_max_iterations (lx_spec x)"
    and "\<not> ti_pause_head ti" and "\<not> ti_deadline_passed ti"
  shows "\<exists>c cs. mg_calls (snd (execute_loop env run e lease sid (ti # tis) m)) = mg_calls m @ c # cs \<and>
    rc_iteration c = sp_max_iterations (lx_spec x) + 1"
proof -
  obtain y s' where y: "update_loop_execution (en_now env (mg_draws m)) (lx_loop_execution_id x)
      (lx_state x) (Some Loop_RUNNING) None (Some (lx_revision x)) (mg_store m) = (Inr y, s')"
      "lx_state y = lx_state x"
    and v: "st_verifications s' = st_verifications (mg_store m)"
      "st_verification_ids_by_run s' = st_verification_ids_by_run (mg_store m)"
    using restart_loop [OF assms(2,3)] by blast
  let ?m = "m\<lparr>mg_store := s', mg_draws := Suc (mg_draws m)\<rparr>"
  let ?prev = "list_loop_iterations s' (lx_loop_execution_id y)"
  have "list_verifications s' = list_verifications (mg_store m)"
    by (simp add: list_verifications_def v fun_eq_iff)
  with assms(5) obtain rs where rs: "read_results run ?prev ?m = (Inr rs, ?m)"
    by (cases "?prev = []") (auto simp: read_results_def)
  have s: "submits (ls_iteration (lx_state y) + 1) (loop_turns env run e p lease sid
      (repair_directive e ?prev rs) ?prev y (ti # tis)) ?m"
    by (rule loop_turns_submit [OF assms(8,9)])
  have "submits (sp_max_iterations (lx_spec x) + 1) (execute_loop env run e lease sid (ti # tis)) m"
    using s rs y assms(1,4,6,7) unfolding submits_def
    by (simp add: execute_loop_def resume_loop_def require_loop_def require_policy_def query_def ret_def
      bind_act_def store_op_def del: loop_turns.simps)
  then show ?thesis by (simp add: submits_def)
qed

definition spent_manager :: manager where
  "spent_manager = sample_manager\<lparr>mg_store := loop_store\<lparr>st_loop_executions := [(''lx_1'',
     loop_execution\<lparr>lx_state := loop_state 3, lx_status := Loop_PAUSED,
       lx_acceptance_policy := Some loop_policy\<rparr>)]\<rparr>\<rparr>"

lemma loop_store_verifications: "st_verification_ids_by_run loop_store = []"
  by code_simp

theorem resumed_loop_overruns_budget_witness:
  "\<exists>c cs. mg_calls (snd (sample_execute [sample_turn False V_FAIL] spent_manager)) = c # cs \<and>
    rc_iteration c = 4"
proof -
  let ?x = "loop_execution\<lparr>lx_state := loop_state 3, lx_status := Loop_PAUSED,
       lx_acceptance_policy := Some loop_policy\<rparr>"
  have "get_loop_execution_for_run (mg_store spent_manager) (rn_run_id sample_run) = Some ?x"
    "dget (st_loop_executions (mg_store spent_manager)) (lx_loop_execution_id ?x) = Some ?x"
    "\<not> terminal_loop (lx_status ?x)"
    "dget (st_acceptance_policies (mg_store spent_manager)) (lx_acceptance_policy_ref ?x) = Some loop_policy"
    "\<And>i. \<exists>rs. list_verifications (mg_store spent_manager) (rn_run_id sample_run) i = Inr rs"
    "0 < sp_max_iterations (lx_spec ?x)" "ls_iteration (lx_state ?x) = sp_max_iterations (lx_spec ?x)"
    "\<not> ti_pause_head (sample_turn False V_FAIL)" "\<not> ti_deadline_passed (sample_turn False V_FAIL)"
    by (simp_all add: spent_manager_def get_loop_execution_for_run_def loop_store_fields loop_execution_def
      loop_state_def terminal_loop_def list_verifications_def
      sample_turn_def loop_store_verifications dget_or_def)
  from resumed_loop_overruns_budget [OF this, of sample_env sample_task _ _ "[]"] show ?thesis
    by (simp add: spent_manager_def sample_manager_def loop_execution_def)
qed

end
