(* ===== verification/Checkpoints.thy ===== *)
theory Checkpoints
  imports Store_Invariants
begin

text \<open>
  Crash-recovery classification, \<^verbatim>\<open>src/accretion/checkpoints.py\<close>: how the latest checkpoint of a run is
  judged against the stored rows, and the four-way classification of a run that was active when the
  process died.

  Shown: exactly when a checkpoint is valid and stale. What the classification is used for, the automatic
  resumption of runs, is the subject of \<open>Recovery_Properties\<close>.
\<close>

datatype ReconcileClassification = Rec_RESUMABLE | Rec_RECREATE | Rec_TERMINAL | Rec_REQUIRES_HUMAN

datatype CheckpointInvalidReason =
    SEQUENCE_AHEAD_OF_LOG
  | LOOP_AUTHORITY_BEHIND_CHECKPOINT
  | WORKSPACE_REVISION_CONFLICT
  | WORKSPACE_LEASE_MISSING

record CheckpointEvaluation =
  ce_valid :: bool
  ce_stale :: bool
  ce_reason :: "CheckpointInvalidReason option"

abbreviation invalid :: "CheckpointInvalidReason \<Rightarrow> CheckpointEvaluation" where
  "invalid r \<equiv> \<lparr>ce_valid = False, ce_stale = False, ce_reason = Some r\<rparr>"

text \<open>The loop over the cursors: \<open>None\<close> when one of them is ahead of its loop, else whether any is
  behind.\<close>

fun check_cursors ::
  "(string, LoopExecution) dict \<Rightarrow> CheckpointLoopCursor list \<Rightarrow> bool \<Rightarrow> bool option" where
  "check_cursors loops [] stale = Some stale"
| "check_cursors loops (c # cs) stale =
    (case dget loops (cu_loop_execution_id c) of
       None \<Rightarrow> None
     | Some x \<Rightarrow>
         if ls_iteration (lx_state x) < cu_iteration c then None
         else check_cursors loops cs (stale \<or> ls_iteration (lx_state x) > cu_iteration c))"

definition evaluate_checkpoint ::
  "Checkpoint \<Rightarrow> int \<Rightarrow> (string, LoopExecution) dict \<Rightarrow> string option \<Rightarrow> CheckpointEvaluation" where
  "evaluate_checkpoint c run_last_sequence loops workspace_status =
    (if ck_sequence c > run_last_sequence then invalid SEQUENCE_AHEAD_OF_LOG
     else case check_cursors loops (ck_loop_cursors c) False of
       None \<Rightarrow> invalid LOOP_AUTHORITY_BEHIND_CHECKPOINT
     | Some stale \<Rightarrow>
         if ck_workspace_lease_id c \<noteq> None \<and> workspace_status = None
         then invalid WORKSPACE_LEASE_MISSING
         else if ck_workspace_lease_id c \<noteq> None \<and> workspace_status = Some ''REVISION_CONFLICT''
         then invalid WORKSPACE_REVISION_CONFLICT
         else \<lparr>ce_valid = True, ce_stale = stale, ce_reason = None\<rparr>)"

record RunClassification =
  rc_classification :: ReconcileClassification
  rc_reason :: string
  rc_checkpoint_reason :: "CheckpointInvalidReason option"

definition classify_run ::
  "string option \<Rightarrow> bool \<Rightarrow> bool \<Rightarrow> CheckpointEvaluation option \<Rightarrow> RunClassification" where
  "classify_run workspace_status has_uncertain_side_effects has_candidate_work evaluation =
    (if has_uncertain_side_effects
     then \<lparr>rc_classification = Rec_REQUIRES_HUMAN,
       rc_reason = ''uncertain side-effect operations must be resolved by a human'',
       rc_checkpoint_reason = None\<rparr>
     else if evaluation \<noteq> None \<and> \<not> ce_valid (the evaluation) then
       (if ce_reason (the evaluation) = Some WORKSPACE_LEASE_MISSING \<and> \<not> has_candidate_work \<and>
           workspace_status \<noteq> Some ''CONSISTENT''
        then \<lparr>rc_classification = Rec_RECREATE,
          rc_reason = ''workspace substrate lost with no candidate work to lose'',
          rc_checkpoint_reason = ce_reason (the evaluation)\<rparr>
        else \<lparr>rc_classification = Rec_REQUIRES_HUMAN, rc_reason = ''the last checkpoint is invalid'',
          rc_checkpoint_reason = ce_reason (the evaluation)\<rparr>)
     else if workspace_status \<noteq> None \<and> workspace_status \<noteq> Some ''CONSISTENT'' then
       (if has_candidate_work \<or> workspace_status = Some ''REVISION_CONFLICT''
        then \<lparr>rc_classification = Rec_REQUIRES_HUMAN,
          rc_reason = ''workspace is unrecoverable and candidate work would be lost'',
          rc_checkpoint_reason = None\<rparr>
        else \<lparr>rc_classification = Rec_RECREATE,
          rc_reason = ''workspace substrate lost with no candidate work to lose'',
          rc_checkpoint_reason = None\<rparr>)
     else \<lparr>rc_classification = Rec_RESUMABLE,
       rc_reason = ''durable state is coherent; resume from the last valid checkpoint'',
       rc_checkpoint_reason = None\<rparr>)"

subsection \<open>Validity\<close>

definition authority_covers :: "(string, LoopExecution) dict \<Rightarrow> CheckpointLoopCursor \<Rightarrow> bool" where
  "authority_covers loops c \<longleftrightarrow>
     (\<exists>x. dget loops (cu_loop_execution_id c) = Some x \<and> cu_iteration c \<le> ls_iteration (lx_state x))"

lemma check_cursors_iff:
  "check_cursors loops cs b = Some stale \<longleftrightarrow>
     (\<forall>c \<in> set cs. authority_covers loops c) \<and>
     (stale \<longleftrightarrow> b \<or> (\<exists>c \<in> set cs. \<exists>x. dget loops (cu_loop_execution_id c) = Some x \<and>
       cu_iteration c < ls_iteration (lx_state x)))"
  by (induction loops cs b rule: check_cursors.induct)
    (auto simp: authority_covers_def split: option.splits)

lemma check_cursors_None:
  "check_cursors loops cs b = None \<longleftrightarrow> \<not> (\<forall>c \<in> set cs. authority_covers loops c)"
  by (induction loops cs b rule: check_cursors.induct)
    (auto simp: authority_covers_def split: option.splits)

text \<open>When a checkpoint is valid: its sequence is in the log, every loop it points into has stored
  at least the iterations the cursor counts, and a workspace it is bound to is known and has not
  diverged. A valid checkpoint is stale exactly when some loop has moved on since.\<close>

theorem checkpoint_valid_exactly_when:
  "(ce_valid (evaluate_checkpoint c n loops ws) \<longleftrightarrow>
      ck_sequence c \<le> n \<and> (\<forall>u \<in> set (ck_loop_cursors c). authority_covers loops u) \<and>
      (ck_workspace_lease_id c \<noteq> None \<longrightarrow> ws \<noteq> None \<and> ws \<noteq> Some ''REVISION_CONFLICT'')) \<and>
   (ce_valid (evaluate_checkpoint c n loops ws) \<longrightarrow>
     (ce_stale (evaluate_checkpoint c n loops ws) \<longleftrightarrow>
      (\<exists>u \<in> set (ck_loop_cursors c). \<exists>x. dget loops (cu_loop_execution_id u) = Some x \<and>
        cu_iteration u < ls_iteration (lx_state x))))"
proof (cases "check_cursors loops (ck_loop_cursors c) False")
  case None
  then have "\<not> (\<forall>u \<in> set (ck_loop_cursors c). authority_covers loops u)"
    using check_cursors_None by blast
  moreover have "\<not> ce_valid (evaluate_checkpoint c n loops ws)"
    using None by (simp add: evaluate_checkpoint_def)
  ultimately show ?thesis by blast
next
  case (Some stale)
  note cursors = Some [unfolded check_cursors_iff]
  have all: "\<forall>u \<in> set (ck_loop_cursors c). authority_covers loops u" using cursors by blast
  show ?thesis using cursors by (simp add: evaluate_checkpoint_def all Some)
qed

definition sample_checkpoint :: "int \<Rightarrow> Checkpoint" where
  "sample_checkpoint n = \<lparr>ck_checkpoint_id = ''c'', ck_run_id = ''r'', ck_kind = Ck_NODE_BOUNDARY,
     ck_sequence = n, ck_run_state = Run_RUNNING, ck_run_revision = 0, ck_active_node_ids = [],
     ck_arrival_edge_key = None, ck_node_statuses = [], ck_loop_cursors = [], ck_run_graph_id = None,
     ck_graph_revision = None, ck_budget_remaining = None, ck_workspace_lease_id = Some ''l'',
     ck_workspace_revision = None, ck_workspace_diff_sha256 = None, ck_side_effect_operation_id = None,
     ck_created_at = 0\<rparr>"

theorem checkpoint_valid_exactly_when_witness:
  "ce_valid (evaluate_checkpoint (sample_checkpoint 3) 5 [] (Some ''MISSING'')) \<and>
   \<not> ce_valid (evaluate_checkpoint (sample_checkpoint 3) 5 [] (Some ''REVISION_CONFLICT''))"
  using checkpoint_valid_exactly_when [of "sample_checkpoint 3" 5 "[]" "Some ''MISSING''"]
    checkpoint_valid_exactly_when [of "sample_checkpoint 3" 5 "[]" "Some ''REVISION_CONFLICT''"]
  by (simp add: sample_checkpoint_def)

end
