(* ===== verification/Recovery.thy ===== *)
theory Recovery
  imports Checkpoints Loop_Run
begin

text \<open>
  Recovery after a crash, \<open>RunManager.reconcile\<close> (\<^verbatim>\<open>src/accretion/services/run_manager.py\<close>) with the
  methods it calls, the failure handler \<open>_fail_execution\<close> and the operator's \<open>cancel\<close>. The worktree manager
  (\<open>inspect\<close>, \<open>reacquire\<close>), the side-effect ledger's answer, the configured runtimes and the wall time left
  in each loop are the record \<open>recovery_env\<close>; starting the resume task itself is the answer of
  \<open>reconcile_run\<close>.

  What is shown about them is in \<open>Recovery_Properties\<close>.
\<close>

subsection \<open>Environment\<close>

record recovery_env =
  re_env :: env
  re_uncertain :: "string \<Rightarrow> bool"
  re_inspect :: "WorkspaceLease \<Rightarrow> string"
  re_reacquire :: "WorkspaceLease \<Rightarrow> Project \<Rightarrow> WorkspaceLease option"
  re_auto_resume :: bool
  re_runtimes :: "Provider list"
  re_live_providers_enabled :: bool
  re_seconds_left :: "LoopExecution \<Rightarrow> int"

fun classification_value :: "ReconcileClassification \<Rightarrow> string" where
  "classification_value Rec_RESUMABLE = ''resumable''"
| "classification_value Rec_RECREATE = ''recreate''"
| "classification_value Rec_TERMINAL = ''terminal''"
| "classification_value Rec_REQUIRES_HUMAN = ''requires-human''"

fun invalid_reason_value :: "CheckpointInvalidReason \<Rightarrow> string" where
  "invalid_reason_value SEQUENCE_AHEAD_OF_LOG = ''SEQUENCE_AHEAD_OF_LOG''"
| "invalid_reason_value LOOP_AUTHORITY_BEHIND_CHECKPOINT = ''LOOP_AUTHORITY_BEHIND_CHECKPOINT''"
| "invalid_reason_value WORKSPACE_REVISION_CONFLICT = ''WORKSPACE_REVISION_CONFLICT''"
| "invalid_reason_value WORKSPACE_LEASE_MISSING = ''WORKSPACE_LEASE_MISSING''"

subsection \<open>Shared endings\<close>

text \<open>The terminal status of a run's own loop; a loop of a graph node never resolves the run.\<close>

definition whole_run_terminal ::
  "Run \<Rightarrow> LoopExecution option \<Rightarrow> (LoopExecution \<times> RunState \<times> EventType) option" where
  "whole_run_terminal run execution =
    (case execution of None \<Rightarrow> None
     | Some x \<Rightarrow> if rn_execution_mode run = Some Mode_LOOP
                 then map_option (\<lambda>t. (x, t)) (loop_terminal_state (lx_status x)) else None)"

definition stop_payload :: "LoopExecution \<Rightarrow> (string, json) dict" where
  "stop_payload x = [(''stop_reason'', JStr (case lx_stop_reason x of None \<Rightarrow> ''UNKNOWN''
     | Some r \<Rightarrow> stop_reason_value r))]"

definition append_terminal_if_missing ::
  "env \<Rightarrow> Run \<Rightarrow> LoopStopReason option \<Rightarrow> string \<Rightarrow> unit act" where
  "append_terminal_if_missing env run stop_reason native_type =
    bind_act (commit_run_terminal env run (rn_state run)
      (if rn_state run = Run_SUCCEEDED then Ev_RUN_COMPLETED
       else if rn_state run = Run_CANCELLED then Ev_RUN_CANCELLED else Ev_RUN_FAILED)
      native_type None
      ([(''reconciled'', JBool True)] @
        (case stop_reason of None \<Rightarrow> [] | Some r \<Rightarrow> [(''stop_reason'', JStr (stop_reason_value r))]))
      (if rn_execution_mode run = Some Mode_LOOP then Some ''complete'' else None) None None)
    (\<lambda>_. ret ())"

definition escalate_recovery_failure :: "env \<Rightarrow> Run \<Rightarrow> string \<Rightarrow> string \<Rightarrow> unit act" where
  "escalate_recovery_failure env run message native_type =
    bind_act (query (\<lambda>s. get_loop_execution_for_run s (rn_run_id run))) (\<lambda>execution.
    case whole_run_terminal run execution of
      Some (x, state, event_type) \<Rightarrow>
        bind_act (commit_run_terminal env run state event_type ''accretion/recovered-loop-terminal'' None
          (stop_payload x) (Some ''complete'') None None) (\<lambda>_. ret ())
    | None \<Rightarrow>
        bind_act (case execution of
            None \<Rightarrow> ret ()
          | Some x \<Rightarrow>
              if loop_terminal_state (lx_status x) \<noteq> None then ret ()
              else bind_act (store_op env (\<lambda>now. update_loop_execution now (lx_loop_execution_id x)
                     (lx_state x) (Some Loop_REQUIRES_HUMAN) (Some Stop_INTERRUPTED)
                     (Some (lx_revision x)))) (\<lambda>_. ret ())) (\<lambda>_.
        bind_act (commit_run_terminal env run Run_REQUIRES_HUMAN Ev_RUN_FAILED native_type None
          [(''stop_reason'', JStr (stop_reason_value Stop_INTERRUPTED)), (''reason'', JStr message)]
          (if execution \<noteq> None then Some ''complete'' else None) None
          (Some \<lparr>er_code = ''RUN_RECOVERY_REQUIRES_HUMAN'', er_message = message, er_retryable = False\<rparr>))
        (\<lambda>_. ret ())))"

text \<open>\<open>_fail_execution\<close>; \<open>message\<close> is \<open>str(exc)\<close>.\<close>

definition fail_execution :: "env \<Rightarrow> string \<Rightarrow> string \<Rightarrow> string option \<Rightarrow> unit act" where
  "fail_execution env run_id message session_id =
    bind_act (query (\<lambda>s. get_run s run_id)) (\<lambda>found.
    case found of
      None \<Rightarrow> ret ()
    | Some run \<Rightarrow>
      if rn_state run \<in> TERMINAL_RUN_STATES then ret ()
      else
      bind_act (query (\<lambda>s. get_loop_execution_for_run s run_id)) (\<lambda>execution.
      case whole_run_terminal run execution of
        Some (x, state, event_type) \<Rightarrow>
          bind_act (commit_run_terminal env run state event_type ''accretion/recovered-loop-terminal'' None
            (stop_payload x) (Some ''complete'') None None) (\<lambda>_. ret ())
      | None \<Rightarrow>
          bind_act (case execution of
              None \<Rightarrow> ret ()
            | Some x \<Rightarrow>
                if loop_terminal_state (lx_status x) \<noteq> None then ret ()
                else bind_act (store_op env (\<lambda>now. update_loop_execution now (lx_loop_execution_id x)
                       (lx_state x) (Some Loop_FAILED) (Some Stop_PROVIDER_FAILURE)
                       (Some (lx_revision x)))) (\<lambda>_. ret ())) (\<lambda>_.
          bind_act (commit_run_terminal env run Run_FAILED Ev_RUN_FAILED ''accretion/run-error''
            (Some (or_else session_id (or_else (rn_session_id run) ''ses_pending'')))
            [(''error'', JObj [(''code'', JStr ''RUN_EXECUTION_FAILED''), (''message'', JStr (take 2000 message)),
              (''retryable'', JBool False)])] None None
            (Some \<lparr>er_code = ''RUN_EXECUTION_FAILED'', er_message = take 2000 message, er_retryable = False\<rparr>))
          (\<lambda>_. ret ()))))"

subsection \<open>Availability of a runtime\<close>

definition runtime_available :: "recovery_env \<Rightarrow> Provider \<Rightarrow> bool" where
  "runtime_available re provider \<longleftrightarrow> provider \<in> set (re_runtimes re) \<and>
     \<not> (provider \<in> LIVE_PROVIDERS \<and> \<not> re_live_providers_enabled re)"

definition resume_runtime_available :: "recovery_env \<Rightarrow> Run \<Rightarrow> store \<Rightarrow> bool" where
  "resume_runtime_available re run s = runtime_available re
     (case get_session_for_run s (rn_run_id run) of Some x \<Rightarrow> sr_provider x | None \<Rightarrow> rn_provider run)"

subsection \<open>Reconciliation of one run\<close>

text \<open>Strings are UTF-8 bytes: the three characters are the dash the message contains.\<close>

definition escalation_message :: "RunClassification \<Rightarrow> string" where
  "escalation_message c = (case rc_checkpoint_reason c of
     None \<Rightarrow> rc_reason c
   | Some r \<Rightarrow> ''CHECKPOINT_INVALID:'' @ invalid_reason_value r @ '' '' @
       [char_of (226 :: nat), char_of (128 :: nat), char_of (148 :: nat)] @ '' '' @ rc_reason c)"

definition judge_run ::
  "recovery_env \<Rightarrow> Run \<Rightarrow> WorkspaceLease \<Rightarrow> store \<Rightarrow>
     Checkpoint option \<times> CheckpointEvaluation option \<times> RunClassification" where
  "judge_run re run lease s =
    (let workspace_status = Some (re_inspect re lease);
         loop_executions = dict_of (map (\<lambda>x. (lx_loop_execution_id x, x))
           (list_loop_executions_for_run s (rn_run_id run)));
         checkpoint = get_latest_checkpoint s (rn_run_id run);
         evaluation = map_option (\<lambda>c. evaluate_checkpoint c (rn_last_sequence run) loop_executions
           workspace_status) checkpoint
     in (checkpoint, evaluation, classify_run workspace_status (re_uncertain re (rn_run_id run))
           (list_artifacts s (rn_run_id run) \<noteq> []) evaluation))"

text \<open>Close what the crash left open and park the run.\<close>

definition park_run :: "recovery_env \<Rightarrow> Run \<Rightarrow> LoopExecution option \<Rightarrow> Run act" where
  "park_run re run execution =
    (let env = re_env re in
     bind_act (case execution of
         None \<Rightarrow> ret ()
       | Some x \<Rightarrow>
           if loop_terminal_state (lx_status x) \<noteq> None then ret ()
           else bind_act (close_dangling_iteration env run x Iter_INTERRUPTED Loop_PAUSED
                  Stop_INTERRUPTED None (re_seconds_left re x)) (\<lambda>closed.
                if closed = None
                then bind_act (store_op env (\<lambda>now. update_loop_execution now (lx_loop_execution_id x)
                       (lx_state x) (Some Loop_PAUSED) (Some Stop_INTERRUPTED) (Some (lx_revision x))))
                     (\<lambda>_. ret ())
                else ret ())) (\<lambda>_.
     bind_act (store_op env (\<lambda>now. update_run now (rn_run_id run) Run_PAUSED no_update)) (\<lambda>run.
     bind_act (append_pause_if_missing env run) (\<lambda>_. ret run))))"

definition recover_active ::
  "recovery_env \<Rightarrow> Run \<Rightarrow> LoopExecution option \<Rightarrow> WorkspaceLease \<Rightarrow> bool act" where
  "recover_active re run execution lease =
    (let env = re_env re; human = ''accretion/reconciliation-requires-human'' in
     bind_act (query (judge_run re run lease)) (\<lambda>(checkpoint, evaluation, c).
     bind_act (emit env run ''accretion/reconciliation-classified'' Ev_RUN_PROGRESS None
        [(''classification'', JStr (classification_value (rc_classification c))),
         (''reason'', JStr (rc_reason c)),
         (''checkpoint_id'', case checkpoint of None \<Rightarrow> JNull | Some k \<Rightarrow> JStr (ck_checkpoint_id k)),
         (''checkpoint_reason'', case rc_checkpoint_reason c of None \<Rightarrow> JNull
            | Some r \<Rightarrow> JStr (invalid_reason_value r))] None) (\<lambda>_.
     if rc_classification c = Rec_REQUIRES_HUMAN
     then bind_act (escalate_recovery_failure env run (escalation_message c) human) (\<lambda>_. ret False)
     else
     bind_act (if rc_classification c \<noteq> Rec_RECREATE then ret (Some run)
       else bind_act (query (\<lambda>s. get_project s (rn_project_id run))) (\<lambda>project.
         case project of
           None \<Rightarrow> bind_act (escalate_recovery_failure env run
             ''recreate-classified run has no project record'' human) (\<lambda>_. ret None)
         | Some p \<Rightarrow> (case re_reacquire re lease p of
             None \<Rightarrow> bind_act (escalate_recovery_failure env run ''workspace recreation failed'' human)
               (\<lambda>_. ret None)
           | Some fresh \<Rightarrow>
               bind_act (store_op env (\<lambda>_. save_lease fresh)) (\<lambda>_.
               bind_act (store_op env (\<lambda>now. update_run now (rn_run_id run) Run_RECONCILING
                 (no_update\<lparr>ru_workspace_lease_id := Some (wl_lease_id fresh)\<rparr>))) (\<lambda>run.
               ret (Some run)))))) (\<lambda>continuing.
     case continuing of
       None \<Rightarrow> ret False
     | Some run \<Rightarrow>
       bind_act (park_run re run execution) (\<lambda>run.
       query (\<lambda>s. re_auto_resume re \<and> rc_classification c = Rec_RESUMABLE \<and>
         checkpoint \<noteq> None \<and> evaluation \<noteq> None \<and> ce_valid (the evaluation) \<and>
         resume_runtime_available re run s))))))"

text \<open>The body of the loop over the runs; the answer is whether an automatic resume is started.\<close>

definition reconcile_run :: "recovery_env \<Rightarrow> Run \<Rightarrow> bool act" where
  "reconcile_run re run =
    (let env = re_env re; r = rn_run_id run; human = ''accretion/reconciliation-requires-human'' in
     bind_act (query (\<lambda>s. get_loop_execution_for_run s r)) (\<lambda>execution.
     case whole_run_terminal run execution of
       Some (x, run_state, _) \<Rightarrow>
         bind_act (if rn_state run \<noteq> run_state
           then store_op env (\<lambda>now. update_run now r run_state no_update) else ret run) (\<lambda>run.
         bind_act (append_terminal_if_missing env run (lx_stop_reason x)
           ''accretion/reconciled-loop-terminal'') (\<lambda>_. ret False))
     | None \<Rightarrow>
       bind_act (query (\<lambda>s. find is_terminal_event (rev (list_events s r 0)))) (\<lambda>existing.
       case existing of
         Some e \<Rightarrow>
           (let state = recovered_state (ev_normalized_type e) (rn_state run) in
            if rn_state run \<noteq> state
            then bind_act (store_op env (\<lambda>now. update_run now r state no_update)) (\<lambda>_. ret False)
            else ret False)
       | None \<Rightarrow>
         if rn_state run \<in> TERMINAL_RUN_STATES
         then bind_act (append_terminal_if_missing env run None ''accretion/reconciled-run-terminal'')
                (\<lambda>_. ret False)
         else if rn_state run = Run_PAUSED \<and>
             (case execution of None \<Rightarrow> True | Some x \<Rightarrow> lx_status x = Loop_PAUSED)
         then bind_act (append_pause_if_missing env run) (\<lambda>_. ret False)
         else
         bind_act (store_op env (\<lambda>now. update_run now r Run_RECONCILING no_update)) (\<lambda>_.
         case rn_workspace_lease_id run of
           None \<Rightarrow> bind_act (escalate_recovery_failure env run
             ''reconciling run has no workspace lease'' human) (\<lambda>_. ret False)
         | Some lease_id \<Rightarrow>
           if lease_id = [] then bind_act (escalate_recovery_failure env run
             ''reconciling run has no workspace lease'' human) (\<lambda>_. ret False)
           else
           bind_act (query (\<lambda>s. get_lease s lease_id)) (\<lambda>found.
           case found of
             None \<Rightarrow> bind_act (escalate_recovery_failure env run
               ''reconciling run cannot recover its workspace'' human) (\<lambda>_. ret False)
           | Some lease \<Rightarrow> recover_active re run execution lease)))))"

fun reconcile_runs :: "recovery_env \<Rightarrow> Run list \<Rightarrow> string list act" where
  "reconcile_runs re [] = ret []"
| "reconcile_runs re (run # others) =
    bind_act (reconcile_run re run) (\<lambda>resumed.
    bind_act (reconcile_runs re others) (\<lambda>rest.
    ret (if resumed then rn_run_id run # rest else rest)))"

definition reconcile :: "recovery_env \<Rightarrow> string list act" where
  "reconcile re = bind_act (query (\<lambda>s. list_runs s 10000)) (reconcile_runs re)"

text \<open>\<open>cancel\<close>; terminating the runtime call and the background task is outside the store.\<close>

definition cancel :: "env \<Rightarrow> string \<Rightarrow> int \<Rightarrow> Run act" where
  "cancel env run_id seconds_left =
    bind_act (require_run run_id) (\<lambda>run.
    if rn_state run \<in> TERMINAL_RUN_STATES then ret run
    else bind_act (cancel_execution env run_id seconds_left) (\<lambda>_. require_run run_id))"

end
