(* ===== verification/Recovery_Properties.thy ===== *)
theory Recovery_Properties
  imports Recovery Loop_Properties
begin

text \<open>
  Properties of crash recovery. Two relations are shown to be kept by the manager's methods, as
  interpretations of the locales of \<open>Act_Relations\<close>: other runs are left alone, and methods that do not end
  a run add no terminal event. On top of them Hoare-style triples follow \<open>reconcile_run\<close> branch by branch
  to the statement that it settles its run, and an induction lifts that to \<open>reconcile\<close>.
\<close>

subsection \<open>Staying with one run\<close>

text \<open>The log invariant holds on, and every other run's row and events are left alone.\<close>

definition elsewhere :: "string \<Rightarrow> store \<Rightarrow> store \<Rightarrow> bool" where
  "elsewhere r s t \<longleftrightarrow> (\<forall>r'. r' \<noteq> r \<longrightarrow>
     dget (st_runs t) r' = dget (st_runs s) r' \<and> events_of t r' = events_of s r')"

text \<open>A row stored under the identifier it carries.\<close>

definition keyed :: "string \<Rightarrow> store \<Rightarrow> bool" where
  "keyed r s \<longleftrightarrow> (\<forall>run. dget (st_runs s) r = Some run \<longrightarrow> rn_run_id run = r)"

definition leaves_others :: "string \<Rightarrow> manager \<Rightarrow> manager \<Rightarrow> bool" where
  "leaves_others r m m' \<longleftrightarrow> (log_ok (mg_store m) \<and> keyed r (mg_store m) \<longrightarrow>
     log_ok (mg_store m') \<and> keyed r (mg_store m') \<and> elsewhere r (mg_store m) (mg_store m'))"

lemma elsewhere_refl [simp]: "elsewhere r s s"
  by (simp add: elsewhere_def)

lemma elsewhere_trans: "elsewhere r s t \<Longrightarrow> elsewhere r t u \<Longrightarrow> elsewhere r s u"
  by (simp add: elsewhere_def)

lemma elsewhere_update_run: "elsewhere r s (snd (update_run now r st u s))"
  by (auto simp: elsewhere_def update_run_def events_of_def Let_def split: option.splits)

lemma elsewhere_update_loop: "elsewhere r s (snd (update_loop_execution now eid st status sr rv s))"
  by (auto simp: elsewhere_def update_loop_execution_def update_memory_loop_execution_def events_of_def Let_def
    split: option.splits)

lemma elsewhere_save_lease: "elsewhere r s (snd (save_lease l s))"
  by (simp add: elsewhere_def save_lease_def events_of_def)

lemma elsewhere_append_event: "elsewhere (ev_run_id e) s (snd (append_event e s))"
  by (auto simp: elsewhere_def append_event_def set_last_sequence_def events_of_def dget_or_def Let_def
    split: option.splits)

lemma elsewhere_append_run_events: "elsewhere r s (append_run_events r es s)"
  by (auto simp: elsewhere_def append_run_events_def set_last_sequence_def events_of_def dget_or_def Let_def
    split: option.splits)

text \<open>The events an iteration adds when it comes without a checkpoint.\<close>

lemma append_loop_iteration_events:
  obtains "same_log s (snd (append_loop_iteration now eid it st status sr rv vs es None s))"
    "dget (st_runs (snd (append_loop_iteration now eid it st status sr rv vs es None s))) = dget (st_runs s)"
  | t where "same_log (append_run_events (it_run_id it) es t)
      (snd (append_loop_iteration now eid it st status sr rv vs es None s))"
    "same_log s t" "elsewhere (it_run_id it) s (append_run_events (it_run_id it) es t)"
    "st_runs (snd (append_loop_iteration now eid it st status sr rv vs es None s)) =
      st_runs (append_run_events (it_run_id it) es t)" "st_runs t = st_runs s"
proof (cases rule: append_loop_iteration_cases [of now eid it st status sr rv vs es None s])
  case (rejected e)
  then show thesis using that(1) by simp
next
  case (no_run current its t)
  from no_run(2,3) have "dget (st_runs t) = dget (st_runs s)"
    by (auto simp: append_loop_iteration_def Let_def split: option.splits sum.splits if_splits)
  then show thesis using no_run(3,4) that(1) by simp
next
  case (commit current its run)
  let ?s = "fold record_verification vs (s\<lparr>st_loop_iterations := dset eid (its @ [it]) (st_loop_iterations s)\<rparr>)"
  let ?t = "append_run_events (it_run_id it) es ?s"
  have "elsewhere (it_run_id it) s ?s" by (simp add: elsewhere_def events_of_def)
  then have 1: "elsewhere (it_run_id it) s ?t"
    by (rule elsewhere_trans) (rule elsewhere_append_run_events)
  have 2: "same_log s ?s"
    by (rule same_log_trans [OF _ same_log_record_verifications])
      (simp add: same_log_def events_of_def last_seq_def checkpoints_of_def fun_eq_iff)
  have 3: "snd (append_loop_iteration now eid it st status sr rv vs es None s) =
      snd (update_memory_loop_execution now eid st status sr (Some (lx_revision current)) ?t)"
    unfolding commit(3) commit_iteration_def Let_def by simp
  have 4: "st_runs (snd (update_memory_loop_execution now eid st status sr rv' t)) = st_runs t" for rv' t
    by (auto simp: update_memory_loop_execution_def Let_def split: option.splits)
  have 5: "st_runs ?s = st_runs s" by simp
  show thesis
    using that(2) [of ?s] 1 2 5 same_log_update_memory_loop_execution unfolding 3 4 by blast
qed

lemma append_loop_iteration_log_ok:
  "log_ok s \<Longrightarrow> log_ok (snd (append_loop_iteration now eid it st status sr rv vs es None s))"
  using store_step_log [OF step_append_loop_iteration] by simp

lemma elsewhere_append_loop_iteration:
  "elsewhere (it_run_id it) s (snd (append_loop_iteration now eid it st status sr rv vs es None s))"
proof (cases rule: append_loop_iteration_events [of s now eid it st status sr rv vs es])
  case 1
  then show ?thesis by (simp add: elsewhere_def same_log_def)
next
  case (2 t)
  then show ?thesis by (simp add: elsewhere_def same_log_def)
qed

lemma keyed_ops:
  assumes "keyed q s"
  shows "keyed q (snd (append_event e s))" "keyed q (snd (update_run now r st u s))"
    "keyed q (snd (update_loop_execution now eid ls status sr rv s))" "keyed q (snd (save_lease l s))"
    "keyed q (append_run_events r es s)"
  using assms by (auto simp: keyed_def append_event_def update_run_def update_loop_execution_def
    update_memory_loop_execution_def save_lease_def append_run_events_def set_last_sequence_def Let_def
    split: option.splits)

lemma keyed_append_loop_iteration:
  assumes "keyed q s"
  shows "keyed q (snd (append_loop_iteration now eid it st status sr rv vs es None s))"
proof (cases rule: append_loop_iteration_events [of s now eid it st status sr rv vs es])
  case 1
  then show ?thesis using assms by (simp add: keyed_def)
next
  case (2 t)
  have "keyed q (append_run_events (it_run_id it) es t)"
    using assms 2(5) by (intro keyed_ops) (simp add: keyed_def)
  then show ?thesis using 2(4) by (simp add: keyed_def)
qed

lemma ops_log_ok:
  assumes "log_ok s"
  shows "log_ok (snd (append_event e s))" "log_ok (snd (update_run now r st u s))"
    "log_ok (snd (update_loop_execution now eid ls status sr rv s))" "log_ok (snd (save_lease l s))"
  using assms store_step_log step_append_event step_update_run step_update_loop_execution step_save_lease
  by blast+

interpretation others: run_relation "leaves_others r" r for r
proof unfold_locales
  fix a b c m :: manager
  show "leaves_others r m m" by (simp add: leaves_others_def)
  show "leaves_others r a b \<Longrightarrow> leaves_others r b c \<Longrightarrow> leaves_others r a c"
    by (auto simp: leaves_others_def intro: elsewhere_trans)
qed (auto simp: leaves_others_def ops_log_ok keyed_ops keyed_append_loop_iteration append_loop_iteration_log_ok elsewhere_append_event
    elsewhere_update_run elsewhere_update_loop elsewhere_append_loop_iteration elsewhere_save_lease)

text \<open>The row an update returns is the stored one, so it carries the identifier it was looked up by.\<close>

lemma update_run_result:
  assumes "store_op env (\<lambda>now. update_run now r st u) m = (Inr run, m')"
  shows "get_run (mg_store m') r = Some run \<and> rn_state run = st"
  using assms by (auto simp: store_op_Inr update_run_def get_run_def Let_def split: option.splits)

lemma others_update:
  assumes "\<And>row. rn_run_id row = r \<Longrightarrow> preserves (leaves_others r) (g row)"
  shows "preserves (leaves_others r) (bind_act (store_op env (\<lambda>now. update_run now r st u)) g)"
  unfolding preserves_def
proof
  fix m
  let ?f = "store_op env (\<lambda>now. update_run now r st u)"
  obtain out m1 where f: "?f m = (out, m1)" by (cases "?f m")
  have 1: "leaves_others r m m1"
    by (rule preservesD [OF others.p_store_op f]) (rule others.R_update_run)
  have 2: "leaves_others r m1 (snd (g row m1))"
    if o: "out = Inr row" and ok: "log_ok (mg_store m) \<and> keyed r (mg_store m)" for row
  proof -
    have "keyed r (mg_store m1)" using 1 ok unfolding leaves_others_def by blast
    moreover have "get_run (mg_store m1) r = Some row" using update_run_result [OF f [unfolded o]] by blast
    ultimately have "rn_run_id row = r" unfolding keyed_def get_run_def by blast
    from assms [OF this] show ?thesis by (simp add: preserves_def)
  qed
  have "leaves_others r m (snd (bind_act ?f g m))" if ok: "log_ok (mg_store m) \<and> keyed r (mg_store m)"
  proof (cases out)
    case (Inr row)
    have "leaves_others r m (snd (g row m1))" by (rule others.R_trans [OF 1 2 [OF Inr ok]])
    with Inr f show ?thesis by (simp add: bind_act_def)
  qed (use 1 f in \<open>simp add: bind_act_def\<close>)
  then show "leaves_others r m (snd (bind_act ?f g m))"
    unfolding leaves_others_def by blast
qed

lemma others_escalate: "preserves (leaves_others (rn_run_id run)) (escalate_recovery_failure env run msg nt)"
  unfolding escalate_recovery_failure_def by (intro others.q_basic others.t_commit [OF refl])

lemma others_append_terminal:
  "rn_run_id run = r \<Longrightarrow> preserves (leaves_others r) (append_terminal_if_missing env run sr nt)"
  unfolding append_terminal_if_missing_def by (intro others.p_basic others.t_commit)

lemma others_park: "rn_run_id run = r \<Longrightarrow> preserves (leaves_others r) (park_run re run execution)"
proof -
  assume r: "rn_run_id run = r"
  show ?thesis
    unfolding park_run_def Let_def r
    by (intro others_update others.q_basic others.q_close [OF r] others.q_pause)
qed

lemma bind_if: "bind_act (if b then f else h) g = (if b then bind_act f g else bind_act h g)"
  by simp

lemma bind_option:
  "bind_act (case v of None \<Rightarrow> f | Some x \<Rightarrow> h x) g =
    (case v of None \<Rightarrow> bind_act f g | Some x \<Rightarrow> bind_act (h x) g)"
  by (cases v) simp_all

lemma others_recover: "preserves (leaves_others (rn_run_id run)) (recover_active re run execution lease)"
  unfolding recover_active_def Let_def bind_if bind_assoc bind_option ret_bind option.case
  by (intro others_update others.q_basic others_escalate others_park others.t_emit [OF refl] | assumption | rule refl)+

lemma others_reconcile_run: "preserves (leaves_others (rn_run_id run)) (reconcile_run re run)"
  unfolding reconcile_run_def Let_def bind_if bind_assoc ret_bind
  by (intro others_update others.q_basic others_append_terminal others_escalate others_recover
    others.q_pause [OF refl] | assumption | rule refl)+

subsection \<open>No terminal event\<close>

definition keeps_terminal :: "string \<Rightarrow> manager \<Rightarrow> manager \<Rightarrow> bool" where
  "keeps_terminal r m m' \<longleftrightarrow> (log_ok (mg_store m) \<longrightarrow> log_ok (mg_store m') \<and>
     terminal_events (mg_store m') r = terminal_events (mg_store m) r) \<and>
     (keyed r (mg_store m) \<longrightarrow> keyed r (mg_store m'))"

lemma same_log_terminal: "same_log s t \<Longrightarrow> terminal_events t r = terminal_events s r"
  by (simp add: terminal_events_def list_events_def same_log_def)

lemma terminal_append_event:
  assumes "log_ok s" "\<not> terminal_type (ev_normalized_type e)"
  shows "terminal_events (snd (append_event e s)) r = terminal_events s r"
  using terminal_events_push [OF assms(1), of e r] assms(2) by (simp add: push_to_def is_terminal_event_def)

lemma terminal_append_loop_iteration:
  assumes "log_ok s" "\<not> terminal_type (ev_normalized_type e)"
  shows "terminal_events (snd (append_loop_iteration now eid it st status sr rv [] [e] None s)) r =
    terminal_events s r"
proof (cases rule: append_loop_iteration_events [of s now eid it st status sr rv "[]" "[e]"])
  case 1
  then show ?thesis by (simp add: same_log_terminal)
next
  case (2 t)
  have ok: "log_ok t" using 2(2) assms(1) by (rule same_log_ok)
  let ?u = "append_run_events (it_run_id it) [e] t"
  have "log_ok ?u" using append_run_events_ok [OF ok] by blast
  moreover have "events_of ?u r = (if r = it_run_id it then push_event e (events_of t r) else events_of t r)"
    by (simp add: append_run_events_def events_of_def dget_or_def push_events_def Let_def)
  ultimately have "terminal_events ?u r = terminal_events t r"
    using ok assms(2) by (simp add: terminal_events_def list_events_all push_event_def is_terminal_event_def
      number_event_def)
  then show ?thesis using 2(1,2) by (simp add: same_log_terminal)
qed

lemma same_log_update_loop: "same_log s (snd (update_loop_execution now eid ls status sr rv s))"
  unfolding update_loop_execution_def by (rule log_frame)

interpretation quiet: quiet_relation "keeps_terminal q" r for q r
proof unfold_locales
  fix a b c m :: manager
  show "keeps_terminal q a b \<Longrightarrow> keeps_terminal q b c \<Longrightarrow> keeps_terminal q a c"
    by (auto simp: keeps_terminal_def)
qed (auto simp: keeps_terminal_def ops_log_ok keyed_ops keyed_append_loop_iteration append_loop_iteration_log_ok terminal_append_event
    terminal_append_loop_iteration same_log_terminal log_frame same_log_update_loop)


subsection \<open>Settled runs\<close>

text \<open>A settled run is terminal and says so in its log, or paused and says so in its log.\<close>

definition settled :: "string \<Rightarrow> manager \<Rightarrow> bool" where
  "settled r m \<longleftrightarrow> log_ok (mg_store m) \<and> (\<exists>run. get_run (mg_store m) r = Some run \<and>
     (rn_state run \<in> TERMINAL_RUN_STATES \<and> terminal_events (mg_store m) r \<noteq> [] \<or>
      rn_state run = Run_PAUSED \<and> terminal_events (mg_store m) r = [] \<and>
        (\<exists>e \<in> set (events_of (mg_store m) r). ev_normalized_type e = Ev_RUN_PAUSED)))"

lemma ended_settled:
  "ended r tys S m \<Longrightarrow> tys \<noteq> [] \<Longrightarrow> (\<And>q. S q \<Longrightarrow> q \<in> TERMINAL_RUN_STATES) \<Longrightarrow> settled r m"
  by (auto simp: ended_def settled_def)

abbreviation ready :: "string \<Rightarrow> EventType list \<Rightarrow> manager \<Rightarrow> bool" where
  "ready r tys m \<equiv> logged r tys m \<and> keyed r (mg_store m)"

lemma triple_quiet: "preserves (keeps_terminal r) f \<Longrightarrow> triple (ready r tys) f (ready r tys)"
  unfolding triple_def using preservesD [of "keeps_terminal r" f] by (simp add: keeps_terminal_def)

lemma triple_option:
  "(v = None \<Longrightarrow> triple P f Q) \<Longrightarrow> (\<And>x. v = Some x \<Longrightarrow> triple P (g x) Q) \<Longrightarrow>
   triple P (case v of None \<Rightarrow> f | Some x \<Rightarrow> g x) Q"
  by (cases v) auto

lemma triple_prod: "(\<And>a b. v = (a, b) \<Longrightarrow> triple P (g a b) Q) \<Longrightarrow> triple P (case v of (a, b) \<Rightarrow> g a b) Q"
  by (cases v) auto

lemma loop_terminal_states:
  "loop_terminal_state st = Some (q, ty) \<Longrightarrow> q \<in> TERMINAL_RUN_STATES \<and> terminal_type ty"
  by (cases st) (auto simp: TERMINAL_RUN_STATES_def)

lemma whole_run_terminal_states:
  "whole_run_terminal run x = Some (e, q, ty) \<Longrightarrow> q \<in> TERMINAL_RUN_STATES \<and> terminal_type ty"
  by (auto simp: whole_run_terminal_def dest: loop_terminal_states split: option.splits if_splits)

lemma triple_commit_settled:
  assumes "q \<in> TERMINAL_RUN_STATES" "terminal_type ty" "rn_run_id run = r"
  shows "triple (ready r tys) (bind_act (commit_run_terminal env run q ty nt s p k fin err) (\<lambda>_. ret x)) (settled r)"
proof (rule triple_bind)
  show "triple (ready r tys) (commit_run_terminal env run q ty nt s p k fin err) (settled r)"
    by (rule triple_weaken [OF triple_commit [OF assms(2)]])
      (use assms(1,3) in \<open>auto elim!: ended_settled split: if_splits\<close>)
qed (simp add: triple_ret)

text \<open>Appending the missing pause event to a run whose row already says \<open>PAUSED\<close>.\<close>

lemma pause_settles:
  assumes "append_pause_if_missing env run m = (Inr u, m')" "logged (rn_run_id run) [] m"
    and "get_run (mg_store m) (rn_run_id run) = Some row" "rn_state row = Run_PAUSED"
  shows "settled (rn_run_id run) m'"
proof -
  let ?r = "rn_run_id run"
  have ev: "list_events (mg_store m) ?r 0 = events_of (mg_store m) ?r"
    using assms(2) by (simp add: list_events_all)
  show ?thesis
  proof (cases "list_ex (\<lambda>e. ev_normalized_type e = Ev_RUN_PAUSED) (events_of (mg_store m) ?r)")
    case True
    then have "m' = m" using assms(1) by (simp add: append_pause_if_missing_def bind_act_Inr ev)
    with True assms show ?thesis by (auto simp: settled_def list_ex_iff)
  next
    case False
    then obtain n where m': "mg_store m' = push_to (ctl env run ''accretion/reconciled-run-paused''
      Ev_RUN_PAUSED None [(''reason'', JStr (stop_reason_value Stop_INTERRUPTED)), (''reconciled'', JBool True)]
      None n) (mg_store m)"
      using assms(1) by (auto simp: append_pause_if_missing_def bind_act_Inr ev emit_push)
    have "get_run (mg_store m') ?r = Some (row\<lparr>rn_last_sequence :=
        int (length (events_of (mg_store m) ?r)) + 1\<rparr>)"
      using assms(3) unfolding m' by (simp add: get_run_def)
    moreover have "terminal_events (mg_store m') ?r = []"
      using assms(2) unfolding m' by (simp add: terminal_events_push is_terminal_event_def)
    moreover have "log_ok (mg_store m')" using assms(2) unfolding m' by (simp add: push_to_ok)
    moreover have "\<exists>e \<in> set (events_of (mg_store m') ?r). ev_normalized_type e = Ev_RUN_PAUSED"
      unfolding m' by (simp add: push_event_def number_event_def)
    ultimately show ?thesis using assms(4) by (simp add: settled_def)
  qed
qed

lemma triple_pause_run:
  assumes "rn_run_id run = r"
  shows "triple (ready r []) (bind_act (store_op env (\<lambda>now. update_run now (rn_run_id run) Run_PAUSED no_update))
    (\<lambda>run. bind_act (append_pause_if_missing env run) (\<lambda>_. ret run))) (settled r)"
  unfolding triple_def
proof (intro allI impI)
  fix m x m'
  assume l: "ready r [] m" and "bind_act (store_op env (\<lambda>now. update_run now (rn_run_id run) Run_PAUSED no_update))
    (\<lambda>run. bind_act (append_pause_if_missing env run) (\<lambda>_. ret run)) m = (Inr x, m')"
  then obtain row m1 u where u: "store_op env (\<lambda>now. update_run now r Run_PAUSED no_update) m = (Inr row, m1)"
    and a: "append_pause_if_missing env row m1 = (Inr u, m')"
    using assms by (auto simp: bind_act_Inr)
  have "preserves (keeps_terminal r) (store_op env (\<lambda>now. update_run now r Run_PAUSED no_update))"
    using quiet.q_run [OF assms] assms by simp
  from tripleD [OF triple_quiet [OF this] l u] have l1: "ready r [] m1" .
  note row = update_run_result [OF u]
  then have "rn_run_id row = r" using l1 by (simp add: keyed_def get_run_def)
  with pause_settles [OF a, of row] l1 row show "settled r m'" by simp
qed

lemma triple_append_terminal:
  assumes "rn_state run \<in> TERMINAL_RUN_STATES" "rn_run_id run = r"
  shows "triple (ready r tys) (append_terminal_if_missing env run sr nt) (settled r)"
  unfolding append_terminal_if_missing_def by (rule triple_commit_settled) (use assms in auto)

lemma triple_escalate:
  assumes "rn_run_id run = r"
  shows "triple (ready r tys) (escalate_recovery_failure env run msg nt) (settled r)"
  unfolding escalate_recovery_failure_def
proof (rule triple_bind [OF triple_quiet [OF quiet.p_query]], rule triple_option, goal_cases)
  case (1 execution)
  show ?case
    by (rule triple_bind, rule triple_quiet, intro quiet.q_basic, rule triple_commit_settled)
      (use assms in \<open>simp_all add: TERMINAL_RUN_STATES_def\<close>)
next
  case (2 execution t)
  show ?case
    by (intro triple_prod triple_commit_settled)
      (use assms 2 whole_run_terminal_states in blast)+
qed

lemma triple_park:
  assumes "rn_run_id run = r"
  shows "triple (ready r []) (park_run re run execution) (settled r)"
  unfolding park_run_def Let_def
proof (rule triple_bind)
  show "triple (ready r []) (case execution of
         None \<Rightarrow> ret ()
       | Some x \<Rightarrow>
           if loop_terminal_state (lx_status x) \<noteq> None then ret ()
           else bind_act (close_dangling_iteration (re_env re) run x Iter_INTERRUPTED Loop_PAUSED
                  Stop_INTERRUPTED None (re_seconds_left re x)) (\<lambda>closed.
                if closed = None
                then bind_act (store_op (re_env re) (\<lambda>now. update_loop_execution now (lx_loop_execution_id x)
                       (lx_state x) (Some Loop_PAUSED) (Some Stop_INTERRUPTED) (Some (lx_revision x))))
                     (\<lambda>_. ret ())
                else ret ())) (ready r [])"
    by (rule triple_quiet) (intro quiet.q_basic quiet.q_close [OF refl])
qed (rule triple_pause_run [OF assms])


text \<open>Triples whose postcondition speaks about the result.\<close>

definition yields :: "(manager \<Rightarrow> bool) \<Rightarrow> 'a act \<Rightarrow> ('a \<Rightarrow> manager \<Rightarrow> bool) \<Rightarrow> bool" where
  "yields P f Q \<longleftrightarrow> (\<forall>m x m'. P m \<longrightarrow> f m = (Inr x, m') \<longrightarrow> Q x m')"

lemma triple_yields: "yields P f R \<Longrightarrow> (\<And>x. triple (R x) (g x) Q) \<Longrightarrow> triple P (bind_act f g) Q"
  by (fastforce simp: triple_def yields_def bind_act_Inr)

lemma yields_bind: "triple P f R \<Longrightarrow> (\<And>x. yields R (g x) Q) \<Longrightarrow> yields P (bind_act f g) Q"
  by (fastforce simp: triple_def yields_def bind_act_Inr)

lemma yields_if: "(b \<Longrightarrow> yields P f Q) \<Longrightarrow> (\<not> b \<Longrightarrow> yields P g Q) \<Longrightarrow> yields P (if b then f else g) Q"
  by simp

lemma yields_option:
  "(v = None \<Longrightarrow> yields P f Q) \<Longrightarrow> (\<And>x. v = Some x \<Longrightarrow> yields P (g x) Q) \<Longrightarrow>
   yields P (case v of None \<Rightarrow> f | Some x \<Rightarrow> g x) Q"
  by (cases v) auto

lemma yields_ret: "(\<And>m. P m \<Longrightarrow> Q x m) \<Longrightarrow> yields P (ret x) Q"
  by (simp add: yields_def)

lemma yields_update:
  assumes "rn_run_id run = r"
  shows "yields (ready r []) (bind_act (store_op env (\<lambda>now. update_run now (rn_run_id run) st u)) (\<lambda>x. ret (Some x)))
    (\<lambda>x m. case x of None \<Rightarrow> settled r m | Some row \<Rightarrow> ready r [] m \<and> rn_run_id row = r)"
  unfolding yields_def
proof (intro allI impI)
  fix m x m'
  assume l: "ready r [] m" and "bind_act (store_op env (\<lambda>now. update_run now (rn_run_id run) st u))
    (\<lambda>x. ret (Some x)) m = (Inr x, m')"
  then obtain row where u: "store_op env (\<lambda>now. update_run now r st u) m = (Inr row, m')" and x: "x = Some row"
    using assms by (auto simp: bind_act_Inr)
  have "preserves (keeps_terminal r) (store_op env (\<lambda>now. update_run now r st u))"
    using quiet.q_run [OF assms] assms by simp
  from tripleD [OF triple_quiet [OF this] l u] have "ready r [] m'" .
  moreover then have "rn_run_id row = r" using update_run_result [OF u] by (simp add: keyed_def get_run_def)
  ultimately show "case x of None \<Rightarrow> settled r m' | Some row \<Rightarrow> ready r [] m' \<and> rn_run_id row = r"
    using x by simp
qed

lemma triple_recover:
  assumes "rn_run_id run = r"
  shows "triple (ready r []) (recover_active re run execution lease) (settled r)"
  unfolding recover_active_def Let_def
proof (rule triple_bind [OF triple_quiet [OF quiet.p_query]], intro triple_prod,
    rule triple_bind [OF triple_quiet [OF quiet.q_emit [OF refl]]], simp, rule triple_if, goal_cases)
  case (1 v checkpoint b evaluation c u)
  show ?case by (rule triple_bind [OF triple_escalate [OF assms]]) (simp add: triple_ret)
next
  case (2 v checkpoint b evaluation c u)
  let ?Q = "\<lambda>x m. case x of None \<Rightarrow> settled r m | Some row \<Rightarrow> ready r [] m \<and> rn_run_id row = r"
  have esc: "yields (ready r []) (bind_act (escalate_recovery_failure (re_env re) run msg nt) (\<lambda>_. ret None)) ?Q"
    for msg nt by (rule yields_bind [OF triple_escalate [OF assms]]) (simp add: yields_ret)
  have park: "triple (?Q x) (case x of None \<Rightarrow> ret False
     | Some run \<Rightarrow> bind_act (park_run re run execution) (\<lambda>run. query (p run))) (settled r)"
    for x :: "Run option" and p
  proof (cases x)
    case (Some row)
    have "triple (ready r []) (bind_act (park_run re row execution) (\<lambda>run. query (p run))) (settled r)"
      if "rn_run_id row = r"
      by (rule triple_bind [OF triple_park [OF that]]) (simp add: triple_def)
    then show ?thesis using Some by (auto simp: triple_def)
  qed (simp add: triple_ret)
  show ?case
  proof (rule triple_yields [of _ _ ?Q, OF _ park], intro yields_if, goal_cases)
    case 1
    then show ?case using assms by (simp add: yields_ret)
  next
    case 2
    show ?case
      by (rule yields_bind [OF triple_quiet [OF quiet.p_query]])
        (intro yields_option esc yields_bind [OF triple_quiet [OF quiet.q_lease]] yields_update assms)
  qed
qed


subsection \<open>Reconciliation settles a run\<close>

abbreviation listed :: "Run \<Rightarrow> EventType list \<Rightarrow> manager \<Rightarrow> bool" where
  "listed run tys m \<equiv> ready (rn_run_id run) tys m \<and> get_run (mg_store m) (rn_run_id run) = Some run"

lemma triple_listed_ready: "triple (ready (rn_run_id run) tys) f Q \<Longrightarrow> triple (listed run tys) f Q"
  by (auto simp: triple_def)

lemma triple_loop_terminal:
  assumes "q \<in> TERMINAL_RUN_STATES"
  shows "triple (listed run tys) (bind_act (if rn_state run \<noteq> q
      then store_op env (\<lambda>now. update_run now (rn_run_id run) q no_update) else ret run) (\<lambda>run.
    bind_act (append_terminal_if_missing env run sr nt) (\<lambda>_. ret False))) (settled (rn_run_id run))"
proof (rule triple_yields [where R = "\<lambda>row m. ready (rn_run_id run) tys m \<and> rn_run_id row = rn_run_id run \<and> rn_state row = q"])
  show "yields (listed run tys) (if rn_state run \<noteq> q
      then store_op env (\<lambda>now. update_run now (rn_run_id run) q no_update) else ret run)
    (\<lambda>row m. ready (rn_run_id run) tys m \<and> rn_run_id row = rn_run_id run \<and> rn_state row = q)"
  proof (rule yields_if)
    show "yields (listed run tys) (store_op env (\<lambda>now. update_run now (rn_run_id run) q no_update))
      (\<lambda>row m. ready (rn_run_id run) tys m \<and> rn_run_id row = rn_run_id run \<and> rn_state row = q)"
      unfolding yields_def
    proof (intro allI impI)
      fix m row m'
      assume l: "listed run tys m"
        and u: "store_op env (\<lambda>now. update_run now (rn_run_id run) q no_update) m = (Inr row, m')"
      have "ready (rn_run_id run) tys m'"
        by (rule tripleD [OF triple_quiet [OF quiet.q_run [OF refl]] _ u]) (use l in simp)
      with update_run_result [OF u] show "ready (rn_run_id run) tys m' \<and> rn_run_id row = rn_run_id run \<and> rn_state row = q"
        by (simp add: keyed_def get_run_def)
    qed
  qed (auto intro!: yields_ret)
  show "triple (\<lambda>m. ready (rn_run_id run) tys m \<and> rn_run_id row = rn_run_id run \<and> rn_state row = q)
    (bind_act (append_terminal_if_missing env row sr nt) (\<lambda>_. ret False)) (settled (rn_run_id run))" for row
  proof (rule triple_bind)
    show "triple (\<lambda>m. ready (rn_run_id run) tys m \<and> rn_run_id row = rn_run_id run \<and> rn_state row = q)
      (append_terminal_if_missing env row sr nt) (settled (rn_run_id run))"
      using triple_append_terminal [of row "rn_run_id run" tys env sr nt] assms
      by (auto simp: triple_def)
  qed (simp add: triple_ret)
qed

lemma last_terminal:
  "find is_terminal_event (rev (list_events s r 0)) = v \<Longrightarrow>
   (v = None \<longleftrightarrow> terminal_events s r = [])"
  by (auto simp: terminal_events_def find_None_iff filter_empty_conv)

lemma triple_found:
  assumes "tys \<noteq> []" "st = recovered_state ty (rn_state run)"
  shows "triple (listed run tys) (if rn_state run \<noteq> st
      then bind_act (store_op env (\<lambda>now. update_run now (rn_run_id run) st no_update)) (\<lambda>_. ret False)
      else ret False) (settled (rn_run_id run))"
proof (rule triple_if)
  have "triple (listed run tys) (store_op env (\<lambda>now. update_run now (rn_run_id run) st no_update))
    (settled (rn_run_id run))"
    by (rule triple_weaken [OF triple_update [of "rn_run_id run" tys]])
      (use assms recovered_state_terminal in \<open>auto intro: ended_settled\<close>)
  then show "triple (listed run tys) (bind_act (store_op env (\<lambda>now. update_run now (rn_run_id run) st no_update))
    (\<lambda>_. ret False)) (settled (rn_run_id run))"
    by (rule triple_bind) (simp add: triple_ret)
next
  assume "\<not> rn_state run \<noteq> st"
  then have "rn_state run \<in> TERMINAL_RUN_STATES" using assms(2) recovered_state_terminal by metis
  then show "triple (listed run tys) (ret False) (settled (rn_run_id run))"
    using assms(1) by (intro triple_ret) (auto simp: settled_def)
qed

lemma triple_reconcile_run:
  "triple (listed run tys) (reconcile_run re run) (settled (rn_run_id run))"
  unfolding reconcile_run_def Let_def
proof (rule triple_bind [where R = "listed run tys"], simp add: triple_def, rule triple_option, goal_cases)
  case (1 execution)
  show ?case
  proof (rule triple_query, rule triple_option, goal_cases)
    case (1 existing)
    have "triple (listed run []) (if rn_state run \<in> TERMINAL_RUN_STATES
         then bind_act (append_terminal_if_missing (re_env re) run None ''accretion/reconciled-run-terminal'')
                (\<lambda>_. ret False)
         else if rn_state run = Run_PAUSED \<and>
             (case execution of None \<Rightarrow> True | Some x \<Rightarrow> lx_status x = Loop_PAUSED)
         then bind_act (append_pause_if_missing (re_env re) run) (\<lambda>_. ret False)
         else
         bind_act (store_op (re_env re) (\<lambda>now. update_run now (rn_run_id run) Run_RECONCILING no_update)) (\<lambda>_.
         case rn_workspace_lease_id run of
           None \<Rightarrow> bind_act (escalate_recovery_failure (re_env re) run
             ''reconciling run has no workspace lease'' ''accretion/reconciliation-requires-human'') (\<lambda>_. ret False)
         | Some lease_id \<Rightarrow>
           if lease_id = [] then bind_act (escalate_recovery_failure (re_env re) run
             ''reconciling run has no workspace lease'' ''accretion/reconciliation-requires-human'') (\<lambda>_. ret False)
           else
           bind_act (query (\<lambda>s. get_lease s lease_id)) (\<lambda>found.
           case found of
             None \<Rightarrow> bind_act (escalate_recovery_failure (re_env re) run
               ''reconciling run cannot recover its workspace'' ''accretion/reconciliation-requires-human'') (\<lambda>_. ret False)
           | Some lease \<Rightarrow> recover_active re run execution lease))) (settled (rn_run_id run))"
      (is "triple _ (if _ then ?term else if ?paused then ?pause else ?active) _")
    proof (intro triple_if)
      assume "rn_state run \<in> TERMINAL_RUN_STATES"
      then show "triple (listed run []) ?term (settled (rn_run_id run))"
        by (intro triple_listed_ready triple_bind [OF triple_append_terminal]) (simp_all add: triple_ret)
    next
      assume "?paused"
      then have "triple (listed run []) (append_pause_if_missing (re_env re) run) (settled (rn_run_id run))"
        using pause_settles by (fastforce simp: triple_def)
      then show "triple (listed run []) ?pause (settled (rn_run_id run))"
        by (rule triple_bind) (simp add: triple_ret)
    next
      have esc: "triple (ready (rn_run_id run) []) (bind_act (escalate_recovery_failure (re_env re) run msg nt)
          (\<lambda>_. ret False)) (settled (rn_run_id run))" for msg nt
        by (rule triple_bind [OF triple_escalate [OF refl]]) (simp add: triple_ret)
      show "triple (listed run []) ?active (settled (rn_run_id run))"
        by (intro triple_listed_ready triple_bind [OF triple_quiet [OF quiet.q_run [OF refl]]] triple_option
          triple_if triple_bind [OF triple_quiet [OF quiet.p_query]] esc triple_recover [OF refl])
    qed
    then show ?case
      by (rule triple_weaken) (use 1 last_terminal in \<open>fastforce+\<close>)
  next
    case (2 existing e)
    show ?case
    proof (cases "tys = []")
      case True
      with 2 show ?thesis by (auto simp: triple_def dest!: last_terminal [OF sym])
    next
      case False
      show ?thesis by (rule triple_weaken [OF triple_found [OF False refl]]) auto
    qed
  qed
next
  case (2 execution t)
  show ?case
    by (intro triple_prod triple_loop_terminal) (use 2 whole_run_terminal_states in blast)
qed


subsection \<open>Reconciliation of all runs\<close>

lemma settled_elsewhere:
  assumes "settled q m" "leaves_others r m m'" "keyed r (mg_store m)" "q \<noteq> r"
  shows "settled q m'"
proof -
  have ok: "log_ok (mg_store m)" using assms(1) by (simp add: settled_def)
  with assms(2,3) have "log_ok (mg_store m')" and e: "elsewhere r (mg_store m) (mg_store m')"
    by (simp_all add: leaves_others_def)
  moreover have "terminal_events (mg_store m') q = terminal_events (mg_store m) q"
    using e assms(4) by (simp add: terminal_events_def list_events_def elsewhere_def events_of_def)
  ultimately show ?thesis
    using assms(1,4) by (simp add: settled_def elsewhere_def get_run_def)
qed

lemma reconcile_runs_settle:
  assumes "reconcile_runs re rs m = (Inr resumed, m')" "log_ok (mg_store m)"
    and "distinct (map rn_run_id rs)" "\<And>run. run \<in> set rs \<Longrightarrow> get_run (mg_store m) (rn_run_id run) = Some run"
    and "\<And>q. q \<in> Q \<Longrightarrow> settled q m" "Q \<inter> rn_run_id ` set rs = {}"
  shows "\<forall>q \<in> Q \<union> rn_run_id ` set rs. settled q m'"
  using assms
proof (induction rs arbitrary: m Q resumed)
  case Nil
  then show ?case by simp
next
  case (Cons run rs)
  let ?r = "rn_run_id run"
  from Cons.prems(1) obtain b m1 rest where 1: "reconcile_run re run m = (Inr b, m1)"
    and 2: "reconcile_runs re rs m1 = (Inr rest, m')"
    by (auto simp: bind_act_Inr)
  have k: "keyed ?r (mg_store m)" using Cons.prems(4) [of run] by (simp add: keyed_def get_run_def)
  have l: "leaves_others ?r m m1" by (rule preservesD [OF others_reconcile_run 1])
  have s: "settled ?r m1"
    by (rule tripleD [OF triple_reconcile_run _ 1]) (use Cons.prems(2,4) k in auto)
  have "\<forall>q \<in> insert ?r Q \<union> rn_run_id ` set rs. settled q m'"
  proof (rule Cons.IH [OF 2])
    show "log_ok (mg_store m1)" using s by (simp add: settled_def)
    show "distinct (map rn_run_id rs)" using Cons.prems(3) by simp
    show "get_run (mg_store m1) (rn_run_id row) = Some row" if "row \<in> set rs" for row
    proof -
      have "rn_run_id row \<noteq> ?r" using Cons.prems(3) imageI [OF that, of rn_run_id] by auto
      then show ?thesis
        using l k Cons.prems(2) Cons.prems(4) [of row] that
        by (simp add: leaves_others_def elsewhere_def get_run_def)
    qed
    show "settled q m1" if "q \<in> insert ?r Q" for q
    proof (cases "q = ?r")
      case False
      with that Cons.prems(5) show ?thesis by (blast intro: settled_elsewhere [OF _ l k])
    qed (use s in simp)
    show "insert ?r Q \<inter> rn_run_id ` set rs = {}" using Cons.prems(3,6) by auto
  qed
  then show ?case by auto
qed

text \<open>The rows of a store are listed under their identifiers, once each.\<close>

definition keyed_rows :: "(string, Run) dict \<Rightarrow> bool" where
  "keyed_rows d \<longleftrightarrow> distinct (map fst d) \<and> (\<forall>(r, run) \<in> set d. rn_run_id run = r)"

abbreviation rows_keyed :: "store \<Rightarrow> bool" where
  "rows_keyed s \<equiv> keyed_rows (st_runs s)"

lemma set_list_runs: "set (list_runs s n) \<subseteq> snd ` set (st_runs s)"
  using set_take_subset [of n "rev (sort_key rn_created_at (rev (map snd (st_runs s))))"]
  by (auto simp: list_runs_def)

lemma list_runs_rows:
  assumes "rows_keyed s" "run \<in> set (list_runs s n)"
  shows "get_run s (rn_run_id run) = Some run"
proof -
  from assms(2) set_list_runs obtain r where "(r, run) \<in> set (st_runs s)" by fastforce
  with assms(1) have "rn_run_id run = r" "dget (st_runs s) r = Some run"
    by (auto simp: keyed_rows_def)
  then show ?thesis by (simp add: get_run_def)
qed

lemma list_runs_distinct:
  assumes "rows_keyed s"
  shows "distinct (map rn_run_id (list_runs s n))"
proof -
  have "map rn_run_id (map snd (st_runs s)) = map fst (st_runs s)"
    using assms by (auto simp: keyed_rows_def)
  then have "distinct (map rn_run_id (map snd (st_runs s)))" using assms unfolding keyed_rows_def by metis
  then have "distinct (map snd (st_runs s))" "inj_on rn_run_id (set (map snd (st_runs s)))"
    unfolding distinct_map [of rn_run_id] by blast+
  then have "distinct (map rn_run_id (rev (sort_key rn_created_at (rev (map snd (st_runs s))))))"
    unfolding distinct_map [of rn_run_id] by (simp only: distinct_rev distinct_sort set_rev set_sort)
  then show ?thesis unfolding list_runs_def take_map [symmetric] by (rule distinct_take)
qed

lemma keyed_rows_put: "keyed_rows d \<Longrightarrow> rn_run_id run = r \<Longrightarrow> keyed_rows (dset r run d)"
  using set_dset_subset [of r run d] unfolding keyed_rows_def by (auto intro: distinct_update)

lemma keyed_rows_get: "keyed_rows d \<Longrightarrow> dget d r = Some run \<Longrightarrow> rn_run_id run = r"
  unfolding keyed_rows_def by (auto dest: map_of_SomeD)

lemma keyed_rows_last_sequence: "keyed_rows d \<Longrightarrow> keyed_rows (set_last_sequence r n d)"
  unfolding set_last_sequence_def by (simp split: option.splits add: keyed_rows_put keyed_rows_get)

named_theorems runs_frame

lemma runs_frame_ops [runs_frame]:
  "st_runs (snd (save_acceptance_policy p s)) = st_runs s"
  "st_runs (snd (update_memory_loop_execution now eid st status sr rv s)) = st_runs s"
  "st_runs (snd (save_verification v s)) = st_runs s" "st_runs (snd (save_artifact a s)) = st_runs s"
  "st_runs (snd (upsert_workflow_template t s)) = st_runs s" "st_runs (snd (create_run_graph g s)) = st_runs s"
  "st_runs (snd (update_memory_run_graph gid ns eds n s)) = st_runs s"
  "st_runs (snd (replace_run_graph g n s)) = st_runs s"
  "st_runs (snd (save_approval ap s)) = st_runs s" "st_runs (snd (decide_approval now aid dv s)) = st_runs s"
  "st_runs (snd (add_budget_spent r turns calls s)) = st_runs s"
  "st_runs (snd (append_memory_checkpoint c s)) = st_runs s"
  by (auto simp: save_acceptance_policy_def update_memory_loop_execution_def save_verification_def
    record_verification_def save_artifact_def upsert_workflow_template_def create_run_graph_def
    update_memory_run_graph_def replace_run_graph_def save_approval_def decide_approval_def
    add_budget_spent_def append_memory_checkpoint_def Let_def split_beta split: option.splits sum.splits)

lemma runs_frame_planning [runs_frame]:
  "st_runs (snd (create_project p s)) = st_runs s" "st_runs (snd (create_task tk s)) = st_runs s"
  "st_runs (snd (create_task_with_planning tk pr cx pf d s)) = st_runs s"
  "st_runs (snd (save_task_planning tid pr cx pf d s)) = st_runs s"
  "st_runs (snd (append_strategy_override ov dopt s)) = st_runs s"
  "st_runs (snd (save_lease l s)) = st_runs s" "st_runs (snd (save_session x s)) = st_runs s"
  by (auto simp: create_project_def create_task_def create_task_with_planning_def save_task_planning_def
    append_strategy_override_def save_lease_def save_session_def record_planning_def Let_def
    split: option.splits sum.splits)

lemma rows_keyed_run_ops:
  assumes "rows_keyed s"
  shows "rows_keyed (snd (create_run run s))" "rows_keyed (snd (update_run now r st u s))"
    "rows_keyed (snd (append_event e s))" "rows_keyed (append_run_events r es s)"
    "rows_keyed (snd (create_loop_execution now x s))"
  using assms keyed_rows_get [OF assms]
  by (simp_all add: create_run_def update_run_def append_event_def append_run_events_def
    create_loop_execution_def keyed_rows_put keyed_rows_last_sequence Let_def split: option.splits)

lemma rows_keyed_checkpoint: "rows_keyed s \<Longrightarrow> rows_keyed (snd (append_checkpoint c es s))"
  by (simp add: append_checkpoint_def Let_def runs_frame rows_keyed_run_ops split: option.splits)

lemma rows_keyed_iteration:
  assumes "rows_keyed s"
  shows "rows_keyed (snd (append_loop_iteration now eid it st status sr rv vs es ck s))"
proof (cases rule: append_loop_iteration_cases [of now eid it st status sr rv vs es ck s])
  case (no_run current its t)
  from no_run(2,3) have "st_runs t = st_runs s"
    by (auto simp: append_loop_iteration_def Let_def split: option.splits sum.splits if_splits)
  with assms no_run(3) show ?thesis by simp
next
  case (commit current its run)
  let ?s = "fold record_verification vs (s\<lparr>st_loop_iterations := dset eid (its @ [it]) (st_loop_iterations s)\<rparr>)"
  let ?t = "append_run_events (it_run_id it) es ?s"
  have t: "rows_keyed ?t" using assms by (intro rows_keyed_run_ops) simp
  have "st_runs t = st_runs u" if "append_memory_checkpoint c u = (out, t)" for c u out t
    using runs_frame_ops(12) [of c u] that by simp
  with t show ?thesis
    unfolding commit(3) commit_iteration_def Let_def
    by (auto split: option.splits prod.splits sum.splits simp: runs_frame)
qed (use assms in simp)

lemma store_step_rows_keyed: "store_step s t \<Longrightarrow> rows_keyed s \<Longrightarrow> rows_keyed t"
  by (induction rule: store_step.induct)
    (simp_all only: update_loop_execution_def update_run_graph_def runs_frame
      rows_keyed_run_ops rows_keyed_checkpoint rows_keyed_iteration)

lemma store_steps_rows_keyed: "store_steps empty_store s \<Longrightarrow> rows_keyed s"
proof (induction rule: rtranclp_induct)
  case base
  show ?case by (simp add: keyed_rows_def empty_store_def)
qed (rule store_step_rows_keyed)

text \<open>C10: Reconciliation settles what a crash left behind. When it returns, every run it listed is terminal
  with a terminal event in its log, or paused with a pause event: none is left created, preparing,
  running, waiting or reconciling, whatever the workspaces, the checkpoints and the ledger said.\<close>

theorem reconcile_settles_every_run:
  assumes "store_steps empty_store (mg_store m)" and "reconcile re m = (Inr resumed, m')"
    and "run \<in> set (list_runs (mg_store m) 10000)"
  shows "settled (rn_run_id run) m'"
proof -
  note ok = store_steps_log [OF assms(1) empty_store_ok, THEN conjunct1]
  note keyed = store_steps_rows_keyed [OF assms(1)]
  from assms(2) have "reconcile_runs re (list_runs (mg_store m) 10000) m = (Inr resumed, m')"
    by (auto simp: reconcile_def bind_act_Inr)
  from reconcile_runs_settle [OF this ok list_runs_distinct [OF keyed] list_runs_rows [OF keyed],
    where Q = "{}"] assms(3) show ?thesis by auto
qed


subsection \<open>Automatic resume\<close>

lemma judge_run_frame:
  "judge_run re run lease (snd (update_run now r st u s)) = judge_run re run lease s"
  by (simp add: judge_run_def Let_def list_loop_executions_for_run_def get_latest_checkpoint_def
    checkpoints_of_def list_artifacts_def update_run_def split: option.splits)

lemma recover_active_resumes:
  assumes "recover_active re run x lease m = (Inr True, m')"
  obtains c e k where "judge_run re run lease (mg_store m) = (Some c, Some e, k)" "re_auto_resume re"
    "rc_classification k = Rec_RESUMABLE" "ce_valid e"
proof -
  obtain ck ev k where j: "judge_run re run lease (mg_store m) = (ck, ev, k)" by (metis prod_cases3)
  show thesis
    using assms that unfolding recover_active_def Let_def
    by (auto simp: bind_act_Inr j split: if_splits option.splits)
qed

text \<open>C11: Automatic resume is safe. A run is restarted after a crash only if automatic resume is on, no side
  effect of the run is uncertain, its workspace is consistent, and it has a checkpoint that lies within
  the log it had when the runs were listed and is valid against the stored loops.\<close>

theorem auto_resume_needs_coherent_state:
  assumes "reconcile_run re run m = (Inr True, m')"
  shows "re_auto_resume re \<and> \<not> re_uncertain re (rn_run_id run) \<and>
    (\<exists>lease_id lease c. rn_workspace_lease_id run = Some lease_id \<and>
      get_lease (mg_store m) lease_id = Some lease \<and> re_inspect re lease = ''CONSISTENT'' \<and>
      get_latest_checkpoint (mg_store m) (rn_run_id run) = Some c \<and>
      ck_sequence c \<le> rn_last_sequence run \<and>
      ce_valid (evaluate_checkpoint c (rn_last_sequence run)
        (dict_of (map (\<lambda>x. (lx_loop_execution_id x, x))
          (list_loop_executions_for_run (mg_store m) (rn_run_id run)))) (Some ''CONSISTENT'')))"
proof -
  from assms obtain lid lease x row m1 where l: "rn_workspace_lease_id run = Some lid"
    and u: "store_op (re_env re) (\<lambda>now. update_run now (rn_run_id run) Run_RECONCILING no_update) m = (Inr row, m1)"
    and g: "get_lease (mg_store m1) lid = Some lease"
    and r: "recover_active re run x lease m1 = (Inr True, m')"
    unfolding reconcile_run_def Let_def
    by (auto simp: bind_act_Inr split: option.splits if_splits)
  from u have m1: "mg_store m1 = snd (update_run (en_now (re_env re) (mg_draws m)) (rn_run_id run)
      Run_RECONCILING no_update (mg_store m))"
    by (auto simp: store_op_Inr)
  obtain c e k where j: "judge_run re run lease (mg_store m) = (Some c, Some e, k)"
    and k: "re_auto_resume re" "rc_classification k = Rec_RESUMABLE" "ce_valid e"
    by (rule recover_active_resumes [OF r]) (simp add: m1 judge_run_frame)
  have lease: "get_lease (mg_store m) lid = Some lease"
    using g unfolding m1 by (simp add: get_lease_def update_run_def Let_def split: option.splits)
  from j have e: "get_latest_checkpoint (mg_store m) (rn_run_id run) = Some c"
      "e = evaluate_checkpoint c (rn_last_sequence run) (dict_of (map (\<lambda>x. (lx_loop_execution_id x, x))
        (list_loop_executions_for_run (mg_store m) (rn_run_id run)))) (Some (re_inspect re lease))"
    and "k = classify_run (Some (re_inspect re lease)) (re_uncertain re (rn_run_id run))
        (list_artifacts (mg_store m) (rn_run_id run) \<noteq> []) (Some e)"
    by (auto simp: judge_run_def Let_def)
  with k(2) have "\<not> re_uncertain re (rn_run_id run)" "re_inspect re lease = ''CONSISTENT''"
    by (auto simp: classify_run_def split: if_splits)
  moreover from this e k(3) have "ck_sequence c \<le> rn_last_sequence run"
    by (auto simp: evaluate_checkpoint_def split: if_splits)
  ultimately show ?thesis using l lease e k by auto
qed


subsection \<open>Stopping a run\<close>

definition over :: "string \<Rightarrow> manager \<Rightarrow> bool" where
  "over r m \<longleftrightarrow> (\<forall>run. get_run (mg_store m) r = Some run \<longrightarrow> rn_state run \<in> TERMINAL_RUN_STATES)"

lemma settled_by_commit:
  assumes "q \<in> TERMINAL_RUN_STATES" "terminal_type ty" "rn_run_id run = r"
  shows "triple (ready r tys) (bind_act (commit_run_terminal env run q ty nt s p k fin err) (\<lambda>_. ret x)) (over r)"
proof (rule triple_bind)
  show "triple (ready r tys) (commit_run_terminal env run q ty nt s p k fin err) (over r)"
    by (rule triple_weaken [OF triple_commit [OF assms(2)]])
      (use assms(1,3) in \<open>auto simp: over_def ended_def split: if_splits\<close>)
qed (simp add: triple_ret)

lemma triple_found_run:
  assumes "\<And>run. rn_run_id run = r \<Longrightarrow> rn_state run \<notin> TERMINAL_RUN_STATES \<Longrightarrow> triple (ready r tys) (g run) (over r)"
  shows "triple (ready r tys) (bind_act (query (\<lambda>s. get_run s r)) (\<lambda>found. case found of None \<Rightarrow> ret ()
    | Some run \<Rightarrow> if rn_state run \<in> TERMINAL_RUN_STATES then ret () else g run)) (over r)"
  unfolding triple_def
proof (intro allI impI)
  fix m x m'
  assume m: "ready r tys m" and b: "bind_act (query (\<lambda>s. get_run s r)) (\<lambda>found. case found of None \<Rightarrow> ret ()
    | Some run \<Rightarrow> if rn_state run \<in> TERMINAL_RUN_STATES then ret () else g run) m = (Inr x, m')"
  show "over r m'"
  proof (cases "get_run (mg_store m) r")
    case None
    then show ?thesis using b by (simp add: bind_act_Inr over_def)
  next
    case (Some run)
    then have id: "rn_run_id run = r" using m by (simp add: keyed_def get_run_def)
    show ?thesis
    proof (cases "rn_state run \<in> TERMINAL_RUN_STATES")
      case True
      then show ?thesis using b Some by (simp add: bind_act_Inr over_def)
    next
      case False
      with b Some have "g run m = (Inr x, m')" by (simp add: bind_act_Inr)
      from tripleD [OF assms [OF id False] m this] show ?thesis .
    qed
  qed
qed

lemma triple_cancel_execution: "triple (ready r tys) (cancel_execution env r left) (over r)"
  unfolding cancel_execution_def whole_run_terminal_def [symmetric]
proof (rule triple_found_run, rule triple_bind [OF triple_quiet [OF quiet.p_query]], rule triple_option, goal_cases)
  case (1 run execution)
  show ?case
    by (rule triple_bind, rule triple_quiet, intro quiet.q_basic quiet.q_close [OF refl], rule settled_by_commit)
      (use 1 in \<open>simp_all add: TERMINAL_RUN_STATES_def\<close>)
next
  case (2 run execution t)
  show ?case
    by (intro triple_prod settled_by_commit) (use 2 whole_run_terminal_states in blast)+
qed

lemma triple_fail_execution: "triple (ready r tys) (fail_execution env r msg sid) (over r)"
  unfolding fail_execution_def
proof (rule triple_found_run, rule triple_bind [OF triple_quiet [OF quiet.p_query]], rule triple_option, goal_cases)
  case (1 run execution)
  show ?case
    by (rule triple_bind, rule triple_quiet, intro quiet.q_basic, rule settled_by_commit)
      (use 1 in \<open>simp_all add: TERMINAL_RUN_STATES_def\<close>)
next
  case (2 run execution t)
  show ?case
    by (intro triple_prod settled_by_commit) (use 2 whole_run_terminal_states in blast)+
qed

text \<open>C25: Stopping stops. When \<open>cancel\<close> returns a run, or the failure handler returns for a stored run, that run
  is in a terminal state, in every store the operations reach.\<close>

theorem stop_requests_end_the_run:
  assumes "store_steps empty_store (mg_store m)"
  shows "(cancel env r left m = (Inr run, m') \<longrightarrow> rn_state run \<in> TERMINAL_RUN_STATES) \<and>
    (fail_execution env r msg sid m = (Inr u, m') \<longrightarrow> get_run (mg_store m') r = Some run \<longrightarrow>
      rn_state run \<in> TERMINAL_RUN_STATES)"
proof -
  have "keyed r (mg_store m)"
    using keyed_rows_get [OF store_steps_rows_keyed [OF assms]] by (simp add: keyed_def)
  then have m: "ready r (map ev_normalized_type (terminal_events (mg_store m) r)) m"
    using store_steps_log [OF assms empty_store_ok] by simp
  have "rn_state run \<in> TERMINAL_RUN_STATES" if c: "cancel env r left m = (Inr run, m')"
  proof (rule ccontr)
    assume "rn_state run \<notin> TERMINAL_RUN_STATES"
    with c obtain u where "cancel_execution env r left m = (Inr u, m')" "get_run (mg_store m') r = Some run"
      by (auto simp: cancel_def bind_act_Inr require_run_def split: option.splits if_splits)
    with tripleD [OF triple_cancel_execution m] \<open>rn_state run \<notin> TERMINAL_RUN_STATES\<close>
    show False by (auto simp: over_def)
  qed
  moreover have "rn_state run \<in> TERMINAL_RUN_STATES"
    if "fail_execution env r msg sid m = (Inr u, m')" "get_run (mg_store m') r = Some run"
    using tripleD [OF triple_fail_execution m that(1)] that(2) by (simp add: over_def)
  ultimately show ?thesis by blast
qed


subsection \<open>A crashed run\<close>

definition crashed_lease :: WorkspaceLease where
  "crashed_lease = \<lparr>wl_lease_id = ''lease'', wl_project_id = ''p'', wl_run_id = ''run_1'',
     wl_base_revision = ''rev'', wl_path = ''/w'', wl_branch_name = ''b'', wl_isolation = ''WORKTREE'',
     wl_writable = True, wl_acquired_at = 0, wl_expires_at = None, wl_cleanup_policy = ''KEEP_ON_FAILURE''\<rparr>"

definition crashed_run :: Run where
  "crashed_run = sample_run\<lparr>rn_workspace_lease_id := Some ''lease''\<rparr>"

definition crashed_manager :: manager where
  "crashed_manager = \<lparr>mg_store = snd (append_checkpoint ((sample_checkpoint 0)\<lparr>ck_run_id := ''run_1''\<rparr>)
       [sample_event ''e1''] (snd (save_lease crashed_lease (snd (create_run crashed_run empty_store))))),
     mg_draws = 0, mg_calls = []\<rparr>"

definition sample_recovery :: recovery_env where
  "sample_recovery = \<lparr>re_env = sample_env, re_uncertain = (\<lambda>_. False), re_inspect = (\<lambda>_. ''CONSISTENT''),
     re_reacquire = (\<lambda>_ _. None), re_auto_resume = True, re_runtimes = [Prov_CODEX],
     re_live_providers_enabled = True, re_seconds_left = (\<lambda>_. 0)\<rparr>"

lemma crashed_steps: "store_steps empty_store (mg_store crashed_manager)"
proof -
  have "store_step empty_store (snd (create_run crashed_run empty_store))"
    by (rule step_create_run) (simp_all add: empty_store_def events_of_def dget_or_def crashed_run_def sample_run_def)
  then show ?thesis
    unfolding crashed_manager_def manager.select_convs
    by (meson rtranclp.rtrancl_into_rtrancl rtranclp.rtrancl_refl step_save_lease step_append_checkpoint)
qed

abbreviation listed_crash :: Run where
  "listed_crash \<equiv> crashed_run\<lparr>rn_last_sequence := 1\<rparr>"

lemma crash_recovers:
  "fst (reconcile_run sample_recovery listed_crash crashed_manager) = Inr True"
  "list_runs (mg_store crashed_manager) 10000 = [listed_crash]"
  by code_simp+

theorem auto_resume_needs_coherent_state_witness:
  "\<exists>c. get_latest_checkpoint (mg_store crashed_manager) ''run_1'' = Some c \<and> ck_sequence c \<le> 1"
proof -
  obtain m' where "reconcile_run sample_recovery listed_crash crashed_manager = (Inr True, m')"
    using crash_recovers(1) by (metis prod.collapse)
  from auto_resume_needs_coherent_state [OF this] show ?thesis
    by (auto simp: crashed_run_def)
qed

theorem reconcile_settles_every_run_witness:
  "\<exists>resumed m'. reconcile sample_recovery crashed_manager = (Inr resumed, m') \<and> settled ''run_1'' m'"
proof -
  obtain m' where r: "reconcile_run sample_recovery listed_crash crashed_manager = (Inr True, m')"
    using crash_recovers(1) by (metis prod.collapse)
  then have "reconcile sample_recovery crashed_manager = (Inr [''run_1''], m')"
    by (simp add: reconcile_def bind_act_def query_def crash_recovers(2) ret_def crashed_run_def)
  with reconcile_settles_every_run [OF crashed_steps this, of listed_crash] crash_recovers(2)
  show ?thesis by (auto simp: crashed_run_def)
qed

theorem stop_requests_end_the_run_witness:
  "\<exists>run m'. cancel sample_env ''run_1'' 0 crashed_manager = (Inr run, m') \<and> rn_state run \<in> TERMINAL_RUN_STATES"
proof -
  have "case fst (cancel sample_env ''run_1'' 0 crashed_manager) of Inl _ \<Rightarrow> False | Inr _ \<Rightarrow> True" by code_simp
  then obtain run m' where "cancel sample_env ''run_1'' 0 crashed_manager = (Inr run, m')"
    by (cases "cancel sample_env ''run_1'' 0 crashed_manager") (auto split: sum.splits)
  with stop_requests_end_the_run [OF crashed_steps, of sample_env "''run_1''" 0 run m'] show ?thesis by blast
qed

end
