(* ===== verification/Condition_DSL.thy ===== *)
theory Condition_DSL
  imports Contracts "HOL-Library.Sublist"
begin

text \<open>
  The condition language of dynamic workflows: \<open>TypedCondition\<close> of
  \<^verbatim>\<open>src/accretion/orchestration/models.py\<close> and \<^verbatim>\<open>src/accretion/orchestration/condition_dsl.py\<close>.
  Values are JSON; the comparison operators are Python's on such values: numbers (booleans included)
  compare by value, strings and lists lexicographically, and everything else raises \<open>TypeError\<close>, written
  \<open>None\<close>. Texts of errors are left out.

  Shown: nested conditions need no validation of their own, so evaluation agrees with a direct
  semantics; evaluation of a well-shaped condition answers a boolean or raises
  \<open>ConditionEvaluationError\<close>; and \<open>NOT\<close>, \<open>ALL\<close> and \<open>ANY\<close> are the connectives they are named after.
\<close>

datatype ConditionOperator =
    Op_ALL | Op_ANY | Op_NOT | Op_EQ | Op_NE | Op_LT | Op_LTE | Op_GT | Op_GTE | Op_IN

datatype TypedCondition = TypedCondition
  (tc_operator: ConditionOperator) (tc_path: "string option") (tc_value: json)
  (tc_operands: "TypedCondition list")

definition aggregate :: "ConditionOperator \<Rightarrow> bool" where
  "aggregate op \<longleftrightarrow> op \<in> {Op_ALL, Op_ANY, Op_NOT}"

text \<open>The field bounds and the model validator, at every level of the tree.\<close>

fun validate_shape :: "TypedCondition \<Rightarrow> bool" where
  "validate_shape (TypedCondition op path v operands) \<longleftrightarrow>
    (case path of None \<Rightarrow> True | Some p \<Rightarrow> length p \<le> 160) \<and> length operands \<le> 8 \<and>
    (if aggregate op
     then operands \<noteq> [] \<and> (op = Op_NOT \<longrightarrow> length operands = 1) \<and> path = None
     else path \<noteq> None \<and> operands = []) \<and>
    (\<forall>c \<in> set operands. validate_shape c)"

subsection \<open>Comparison of JSON values\<close>

fun num_of :: "json \<Rightarrow> rat option" where
  "num_of (JBool b) = Some (if b then 1 else 0)"
| "num_of (JInt n) = Some (of_int n)"
| "num_of (JFloat x) = Some x"
| "num_of _ = None"

lemma size_pair_elem [termination_simp]:
  "kv \<in> set kvs \<Longrightarrow> size (snd kv) < Suc (size_list (size_prod (\<lambda>_. 0) size) kvs)"
  by (rule le_imp_less_Suc, erule size_list_estimation') (simp add: size_prod_simp)

lemma size_zip_elem [termination_simp]:
  "(x, y) \<in> set (zip xs ys) \<Longrightarrow> size x < Suc (size_list size xs)"
  by (drule set_zip_leftD) (simp add: size_list_estimation' less_Suc_eq_le)

text \<open>\<open>a == b\<close>\<close>

fun py_eq :: "json \<Rightarrow> json \<Rightarrow> bool" where
  "py_eq JNull b \<longleftrightarrow> b = JNull"
| "py_eq (JStr s) b \<longleftrightarrow> b = JStr s"
| "py_eq (JList xs) b \<longleftrightarrow>
    (case b of JList ys \<Rightarrow> length xs = length ys \<and> (\<forall>(x, y) \<in> set (zip xs ys). py_eq x y) | _ \<Rightarrow> False)"
| "py_eq (JObj kvs) b \<longleftrightarrow>
    (case b of JObj kws \<Rightarrow> fst ` set kvs = fst ` set kws \<and>
      (\<forall>kv \<in> set kvs. case dget kws (fst kv) of None \<Rightarrow> False | Some w \<Rightarrow> py_eq (snd kv) w) | _ \<Rightarrow> False)"
| "py_eq a b \<longleftrightarrow> num_of a = num_of b"

text \<open>\<open>a < b\<close> (\<open>strict\<close>) and \<open>a <= b\<close>\<close>

function py_cmp :: "bool \<Rightarrow> json \<Rightarrow> json \<Rightarrow> bool option"
  and py_cmp_list :: "bool \<Rightarrow> json list \<Rightarrow> json list \<Rightarrow> bool option" where
  "py_cmp strict a b =
    (case (num_of a, num_of b) of
       (Some x, Some y) \<Rightarrow> Some (if strict then x < y else x \<le> y)
     | _ \<Rightarrow>
       (case a of
          JStr s \<Rightarrow> (case b of JStr t \<Rightarrow> Some (if strict then s < t else s \<le> t) | _ \<Rightarrow> None)
        | JList xs \<Rightarrow> (case b of JList ys \<Rightarrow> py_cmp_list strict xs ys | _ \<Rightarrow> None)
        | _ \<Rightarrow> None))"
| "py_cmp_list strict [] ys = Some (ys \<noteq> [] \<or> \<not> strict)"
| "py_cmp_list strict (x # xs) ys =
    (case ys of [] \<Rightarrow> Some False
     | y # ys' \<Rightarrow> if py_eq x y then py_cmp_list strict xs ys' else py_cmp strict x y)"
  by pat_completeness auto
termination
  by (relation "measure (\<lambda>x. case x of Inl (_, a, _) \<Rightarrow> size a | Inr (_, xs, _) \<Rightarrow> size_list size xs)") auto

text \<open>\<open>a in b\<close>\<close>

definition py_in :: "json \<Rightarrow> json \<Rightarrow> bool option" where
  "py_in a b = (case b of
     JList xs \<Rightarrow> Some (\<exists>x \<in> set xs. py_eq x a)
   | JStr t \<Rightarrow> (case a of JStr s \<Rightarrow> Some (sublist s t) | _ \<Rightarrow> None)
   | JObj kvs \<Rightarrow> (case a of JList _ \<Rightarrow> None | JObj _ \<Rightarrow> None | JStr k \<Rightarrow> Some (dhas kvs k) | _ \<Rightarrow> Some False)
   | _ \<Rightarrow> None)"

subsection \<open>Validation and evaluation\<close>

definition ALLOWED_ROOTS :: "string list" where
  "ALLOWED_ROOTS = [''approval'', ''budget'', ''capability'', ''node'', ''runtime'', ''search'', ''verifier'']"

definition MAX_CONDITION_DEPTH :: nat where
  "MAX_CONDITION_DEPTH = 8"

datatype condition_problem = Nesting_exceeded | Root_not_allowed string

fun validate_condition :: "TypedCondition \<Rightarrow> nat \<Rightarrow> condition_problem list" where
  "validate_condition (TypedCondition op path v operands) depth =
    (if depth > MAX_CONDITION_DEPTH then [Nesting_exceeded]
     else (case path of None \<Rightarrow> []
           | Some p \<Rightarrow> let root = hd (split_on CHR ''.'' p) in
               if root \<in> set ALLOWED_ROOTS then [] else [Root_not_allowed root]) @
       concat (map (\<lambda>operand. validate_condition operand (depth + 1)) operands))"

definition cond_error :: "'a res" where
  "cond_error = Inl (ConditionEvaluationError [])"

fun resolve :: "json \<Rightarrow> string list \<Rightarrow> json res" where
  "resolve current [] = Inr current"
| "resolve current (part # parts) =
    (case current of
       JObj kvs \<Rightarrow> (case dget kvs part of None \<Rightarrow> cond_error | Some v \<Rightarrow> resolve v parts)
     | _ \<Rightarrow> cond_error)"

definition compare_leaf :: "ConditionOperator \<Rightarrow> json \<Rightarrow> json \<Rightarrow> bool option" where
  "compare_leaf op actual expected = (case op of
     Op_EQ \<Rightarrow> Some (py_eq actual expected) | Op_NE \<Rightarrow> Some (\<not> py_eq actual expected)
   | Op_LT \<Rightarrow> py_cmp True actual expected | Op_LTE \<Rightarrow> py_cmp False actual expected
   | Op_GT \<Rightarrow> py_cmp True expected actual | Op_GTE \<Rightarrow> py_cmp False expected actual
   | Op_IN \<Rightarrow> py_in actual expected | _ \<Rightarrow> None)"

definition evaluate_leaf :: "ConditionOperator \<Rightarrow> string option \<Rightarrow> json \<Rightarrow> json \<Rightarrow> bool res" where
  "evaluate_leaf op path v state =
    bind_res (resolve state (split_on CHR ''.'' (case path of None \<Rightarrow> [] | Some p \<Rightarrow> p))) (\<lambda>actual.
    case compare_leaf op actual v of None \<Rightarrow> cond_error | Some b \<Rightarrow> Inr b)"

text \<open>\<open>all(...)\<close> and \<open>any(...)\<close> stop at the first operand that decides.\<close>

function evaluate_condition :: "TypedCondition \<Rightarrow> json \<Rightarrow> bool res"
  and evaluate_all :: "TypedCondition list \<Rightarrow> json \<Rightarrow> bool res"
  and evaluate_any :: "TypedCondition list \<Rightarrow> json \<Rightarrow> bool res" where
  "evaluate_condition c state =
    (if validate_condition c 1 \<noteq> [] then cond_error
     else (case tc_operator c of
       Op_ALL \<Rightarrow> evaluate_all (tc_operands c) state
     | Op_ANY \<Rightarrow> evaluate_any (tc_operands c) state
     | Op_NOT \<Rightarrow> (case tc_operands c of [] \<Rightarrow> Inl (RuntimeError ''list index out of range'')
         | d # _ \<Rightarrow> map_sum id Not (evaluate_condition d state))
     | op \<Rightarrow> evaluate_leaf op (tc_path c) (tc_value c) state))"
| "evaluate_all [] state = Inr True"
| "evaluate_all (c # cs) state =
    (case evaluate_condition c state of Inl e \<Rightarrow> Inl e | Inr b \<Rightarrow> if b then evaluate_all cs state else Inr False)"
| "evaluate_any [] state = Inr False"
| "evaluate_any (c # cs) state =
    (case evaluate_condition c state of Inl e \<Rightarrow> Inl e | Inr b \<Rightarrow> if b then Inr True else evaluate_any cs state)"
  by pat_completeness auto
termination
proof (relation "measure (\<lambda>x. case x of Inl (c, _) \<Rightarrow> 2 * size c | Inr (Inl (cs, _)) \<Rightarrow> 2 * size_list size cs + 1
    | Inr (Inr (cs, _)) \<Rightarrow> 2 * size_list size cs + 1)", goal_cases)
  case (2 c state)
  then show ?case by (cases c) simp
next
  case (3 c state)
  then show ?case by (cases c) simp
next
  case (4 c state d ds)
  then show ?case by (cases c) simp
qed simp_all


declare evaluate_condition.simps [simp del]

subsection \<open>A direct semantics\<close>

text \<open>The first result that is not \<open>True\<close> decides a conjunction, the first that is not \<open>False\<close> a
  disjunction; an error decides either.\<close>

definition conj_res :: "bool res list \<Rightarrow> bool res" where
  "conj_res rs = (case dropWhile (\<lambda>r. r = Inr True) rs of [] \<Rightarrow> Inr True | r # _ \<Rightarrow> r)"

definition disj_res :: "bool res list \<Rightarrow> bool res" where
  "disj_res rs = (case dropWhile (\<lambda>r. r = Inr False) rs of [] \<Rightarrow> Inr False | r # _ \<Rightarrow> r)"

fun holds :: "TypedCondition \<Rightarrow> json \<Rightarrow> bool res" where
  "holds (TypedCondition op path v cs) state =
    (case op of
       Op_ALL \<Rightarrow> conj_res (map (\<lambda>c. holds c state) cs)
     | Op_ANY \<Rightarrow> disj_res (map (\<lambda>c. holds c state) cs)
     | Op_NOT \<Rightarrow> (case cs of [] \<Rightarrow> Inl (RuntimeError ''list index out of range'')
         | d # _ \<Rightarrow> map_sum id Not (holds d state))
     | _ \<Rightarrow> evaluate_leaf op path v state)"

lemma res_simps [simp]:
  "conj_res [] = Inr True" "disj_res [] = Inr False"
  "conj_res (r # rs) = (if r = Inr True then conj_res rs else r)"
  "disj_res (r # rs) = (if r = Inr False then disj_res rs else r)"
  by (simp_all add: conj_res_def disj_res_def)

text \<open>A condition that passes at some depth passes at every smaller one.\<close>

lemma validate_condition_mono:
  "validate_condition c d = [] \<Longrightarrow> d' \<le> d \<Longrightarrow> validate_condition c d' = []"
proof (induction c arbitrary: d d')
  case (TypedCondition op path v cs)
  from TypedCondition.prems(1) have d: "d \<le> MAX_CONDITION_DEPTH"
    and ops: "\<forall>x \<in> set cs. validate_condition x (d + 1) = []"
    by (simp_all split: if_splits)
  have "validate_condition x (d' + 1) = []" if "x \<in> set cs" for x
    using TypedCondition.IH [OF that, of "d + 1" "d' + 1"] ops that TypedCondition.prems(2) by simp
  with TypedCondition.prems d show ?case by (simp split: if_splits)
qed

lemma validate_operand:
  "validate_condition c 1 = [] \<Longrightarrow> x \<in> set (tc_operands c) \<Longrightarrow> validate_condition x 1 = []"
proof (cases c)
  case (TypedCondition op path v cs)
  assume "validate_condition c 1 = []" "x \<in> set (tc_operands c)"
  with TypedCondition have "validate_condition x (1 + 1) = []" by (simp split: if_splits)
  then show ?thesis by (rule validate_condition_mono) simp
qed

lemma evaluate_valid:
  "validate_condition c 1 = [] \<Longrightarrow> evaluate_condition c state = holds c state"
  "\<forall>c \<in> set cs. validate_condition c 1 = [] \<Longrightarrow> evaluate_all cs state = conj_res (map (\<lambda>c. holds c state) cs)"
  "\<forall>c \<in> set ds. validate_condition c 1 = [] \<Longrightarrow> evaluate_any ds state = disj_res (map (\<lambda>c. holds c state) ds)"
proof (induction c state and cs state and ds state
    rule: evaluate_condition_evaluate_all_evaluate_any.induct)
  case (1 c state)
  have ops: "\<forall>x \<in> set (tc_operands c). validate_condition x 1 = []" using validate_operand [OF 1(4)] by blast
  show ?case
    using 1 ops
    by (subst evaluate_condition.simps(1))
      (cases c; simp split: ConditionOperator.splits list.splits)
qed (auto simp: evaluate_condition.simps split: sum.splits)

lemma evaluate_as_holds:
  "evaluate_condition c state = (if validate_condition c 1 = [] then holds c state else cond_error)"
proof (cases "validate_condition c 1 = []")
  case False
  then show ?thesis by (subst evaluate_condition.simps(1)) simp
qed (simp add: evaluate_valid(1))

text \<open>C31: Evaluating a condition validates it first and then has the meaning its operators name. The
  validation the code repeats at every nested condition changes nothing: the result is the direct
  semantics, where \<open>ALL\<close> and \<open>ANY\<close> take the first deciding operand, or an evaluation error when the whole
  condition is invalid.\<close>

theorem evaluate_condition_meaning:
  "evaluate_condition c state = (if validate_condition c 1 = [] then holds c state else cond_error)"
  by (rule evaluate_as_holds)

lemma evaluate_leaf_result: "\<not> aggregate op \<Longrightarrow> (\<exists>b. evaluate_leaf op p v s = Inr b) \<or> evaluate_leaf op p v s = cond_error"
proof -
  have r: "(\<exists>v. resolve j ps = Inr v) \<or> resolve j ps = cond_error" for j ps
    by (induction j ps rule: resolve.induct) (auto split: json.splits option.splits)
  show ?thesis
    using r [of s "split_on CHR ''.'' (case p of None \<Rightarrow> [] | Some p \<Rightarrow> p)"]
    by (auto simp: evaluate_leaf_def cond_error_def split: option.splits)
qed

lemma conj_res_result:
  "\<forall>r \<in> set rs. (\<exists>b. r = Inr b) \<or> r = cond_error \<Longrightarrow> (\<exists>b. conj_res rs = Inr b) \<or> conj_res rs = cond_error"
  "\<forall>r \<in> set rs. (\<exists>b. r = Inr b) \<or> r = cond_error \<Longrightarrow> (\<exists>b. disj_res rs = Inr b) \<or> disj_res rs = cond_error"
  by (induction rs) auto

text \<open>A condition of the shape its model enforces never fails in an unexpected way: over every state it
  evaluates to a boolean or to \<open>ConditionEvaluationError\<close>, also when values cannot be compared, paths are
  missing or the nesting is too deep.\<close>

theorem evaluate_condition_total:
  assumes "validate_shape c"
  shows "(\<exists>b. evaluate_condition c state = Inr b) \<or> evaluate_condition c state = cond_error"
proof -
  from assms have "(\<exists>b. holds c state = Inr b) \<or> holds c state = cond_error"
  proof (induction c)
    case (TypedCondition op path v cs)
    then have ih: "\<forall>r \<in> set (map (\<lambda>c. holds c state) cs). (\<exists>b. r = Inr b) \<or> r = cond_error" by auto
    have neg: "(\<exists>b. map_sum id Not r = Inr b) \<or> map_sum id Not r = cond_error"
      if "(\<exists>b. r = Inr b) \<or> r = cond_error" for r :: "bool res"
      using that by (auto simp: cond_error_def)
    show ?case
      using TypedCondition.prems conj_res_result [OF ih] evaluate_leaf_result [of op path v state] ih neg
      by (cases op) (auto simp: aggregate_def split: list.splits)
  qed
  then show ?thesis by (simp add: evaluate_as_holds)
qed


definition sample_condition :: TypedCondition where
  "sample_condition = TypedCondition Op_NOT None JNull
     [TypedCondition Op_LT (Some ''budget.turns'') (JStr ''3'') []]"

theorem evaluate_condition_total_witness:
  "evaluate_condition sample_condition (JObj [(''budget'', JObj [(''turns'', JInt 2)])]) = cond_error"
proof -
  have shape: "validate_shape sample_condition" by code_simp
  have "\<not> (\<exists>b. evaluate_condition sample_condition (JObj [(''budget'', JObj [(''turns'', JInt 2)])]) = Inr b)"
    by (subst evaluate_as_holds) (simp add: sample_condition_def evaluate_leaf_def compare_leaf_def cond_error_def)
  with evaluate_condition_total [OF shape] show ?thesis by blast
qed

end
