(* ===== verification/Graph_Search.thy ===== *)
theory Graph_Search
  imports Prelude "HOL-Library.Product_Lexorder"
begin

text \<open>
  The graph searches of the workflow validator (\<^verbatim>\<open>src/accretion/orchestration/validator.py\<close>:
  \<open>_reachable\<close>, \<open>_terminal_reachable_without_kind\<close>, \<open>_target_reachable_without_kind\<close>,
  \<open>_has_unbounded_cycle\<close>, \<open>_depth\<close>) over a graph given as its list of arcs in edge order. Stacks are lists
  with the top first. The recursion of the cycle search is bounded by a number the search never uses up;
  the depth search need not end on a cyclic graph and is a partial function.

  Shown: each search decides what it is for, and the depth search ends on every graph without a
  reachable cycle, with the length of a longest path.
\<close>

type_synonym 'a graph = "('a \<times> 'a) list"

definition succs :: "'a graph \<Rightarrow> 'a \<Rightarrow> 'a list" where
  "succs g k = map snd (filter (\<lambda>a. fst a = k) g)"

lemma set_succs [simp]: "t \<in> set (succs g k) \<longleftrightarrow> (k, t) \<in> set g"
  by (force simp: succs_def)

subsection \<open>Searches\<close>

function reach_loop :: "'a graph \<Rightarrow> 'a list \<Rightarrow> 'a set \<Rightarrow> 'a set" where
  "reach_loop g [] result = result"
| "reach_loop g (key # pending) result =
    (if key \<in> result then reach_loop g pending result
     else reach_loop g (rev (succs g key) @ pending) (insert key result))"
  by pat_completeness auto
termination
proof (relation "measures [\<lambda>(g, p, r). card ((snd ` set g \<union> set p) - r), \<lambda>(g, p, r). length p]", goal_cases)
  case (2 g key p r)
  then have "snd ` set g \<union> set (key # p) - r = snd ` set g \<union> set p - r" by auto
  then show ?case by simp
next
  case (3 g key p r)
  have "snd ` set g \<union> set (rev (succs g key) @ p) - insert key r \<subset> snd ` set g \<union> set (key # p) - r"
    using 3 by (force simp: succs_def)
  from psubset_card_mono [OF _ this] show ?case by simp
qed simp

function search_loop :: "'a graph \<Rightarrow> ('a \<Rightarrow> bool) \<Rightarrow> ('a \<Rightarrow> bool) \<Rightarrow> 'a list \<Rightarrow> 'a set \<Rightarrow> bool" where
  "search_loop g blocked hit [] visited = False"
| "search_loop g blocked hit (key # pending) visited =
    (if key \<in> visited \<or> blocked key then search_loop g blocked hit pending visited
     else if hit key then True
     else search_loop g blocked hit (rev (succs g key) @ pending) (insert key visited))"
  by pat_completeness auto
termination
proof (relation "measures [\<lambda>(g, b, h, p, r). card ((snd ` set g \<union> set p) - r), \<lambda>(g, b, h, p, r). length p]",
    goal_cases)
  case (2 g b h key p r)
  have "snd ` set g \<union> set p - r \<subseteq> snd ` set g \<union> set (key # p) - r" by auto
  then have "card (snd ` set g \<union> set p - r) \<le> card (snd ` set g \<union> set (key # p) - r)" by (intro card_mono) auto
  then show ?case by (auto simp: le_less)
next
  case (3 g b h key p r)
  have "snd ` set g \<union> set (rev (succs g key) @ p) - insert key r \<subset> snd ` set g \<union> set (key # p) - r"
    using 3 by (force simp: succs_def)
  from psubset_card_mono [OF _ this] show ?case by simp
qed simp

function visit_node :: "nat \<Rightarrow> 'a graph \<Rightarrow> 'a \<Rightarrow> 'a set \<Rightarrow> 'a set \<Rightarrow> bool \<times> 'a set"
  and visit_targets :: "nat \<Rightarrow> 'a graph \<Rightarrow> 'a list \<Rightarrow> 'a set \<Rightarrow> 'a set \<Rightarrow> bool \<times> 'a set" where
  "visit_node 0 g key visiting visited = (True, visited)"
| "visit_node (Suc n) g key visiting visited =
    (case visit_targets n g (succs g key) (insert key visiting) visited of
       (True, visited') \<Rightarrow> (True, visited')
     | (False, visited') \<Rightarrow> (False, insert key visited'))"
| "visit_targets n g [] visiting visited = (False, visited)"
| "visit_targets n g (t # ts) visiting visited =
    (if t \<in> visiting then (True, visited)
     else if t \<in> visited then visit_targets n g ts visiting visited
     else (case visit_node n g t visiting visited of
        (True, visited') \<Rightarrow> (True, visited')
      | (False, visited') \<Rightarrow> visit_targets n g ts visiting visited'))"
  by pat_completeness auto
termination
  by (relation "measures [\<lambda>x. case x of Inl (n, _) \<Rightarrow> n | Inr (n, _) \<Rightarrow> n,
    \<lambda>x. case x of Inl _ \<Rightarrow> 0 | Inr (_, _, ts, _) \<Rightarrow> Suc (length ts)]") auto

definition has_cycle :: "'a graph \<Rightarrow> 'a \<Rightarrow> bool" where
  "has_cycle g root = fst (visit_node (length g + 2) g root {} {})"

partial_function (option) depth_loop ::
  "'a graph \<Rightarrow> ('a \<times> nat) list \<Rightarrow> ('a, nat) dict \<Rightarrow> nat \<Rightarrow> nat option" where
  "depth_loop g pending visited depth =
    (case pending of
       [] \<Rightarrow> Some depth
     | (key, current) # rest \<Rightarrow>
         if dget_or 0 visited key \<ge> current then depth_loop g rest visited depth
         else depth_loop g (rest @ map (\<lambda>t. (t, current + 1)) (succs g key)) (dset key current visited)
           (max depth current))"

lemma depth_loop_code [code]:
  "depth_loop g [] visited depth = Some depth"
  "depth_loop g ((key, current) # rest) visited depth =
    (if dget_or 0 visited key \<ge> current then depth_loop g rest visited depth
     else depth_loop g (rest @ map (\<lambda>t. (t, current + 1)) (succs g key)) (dset key current visited)
       (max depth current))"
  by (subst depth_loop.simps, simp)+

subsection \<open>Reachability\<close>

lemma reach_loop_sound:
  "x \<in> reach_loop g p r \<Longrightarrow> x \<in> r \<or> (\<exists>s \<in> set p. (s, x) \<in> (set g)\<^sup>*)"
proof (induction g p r rule: reach_loop.induct)
  case (2 g key p r)
  show ?case
  proof (cases "key \<in> r")
    case False
    from "2.IH"(2) [OF False] "2.prems" False
    have "x \<in> insert key r \<or> (\<exists>s \<in> set (succs g key) \<union> set p. (s, x) \<in> (set g)\<^sup>*)" by auto
    then show ?thesis by (auto intro: converse_rtrancl_into_rtrancl)
  qed (use 2 in auto)
qed simp

lemma reach_loop_closed:
  assumes "\<And>x t. x \<in> r \<Longrightarrow> (x, t) \<in> set g \<Longrightarrow> t \<in> r \<union> set p"
  shows "r \<union> set p \<subseteq> reach_loop g p r \<and>
    (\<forall>x t. x \<in> reach_loop g p r \<longrightarrow> (x, t) \<in> set g \<longrightarrow> t \<in> reach_loop g p r)"
  using assms
proof (induction g p r rule: reach_loop.induct)
  case (2 g key p r)
  show ?case
  proof (cases "key \<in> r")
    case True
    have "r \<union> set p \<subseteq> reach_loop g p r \<and>
        (\<forall>x t. x \<in> reach_loop g p r \<longrightarrow> (x, t) \<in> set g \<longrightarrow> t \<in> reach_loop g p r)"
      by (rule "2.IH"(1) [OF True]) (use "2.prems" True in auto)
    with True show ?thesis by auto
  next
    case False
    let ?p = "rev (succs g key) @ p"
    have "insert key r \<union> set ?p \<subseteq> reach_loop g ?p (insert key r) \<and>
        (\<forall>x t. x \<in> reach_loop g ?p (insert key r) \<longrightarrow> (x, t) \<in> set g \<longrightarrow> t \<in> reach_loop g ?p (insert key r))"
      by (rule "2.IH"(2) [OF False]) (use "2.prems" in auto)
    with False show ?thesis by auto
  qed
qed simp

lemma reach_loop_iff: "x \<in> reach_loop g [root] {} \<longleftrightarrow> (root, x) \<in> (set g)\<^sup>*"
proof
  assume "(root, x) \<in> (set g)\<^sup>*"
  then show "x \<in> reach_loop g [root] {}"
  proof (induction rule: rtrancl_induct)
    case base
    show ?case using reach_loop_closed [of "{}" g "[root]"] by auto
  next
    case (step y z)
    then show ?case using reach_loop_closed [of "{}" g "[root]"] by auto
  qed
qed (use reach_loop_sound in fastforce)

subsection \<open>Blocked searches\<close>

text \<open>The arcs between nodes that are not blocked.\<close>

definition free_arcs :: "'a graph \<Rightarrow> ('a \<Rightarrow> bool) \<Rightarrow> ('a \<times> 'a) set" where
  "free_arcs g blocked = {(a, b) \<in> set g. \<not> blocked a \<and> \<not> blocked b}"

lemma search_loop_sound:
  "search_loop g blocked hit p v \<Longrightarrow>
   \<exists>s \<in> set p. \<exists>k. \<not> blocked s \<and> (s, k) \<in> (free_arcs g blocked)\<^sup>* \<and> hit k"
proof (induction g blocked hit p v rule: search_loop.induct)
  case (2 g blocked hit key p v)
  show ?case
  proof (cases "key \<in> v \<or> blocked key")
    case False
    show ?thesis
    proof (cases "hit key")
      case True
      with False show ?thesis by auto
    next
      case nohit: False
      from "2.prems" False nohit
      have "search_loop g blocked hit (rev (succs g key) @ p) (insert key v)" by simp
      from "2.IH"(2) [OF False nohit this] obtain s k
        where s: "s \<in> set (rev (succs g key) @ p)" "\<not> blocked s" "(s, k) \<in> (free_arcs g blocked)\<^sup>*" "hit k"
        by blast
      show ?thesis
      proof (cases "s \<in> set p")
        case True
        with s show ?thesis by auto
      next
        case out: False
        with s False have "(key, s) \<in> free_arcs g blocked" by (auto simp: free_arcs_def)
        with s False show ?thesis by (auto intro: converse_rtrancl_into_rtrancl)
      qed
    qed
  qed (use 2 in auto)
qed simp

lemma search_loop_complete:
  assumes "\<not> search_loop g blocked hit p v"
    and "\<And>x. x \<in> v \<Longrightarrow> \<not> blocked x \<and> \<not> hit x"
    and "\<And>x t. x \<in> v \<Longrightarrow> (x, t) \<in> set g \<Longrightarrow> \<not> blocked t \<Longrightarrow> t \<in> v \<union> set p"
  shows "\<exists>w. v \<union> {x \<in> set p. \<not> blocked x} \<subseteq> w \<and> (\<forall>x \<in> w. \<not> hit x) \<and>
    (\<forall>x t. x \<in> w \<longrightarrow> (x, t) \<in> free_arcs g blocked \<longrightarrow> t \<in> w)"
  using assms
proof (induction g blocked hit p v rule: search_loop.induct)
  case (1 g blocked hit v)
  then show ?case by (intro exI [of _ v]) (auto simp: free_arcs_def)
next
  case (2 g blocked hit key p v)
  show ?case
  proof (cases "key \<in> v \<or> blocked key")
    case True
    have "\<exists>w. v \<union> {x \<in> set p. \<not> blocked x} \<subseteq> w \<and> (\<forall>x \<in> w. \<not> hit x) \<and>
        (\<forall>x t. x \<in> w \<longrightarrow> (x, t) \<in> free_arcs g blocked \<longrightarrow> t \<in> w)"
      by (rule "2.IH"(1) [OF True]) (use "2.prems" True in \<open>fastforce+\<close>)
    with True show ?thesis by auto
  next
    case False
    have nohit: "\<not> hit key" using "2.prems"(1) False by auto
    have "\<exists>w. insert key v \<union> {x \<in> set (rev (succs g key) @ p). \<not> blocked x} \<subseteq> w \<and> (\<forall>x \<in> w. \<not> hit x) \<and>
        (\<forall>x t. x \<in> w \<longrightarrow> (x, t) \<in> free_arcs g blocked \<longrightarrow> t \<in> w)"
      by (rule "2.IH"(2) [OF False nohit]) (use "2.prems" False nohit in auto)
    then show ?thesis by auto
  qed
qed

lemma search_loop_iff:
  "search_loop g blocked hit [root] {} \<longleftrightarrow>
     \<not> blocked root \<and> (\<exists>k. (root, k) \<in> (free_arcs g blocked)\<^sup>* \<and> hit k)"
proof
  assume r: "\<not> blocked root \<and> (\<exists>k. (root, k) \<in> (free_arcs g blocked)\<^sup>* \<and> hit k)"
  show "search_loop g blocked hit [root] {}"
  proof (rule ccontr)
    assume "\<not> search_loop g blocked hit [root] {}"
    from search_loop_complete [OF this] obtain w where "{x \<in> set [root]. \<not> blocked x} \<subseteq> w" "\<forall>x \<in> w. \<not> hit x"
      and w: "\<forall>x t. x \<in> w \<longrightarrow> (x, t) \<in> free_arcs g blocked \<longrightarrow> t \<in> w" by auto
    with r have root: "root \<in> w" and nohit: "\<forall>x \<in> w. \<not> hit x" by auto
    from r obtain k where k: "(root, k) \<in> (free_arcs g blocked)\<^sup>*" "hit k" by blast
    from k(1) have "k \<in> w"
    proof (induction rule: rtrancl_induct)
      case (step y z)
      with w show ?case by blast
    qed (rule root)
    with nohit k show False by blast
  qed
next
  assume "search_loop g blocked hit [root] {}"
  from search_loop_sound [OF this] show "\<not> blocked root \<and> (\<exists>k. (root, k) \<in> (free_arcs g blocked)\<^sup>* \<and> hit k)"
    by auto
qed


subsection \<open>Cycles\<close>

definition cycle_from :: "'a graph \<Rightarrow> 'a \<Rightarrow> bool" where
  "cycle_from g k \<longleftrightarrow> (\<exists>x. (k, x) \<in> (set g)\<^sup>* \<and> (x, x) \<in> (set g)\<^sup>+)"

text \<open>The nodes already left behind: closed under arcs, on no cycle, and off the current path.\<close>

definition explored :: "'a graph \<Rightarrow> 'a set \<Rightarrow> 'a set \<Rightarrow> bool" where
  "explored g v d \<longleftrightarrow> (\<forall>x \<in> d. \<forall>t. (x, t) \<in> set g \<longrightarrow> t \<in> d) \<and> (\<forall>x \<in> d. (x, x) \<notin> (set g)\<^sup>+) \<and> v \<inter> d = {}"

lemma explored_trancl: "explored g v d \<Longrightarrow> x \<in> d \<Longrightarrow> (x, y) \<in> (set g)\<^sup>+ \<Longrightarrow> y \<in> d"
  by (erule trancl_induct) (auto simp: explored_def)

lemma explored_insert:
  assumes "explored g (insert k v) d" "set (succs g k) \<subseteq> d" "k \<notin> v"
  shows "explored g v (insert k d)"
proof -
  have "(k, k) \<notin> (set g)\<^sup>+"
  proof
    assume "(k, k) \<in> (set g)\<^sup>+"
    then obtain t where t: "(k, t) \<in> set g" "(t, k) \<in> (set g)\<^sup>*" by (meson tranclD)
    then have "t \<in> d" using assms(2) by auto
    with t(2) explored_trancl [OF assms(1) this, of k] have "k \<in> d" by (auto simp: rtrancl_eq_or_trancl)
    with assms(1) show False by (auto simp: explored_def)
  qed
  with assms show ?thesis by (auto simp: explored_def)
qed

lemma cycle_from_step: "(k, t) \<in> (set g)\<^sup>* \<Longrightarrow> cycle_from g t \<Longrightarrow> cycle_from g k"
  unfolding cycle_from_def by (meson rtrancl_trans)

lemma visit_correct:
  fixes u :: "'a set"
  assumes u: "finite u" "snd ` set g \<subseteq> u"
  shows "\<lbrakk>key \<in> u; key \<notin> v; key \<notin> d; \<forall>x \<in> v. (x, key) \<in> (set g)\<^sup>+; explored g v d; card (u - v - d) \<le> n;
      visit_node n g key v d = (b, d')\<rbrakk> \<Longrightarrow>
    (if b then cycle_from g key else insert key d \<subseteq> d' \<and> explored g v d')"
  and "\<lbrakk>set ts \<subseteq> u; \<forall>x \<in> v. \<forall>t \<in> set ts. (x, t) \<in> (set g)\<^sup>+; explored g v d; card (u - v - d) \<le> n;
      visit_targets n g ts v d = (b, d')\<rbrakk> \<Longrightarrow>
    (if b then \<exists>t \<in> set ts. cycle_from g t else set ts \<union> d \<subseteq> d' \<and> explored g v d')"
  using u
proof (induction n g key v d and n g ts v d arbitrary: b d' and b d' rule: visit_node_visit_targets.induct)
  case (1 g key v d)
  then have "u - v - d = {}" by simp
  with 1 show ?case by blast
next
  case (2 n g key v d)
  obtain c e where e: "visit_targets n g (succs g key) (insert key v) d = (c, e)" by fastforce
  have reach: "\<forall>x \<in> insert key v. \<forall>t \<in> set (succs g key). (x, t) \<in> (set g)\<^sup>+"
    using "2.prems"(4) by (auto intro: trancl_into_trancl)
  have "u - insert key v - d \<subset> u - v - d" using "2.prems"(1,2,3) by auto
  then have "card (u - insert key v - d) < card (u - v - d)" by (rule psubset_card_mono [rotated]) (use "2.prems"(8) in simp)
  then have fuel: "card (u - insert key v - d) \<le> n" using "2.prems"(6) by simp
  have ex: "explored g (insert key v) d" using "2.prems"(3,5) by (simp add: explored_def)
  have sub: "set (succs g key) \<subseteq> u" using "2.prems"(9) by force
  from "2.IH" [OF sub reach ex fuel e "2.prems"(8,9)]
  have post: "if c then \<exists>t \<in> set (succs g key). cycle_from g t
    else set (succs g key) \<union> d \<subseteq> e \<and> explored g (insert key v) e" .
  show ?case
  proof (cases c)
    case True
    with post obtain t where "(key, t) \<in> set g" "cycle_from g t" by auto
    then have "cycle_from g key" by (auto intro: cycle_from_step [of key t])
    with True e "2.prems"(7) show ?thesis by simp
  next
    case False
    with post "2.prems"(2) have "explored g v (insert key e)" by (auto intro: explored_insert)
    with False post e "2.prems"(7) show ?thesis by auto
  qed
next
  case (4 n g t ts v d)
  consider (loop) "t \<in> v" | (seen) "t \<notin> v" "t \<in> d" | (new) "t \<notin> v" "t \<notin> d" by blast
  then show ?case
  proof cases
    case loop
    with "4.prems" have "cycle_from g t" by (auto simp: cycle_from_def)
    with loop "4.prems" show ?thesis by auto
  next
    case seen
    with "4.prems" "4.IH"(1) [OF seen] show ?thesis by (auto split: if_splits)
  next
    case new
    obtain c e where e: "visit_node n g t v d = (c, e)" by fastforce
    have reach: "\<forall>x \<in> v. (x, t) \<in> (set g)\<^sup>+" using "4.prems"(2) by simp
    have t: "t \<in> u" using "4.prems"(1) by simp
    from "4.IH"(2) [OF new t new reach "4.prems"(3,4) e "4.prems"(6,7)]
    have post: "if c then cycle_from g t else insert t d \<subseteq> e \<and> explored g v e" .
    show ?thesis
    proof (cases c)
      case True
      with post e new "4.prems"(5) show ?thesis by auto
    next
      case False
      have sub: "set ts \<subseteq> u" "\<forall>x \<in> v. \<forall>t \<in> set ts. (x, t) \<in> (set g)\<^sup>+" using "4.prems"(1,2) by auto
      have "card (u - v - e) \<le> card (u - v - d)" using False post "4.prems"(6) by (intro card_mono) auto
      then have fuel: "card (u - v - e) \<le> n" using "4.prems"(4) by simp
      have go: "visit_targets n g ts v e = (b, d')" using False new e "4.prems"(5) by simp
      have "explored g v e" using False post by simp
      from "4.IH"(3) [OF new e [symmetric] _ sub this fuel go "4.prems"(6,7)] False post
      show ?thesis by (auto split: if_splits)
    qed
  qed
qed auto

lemma has_cycle_iff: "has_cycle g root \<longleftrightarrow> cycle_from g root"
proof -
  let ?u = "insert root (snd ` set g)"
  obtain b d where b: "visit_node (length g + 2) g root {} {} = (b, d)" by fastforce
  have "card ?u \<le> Suc (length g)"
    using card_length [of "root # map snd g"] by simp
  then have "card (?u - {} - {}) \<le> length g + 2" by simp
  then have post: "if b then cycle_from g root else {root} \<subseteq> d \<and> explored g {} d"
    by (intro visit_correct(1) [of ?u g root "{}" "{}" "length g + 2" b d] b) (auto simp: explored_def)
  show ?thesis
  proof (cases b)
    case False
    with post have "x \<in> d" if "(root, x) \<in> (set g)\<^sup>*" for x
      using that explored_trancl [of g "{}" d root x] by (auto simp: rtrancl_eq_or_trancl)
    with False post have "\<not> cycle_from g root" by (auto simp: cycle_from_def explored_def)
    with False b show ?thesis by (simp add: has_cycle_def)
  qed (use post b in \<open>simp add: has_cycle_def\<close>)
qed


subsection \<open>Depth\<close>

text \<open>\<open>walk_to g root k c\<close>: a walk with \<open>c\<close> nodes leads from the root to \<open>k\<close>.\<close>

inductive walk_to :: "'a graph \<Rightarrow> 'a \<Rightarrow> 'a \<Rightarrow> nat \<Rightarrow> bool" for g root where
  start: "walk_to g root root 1"
| step: "walk_to g root k c \<Longrightarrow> (k, t) \<in> set g \<Longrightarrow> walk_to g root t (c + 1)"

lemma walk_to_pos: "walk_to g root k c \<Longrightarrow> 1 \<le> c"
  by (induction rule: walk_to.induct) auto

lemma walk_to_reach: "walk_to g root k c \<Longrightarrow> (root, k) \<in> (set g)\<^sup>*"
  by (induction rule: walk_to.induct) (auto intro: rtrancl_into_rtrancl)

lemma reach_nodes: "(root, x) \<in> (set g)\<^sup>* \<Longrightarrow> x \<in> insert root (snd ` set g)"
  by (erule rtranclE) force+

text \<open>Without a reachable cycle a walk has no more nodes than the graph.\<close>

lemma walk_to_bounded:
  assumes "\<not> cycle_from g root" "walk_to g root k c"
  shows "c \<le> card (insert root (snd ` set g))"
proof -
  let ?anc = "\<lambda>k. {x. (root, x) \<in> (set g)\<^sup>* \<and> (x, k) \<in> (set g)\<^sup>*}"
  have sub: "?anc k \<subseteq> insert root (snd ` set g)" for k
  proof
    fix x
    assume "x \<in> ?anc k"
    then show "x \<in> insert root (snd ` set g)" by (intro reach_nodes) simp
  qed
  then have fin: "finite (?anc k)" for k by (rule finite_subset) simp
  from assms(2) have "c \<le> card (?anc k)"
  proof (induction rule: walk_to.induct)
    case start
    have "{root} \<subseteq> ?anc root" by simp
    then have "card {root} \<le> card (?anc root)" using fin by (rule card_mono [rotated])
    then show ?case by simp
  next
    case (step k c t)
    have r: "(root, t) \<in> (set g)\<^sup>*" using walk_to_reach [OF step(1)] step(2) by (rule rtrancl_into_rtrancl)
    have "t \<notin> ?anc k"
    proof
      assume "t \<in> ?anc k"
      with step(2) have "(t, t) \<in> (set g)\<^sup>+" by (auto intro: rtrancl_into_trancl1)
      with r assms(1) show False by (auto simp: cycle_from_def)
    qed
    moreover have "insert t (?anc k) \<subseteq> ?anc t" using r step(2) by (auto intro: rtrancl_into_rtrancl)
    then have "card (insert t (?anc k)) \<le> card (?anc t)" using fin by (rule card_mono [rotated])
    ultimately show ?case using step.IH fin by simp
  qed
  also have "\<dots> \<le> card (insert root (snd ` set g))"
    by (rule card_mono [OF _ sub]) simp
  finally show ?thesis .
qed

text \<open>A node is known to lie at least \<open>c\<close> deep: it was visited there or deeper, or still is to be.\<close>

definition at_least :: "('a, nat) dict \<Rightarrow> ('a \<times> nat) list \<Rightarrow> 'a \<Rightarrow> nat \<Rightarrow> bool" where
  "at_least visited pending k c \<longleftrightarrow> (\<exists>c' \<ge> c. dget visited k = Some c' \<or> (k, c') \<in> set pending)"

lemma at_least_mono:
  assumes "at_least v p k c"
    and "\<And>k c. dget v k = Some c \<Longrightarrow> at_least v' p' k c" "\<And>k c. (k, c) \<in> set p \<Longrightarrow> at_least v' p' k c"
  shows "at_least v' p' k c"
proof -
  from assms(1) obtain c' where c': "c \<le> c'" "dget v k = Some c' \<or> (k, c') \<in> set p"
    unfolding at_least_def by blast
  then have "at_least v' p' k c'" using assms(2,3) by blast
  with c'(1) show ?thesis unfolding at_least_def using order_trans by blast
qed

definition depth_inv :: "'a graph \<Rightarrow> 'a \<Rightarrow> ('a \<times> nat) list \<Rightarrow> ('a, nat) dict \<Rightarrow> nat \<Rightarrow> bool" where
  "depth_inv g root pending visited depth \<longleftrightarrow>
     (\<forall>k c. (k, c) \<in> set pending \<longrightarrow> walk_to g root k c) \<and>
     (\<forall>k c. dget visited k = Some c \<longrightarrow> walk_to g root k c \<and> c \<le> depth) \<and>
     (depth = 0 \<or> (\<exists>k. walk_to g root k depth)) \<and>
     (\<forall>k c t. dget visited k = Some c \<longrightarrow> (k, t) \<in> set g \<longrightarrow> at_least visited pending t (c + 1)) \<and>
     at_least visited pending root 1"

lemma depth_inv_end:
  assumes "depth_inv g root [] visited depth"
  shows "(\<exists>k. walk_to g root k depth) \<and> (\<forall>k c. walk_to g root k c \<longrightarrow> c \<le> depth)"
proof -
  note inv = assms [unfolded depth_inv_def]
  have seen: "at_least visited [] k c" if "walk_to g root k c" for k c
    using that
  proof (induction rule: walk_to.induct)
    case start
    then show ?case using inv by blast
  next
    case (step k c t)
    then obtain c' where c': "c \<le> c'" "dget visited k = Some c'" by (auto simp: at_least_def)
    with step(2) inv have "at_least visited [] t (c' + 1)" by blast
    with c'(1) show ?case unfolding at_least_def by (meson add_le_mono1 order_trans)
  qed
  have le: "c \<le> depth" if "walk_to g root k c" for k c
  proof -
    from seen [OF that] obtain c' where "c \<le> c'" "dget visited k = Some c'" by (auto simp: at_least_def)
    with inv show ?thesis using order_trans by blast
  qed
  then have "depth \<noteq> 0" using le [OF walk_to.start] by simp
  with le inv show ?thesis by blast
qed

lemma depth_inv_skip:
  assumes "depth_inv g root ((k, c) # rest) visited depth" "c \<le> dget_or 0 visited k"
  shows "depth_inv g root rest visited depth"
proof -
  note inv = assms(1) [unfolded depth_inv_def]
  have "walk_to g root k c" using inv by simp
  then have "1 \<le> c" by (rule walk_to_pos)
  with assms(2) obtain v where v: "dget visited k = Some v" "c \<le> v"
    by (auto simp: dget_or_def split: option.splits)
  have "at_least visited rest t d" if "at_least visited ((k, c) # rest) t d" for t d
    by (rule at_least_mono [OF that]) (use v in \<open>auto simp: at_least_def\<close>)
  with inv show ?thesis unfolding depth_inv_def by auto
qed

lemma depth_inv_process:
  assumes "depth_inv g root ((k, c) # rest) visited depth" "dget_or 0 visited k < c"
  shows "depth_inv g root (rest @ map (\<lambda>t. (t, c + 1)) (succs g k)) (dset k c visited) (max depth c)"
proof -
  note inv = assms(1) [unfolded depth_inv_def]
  let ?p = "rest @ map (\<lambda>t. (t, c + 1)) (succs g k)" and ?v = "dset k c visited"
  have k: "walk_to g root k c" using inv by simp
  have mono: "at_least ?v ?p t d" if "at_least visited ((k, c) # rest) t d" for t d
  proof (rule at_least_mono [OF that])
    show "at_least ?v ?p x e" if "dget visited x = Some e" for x e
      using that assms(2) by (cases "x = k") (auto simp: at_least_def dget_or_def intro: less_imp_le)
  qed (auto simp: at_least_def)
  have "at_least ?v ?p t (d + 1)" if "dget ?v x = Some d" "(x, t) \<in> set g" for x d t
  proof (cases "x = k")
    case True
    with that show ?thesis by (auto simp: at_least_def)
  next
    case False
    with that inv have "at_least visited ((k, c) # rest) t (d + 1)" by auto
    then show ?thesis by (rule mono)
  qed
  moreover have "walk_to g root x d" if "(x, d) \<in> set ?p" for x d
    using that inv walk_to.step [OF k] by auto
  moreover have "walk_to g root x d \<and> d \<le> max depth c" if "dget ?v x = Some d" for x d
    using that inv k by (auto split: if_splits simp: le_max_iff_disj)
  moreover have "max depth c = 0 \<or> (\<exists>x. walk_to g root x (max depth c))"
    using inv k by (cases "depth \<le> c") (auto simp: max_def)
  ultimately show ?thesis using inv mono unfolding depth_inv_def by blast
qed

definition room :: "'a graph \<Rightarrow> 'a \<Rightarrow> ('a, nat) dict \<Rightarrow> nat" where
  "room g root visited = (let u = insert root (snd ` set g) in \<Sum>k \<in> u. card u - dget_or 0 visited k)"

lemma depth_loop_result:
  assumes "\<not> cycle_from g root" "depth_inv g root pending visited depth"
  shows "\<exists>d. depth_loop g pending visited depth = Some d \<and>
    (\<exists>k. walk_to g root k d) \<and> (\<forall>k c. walk_to g root k c \<longrightarrow> c \<le> d)"
  using assms(2)
proof (induction "(room g root visited, length pending)" arbitrary: pending visited depth rule: less_induct)
  case less
  show ?case
  proof (cases pending)
    case Nil
    then show ?thesis using depth_inv_end less.prems by (simp add: depth_loop.simps)
  next
    case (Cons q rest)
    obtain k c where q: "q = (k, c)" by fastforce
    note inv = less.prems [unfolded Cons q]
    show ?thesis
    proof (cases "c \<le> dget_or 0 visited k")
      case True
      have "\<exists>d. depth_loop g rest visited depth = Some d \<and> (\<exists>k. walk_to g root k d) \<and>
          (\<forall>k c. walk_to g root k c \<longrightarrow> c \<le> d)"
        by (rule less.hyps [OF _ depth_inv_skip [OF inv True]]) (simp add: Cons less_prod_simp)
      with True show ?thesis by (subst depth_loop.simps) (simp add: Cons q)
    next
      case False
      let ?u = "insert root (snd ` set g)"
      have w: "walk_to g root k c" using inv by (simp add: depth_inv_def)
      have c: "c \<le> card ?u" by (rule walk_to_bounded [OF assms(1) w])
      have k: "k \<in> ?u" by (rule reach_nodes [OF walk_to_reach [OF w]])
      have "room g root (dset k c visited) < room g root visited"
        unfolding room_def Let_def
        by (rule sum_strict_mono_ex1) (use False c k in \<open>auto simp: dget_or_def split: option.splits\<close>)
      then have "\<exists>d. depth_loop g (rest @ map (\<lambda>t. (t, c + 1)) (succs g k)) (dset k c visited) (max depth c) = Some d \<and>
          (\<exists>k. walk_to g root k d) \<and> (\<forall>k c. walk_to g root k c \<longrightarrow> c \<le> d)"
        by (intro less.hyps depth_inv_process inv) (use False in \<open>simp_all add: less_prod_simp\<close>)
      with False show ?thesis by (subst depth_loop.simps) (simp add: Cons q)
    qed
  qed
qed

lemma depth_result:
  assumes "\<not> cycle_from g root"
  shows "\<exists>d. depth_loop g [(root, 1)] [] 0 = Some d \<and>
    (\<exists>k. walk_to g root k d) \<and> (\<forall>k c. walk_to g root k c \<longrightarrow> c \<le> d)"
  by (rule depth_loop_result [OF assms]) (use walk_to.start [of g root] in \<open>auto simp: depth_inv_def at_least_def\<close>)

subsection \<open>Walks as lists\<close>

fun walk :: "'a graph \<Rightarrow> 'a list \<Rightarrow> bool" where
  "walk g [] = False"
| "walk g [k] = True"
| "walk g (k # l # ks) \<longleftrightarrow> (k, l) \<in> set g \<and> walk g (l # ks)"

lemma walk_free:
  "walk g ks \<Longrightarrow> \<forall>k \<in> set ks. \<not> blocked k \<Longrightarrow> (hd ks, last ks) \<in> (free_arcs g blocked)\<^sup>*"
  by (induction g ks rule: walk.induct)
    (auto simp: free_arcs_def intro: converse_rtrancl_into_rtrancl)

lemma walk_to_prepend: "walk_to g l k c \<Longrightarrow> (j, l) \<in> set g \<Longrightarrow> walk_to g j k (Suc c)"
proof (induction rule: walk_to.induct)
  case start
  then show ?case using walk_to.step [OF walk_to.start] by fastforce
next
  case (step k c t)
  then show ?case using walk_to.step by fastforce
qed

lemma walk_walk_to: "walk g ks \<Longrightarrow> walk_to g (hd ks) (last ks) (length ks)"
proof (induction g ks rule: walk.induct)
  case (2 g k)
  then show ?case using walk_to.start by fastforce
next
  case (3 g k l ks)
  then have "walk_to g l (last (l # ks)) (length (l # ks))" by simp
  with 3 have "walk_to g k (last (l # ks)) (Suc (length (l # ks)))" by (intro walk_to_prepend) auto
  then show ?case by simp
qed simp

text \<open>A search that finds nothing has a blocked node on every walk to what it looks for.\<close>

lemma search_none_blocks:
  assumes "\<not> search_loop g blocked hit [start] {}" "walk g ks" "hd ks = start" "hit (last ks)"
  shows "\<exists>k \<in> set ks. blocked k"
proof (rule ccontr)
  assume "\<not> ?thesis"
  then have "(start, last ks) \<in> (free_arcs g blocked)\<^sup>*" "\<not> blocked start"
    using walk_free [OF assms(2), of blocked] assms(2,3) by (cases ks; auto)+
  with assms(1,4) show False unfolding search_loop_iff by blast
qed

subsection \<open>Breadth-first search\<close>

text \<open>The searches of the template validator, which mark a node when it enters the queue.\<close>

definition unseen :: "'a list \<Rightarrow> 'a set \<Rightarrow> 'a list" where
  "unseen targets seen = rev (remdups (rev (filter (\<lambda>t. t \<notin> seen) targets)))"

lemma set_unseen [simp]: "set (unseen targets seen) = set targets - seen"
  by (auto simp: unseen_def)

function bfs_loop :: "'a graph \<Rightarrow> 'a list \<Rightarrow> 'a set \<Rightarrow> 'a set" where
  "bfs_loop g [] seen = seen"
| "bfs_loop g (current # frontier) seen =
    (let fresh = unseen (succs g current) seen in bfs_loop g (frontier @ fresh) (seen \<union> set fresh))"
  by pat_completeness auto
termination
proof (relation "measures [\<lambda>(g, f, s). card (snd ` set g - s), \<lambda>(g, f, s). length f]", goal_cases)
  case (2 g current f s fresh)
  show ?case
  proof (cases "fresh = []")
    case False
    then obtain t where "t \<in> set fresh" by (cases fresh) auto
    moreover have "set fresh \<subseteq> snd ` set g - s" using 2 by force
    ultimately have "snd ` set g - (s \<union> set fresh) \<subset> snd ` set g - s" by blast
    from psubset_card_mono [OF _ this] show ?thesis by simp
  qed simp
qed simp

lemma bfs_loop_props:
  assumes "set f \<subseteq> s" "\<And>x t. x \<in> s \<Longrightarrow> x \<notin> set f \<Longrightarrow> (x, t) \<in> set g \<Longrightarrow> t \<in> s"
  shows "s \<subseteq> bfs_loop g f s \<and> (\<forall>x t. x \<in> bfs_loop g f s \<longrightarrow> (x, t) \<in> set g \<longrightarrow> t \<in> bfs_loop g f s) \<and>
    (\<forall>x \<in> bfs_loop g f s. x \<in> s \<or> (\<exists>r \<in> s. (r, x) \<in> (set g)\<^sup>*))"
  using assms
proof (induction g f s rule: bfs_loop.induct)
  case (1 g s)
  then show ?case by auto
next
  case (2 g current f s)
  let ?fresh = "unseen (succs g current) s"
  let ?s = "s \<union> set ?fresh"
  let ?b = "bfs_loop g (f @ ?fresh) ?s"
  have ih: "?s \<subseteq> ?b \<and> (\<forall>x t. x \<in> ?b \<longrightarrow> (x, t) \<in> set g \<longrightarrow> t \<in> ?b) \<and>
    (\<forall>x \<in> ?b. x \<in> ?s \<or> (\<exists>r \<in> ?s. (r, x) \<in> (set g)\<^sup>*))"
  proof (rule "2.IH" [OF refl])
    show "set (f @ ?fresh) \<subseteq> ?s" using "2.prems"(1) by auto
    show "t \<in> ?s" if "x \<in> ?s" "x \<notin> set (f @ ?fresh)" "(x, t) \<in> set g" for x t
      using that "2.prems"(2) [of x t] by (cases "x = current") auto
  qed
  have origin: "\<exists>r \<in> s. (r, x) \<in> (set g)\<^sup>*" if "r \<in> ?s" "(r, x) \<in> (set g)\<^sup>*" for r x
    using that "2.prems"(1) by (auto intro: converse_rtrancl_into_rtrancl)
  have "\<exists>r \<in> s. (r, x) \<in> (set g)\<^sup>*" if "x \<in> ?b" for x
    using ih that origin [of x x] origin by blast
  moreover have "bfs_loop g (current # f) s = ?b" by (simp add: Let_def)
  ultimately show ?case using ih by simp
qed

lemma bfs_loop_iff: "x \<in> bfs_loop g f (set f) \<longleftrightarrow> (\<exists>r \<in> set f. (r, x) \<in> (set g)\<^sup>*)"
proof -
  note p = bfs_loop_props [of f "set f" g]
  have "x \<in> bfs_loop g f (set f)" if "r \<in> set f" "(r, x) \<in> (set g)\<^sup>*" for r
    using that(2)
  proof (induction rule: rtrancl_induct)
    case base
    then show ?case using that(1) p by auto
  next
    case (step y z)
    then show ?case using p by auto
  qed
  then show ?thesis using p by auto
qed

end
