(* ===== verification/Graph_Validator.thy ===== *)
theory Graph_Validator
  imports Condition_DSL Graph_Search
begin

text \<open>
  The validator of proposed workflows, \<^verbatim>\<open>src/accretion/orchestration/validator.py\<close>, with the models of
  \<^verbatim>\<open>src/accretion/orchestration/models.py\<close> it reads. A finding has its code, path and repairability; the text
  of its message is left out. \<open>normalized_hash\<close> (canonical JSON and a digest) is an argument. The graph the
  searches run on is the list of arcs of the edges whose endpoints are known, in edge order.

  Shown: what an accepted proposal guarantees about every walk through its graph and about the
  privileges of its nodes, and how the status follows from the findings.
\<close>

subsection \<open>Models\<close>

datatype RuntimeRequirement = Rt_ANY | Rt_CLAUDE | Rt_CODEX | Rt_DETERMINISTIC | Rt_HUMAN

datatype PlannerRuntime = Plan_AUTO | Plan_CLAUDE | Plan_CODEX | Plan_DETERMINISTIC

record DynamicWorkflowNodeSpec =
  dn_local_id :: string
  dn_kind :: GraphNodeKind
  dn_objective :: string
  dn_input_contract :: "(string, json) dict"
  dn_output_contract :: "(string, json) dict"
  dn_runtime_requirement :: RuntimeRequirement
  dn_skill_refs :: "string list"
  dn_capability_refs :: "string list"
  dn_verifier_refs :: "string list"
  dn_risk_level :: RiskLevel
  dn_max_attempts :: int
  dn_timeout_seconds :: int
  dn_loop_max_iterations :: "int option"
  dn_checkpoint :: bool
  dn_fragment_ref :: "string option"

record DynamicWorkflowEdgeSpec =
  de_local_id :: string
  de_source :: string
  de_target :: string
  de_kind :: GraphEdgeKind
  de_condition :: "TypedCondition option"
  de_max_traversals :: "int option"

record SearchBudgetRequest =
  sb_branch_count :: int
  sb_max_parallel :: int
  sb_total :: TaskBudgets

record WorkflowProposal =
  wp_proposal_id :: string
  wp_task_id :: string
  wp_run_id :: "string option"
  wp_based_on_graph_revision :: "int option"
  wp_planner_version :: string
  wp_planner_runtime :: PlannerRuntime
  wp_objective :: string
  wp_assumptions :: "string list"
  wp_nodes :: "DynamicWorkflowNodeSpec list"
  wp_edges :: "DynamicWorkflowEdgeSpec list"
  wp_required_capabilities :: "string list"
  wp_requested_search_budget :: "SearchBudgetRequest option"
  wp_expected_verifiers :: "string list"
  wp_expected_approval_gates :: "string list"
  wp_rationale_summary :: string
  wp_confidence :: pyfloat
  wp_provenance_refs :: "string list"
  wp_fragment_refs :: "string list"
  wp_repair_attempt :: int
  wp_created_at :: timestamp

record ValidationFinding =
  vf_code :: string
  vf_path :: "string option"
  vf_repairable :: bool

datatype GraphValidationStatus = Val_ACCEPT | Val_REJECT | Val_REPAIRABLE

record GraphValidationResult =
  gv_proposal_id :: string
  gv_status :: GraphValidationStatus
  gv_errors :: "ValidationFinding list"
  gv_normalized_graph_hash :: "string option"

record CapabilitySnapshot =
  cs_capabilities :: "(string, RiskLevel) dict"
  cs_protected_capabilities :: "string list"
  cs_skills :: "string list"
  cs_verifiers :: "string list"
  cs_available_runtimes :: "Provider list"

record PolicySnapshot =
  ps_allowed_capabilities :: "string list"
  ps_denied_capabilities :: "string list"
  ps_required_verifiers :: "string list"
  ps_require_approval_at_or_above :: RiskLevel
  ps_maximum_risk :: RiskLevel
  ps_execution_runtime :: "Provider option"

definition MAX_NODES :: nat where "MAX_NODES = 32"
definition MAX_EDGES :: nat where "MAX_EDGES = 64"
definition MAX_DEPTH :: nat where "MAX_DEPTH = 8"
definition MAX_FANOUT :: int where "MAX_FANOUT = 4"
definition MAX_TRAVERSALS :: int where "MAX_TRAVERSALS = 3"

abbreviation err :: "string \<Rightarrow> string option \<Rightarrow> bool \<Rightarrow> ValidationFinding" where
  "err code path repairable \<equiv> \<lparr>vf_code = code, vf_path = path, vf_repairable = repairable\<rparr>"

abbreviation report :: "bool \<Rightarrow> ValidationFinding \<Rightarrow> ValidationFinding list" where
  "report b f \<equiv> (if b then [f] else [])"

subsection \<open>The graph of a proposal\<close>

definition node_table :: "WorkflowProposal \<Rightarrow> (string, DynamicWorkflowNodeSpec) dict" where
  "node_table p = dict_of (map (\<lambda>n. (dn_local_id n, n)) (wp_nodes p))"

definition known_edge :: "(string, DynamicWorkflowNodeSpec) dict \<Rightarrow> DynamicWorkflowEdgeSpec \<Rightarrow> bool" where
  "known_edge nodes e \<longleftrightarrow> dhas nodes (de_source e) \<and> dhas nodes (de_target e)"

definition bounded_kind :: "GraphEdgeKind \<Rightarrow> bool" where
  "bounded_kind k \<longleftrightarrow> k \<in> {Edge_LOOP_BACK, Edge_RETRY}"

definition known_edges :: "WorkflowProposal \<Rightarrow> DynamicWorkflowEdgeSpec list" where
  "known_edges p = filter (known_edge (node_table p)) (wp_edges p)"

definition arcs :: "WorkflowProposal \<Rightarrow> string graph" where
  "arcs p = map (\<lambda>e. (de_source e, de_target e)) (known_edges p)"

definition forward_arcs :: "WorkflowProposal \<Rightarrow> string graph" where
  "forward_arcs p = map (\<lambda>e. (de_source e, de_target e)) (filter (\<lambda>e. \<not> bounded_kind (de_kind e)) (known_edges p))"

definition roots :: "WorkflowProposal \<Rightarrow> string list" where
  "roots p = filter (\<lambda>k. \<not> list_ex (\<lambda>e. de_target e = k) (known_edges p)) (map fst (node_table p))"

definition terminals :: "WorkflowProposal \<Rightarrow> string list" where
  "terminals p = map fst (filter (\<lambda>(k, n). dn_kind n = Kind_TERMINAL) (node_table p))"

definition node_kind :: "WorkflowProposal \<Rightarrow> string \<Rightarrow> GraphNodeKind" where
  "node_kind p k = dn_kind (the (dget (node_table p) k))"

definition reachable :: "WorkflowProposal \<Rightarrow> string \<Rightarrow> string set" where
  "reachable p start = reach_loop (arcs p) [start] {}"

definition has_unbounded_cycle :: "WorkflowProposal \<Rightarrow> string \<Rightarrow> bool" where
  "has_unbounded_cycle p start = has_cycle (forward_arcs p) start"

definition depth :: "WorkflowProposal \<Rightarrow> string \<Rightarrow> nat option" where
  "depth p start = depth_loop (forward_arcs p) [(start, 1)] [] 0"

definition terminal_reachable_without_kind :: "WorkflowProposal \<Rightarrow> string \<Rightarrow> GraphNodeKind \<Rightarrow> bool" where
  "terminal_reachable_without_kind p start blocked_kind =
    search_loop (arcs p) (\<lambda>k. node_kind p k = blocked_kind) (\<lambda>k. k \<in> set (terminals p)) [start] {}"

definition target_reachable_without_kind ::
  "WorkflowProposal \<Rightarrow> string \<Rightarrow> string \<Rightarrow> GraphNodeKind \<Rightarrow> bool" where
  "target_reachable_without_kind p start target blocked_kind =
    search_loop (arcs p) (\<lambda>k. node_kind p k = blocked_kind) (\<lambda>k. k = target) [start] {}"

subsection \<open>Checks\<close>

text \<open>\<open>str_upper\<close> is \<open>str.upper\<close> on ASCII text; the few other letters Python maps to ASCII ones are left out.\<close>

fun unsupported_condition :: "TypedCondition option \<Rightarrow> bool" where
  "unsupported_condition None = True"
| "unsupported_condition (Some c) \<longleftrightarrow> tc_operator c \<noteq> Op_EQ \<or> tc_path c \<noteq> Some ''node.outcome'' \<or>
    (case tc_value c of JStr s \<Rightarrow> str_upper s \<notin>
        {''SUCCESS'', ''FAIL'', ''INCONCLUSIVE'', ''APPROVED'', ''DENIED''} | _ \<Rightarrow> True)"

definition edge_findings ::
  "(string, DynamicWorkflowNodeSpec) dict \<Rightarrow> nat \<times> DynamicWorkflowEdgeSpec \<Rightarrow> ValidationFinding list" where
  "edge_findings nodes = (\<lambda>(index, e).
    let path = ''edges.'' @ show_nat index in
    if \<not> known_edge nodes e then [err ''UNKNOWN_ENDPOINT'' (Some path) False]
    else
      report (bounded_kind (de_kind e) \<and> (case de_max_traversals e of None \<Rightarrow> True | Some n \<Rightarrow> n > MAX_TRAVERSALS))
        (err ''UNBOUNDED_TRAVERSAL'' None False) @
      (case de_condition e of None \<Rightarrow> []
       | Some c \<Rightarrow> map (\<lambda>_. err ''INVALID_CONDITION'' (Some (path @ ''.condition'')) False) (validate_condition c 1)) @
      report (de_kind e \<in> {Edge_ERROR, Edge_FANOUT, Edge_MERGE, Edge_LOOP_BACK})
        (err ''P5_EXECUTOR_UNSUPPORTED_EDGE'' (Some (path @ ''.kind'')) False) @
      report (de_kind e = Edge_CONDITION \<and> unsupported_condition (de_condition e))
        (err ''P5_EXECUTOR_UNSUPPORTED_CONDITION'' (Some (path @ ''.condition'')) False))"

definition protected_node :: "CapabilitySnapshot \<Rightarrow> PolicySnapshot \<Rightarrow> DynamicWorkflowNodeSpec \<Rightarrow> bool" where
  "protected_node cs ps n \<longleftrightarrow>
     RISK_RANK (dn_risk_level n) \<ge> RISK_RANK (ps_require_approval_at_or_above ps) \<or>
     set (dn_capability_refs n) \<inter> set (cs_protected_capabilities cs) \<noteq> {}"

text \<open>The fan-out of each source, in the order of the sources' first edges.\<close>

definition fanout_findings :: "WorkflowProposal \<Rightarrow> TaskBudgets \<Rightarrow> ValidationFinding list" where
  "fanout_findings p budget = concat (map (\<lambda>key.
     report (int (length (filter (\<lambda>e. de_source e = key \<and> de_kind e = Edge_FANOUT) (known_edges p))) >
         min MAX_FANOUT (tb_max_parallel_runs budget)) (err ''FANOUT_EXCEEDED'' None False))
     (rev (remdups (rev (map de_source (known_edges p))))))"

text \<open>\<open>if roots:\<close> and its body. The depth is asked for only without an unbounded cycle.\<close>

definition walk_findings ::
  "WorkflowProposal \<Rightarrow> CapabilitySnapshot \<Rightarrow> PolicySnapshot \<Rightarrow> ValidationFinding list res" where
  "walk_findings p cs ps =
    (case roots p of
       [] \<Rightarrow> Inr []
     | start # _ \<Rightarrow>
       let unreachable = sort (filter (\<lambda>k. k \<notin> reachable p start) (map fst (node_table p)));
           before = map (\<lambda>_. err ''UNREACHABLE_NODE'' None True) unreachable @
             report (\<not> list_ex (\<lambda>k. k \<in> reachable p start) (terminals p))
               (err ''UNREACHABLE_TERMINAL'' None False);
           after = report (ps_required_verifiers ps \<noteq> [] \<and> terminal_reachable_without_kind p start Kind_VERIFIER)
               (err ''VERIFIER_BYPASS'' None False) @
             report (list_ex (protected_node cs ps) (wp_nodes p) \<and> terminal_reachable_without_kind p start Kind_GATE)
               (err ''APPROVAL_BYPASS'' None False) @
             concat (map (\<lambda>n. report (protected_node cs ps n \<and>
                 dn_kind n \<in> {Kind_AGENT, Kind_TOOL, Kind_LOOP} \<and>
                 target_reachable_without_kind p start (dn_local_id n) Kind_GATE)
               (err ''APPROVAL_BEFORE_PROTECTED_NODE'' None False)) (wp_nodes p))
       in if has_unbounded_cycle p start
          then Inr (before @ [err ''UNBOUNDED_CYCLE'' None False] @ after)
          else (case depth p start of
             None \<Rightarrow> Inl (RuntimeError ''no result'')
           | Some d \<Rightarrow> Inr (before @ report (d > MAX_DEPTH) (err ''GRAPH_TOO_DEEP'' None True) @ after)))"

fun required_provider :: "RuntimeRequirement \<Rightarrow> Provider option" where
  "required_provider Rt_CLAUDE = Some Prov_CLAUDE"
| "required_provider Rt_CODEX = Some Prov_CODEX"
| "required_provider Rt_DETERMINISTIC = Some Prov_DETERMINISTIC"
| "required_provider _ = None"

definition capability_findings ::
  "CapabilitySnapshot \<Rightarrow> PolicySnapshot \<Rightarrow> string option \<Rightarrow> string \<Rightarrow> ValidationFinding list" where
  "capability_findings cs ps path c =
    (if \<not> dhas (cs_capabilities cs) c then [err ''UNKNOWN_CAPABILITY'' path False]
     else if c \<in> set (ps_denied_capabilities ps) then [err ''DENIED_CAPABILITY'' path False]
     else if ps_allowed_capabilities ps \<noteq> [] \<and> c \<notin> set (ps_allowed_capabilities ps)
       then [err ''PRIVILEGE_EXPANSION'' path False] else [])"

definition validate_node ::
  "CapabilitySnapshot \<Rightarrow> PolicySnapshot \<Rightarrow> TaskBudgets \<Rightarrow> nat \<times> DynamicWorkflowNodeSpec \<Rightarrow>
     ValidationFinding list" where
  "validate_node cs ps budget = (\<lambda>(index, n).
    let path = Some (''nodes.'' @ show_nat index); required = required_provider (dn_runtime_requirement n) in
    concat (map (capability_findings cs ps path) (dn_capability_refs n)) @
    concat (map (\<lambda>s. report (s \<notin> set (cs_skills cs)) (err ''UNKNOWN_SKILL'' path False)) (dn_skill_refs n)) @
    concat (map (\<lambda>v. report (v \<notin> set (cs_verifiers cs)) (err ''UNKNOWN_VERIFIER'' path False)) (dn_verifier_refs n)) @
    report (RISK_RANK (dn_risk_level n) > RISK_RANK (ps_maximum_risk ps)) (err ''RISK_EXPANSION'' path False) @
    report (required \<noteq> None \<and> the required \<notin> set (cs_available_runtimes cs))
      (err ''RUNTIME_UNAVAILABLE'' path False) @
    report (required \<noteq> None \<and> the required \<in> LIVE_PROVIDERS \<and> ps_execution_runtime ps \<noteq> None \<and>
        required \<noteq> ps_execution_runtime ps) (err ''RUNTIME_INCOMPATIBLE'' path False) @
    report (dn_runtime_requirement n = Rt_HUMAN \<and> dn_kind n \<notin> {Kind_GATE, Kind_HUMAN})
      (err ''HUMAN_RUNTIME_KIND_MISMATCH'' path False) @
    report (dn_timeout_seconds n > tb_wall_time_seconds budget) (err ''NODE_TIMEOUT_EXCEEDED'' path True))"

definition identifier_findings :: "nat \<times> DynamicWorkflowNodeSpec \<Rightarrow> ValidationFinding list" where
  "identifier_findings = (\<lambda>(index, n). report (length (dn_local_id n) > 32 \<or>
      dn_kind n = Kind_LOOP \<and> length (dn_local_id n) > 24)
    (err ''P5_EXECUTOR_IDENTIFIER_TOO_LONG'' (Some (''nodes.'' @ show_nat index @ ''.local_id'')) False))"

text \<open>\<open>set(value)\<close> of a JSON value: the elements, which must be hashable.\<close>

definition py_set :: "json \<Rightarrow> json list res" where
  "py_set v = (case v of
     JList xs \<Rightarrow> if list_ex (\<lambda>x. case x of JList _ \<Rightarrow> True | JObj _ \<Rightarrow> True | _ \<Rightarrow> False) xs
       then Inl (TypeError ''unhashable'') else Inr xs
   | JStr s \<Rightarrow> Inr (map (\<lambda>c. JStr [c]) s)
   | JObj kvs \<Rightarrow> Inr (map (\<lambda>(k, _). JStr k) kvs)
   | _ \<Rightarrow> Inl (TypeError ''not iterable''))"

text \<open>\<open>sorted(...)\<close> of a set of values raises when two of them are not comparable.\<close>

definition sortable :: "json list \<Rightarrow> bool" where
  "sortable xs \<longleftrightarrow> list_all (\<lambda>a. list_all (\<lambda>b. py_eq a b \<or> py_cmp True a b \<noteq> None) xs) xs"

definition contract_findings ::
  "(string, DynamicWorkflowNodeSpec) dict \<Rightarrow> DynamicWorkflowEdgeSpec \<Rightarrow> ValidationFinding list res" where
  "contract_findings nodes e =
    (if \<not> known_edge nodes e then Inr []
     else
       let source = dn_output_contract (the (dget nodes (de_source e)));
           target = dn_input_contract (the (dget nodes (de_target e)))
       in bind_res (py_set (dget_or (JList []) target ''required'')) (\<lambda>required.
          bind_res (py_set (dget_or (JObj []) source ''properties'')) (\<lambda>available.
          let missing = filter (\<lambda>r. \<not> list_ex (py_eq r) available) required in
          if missing = [] then Inr []
          else if sortable missing then Inr [err ''CONTRACT_MISMATCH'' None True]
          else Inl (TypeError ''not supported between instances''))))"

text \<open>All findings, in the order in which \<open>validate\<close> reports them.\<close>

definition all_findings ::
  "WorkflowProposal \<Rightarrow> CapabilitySnapshot \<Rightarrow> PolicySnapshot \<Rightarrow> TaskBudgets \<Rightarrow>
     ValidationFinding list \<Rightarrow> ValidationFinding list list \<Rightarrow> ValidationFinding list" where
  "all_findings p cs ps budget found contracts =
     report (length (wp_nodes p) > MAX_NODES) (err ''GRAPH_TOO_MANY_NODES'' None True) @
     report (length (wp_edges p) > MAX_EDGES) (err ''GRAPH_TOO_MANY_EDGES'' None True) @
     report (length (node_table p) \<noteq> length (wp_nodes p)) (err ''DUPLICATE_NODE'' None False) @
     report (card (de_local_id ` set (wp_edges p)) \<noteq> length (wp_edges p)) (err ''DUPLICATE_EDGE'' None False) @
     concat (map (edge_findings (node_table p)) (enumerate 0 (wp_edges p))) @
     report (length (roots p) \<noteq> 1) (err ''ROOT_COUNT'' None True) @
     report (terminals p = []) (err ''MISSING_TERMINAL'' None True) @
     fanout_findings p budget @ found @
     concat (map (\<lambda>n. identifier_findings n @ validate_node cs ps budget n) (enumerate 0 (wp_nodes p))) @
     report (\<not> set (wp_required_capabilities p) \<subseteq> fst ` set (cs_capabilities cs))
       (err ''UNKNOWN_CAPABILITY'' None False) @
     report (set (wp_required_capabilities p) \<inter> set (ps_denied_capabilities ps) \<noteq> {})
       (err ''DENIED_CAPABILITY'' None False) @
     report (\<not> set (ps_required_verifiers ps) \<subseteq> set (wp_expected_verifiers p))
       (err ''MISSING_VERIFIER'' None False) @
     concat contracts"

definition validate ::
  "(WorkflowProposal \<Rightarrow> string) \<Rightarrow> WorkflowProposal \<Rightarrow> CapabilitySnapshot \<Rightarrow> PolicySnapshot \<Rightarrow> TaskBudgets \<Rightarrow>
     GraphValidationResult res" where
  "validate normalized_hash p cs ps budget =
    bind_res (walk_findings p cs ps) (\<lambda>found.
    bind_res (map_res (contract_findings (node_table p)) (wp_edges p)) (\<lambda>contracts.
    let errors = all_findings p cs ps budget found contracts
    in Inr \<lparr>gv_proposal_id = wp_proposal_id p,
        gv_status = (if errors = [] then Val_ACCEPT
          else if list_all vf_repairable errors \<and> wp_repair_attempt p < 1 then Val_REPAIRABLE
          else Val_REJECT),
        gv_errors = errors,
        gv_normalized_graph_hash = (if errors = [] then Some (normalized_hash p) else None)\<rparr>))"

subsection \<open>What each check rules out\<close>

lemma report_Nil: "report b f = [] \<longleftrightarrow> \<not> b"
  by simp

lemma concat_map_Nil: "concat (map f xs) = [] \<longleftrightarrow> (\<forall>x \<in> set xs. f x = [])"
  by auto

lemma capability_findings_Nil:
  "capability_findings cs ps path c = [] \<longleftrightarrow>
     dhas (cs_capabilities cs) c \<and> c \<notin> set (ps_denied_capabilities ps) \<and>
     (ps_allowed_capabilities ps = [] \<or> c \<in> set (ps_allowed_capabilities ps))"
  by (simp add: capability_findings_def)

lemmas findings_Nil = append_is_Nil_conv report_Nil concat_map_Nil capability_findings_Nil not_not not_less

lemma validate_accept:
  assumes "validate h p cs ps budget = Inr r" "gv_status r = Val_ACCEPT"
  shows "\<exists>found contracts. walk_findings p cs ps = Inr found \<and> all_findings p cs ps budget found contracts = []"
  using assms by (auto simp: validate_def bind_res_eq_Inr Let_def split: if_splits)

text \<open>The proposals without findings: the checks of \<open>validate\<close> one by one.\<close>

lemma validate_accept_cases:
  assumes "validate h p cs ps budget = Inr r" "gv_status r = Val_ACCEPT"
  shows "length (wp_nodes p) \<le> MAX_NODES \<and> length (wp_edges p) \<le> MAX_EDGES"
    and "length (node_table p) = length (wp_nodes p)"
    and "\<forall>ie \<in> set (enumerate 0 (wp_edges p)). edge_findings (node_table p) ie = []"
    and "length (roots p) = 1" and "walk_findings p cs ps = Inr []"
    and "\<forall>n \<in> set (enumerate 0 (wp_nodes p)). validate_node cs ps budget n = []"
    and "set (wp_required_capabilities p) \<inter> set (ps_denied_capabilities ps) = {}"
    and "set (ps_required_verifiers ps) \<subseteq> set (wp_expected_verifiers p)"
proof -
  from validate_accept [OF assms] obtain found contracts where
    "walk_findings p cs ps = Inr found" "all_findings p cs ps budget found contracts = []" by blast
  note a = this(1) this(2) [unfolded all_findings_def findings_Nil]
  show "length (wp_nodes p) \<le> MAX_NODES \<and> length (wp_edges p) \<le> MAX_EDGES"
    and "length (node_table p) = length (wp_nodes p)"
    and "\<forall>ie \<in> set (enumerate 0 (wp_edges p)). edge_findings (node_table p) ie = []"
    and "length (roots p) = 1" and "walk_findings p cs ps = Inr []"
    and "\<forall>n \<in> set (enumerate 0 (wp_nodes p)). validate_node cs ps budget n = []"
    and "set (wp_required_capabilities p) \<inter> set (ps_denied_capabilities ps) = {}"
    and "set (ps_required_verifiers ps) \<subseteq> set (wp_expected_verifiers p)"
    using a by simp_all
qed

lemma walk_findings_cases:
  assumes "walk_findings p cs ps = Inr []" "roots p = [start]"
  shows "\<forall>k. dhas (node_table p) k \<longrightarrow> (start, k) \<in> (set (arcs p))\<^sup>*"
    and "\<exists>k \<in> set (terminals p). (start, k) \<in> (set (arcs p))\<^sup>*"
    and "\<not> has_unbounded_cycle p start"
    and "\<exists>d \<le> MAX_DEPTH. depth p start = Some d"
    and "ps_required_verifiers ps \<noteq> [] \<longrightarrow> \<not> terminal_reachable_without_kind p start Kind_VERIFIER"
    and "list_ex (protected_node cs ps) (wp_nodes p) \<longrightarrow> \<not> terminal_reachable_without_kind p start Kind_GATE"
    and "\<forall>n \<in> set (wp_nodes p). protected_node cs ps n \<longrightarrow> dn_kind n \<in> {Kind_AGENT, Kind_TOOL, Kind_LOOP} \<longrightarrow>
      \<not> target_reachable_without_kind p start (dn_local_id n) Kind_GATE"
proof -
  from assms have nocycle: "\<not> has_unbounded_cycle p start"
    by (auto simp: walk_findings_def Let_def)
  with assms obtain d where d: "depth p start = Some d"
    by (auto simp: walk_findings_def Let_def split: option.splits)
  note a = assms(1) [unfolded walk_findings_def Let_def assms(2) list.case if_not_P [OF nocycle] d option.case
    sum.inject map_is_Nil_conv findings_Nil]
  have "filter (\<lambda>k. k \<notin> reachable p start) (map fst (node_table p)) = []"
    using a by (metis length_0_conv length_sort)
  then show "\<forall>k. dhas (node_table p) k \<longrightarrow> (start, k) \<in> (set (arcs p))\<^sup>*"
    unfolding filter_empty_conv reachable_def reach_loop_iff by auto
  show "\<exists>k \<in> set (terminals p). (start, k) \<in> (set (arcs p))\<^sup>*"
    using a unfolding reachable_def reach_loop_iff list_ex_iff by blast
  show "\<not> has_unbounded_cycle p start" "\<exists>d \<le> MAX_DEPTH. depth p start = Some d"
    using nocycle d a by blast+
  show "ps_required_verifiers ps \<noteq> [] \<longrightarrow> \<not> terminal_reachable_without_kind p start Kind_VERIFIER"
    and "list_ex (protected_node cs ps) (wp_nodes p) \<longrightarrow> \<not> terminal_reachable_without_kind p start Kind_GATE"
    using a by blast+
  show "\<forall>n \<in> set (wp_nodes p). protected_node cs ps n \<longrightarrow> dn_kind n \<in> {Kind_AGENT, Kind_TOOL, Kind_LOOP} \<longrightarrow>
      \<not> target_reachable_without_kind p start (dn_local_id n) Kind_GATE"
    using a by auto
qed

lemma in_enumerate: "x \<in> set xs \<Longrightarrow> \<exists>i. (i, x) \<in> set (enumerate 0 xs)"
  by (drule iffD1 [OF in_set_conv_nth]) (auto simp: in_set_enumerate_eq)

lemma terminal_search_blocks:
  assumes "\<not> terminal_reachable_without_kind p start kind" "walk (arcs p) ks" "hd ks = start"
    "last ks \<in> set (terminals p)"
  shows "\<exists>k \<in> set ks. node_kind p k = kind"
  using search_none_blocks [OF assms(1) [unfolded terminal_reachable_without_kind_def] assms(2,3)] assms(4) by simp

lemma target_search_blocks:
  assumes "\<not> target_reachable_without_kind p start target kind" "walk (arcs p) ks" "hd ks = start" "last ks = target"
  shows "\<exists>k \<in> set ks. node_kind p k = kind"
  using search_none_blocks [OF assms(1) [unfolded target_reachable_without_kind_def] assms(2,3)] assms(4) by simp

lemma single_root: "length (roots p) = 1 \<Longrightarrow> \<exists>start. roots p = [start]"
  by (simp add: length_Suc_conv)

text \<open>C28: An accepted graph has at most 32 nodes and 64 edges, exactly one root, from which every
  node and at least one terminal can be reached; along edges that are neither \<open>LOOP_BACK\<close> nor \<open>RETRY\<close>
  nothing reachable lies on a cycle and no walk from the root visits more than 8 nodes. (A cycle
  that is reached only through a \<open>RETRY\<close> edge is not excluded.)\<close>

theorem accepted_graph_shape:
  assumes "validate h p cs ps budget = Inr r" "gv_status r = Val_ACCEPT"
  shows "length (wp_nodes p) \<le> 32 \<and> length (wp_edges p) \<le> 64 \<and>
    (\<exists>start. roots p = [start] \<and>
      (\<forall>n \<in> set (wp_nodes p). (start, dn_local_id n) \<in> (set (arcs p))\<^sup>*) \<and>
      (\<exists>k \<in> set (terminals p). (start, k) \<in> (set (arcs p))\<^sup>*) \<and>
      \<not> cycle_from (forward_arcs p) start \<and>
      (\<forall>ks. walk (forward_arcs p) ks \<longrightarrow> hd ks = start \<longrightarrow> length ks \<le> 8))"
proof -
  note v = validate_accept_cases [OF assms]
  obtain start where start: "roots p = [start]" using single_root [OF v(4)] by blast
  note w = walk_findings_cases [OF v(5) start]
  have nocycle: "\<not> cycle_from (forward_arcs p) start"
    using w(3) by (simp add: has_unbounded_cycle_def has_cycle_iff)
  from w(4) depth_result [OF nocycle] have "c \<le> 8" if "walk_to (forward_arcs p) start k c" for k c
    using that unfolding depth_def MAX_DEPTH_def by (metis One_nat_def option.inject order_trans)
  then have "length ks \<le> 8" if "walk (forward_arcs p) ks" "hd ks = start" for ks
    using walk_walk_to [OF that(1)] that(2) by blast
  moreover have "dhas (node_table p) (dn_local_id n)" if "n \<in> set (wp_nodes p)" for n
    using that by (force simp: node_table_def)
  ultimately show ?thesis using v(1) start w(1,2) nocycle by (auto simp: MAX_NODES_def MAX_EDGES_def)
qed

text \<open>C27: In an accepted graph no walk escapes the controls: when the policy requires verifiers,
  every walk from a root to a terminal passes a \<open>VERIFIER\<close> node; when some node is protected, every
  such walk passes a \<open>GATE\<close>; and every walk to a protected agent, tool or loop passes a \<open>GATE\<close>.\<close>

theorem accepted_walks_are_controlled:
  assumes "validate h p cs ps budget = Inr r" "gv_status r = Val_ACCEPT"
    "walk (arcs p) ks" "hd ks \<in> set (roots p)"
  shows "(last ks \<in> set (terminals p) \<longrightarrow> ps_required_verifiers ps \<noteq> [] \<longrightarrow>
        (\<exists>k \<in> set ks. node_kind p k = Kind_VERIFIER)) \<and>
    (last ks \<in> set (terminals p) \<longrightarrow> list_ex (protected_node cs ps) (wp_nodes p) \<longrightarrow>
        (\<exists>k \<in> set ks. node_kind p k = Kind_GATE)) \<and>
    (\<forall>n \<in> set (wp_nodes p). last ks = dn_local_id n \<longrightarrow> protected_node cs ps n \<longrightarrow>
        dn_kind n \<in> {Kind_AGENT, Kind_TOOL, Kind_LOOP} \<longrightarrow> (\<exists>k \<in> set ks. node_kind p k = Kind_GATE))"
proof -
  note v = validate_accept_cases [OF assms(1,2)]
  obtain start where start: "roots p = [start]" using single_root [OF v(4)] by blast
  with assms(4) have hd: "hd ks = start" by simp
  note w = walk_findings_cases [OF v(5) start]
  show ?thesis
    using terminal_search_blocks [OF _ assms(3) hd] target_search_blocks [OF _ assms(3) hd] w(5-7) by metis
qed

text \<open>C29: In an accepted graph no node goes beyond the policy: every capability it names is known, not
  denied and, when there is a list of allowed ones, on it; its risk does not exceed the maximum; its
  skills and verifiers are known; a provider it requires is available; it waits no longer than the
  task's wall time.\<close>

theorem accepted_nodes_within_policy:
  assumes "validate h p cs ps budget = Inr r" "gv_status r = Val_ACCEPT" "n \<in> set (wp_nodes p)"
  shows "(\<forall>c \<in> set (dn_capability_refs n). dhas (cs_capabilities cs) c \<and> c \<notin> set (ps_denied_capabilities ps) \<and>
      (ps_allowed_capabilities ps = [] \<or> c \<in> set (ps_allowed_capabilities ps))) \<and>
    RISK_RANK (dn_risk_level n) \<le> RISK_RANK (ps_maximum_risk ps) \<and>
    set (dn_skill_refs n) \<subseteq> set (cs_skills cs) \<and> set (dn_verifier_refs n) \<subseteq> set (cs_verifiers cs) \<and>
    (\<forall>q. required_provider (dn_runtime_requirement n) = Some q \<longrightarrow> q \<in> set (cs_available_runtimes cs)) \<and>
    dn_timeout_seconds n \<le> tb_wall_time_seconds budget"
proof -
  from assms(3) obtain i where "(i, n) \<in> set (enumerate 0 (wp_nodes p))"
    using in_enumerate by fastforce
  with validate_accept_cases(6) [OF assms(1,2)] have "validate_node cs ps budget (i, n) = []" by blast
  note a = this [unfolded validate_node_def prod.case Let_def findings_Nil]
  have "q \<in> set (cs_available_runtimes cs)" if "required_provider (dn_runtime_requirement n) = Some q" for q
    using a that by (metis option.distinct(1) option.sel)
  with a show ?thesis by blast
qed

subsection \<open>The validator answers\<close>

text \<open>A contract as JSON schema has them: \<open>required\<close>, if present, lists names and \<open>properties\<close>, if
  present, is an object.\<close>

definition schema_shaped :: "(string, json) dict \<Rightarrow> bool" where
  "schema_shaped d \<longleftrightarrow>
     (case dget d ''required'' of Some (JList xs) \<Rightarrow> list_all (\<lambda>x. case x of JStr _ \<Rightarrow> True | _ \<Rightarrow> False) xs
      | None \<Rightarrow> True | _ \<Rightarrow> False) \<and>
     (case dget d ''properties'' of Some (JObj _) \<Rightarrow> True | None \<Rightarrow> True | _ \<Rightarrow> False)"

lemma schema_required:
  assumes "schema_shaped d"
  shows "\<exists>ss. py_set (dget_or (JList []) d ''required'') = Inr (map JStr ss)"
proof -
  from assms obtain xs where xs: "dget_or (JList []) d ''required'' = JList xs"
    "list_all (\<lambda>x. case x of JStr _ \<Rightarrow> True | _ \<Rightarrow> False) xs"
    by (auto simp: schema_shaped_def dget_or_def split: option.splits json.splits)
  from xs(2) have "\<exists>ss. xs = map JStr ss"
    by (induction xs) (auto split: json.splits intro: exI [of _ "_ # _"])
  then show ?thesis using xs(1) by (auto simp: py_set_def list_ex_iff)
qed

lemma schema_properties:
  "schema_shaped d \<Longrightarrow> \<exists>xs. py_set (dget_or (JObj []) d ''properties'') = Inr xs"
  by (auto simp: schema_shaped_def dget_or_def py_set_def split: option.splits json.splits)

lemma sortable_strings: "sortable (map JStr ss)"
  by (auto simp: sortable_def list_all_iff)

text \<open>The contracts that meet on an edge have the shape of a schema.\<close>

definition schema_edge :: "(string, DynamicWorkflowNodeSpec) dict \<Rightarrow> DynamicWorkflowEdgeSpec \<Rightarrow> bool" where
  "schema_edge nodes e \<longleftrightarrow> (\<forall>s t. dget nodes (de_source e) = Some s \<longrightarrow> dget nodes (de_target e) = Some t \<longrightarrow>
     schema_shaped (dn_output_contract s) \<and> schema_shaped (dn_input_contract t))"

lemma contract_findings_total:
  assumes "schema_edge nodes e"
  shows "\<exists>fs. contract_findings nodes e = Inr fs"
proof (cases "known_edge nodes e")
  case True
  then obtain s t where st: "dget nodes (de_source e) = Some s" "dget nodes (de_target e) = Some t"
    by (auto simp: known_edge_def dhas_iff_dget)
  then have shaped: "schema_shaped (dn_output_contract s)" "schema_shaped (dn_input_contract t)"
    using assms by (auto simp: schema_edge_def)
  obtain ss where ss: "py_set (dget_or (JList []) (dn_input_contract t) ''required'') = Inr (map JStr ss)"
    using schema_required shaped(2) by blast
  obtain xs where xs: "py_set (dget_or (JObj []) (dn_output_contract s) ''properties'') = Inr xs"
    using schema_properties shaped(1) by blast
  show ?thesis
    unfolding contract_findings_def Let_def st option.sel ss xs bind_res_Inr filter_map using sortable_strings by simp
qed (simp add: contract_findings_def)

lemma contract_findings_TypeError: "contract_findings nodes e = Inl x \<Longrightarrow> \<exists>w. x = TypeError w"
  by (auto simp: contract_findings_def py_set_def bind_res_eq_Inl Let_def split: if_splits json.splits)

lemma walk_findings_total: "\<exists>fs. walk_findings p cs ps = Inr fs"
proof (cases "roots p")
  case (Cons start ks)
  show ?thesis
  proof (cases "has_unbounded_cycle p start")
    case False
    then have "\<not> cycle_from (forward_arcs p) start" by (simp add: has_unbounded_cycle_def has_cycle_iff)
    from depth_result [OF this] obtain d where "depth p start = Some d" by (auto simp: depth_def)
    with False Cons show ?thesis unfolding walk_findings_def by (simp add: Let_def del: if_split)
  qed (use Cons in \<open>simp add: walk_findings_def Let_def del: if_split\<close>)
qed (simp add: walk_findings_def)

text \<open>C30: The validator ends on every proposal, cyclic ones included, in one of two ways. It raises a \<open>TypeError\<close>
  only over an edge at which a contract is not the shape of a schema; that one, which \<open>set()\<close> of a contract raises,
  is the only exception it has. Otherwise it returns: without findings the answer is \<open>ACCEPT\<close> with the hash of the
  graph; with findings there is no hash, and the proposal may be repaired exactly when every finding is
  repairable and it has not been repaired before.\<close>

theorem validate_answers:
  "case validate h p cs ps budget of
     Inl x \<Rightarrow> (\<exists>w. x = TypeError w) \<and> (\<exists>e \<in> set (wp_edges p). \<not> schema_edge (node_table p) e)
   | Inr r \<Rightarrow>
       gv_normalized_graph_hash r = (if gv_errors r = [] then Some (h p) else None) \<and>
       (gv_status r = Val_ACCEPT \<longleftrightarrow> gv_errors r = []) \<and>
       (gv_status r = Val_REPAIRABLE \<longleftrightarrow>
          gv_errors r \<noteq> [] \<and> (\<forall>f \<in> set (gv_errors r). vf_repairable f) \<and> wp_repair_attempt p < 1)"
proof -
  from walk_findings_total obtain w where w: "walk_findings p cs ps = Inr w" by blast
  show ?thesis
  proof (cases "map_res (contract_findings (node_table p)) (wp_edges p)")
    case (Inl x)
    then obtain e where e: "e \<in> set (wp_edges p)" "contract_findings (node_table p) e = Inl x"
      using map_res_eq_InlD by metis
    then have "\<not> schema_edge (node_table p) e" using contract_findings_total by fastforce
    with e contract_findings_TypeError [OF e(2)] Inl w show ?thesis by (auto simp: validate_def)
  next
    case (Inr contracts)
    then show ?thesis unfolding validate_def w Inr bind_res_Inr Let_def by (simp add: list_all_iff)
  qed
qed

subsection \<open>An accepted proposal\<close>

definition ex_node :: "string \<Rightarrow> GraphNodeKind \<Rightarrow> RiskLevel \<Rightarrow> DynamicWorkflowNodeSpec" where
  "ex_node k kind risk = \<lparr>dn_local_id = k, dn_kind = kind, dn_objective = ''o'', dn_input_contract = [],
     dn_output_contract = [], dn_runtime_requirement = Rt_ANY, dn_skill_refs = [],
     dn_capability_refs = (if kind = Kind_AGENT then [''edit''] else []), dn_verifier_refs = [],
     dn_risk_level = risk, dn_max_attempts = 1, dn_timeout_seconds = 300, dn_loop_max_iterations = None,
     dn_checkpoint = True, dn_fragment_ref = None\<rparr>"

definition ex_edge :: "string \<Rightarrow> string \<Rightarrow> string \<Rightarrow> DynamicWorkflowEdgeSpec" where
  "ex_edge k s t = \<lparr>de_local_id = k, de_source = s, de_target = t, de_kind = Edge_NORMAL, de_condition = None,
     de_max_traversals = None\<rparr>"

definition ex_proposal :: WorkflowProposal where
  "ex_proposal = \<lparr>wp_proposal_id = ''p'', wp_task_id = ''t'', wp_run_id = None, wp_based_on_graph_revision = None,
     wp_planner_version = ''v'', wp_planner_runtime = Plan_AUTO, wp_objective = ''o'', wp_assumptions = [],
     wp_nodes = [ex_node ''gate'' Kind_GATE Risk_LOW, ex_node ''build'' Kind_AGENT Risk_HIGH,
       ex_node ''check'' Kind_VERIFIER Risk_LOW, ex_node ''done'' Kind_TERMINAL Risk_LOW],
     wp_edges = [ex_edge ''a'' ''gate'' ''build'', ex_edge ''b'' ''build'' ''check'', ex_edge ''c'' ''check'' ''done''],
     wp_required_capabilities = [''edit''], wp_requested_search_budget = None, wp_expected_verifiers = [''tests''],
     wp_expected_approval_gates = [], wp_rationale_summary = ''r'', wp_confidence = 1, wp_provenance_refs = [],
     wp_fragment_refs = [], wp_repair_attempt = 0, wp_created_at = 0\<rparr>"

definition ex_capabilities :: CapabilitySnapshot where
  "ex_capabilities = \<lparr>cs_capabilities = [(''edit'', Risk_LOW)], cs_protected_capabilities = [], cs_skills = [],
     cs_verifiers = [''tests''], cs_available_runtimes = [Prov_DETERMINISTIC]\<rparr>"

definition ex_policy :: PolicySnapshot where
  "ex_policy = \<lparr>ps_allowed_capabilities = [], ps_denied_capabilities = [], ps_required_verifiers = [''tests''],
     ps_require_approval_at_or_above = Risk_HIGH, ps_maximum_risk = Risk_CRITICAL, ps_execution_runtime = None\<rparr>"

definition ex_budget :: TaskBudgets where
  "ex_budget = \<lparr>tb_wall_time_seconds = 600, tb_max_turns = 5, tb_max_tool_calls = 5, tb_max_loop_iterations = 3,
     tb_max_parallel_runs = 1\<rparr>"

lemma ex_proposal_accepted:
  "validate (\<lambda>_. ''h'') ex_proposal ex_capabilities ex_policy ex_budget =
    Inr \<lparr>gv_proposal_id = ''p'', gv_status = Val_ACCEPT, gv_errors = [], gv_normalized_graph_hash = Some ''h''\<rparr>"
  by code_simp

theorem accepted_graph_shape_witness:
  "\<exists>start. roots ex_proposal = [start] \<and> \<not> cycle_from (forward_arcs ex_proposal) start \<and>
     (start, ''done'') \<in> (set (arcs ex_proposal))\<^sup>*"
proof -
  have "ex_node ''done'' Kind_TERMINAL Risk_LOW \<in> set (wp_nodes ex_proposal)"
    "dn_local_id (ex_node ''done'' Kind_TERMINAL Risk_LOW) = ''done''"
    by (simp_all add: ex_proposal_def ex_node_def)
  with accepted_graph_shape [OF ex_proposal_accepted] show ?thesis by fastforce
qed

theorem accepted_walks_are_controlled_witness:
  "(\<exists>k \<in> {''gate'', ''build'', ''check'', ''done''}. node_kind ex_proposal k = Kind_VERIFIER) \<and>
   (\<exists>k \<in> {''gate'', ''build'', ''check'', ''done''}. node_kind ex_proposal k = Kind_GATE)"
proof -
  have w: "walk (arcs ex_proposal) [''gate'', ''build'', ''check'', ''done'']"
    "hd [''gate'', ''build'', ''check'', ''done''] \<in> set (roots ex_proposal)"
    "last [''gate'', ''build'', ''check'', ''done''] \<in> set (terminals ex_proposal)"
    "ps_required_verifiers ex_policy \<noteq> []" "list_ex (protected_node ex_capabilities ex_policy) (wp_nodes ex_proposal)"
    by code_simp+
  show ?thesis
    using accepted_walks_are_controlled [OF ex_proposal_accepted _ w(1,2)] w(3-5) by simp
qed

theorem accepted_nodes_within_policy_witness:
  "RISK_RANK Risk_HIGH \<le> RISK_RANK (ps_maximum_risk ex_policy) \<and> dhas (cs_capabilities ex_capabilities) ''edit''"
proof -
  have n: "ex_node ''build'' Kind_AGENT Risk_HIGH \<in> set (wp_nodes ex_proposal)"
    by (simp add: ex_proposal_def)
  show ?thesis
    using accepted_nodes_within_policy [OF ex_proposal_accepted _ n] by (simp add: ex_node_def)
qed

theorem validate_answers_witness:
  "\<exists>r. validate (\<lambda>_. ''h'') ex_proposal ex_capabilities ex_policy ex_budget = Inr r \<and>
     gv_status r = Val_ACCEPT \<and> gv_normalized_graph_hash r = Some ''h''"
  using validate_answers [where h = "\<lambda>_. ''h''" and p = ex_proposal and cs = ex_capabilities and ps = ex_policy
      and budget = ex_budget] ex_proposal_accepted
  by auto

text \<open>A contract whose \<open>required\<close> is a number: the validator raises instead of reporting a finding.\<close>

lemma malformed_contract_raises:
  "validate (\<lambda>_. ''h'') (ex_proposal\<lparr>wp_nodes := map (\<lambda>n. n\<lparr>dn_input_contract := [(''required'', JInt 5)]\<rparr>) (wp_nodes ex_proposal)\<rparr>)
     ex_capabilities ex_policy ex_budget = Inl (TypeError ''not iterable'')"
  by code_simp

end
