(* ===== verification/Templates.thy ===== *)
theory Templates
  imports Contracts Graph_Search
begin

text \<open>
  The registry of workflow templates, \<^verbatim>\<open>src/accretion/templates.py\<close>: the template records of
  \<^verbatim>\<open>src/accretion/contracts/__init__.py\<close>, the structural validation with its guard-coverage table, the
  five built-in templates, and the instantiation of a run graph. The digest of a template body and fresh
  identifiers are arguments; a problem is a constructor with the keys its message names; creation times
  are left out. \<open>NodeOutcome\<close> is the enumeration of \<^verbatim>\<open>src/accretion/services/run_manager.py\<close>, whose names the
  coverage table spells as strings.

  Shown: every built-in template validates, and a run graph decodes back to its template.
\<close>

subsection \<open>Outcomes and edge kinds\<close>

datatype NodeOutcome =
    No_SUCCESS | No_FAIL | No_INCONCLUSIVE | No_APPROVED | No_DENIED | No_BUDGET_EXHAUSTED | No_PAUSED | No_CANCELLED

text \<open>\<open>_KIND_OUTCOMES\<close>, each set in the sorted order in which it is walked; \<open>HUMAN\<close> has no entry.\<close>

fun KIND_OUTCOMES :: "GraphNodeKind \<Rightarrow> NodeOutcome list option" where
  "KIND_OUTCOMES Kind_TASK = Some [No_SUCCESS]"
| "KIND_OUTCOMES Kind_AGENT = Some [No_FAIL, No_SUCCESS]"
| "KIND_OUTCOMES Kind_TOOL = Some [No_SUCCESS]"
| "KIND_OUTCOMES Kind_VERIFIER = Some [No_FAIL, No_INCONCLUSIVE, No_SUCCESS]"
| "KIND_OUTCOMES Kind_GATE = Some [No_APPROVED, No_DENIED]"
| "KIND_OUTCOMES Kind_LOOP = Some [No_FAIL, No_SUCCESS]"
| "KIND_OUTCOMES Kind_JOIN = Some [No_SUCCESS]"
| "KIND_OUTCOMES Kind_TERMINAL = Some []"
| "KIND_OUTCOMES Kind_HUMAN = None"

definition GUARDED_EDGE_KINDS :: "GraphEdgeKind list" where
  "GUARDED_EDGE_KINDS = [Edge_CONDITION, Edge_APPROVAL, Edge_RETRY]"

definition UNGUARDED_EDGE_KINDS :: "GraphEdgeKind list" where
  "UNGUARDED_EDGE_KINDS = [Edge_NORMAL, Edge_LOOP_BACK]"

definition compute_template_checksum :: "(WorkflowTemplate \<Rightarrow> string) \<Rightarrow> WorkflowTemplate \<Rightarrow> string" where
  "compute_template_checksum digest t =
     digest (t\<lparr>tp_template_record_id := [], tp_checksum := [], tp_status := Tpl_DRAFT\<rparr>)"

subsection \<open>Validation\<close>

datatype template_problem =
    Node_keys_not_unique | Edge_keys_not_unique | Edge_unknown_node string | Edge_requires_guard string
  | Edge_must_not_guard string | Entry_count "string list" | Entry_not_task | No_terminal
  | Terminal_has_edges string | Nodes_unreachable "string list" | Nodes_stranded "string list"
  | Loop_requires_policy string | Loop_region_missing string "string list" | Loop_act_outside string
  | Loop_observe_outside string | Loop_fixed_needs_bound string | Regions_overlap string string
  | Non_loop_policy string | Loop_back_outside string | Parent_not_loop string
  | Parent_region_excludes string | Own_parent string | Gates_mismatch | Gate_ids_not_unique
  | Replan_pair | Replan_needs_budget | Replan_guards_missing | Outcome_uncovered string NodeOutcome
  | Outcome_ambiguous string NodeOutcome | Retry_guards_shared string

abbreviation problem_if :: "bool \<Rightarrow> template_problem \<Rightarrow> template_problem list" where
  "problem_if b p \<equiv> (if b then [p] else [])"

definition node_keys :: "WorkflowTemplate \<Rightarrow> string list" where
  "node_keys t = map wn_key (tp_nodes t)"

definition spec_of :: "WorkflowTemplate \<Rightarrow> string \<Rightarrow> WorkflowNodeSpec option" where
  "spec_of t = dget (dict_of (map (\<lambda>n. (wn_key n, n)) (tp_nodes t)))"

definition region_members :: "WorkflowTemplate \<Rightarrow> string list" where
  "region_members t = concat (map (\<lambda>n. case wn_loop n of None \<Rightarrow> [] | Some l \<Rightarrow> lp_region_keys l) (tp_nodes t))"

definition inbound :: "WorkflowTemplate \<Rightarrow> string \<Rightarrow> WorkflowEdgeSpec list" where
  "inbound t key = filter (\<lambda>e. we_target e = key) (tp_edges t)"

definition outbound :: "WorkflowTemplate \<Rightarrow> string \<Rightarrow> WorkflowEdgeSpec list" where
  "outbound t key = filter (\<lambda>e. we_source e = key) (tp_edges t)"

definition entries :: "WorkflowTemplate \<Rightarrow> string list" where
  "entries t = filter (\<lambda>k. inbound t k = []) (node_keys t)"

definition tp_terminals :: "WorkflowTemplate \<Rightarrow> string list" where
  "tp_terminals t = map wn_key (filter (\<lambda>n. wn_kind n = Kind_TERMINAL) (tp_nodes t))"

text \<open>The first loop, whose problems end the validation at once.\<close>

definition reference_problems :: "WorkflowTemplate \<Rightarrow> template_problem list" where
  "reference_problems t =
     problem_if (\<not> distinct (node_keys t)) Node_keys_not_unique @
     problem_if (\<not> distinct (map we_key (tp_edges t))) Edge_keys_not_unique @
     concat (map (\<lambda>e.
       problem_if (we_source e \<notin> set (node_keys t) \<or> we_target e \<notin> set (node_keys t)) (Edge_unknown_node (we_key e)) @
       problem_if (we_kind e \<in> set GUARDED_EDGE_KINDS \<and> we_guard e = None) (Edge_requires_guard (we_key e)) @
       problem_if (we_kind e \<in> set UNGUARDED_EDGE_KINDS \<and> we_guard e \<noteq> None) (Edge_must_not_guard (we_key e)))
       (tp_edges t))"

text \<open>Arcs from the owner of a loop region to its other members.\<close>

definition region_arcs :: "WorkflowTemplate \<Rightarrow> string graph" where
  "region_arcs t = concat (map (\<lambda>n. case wn_loop n of
      Some l \<Rightarrow> if wn_kind n = Kind_LOOP then map (Pair (wn_key n)) (removeAll (wn_key n) (lp_region_keys l)) else []
    | None \<Rightarrow> []) (tp_nodes t))"

definition tp_reachable :: "WorkflowTemplate \<Rightarrow> string \<Rightarrow> string set" where
  "tp_reachable t entry =
     bfs_loop (map (\<lambda>e. (we_source e, we_target e)) (tp_edges t) @ region_arcs t) [entry] {entry}"

definition reaches_terminal :: "WorkflowTemplate \<Rightarrow> string set" where
  "reaches_terminal t =
     bfs_loop (map (\<lambda>e. (we_target e, we_source e)) (filter (\<lambda>e. we_kind e \<noteq> Edge_LOOP_BACK) (tp_edges t)) @
       region_arcs t) (tp_terminals t) (set (tp_terminals t))"

definition shape_problems :: "WorkflowTemplate \<Rightarrow> template_problem list" where
  "shape_problems t =
     (if length (entries t) \<noteq> 1 then [Entry_count (sort (entries t))]
      else problem_if (map_option wn_kind (spec_of t (hd (entries t))) \<noteq> Some Kind_TASK) Entry_not_task) @
     problem_if (tp_terminals t = []) No_terminal @
     concat (map (\<lambda>k. problem_if (outbound t k \<noteq> []) (Terminal_has_edges k)) (tp_terminals t)) @
     (case entries t of [] \<Rightarrow> []
      | entry # _ \<Rightarrow> let lost = filter (\<lambda>k. k \<notin> tp_reachable t entry) (node_keys t) in
          problem_if (lost \<noteq> []) (Nodes_unreachable (sort lost))) @
     (let stuck = filter (\<lambda>k. k \<notin> reaches_terminal t) (node_keys t) in
          problem_if (stuck \<noteq> []) (Nodes_stranded (sort stuck)))"

text \<open>The loop regions, each checked against the ones before it.\<close>

fun region_problems ::
  "string list \<Rightarrow> (string, string list) dict \<Rightarrow> WorkflowNodeSpec list \<Rightarrow>
     template_problem list \<times> (string, string list) dict" where
  "region_problems keys regions [] = ([], regions)"
| "region_problems keys regions (n # ns) =
    (case wn_loop n of
       None \<Rightarrow>
         let (ps, r) = region_problems keys regions ns
         in (problem_if (wn_kind n = Kind_LOOP) (Loop_requires_policy (wn_key n)) @ ps, r)
     | Some l \<Rightarrow>
         if wn_kind n = Kind_LOOP then
           let region = lp_region_keys l;
               missing = filter (\<lambda>k. k \<notin> set keys) region;
               (ps, r) = region_problems keys (dset (wn_key n) region regions) ns
           in (problem_if (missing \<noteq> []) (Loop_region_missing (wn_key n) (sort missing)) @
               problem_if (lp_act_key l \<notin> set region) (Loop_act_outside (wn_key n)) @
               problem_if (\<exists>k \<in> set_option (lp_observe_key l). k \<notin> set region) (Loop_observe_outside (wn_key n)) @
               problem_if (lp_max_iterations_source l = Src_FIXED \<and> lp_fixed_max_iterations l = None)
                 (Loop_fixed_needs_bound (wn_key n)) @
               concat (map (\<lambda>(owner, other). problem_if
                   ((set region - {wn_key n}) \<inter> (set other - {owner}) \<noteq> {}) (Regions_overlap owner (wn_key n)))
                 regions) @ ps, r)
         else
           let (ps, r) = region_problems keys regions ns
           in (Non_loop_policy (wn_key n) # ps, r))"

definition parent_problems :: "WorkflowTemplate \<Rightarrow> WorkflowNodeSpec \<Rightarrow> template_problem list" where
  "parent_problems t n =
    (case wn_parent_key n of
       None \<Rightarrow> []
     | Some pk \<Rightarrow>
         (case spec_of t pk of
            None \<Rightarrow> [Parent_not_loop (wn_key n)]
          | Some parent \<Rightarrow>
              if wn_kind parent \<noteq> Kind_LOOP then [Parent_not_loop (wn_key n)]
              else (case wn_loop parent of None \<Rightarrow> []
                 | Some l \<Rightarrow> problem_if (wn_key n \<notin> set (lp_region_keys l)) (Parent_region_excludes (wn_key n)))) @
         problem_if (pk = wn_key n) (Own_parent (wn_key n)))"

definition gate_problems :: "WorkflowTemplate \<Rightarrow> template_problem list" where
  "gate_problems t =
     problem_if (wn_key ` set (filter (\<lambda>n. wn_kind n = Kind_GATE) (tp_nodes t)) \<noteq>
       gs_node_key ` set (tp_required_approval_gates t)) Gates_mismatch @
     problem_if (\<not> distinct (map gs_gate_id (tp_required_approval_gates t))) Gate_ids_not_unique"

definition replan_problems :: "WorkflowTemplate \<Rightarrow> template_problem list" where
  "replan_problems t =
    (let some = list_ex (\<lambda>e. we_guard e = Some Guard_ON_REPLAN_AVAILABLE) (tp_edges t);
         none = list_ex (\<lambda>e. we_guard e = Some Guard_ON_REPLAN_EXHAUSTED) (tp_edges t)
     in if some \<or> none
        then problem_if (\<not> (some \<and> none)) Replan_pair @
          problem_if (bp_max_replans (tp_global_budget_policy t) \<le> 0) Replan_needs_budget
        else problem_if (bp_max_replans (tp_global_budget_policy t) > 0) Replan_guards_missing)"

text \<open>\<open>_validate_guard_coverage\<close>\<close>

fun guard_of :: "NodeOutcome \<Rightarrow> EdgeGuard option" where
  "guard_of No_INCONCLUSIVE = Some Guard_ON_INCONCLUSIVE"
| "guard_of No_APPROVED = Some Guard_ON_APPROVED"
| "guard_of No_DENIED = Some Guard_ON_DENIED"
| "guard_of _ = None"

definition covers :: "NodeOutcome \<Rightarrow> WorkflowEdgeSpec \<Rightarrow> bool" where
  "covers outcome e =
    (if outcome = No_SUCCESS then we_kind e = Edge_NORMAL \<and> we_guard e = None \<or> we_guard e = Some Guard_ON_SUCCESS
     else if outcome = No_FAIL then we_kind e \<noteq> Edge_RETRY \<and>
       (we_guard e = Some Guard_ON_FAIL \<or> we_guard e = Some Guard_ON_REPLAN_EXHAUSTED)
     else we_guard e = guard_of outcome)"

definition coverage_problems :: "string \<Rightarrow> WorkflowEdgeSpec list \<Rightarrow> NodeOutcome \<Rightarrow> template_problem list" where
  "coverage_problems key edges outcome =
    (let covering = filter (covers outcome) edges in
     if covering = [] then [Outcome_uncovered key outcome]
     else problem_if (length covering > 1) (Outcome_ambiguous key outcome))"

definition node_coverage :: "WorkflowTemplate \<Rightarrow> WorkflowNodeSpec \<Rightarrow> template_problem list res" where
  "node_coverage t n =
    (if wn_key n \<in> set (region_members t) \<or> wn_kind n = Kind_TERMINAL then Inr []
     else (case KIND_OUTCOMES (wn_kind n) of
        None \<Rightarrow> Inl (KeyError ''HUMAN'')
      | Some outcomes \<Rightarrow>
          Inr (concat (map (coverage_problems (wn_key n) (outbound t (wn_key n))) outcomes) @
            problem_if (\<not> distinct (map we_guard (filter (\<lambda>e. we_kind e = Edge_RETRY) (outbound t (wn_key n)))))
              (Retry_guards_shared (wn_key n)))))"

definition validate_guard_coverage :: "WorkflowTemplate \<Rightarrow> template_problem list res" where
  "validate_guard_coverage t = bind_res (map_res (node_coverage t) (tp_nodes t)) (\<lambda>ps. Inr (concat ps))"

definition loop_back_problems :: "WorkflowTemplate \<Rightarrow> (string, string list) dict \<Rightarrow> template_problem list" where
  "loop_back_problems t regions = concat (map (\<lambda>e. problem_if (we_kind e = Edge_LOOP_BACK \<and>
       \<not> list_ex (\<lambda>(_, region). we_source e \<in> set region \<and> we_target e \<in> set region) regions)
     (Loop_back_outside (we_key e))) (tp_edges t))"

definition validate_template :: "WorkflowTemplate \<Rightarrow> template_problem list res" where
  "validate_template t =
    (if reference_problems t \<noteq> [] then Inr (reference_problems t)
     else
       let (loop_ps, regions) = region_problems (node_keys t) [] (tp_nodes t) in
       bind_res (validate_guard_coverage t) (\<lambda>coverage.
       Inr (shape_problems t @ loop_ps @ loop_back_problems t regions @
         concat (map (parent_problems t) (tp_nodes t)) @ gate_problems t @ replan_problems t @ coverage)))"

subsection \<open>Construction\<close>

definition draft_template ::
  "string \<Rightarrow> string \<Rightarrow> ExecutionMode \<Rightarrow> WorkflowNodeSpec list \<Rightarrow> WorkflowEdgeSpec list \<Rightarrow> BudgetPolicy option \<Rightarrow>
     string list \<Rightarrow> GateSpec list \<Rightarrow> WorkflowTemplate" where
  "draft_template rid template_id mode nodes edges budget required_verifiers gates =
    \<lparr>tp_template_record_id = rid, tp_template_id = template_id, tp_version = ''1.0.0'', tp_mode = mode,
     tp_input_schema = [], tp_nodes = nodes, tp_edges = edges,
     tp_global_budget_policy = (case budget of None \<Rightarrow> budget_default | Some b \<Rightarrow> b),
     tp_required_verifiers = required_verifiers, tp_required_approval_gates = gates, tp_checksum = ''pending'',
     tp_status = Tpl_DRAFT\<rparr>"

definition sealed_template :: "(WorkflowTemplate \<Rightarrow> string) \<Rightarrow> WorkflowTemplate \<Rightarrow> WorkflowTemplate" where
  "sealed_template digest t = t\<lparr>tp_checksum := compute_template_checksum digest t, tp_status := Tpl_VALIDATED\<rparr>"

definition mk_template :: "(WorkflowTemplate \<Rightarrow> string) \<Rightarrow> WorkflowTemplate \<Rightarrow> WorkflowTemplate res" where
  "mk_template digest t =
    bind_res (validate_template t) (\<lambda>problems.
    if problems \<noteq> [] then Inl (ValueError ''template is invalid'') else Inr (sealed_template digest t))"

definition node ::
  "string \<Rightarrow> GraphNodeKind \<Rightarrow> string \<Rightarrow> string option \<Rightarrow> string option \<Rightarrow> NodeLoopPolicy option \<Rightarrow> WorkflowNodeSpec" where
  "node key kind label parent instruction loop =
    \<lparr>wn_key = key, wn_kind = kind, wn_label = label, wn_parent_key = parent, wn_instruction = instruction,
     wn_loop = loop, wn_capability_refs = []\<rparr>"

definition edge ::
  "string \<Rightarrow> string \<Rightarrow> string \<Rightarrow> GraphEdgeKind \<Rightarrow> string option \<Rightarrow> EdgeGuard option \<Rightarrow> WorkflowEdgeSpec" where
  "edge key source target kind label guard =
    \<lparr>we_key = key, we_source = source, we_target = target, we_kind = kind, we_label = label, we_guard = guard\<rparr>"

definition node_loop_policy :: "string list \<Rightarrow> string \<Rightarrow> string option \<Rightarrow> bool \<Rightarrow> NodeLoopPolicy" where
  "node_loop_policy region act observe verify =
    \<lparr>lp_region_keys = region, lp_act_key = act, lp_observe_key = observe, lp_verify_in_region = verify,
     lp_max_iterations_source = Src_TASK_BUDGET, lp_fixed_max_iterations = None, lp_budget_fraction = 1\<rparr>"

definition bounded_loop :: "string \<Rightarrow> pyfloat \<Rightarrow> NodeLoopPolicy" where
  "bounded_loop owner budget_fraction =
    (node_loop_policy [owner @ ''-act'', owner @ ''-observe''] (owner @ ''-act'') (Some (owner @ ''-observe'')) False)
      \<lparr>lp_budget_fraction := budget_fraction\<rparr>"

subsection \<open>The built-in templates\<close>

text \<open>Each is the argument of its \<open>_template\<close> call; \<open>ALL_TEMPLATES\<close> makes the calls.\<close>

definition DIRECT_V1 :: "string \<Rightarrow> WorkflowTemplate" where
  "DIRECT_V1 rid = draft_template rid ''direct-v1'' Mode_DIRECT
    [node ''initialize'' Kind_TASK ''Initialize'' None None None,
     node ''act'' Kind_AGENT ''Execute'' None None None,
     node ''verify'' Kind_VERIFIER ''Verify candidate'' None None None,
     node ''complete'' Kind_TERMINAL ''Complete or escalate'' None None None]
    [edge ''initialize-act'' ''initialize'' ''act'' Edge_NORMAL None None,
     edge ''act-verify'' ''act'' ''verify'' Edge_NORMAL None None,
     edge ''act-complete-failed'' ''act'' ''complete'' Edge_CONDITION (Some ''provider failure'') (Some Guard_ON_FAIL),
     edge ''verify-complete-success'' ''verify'' ''complete'' Edge_CONDITION (Some ''pass'') (Some Guard_ON_SUCCESS),
     edge ''verify-complete-failed'' ''verify'' ''complete'' Edge_CONDITION (Some ''fail'') (Some Guard_ON_FAIL),
     edge ''verify-complete-inconclusive'' ''verify'' ''complete'' Edge_CONDITION (Some ''escalate'') (Some
       Guard_ON_INCONCLUSIVE)]
    None []
    []"

definition FEEDBACK_LOOP_V1 :: "string \<Rightarrow> WorkflowTemplate" where
  "FEEDBACK_LOOP_V1 rid = draft_template rid ''feedback-loop-v1'' Mode_LOOP
    [node ''initialize'' Kind_TASK ''Initialize'' None None None,
     node ''act'' Kind_AGENT ''Act'' None None None,
     node ''observe'' Kind_TOOL ''Observe workspace'' None None None,
     node ''evaluate'' Kind_LOOP ''Evaluate feedback'' None None (Some (node_loop_policy [''act'', ''observe'',
       ''evaluate'', ''verify''] ''act'' (Some ''observe'') True)),
     node ''verify'' Kind_VERIFIER ''Verify candidate'' None None None,
     node ''complete'' Kind_TERMINAL ''Complete or escalate'' None None None]
    [edge ''initialize-act'' ''initialize'' ''act'' Edge_NORMAL None None,
     edge ''act-observe'' ''act'' ''observe'' Edge_NORMAL None None,
     edge ''observe-evaluate'' ''observe'' ''evaluate'' Edge_NORMAL None None,
     edge ''evaluate-act'' ''evaluate'' ''act'' Edge_LOOP_BACK (Some ''repair'') None,
     edge ''evaluate-verify'' ''evaluate'' ''verify'' Edge_CONDITION (Some ''candidate'') (Some Guard_ON_SUCCESS),
     edge ''verify-complete'' ''verify'' ''complete'' Edge_CONDITION (Some ''pass'') (Some Guard_ON_SUCCESS)]
    None []
    []"

definition FIXED_GRAPH_V1 :: "string \<Rightarrow> WorkflowTemplate" where
  "FIXED_GRAPH_V1 rid = draft_template rid ''fixed-graph-v1'' Mode_GRAPH
    [node ''initialize'' Kind_TASK ''Initialize'' None None None,
     node ''plan'' Kind_AGENT ''Plan'' None (Some
       ''Produce an explicit written plan artifact for the requested change before any modification is made.'') None,
     node ''approve-plan'' Kind_GATE ''Plan approval'' None None None,
     node ''act'' Kind_AGENT ''Act'' None None None,
     node ''observe'' Kind_TOOL ''Observe workspace'' None None None,
     node ''verify'' Kind_VERIFIER ''Verify candidate'' None None None,
     node ''approve-outcome'' Kind_GATE ''Outcome approval'' None None None,
     node ''complete'' Kind_TERMINAL ''Complete or escalate'' None None None]
    [edge ''initialize-plan'' ''initialize'' ''plan'' Edge_NORMAL None None,
     edge ''plan-approve-plan'' ''plan'' ''approve-plan'' Edge_APPROVAL (Some ''plan ready'') (Some Guard_ON_SUCCESS),
     edge ''plan-complete-failed'' ''plan'' ''complete'' Edge_CONDITION (Some ''plan failed'') (Some Guard_ON_FAIL),
     edge ''approve-plan-act'' ''approve-plan'' ''act'' Edge_CONDITION (Some ''approved'') (Some Guard_ON_APPROVED),
     edge ''approve-plan-complete-denied'' ''approve-plan'' ''complete'' Edge_CONDITION (Some ''denied'') (Some
       Guard_ON_DENIED),
     edge ''act-observe'' ''act'' ''observe'' Edge_NORMAL None None,
     edge ''act-complete-failed'' ''act'' ''complete'' Edge_CONDITION (Some ''provider failure'') (Some Guard_ON_FAIL),
     edge ''observe-verify'' ''observe'' ''verify'' Edge_NORMAL None None,
     edge ''verify-act'' ''verify'' ''act'' Edge_RETRY (Some ''repair once'') (Some Guard_ON_FAIL),
     edge ''verify-complete-failed'' ''verify'' ''complete'' Edge_CONDITION (Some ''fail'') (Some Guard_ON_FAIL),
     edge ''verify-approve-outcome'' ''verify'' ''approve-outcome'' Edge_APPROVAL (Some ''verified'') (Some
       Guard_ON_SUCCESS),
     edge ''verify-complete-inconclusive'' ''verify'' ''complete'' Edge_CONDITION (Some ''escalate'') (Some
       Guard_ON_INCONCLUSIVE),
     edge ''approve-outcome-complete-approved'' ''approve-outcome'' ''complete'' Edge_CONDITION (Some ''approved'')
       (Some Guard_ON_APPROVED),
     edge ''approve-outcome-complete-denied'' ''approve-outcome'' ''complete'' Edge_CONDITION (Some ''denied'') (Some
       Guard_ON_DENIED)]
    (Some (budget_default\<lparr>bp_max_node_retries := 1\<rparr>)) [''output-contract'', ''git-diff'',
       ''trajectory-policy'']
    [\<lparr>gs_gate_id = ''plan-approval'', gs_node_key = ''approve-plan'', gs_summary =
       ''Approve the proposed plan before execution.'', gs_required_for_risk_gte = Risk_HIGH\<rparr>,
      \<lparr>gs_gate_id = ''outcome-approval'', gs_node_key = ''approve-outcome'', gs_summary =
       ''Approve the verified outcome before completion.'', gs_required_for_risk_gte = Risk_HIGH\<rparr>]"

definition HYBRID_RD_V1 :: "string \<Rightarrow> WorkflowTemplate" where
  "HYBRID_RD_V1 rid = draft_template rid ''hybrid-rd-v1'' Mode_HYBRID
    [node ''initialize'' Kind_TASK ''Initialize'' None None None,
     node ''research'' Kind_AGENT ''Research'' None None None,
     node ''theorize'' Kind_AGENT ''Theory / hypothesis'' None None None,
     node ''experiment'' Kind_LOOP ''Experiment loop'' None None (Some (bounded_loop ''experiment'' (1/2))),
     node ''experiment-act'' Kind_AGENT ''Run experiment'' (Some ''experiment'') None None,
     node ''experiment-observe'' Kind_TOOL ''Observe results'' (Some ''experiment'') None None,
     node ''develop'' Kind_LOOP ''Develop loop'' None None (Some (bounded_loop ''develop'' (1/2))),
     node ''develop-act'' Kind_AGENT ''Implement'' (Some ''develop'') None None,
     node ''develop-observe'' Kind_TOOL ''Observe workspace'' (Some ''develop'') None None,
     node ''verify'' Kind_VERIFIER ''Verify candidate'' None None None,
     node ''complete'' Kind_TERMINAL ''Complete or escalate'' None None None]
    [edge ''initialize-research'' ''initialize'' ''research'' Edge_NORMAL None None,
     edge ''research-theorize'' ''research'' ''theorize'' Edge_NORMAL None None,
     edge ''research-complete-failed'' ''research'' ''complete'' Edge_CONDITION (Some ''provider failure'') (Some
       Guard_ON_FAIL),
     edge ''theorize-experiment'' ''theorize'' ''experiment'' Edge_NORMAL None None,
     edge ''theorize-complete-failed'' ''theorize'' ''complete'' Edge_CONDITION (Some ''provider failure'') (Some
       Guard_ON_FAIL),
     edge ''experiment-develop'' ''experiment'' ''develop'' Edge_NORMAL None None,
     edge ''experiment-complete-failed'' ''experiment'' ''complete'' Edge_CONDITION (Some ''loop failed'') (Some
       Guard_ON_FAIL),
     edge ''experiment-act-observe'' ''experiment-act'' ''experiment-observe'' Edge_NORMAL None None,
     edge ''experiment-observe-act'' ''experiment-observe'' ''experiment-act'' Edge_LOOP_BACK (Some ''iterate'') None,
     edge ''develop-verify'' ''develop'' ''verify'' Edge_NORMAL None None,
     edge ''develop-complete-failed'' ''develop'' ''complete'' Edge_CONDITION (Some ''loop failed'') (Some Guard_ON_FAIL),
     edge ''develop-act-observe'' ''develop-act'' ''develop-observe'' Edge_NORMAL None None,
     edge ''develop-observe-act'' ''develop-observe'' ''develop-act'' Edge_LOOP_BACK (Some ''iterate'') None,
     edge ''verify-complete-success'' ''verify'' ''complete'' Edge_CONDITION (Some ''pass'') (Some Guard_ON_SUCCESS),
     edge ''verify-complete-failed'' ''verify'' ''complete'' Edge_CONDITION (Some ''fail'') (Some Guard_ON_FAIL),
     edge ''verify-complete-inconclusive'' ''verify'' ''complete'' Edge_CONDITION (Some ''escalate'') (Some
       Guard_ON_INCONCLUSIVE)]
    None []
    []"

definition SAFE_UNKNOWN_V1 :: "string \<Rightarrow> WorkflowTemplate" where
  "SAFE_UNKNOWN_V1 rid = draft_template rid ''safe-unknown-v1'' Mode_HYBRID
    [node ''initialize'' Kind_TASK ''Initialize'' None None None,
     node ''plan'' Kind_AGENT ''Plan'' None None None,
     node ''loop'' Kind_LOOP ''Bounded execution loop'' None None (Some (bounded_loop ''loop'' 1)),
     node ''loop-act'' Kind_AGENT ''Act'' (Some ''loop'') None None,
     node ''loop-observe'' Kind_TOOL ''Observe workspace'' (Some ''loop'') None None,
     node ''replan'' Kind_AGENT ''Replan once'' None (Some
       ''Revise the plan once using the verifier findings, staying within the same bounded topology.'') None,
     node ''verify'' Kind_VERIFIER ''Verify candidate'' None None None,
     node ''complete'' Kind_TERMINAL ''Complete or escalate'' None None None]
    [edge ''initialize-plan'' ''initialize'' ''plan'' Edge_NORMAL None None,
     edge ''plan-loop'' ''plan'' ''loop'' Edge_NORMAL None None,
     edge ''plan-complete-failed'' ''plan'' ''complete'' Edge_CONDITION (Some ''provider failure'') (Some Guard_ON_FAIL),
     edge ''loop-verify'' ''loop'' ''verify'' Edge_NORMAL None None,
     edge ''loop-complete-failed'' ''loop'' ''complete'' Edge_CONDITION (Some ''loop failed'') (Some Guard_ON_FAIL),
     edge ''loop-act-observe'' ''loop-act'' ''loop-observe'' Edge_NORMAL None None,
     edge ''loop-observe-act'' ''loop-observe'' ''loop-act'' Edge_LOOP_BACK (Some ''iterate'') None,
     edge ''verify-complete-success'' ''verify'' ''complete'' Edge_CONDITION (Some ''pass'') (Some Guard_ON_SUCCESS),
     edge ''verify-replan'' ''verify'' ''replan'' Edge_RETRY (Some ''replan once'') (Some Guard_ON_REPLAN_AVAILABLE),
     edge ''verify-complete-exhausted'' ''verify'' ''complete'' Edge_CONDITION (Some ''escalate'') (Some
       Guard_ON_REPLAN_EXHAUSTED),
     edge ''verify-complete-inconclusive'' ''verify'' ''complete'' Edge_CONDITION (Some ''escalate'') (Some
       Guard_ON_INCONCLUSIVE),
     edge ''replan-loop'' ''replan'' ''loop'' Edge_NORMAL None None,
     edge ''replan-complete-failed'' ''replan'' ''complete'' Edge_CONDITION (Some ''provider failure'') (Some Guard_ON_FAIL)]
    (Some (budget_default\<lparr>bp_max_replans := 1\<rparr>)) []
    []"

definition ALL_TEMPLATES :: "(WorkflowTemplate \<Rightarrow> string) \<Rightarrow> (nat \<Rightarrow> string) \<Rightarrow> WorkflowTemplate list res" where
  "ALL_TEMPLATES digest new_id = map_res (mk_template digest)
     [DIRECT_V1 (new_id 0), FEEDBACK_LOOP_V1 (new_id 1), FIXED_GRAPH_V1 (new_id 2), HYBRID_RD_V1 (new_id 3),
      SAFE_UNKNOWN_V1 (new_id 4)]"

subsection \<open>Instantiation\<close>

definition instance_id :: "string \<Rightarrow> string \<Rightarrow> string" where
  "instance_id run_id key = run_id @ '':'' @ key"

definition run_node :: "string \<Rightarrow> TaskBudgets \<Rightarrow> WorkflowNodeSpec \<Rightarrow> RunNode" where
  "run_node run_id budgets spec =
    \<lparr>nd_node_id = instance_id run_id (wn_key spec), nd_key = wn_key spec, nd_kind = wn_kind spec,
     nd_label = wn_label spec,
     nd_parent_id = (case wn_parent_key spec of
        Some pk \<Rightarrow> if pk = [] then None else Some (instance_id run_id pk) | None \<Rightarrow> None),
     nd_status = Node_PENDING, nd_iteration = (if wn_kind spec = Kind_LOOP then Some 0 else None),
     nd_max_iterations = (case wn_loop spec of
        None \<Rightarrow> None
      | Some l \<Rightarrow> if lp_max_iterations_source l = Src_FIXED then lp_fixed_max_iterations l
          else Some (tb_max_loop_iterations budgets)),
     nd_loop_execution_id = None, nd_approval_id = None, nd_verifier_state = None, nd_terminal_outcome = None\<rparr>"

definition run_edge :: "string \<Rightarrow> WorkflowEdgeSpec \<Rightarrow> RunEdge" where
  "run_edge run_id spec =
    \<lparr>ed_edge_id = instance_id run_id (we_key spec), ed_key = we_key spec,
     ed_source = instance_id run_id (we_source spec), ed_target = instance_id run_id (we_target spec),
     ed_kind = we_kind spec, ed_label = we_label spec, ed_guard = we_guard spec, ed_active = False,
     ed_traversal_count = 0\<rparr>"

definition instantiate_run_graph ::
  "(WorkflowTemplate \<Rightarrow> string) \<Rightarrow> string \<Rightarrow> WorkflowTemplate \<Rightarrow> string \<Rightarrow> string \<Rightarrow> TaskBudgets \<Rightarrow> RunGraph res" where
  "instantiate_run_graph digest graph_id t run_id task_id budgets =
    (if tp_status t \<noteq> Tpl_VALIDATED
       then Inl (ValueError ''only VALIDATED templates may instantiate a run graph'')
     else if compute_template_checksum digest t \<noteq> tp_checksum t
       then Inl (ValueError ''template content drifted from its checksum'')
     else Inr \<lparr>rg_run_graph_id = graph_id, rg_run_id = run_id, rg_task_id = task_id,
       rg_template_record_id = tp_template_record_id t, rg_template_id = tp_template_id t,
       rg_template_version = tp_version t, rg_template_checksum = tp_checksum t,
       rg_nodes = map (run_node run_id budgets) (tp_nodes t), rg_edges = map (run_edge run_id) (tp_edges t),
       rg_graph_revision = 1\<rparr>)"

subsection \<open>The built-in templates are valid\<close>

lemma validate_DIRECT_V1: "validate_template (DIRECT_V1 rid) = Inr []"
  by code_simp

lemma validate_FEEDBACK_LOOP_V1: "validate_template (FEEDBACK_LOOP_V1 rid) = Inr []"
  by code_simp

lemma validate_FIXED_GRAPH_V1: "validate_template (FIXED_GRAPH_V1 rid) = Inr []"
  by code_simp

lemma validate_HYBRID_RD_V1: "validate_template (HYBRID_RD_V1 rid) = Inr []"
  by code_simp

lemma validate_SAFE_UNKNOWN_V1: "validate_template (SAFE_UNKNOWN_V1 rid) = Inr []"
  by code_simp

lemmas validate_built_in =
  validate_DIRECT_V1 validate_FEEDBACK_LOOP_V1 validate_FIXED_GRAPH_V1 validate_HYBRID_RD_V1 validate_SAFE_UNKNOWN_V1

lemma mk_template_valid:
  "validate_template t = Inr [] \<Longrightarrow> mk_template digest t = Inr (sealed_template digest t)"
  by (simp add: mk_template_def)

text \<open>Sealing records the digest that instantiation recomputes.\<close>

lemma checksum_sealed: "compute_template_checksum digest (sealed_template digest t) = tp_checksum (sealed_template digest t)"
  by (simp add: sealed_template_def compute_template_checksum_def)

lemma validate_sealed: "validate_template (sealed_template digest t) = validate_template t"
proof -
  have fields: "tp_nodes (sealed_template digest t) = tp_nodes t" "tp_edges (sealed_template digest t) = tp_edges t"
    "tp_required_approval_gates (sealed_template digest t) = tp_required_approval_gates t"
    "tp_global_budget_policy (sealed_template digest t) = tp_global_budget_policy t"
    by (simp_all add: sealed_template_def)
  show ?thesis
    unfolding validate_template_def reference_problems_def shape_problems_def node_keys_def validate_guard_coverage_def
      node_coverage_def outbound_def inbound_def region_members_def entries_def tp_terminals_def tp_reachable_def
      reaches_terminal_def region_arcs_def spec_of_def loop_back_problems_def parent_problems_def gate_problems_def
      replan_problems_def fields ..
qed

lemma instantiate_sealed:
  "\<exists>g. instantiate_run_graph digest graph_id (sealed_template digest t) run_id task_id budgets = Inr g"
  using checksum_sealed [of digest t] by (simp add: instantiate_run_graph_def sealed_template_def)

lemma template_id_sealed [simp]: "tp_template_id (sealed_template digest t) = tp_template_id t"
  by (simp add: sealed_template_def)

text \<open>The templates of the module, as it defines them.\<close>

lemma ALL_TEMPLATES_sealed:
  "ALL_TEMPLATES digest new_id = Inr (map (sealed_template digest)
     [DIRECT_V1 (new_id 0), FEEDBACK_LOOP_V1 (new_id 1), FIXED_GRAPH_V1 (new_id 2), HYBRID_RD_V1 (new_id 3),
      SAFE_UNKNOWN_V1 (new_id 4)])"
  unfolding ALL_TEMPLATES_def by (rule map_res_total) (auto simp: mk_template_valid validate_built_in)

subsection \<open>Run graphs\<close>

text \<open>\<open>RunManager._key_of\<close>: the part of an identifier after its last colon.\<close>

definition key_of :: "string \<Rightarrow> string" where
  "key_of node_id = rev (takeWhile (\<lambda>c. c \<noteq> CHR '':'') (rev node_id))"

text \<open>The pattern of \<open>WorkflowNodeSpec.key\<close>.\<close>

definition valid_key :: "string \<Rightarrow> bool" where
  "valid_key k \<longleftrightarrow> k \<noteq> [] \<and> length k \<le> 32 \<and> CHR ''a'' \<le> hd k \<and> hd k \<le> CHR ''z'' \<and>
     list_all (\<lambda>c. CHR ''a'' \<le> c \<and> c \<le> CHR ''z'' \<or> CHR ''0'' \<le> c \<and> c \<le> CHR ''9'' \<or> c = CHR ''-'') k"

lemma valid_key_colon: "valid_key k \<Longrightarrow> CHR '':'' \<notin> set k"
  unfolding valid_key_def list_all_iff by (auto simp: less_eq_char_def)

lemma key_of_instance: "CHR '':'' \<notin> set k \<Longrightarrow> key_of (instance_id run_id k) = k"
proof -
  assume k: "CHR '':'' \<notin> set k"
  have "takeWhile (\<lambda>c. c \<noteq> CHR '':'') (rev k @ CHR '':'' # rev run_id) = rev k"
    using k by (subst takeWhile_append2) auto
  then show ?thesis by (simp add: key_of_def instance_id_def)
qed

text \<open>What the executor reads back from a run graph.\<close>

definition decoded_edge :: "RunEdge \<Rightarrow> WorkflowEdgeSpec" where
  "decoded_edge e = \<lparr>we_key = ed_key e, we_source = key_of (ed_source e), we_target = key_of (ed_target e),
     we_kind = ed_kind e, we_label = ed_label e, we_guard = ed_guard e\<rparr>"

lemma decoded_run_edge:
  assumes "CHR '':'' \<notin> set (we_source e)" "CHR '':'' \<notin> set (we_target e)"
  shows "decoded_edge (run_edge run_id e) = e"
  using assms by (simp add: decoded_edge_def run_edge_def key_of_instance)

lemma reference_problems_Nil:
  "reference_problems t = [] \<longleftrightarrow> distinct (node_keys t) \<and> distinct (map we_key (tp_edges t)) \<and>
    (\<forall>e \<in> set (tp_edges t). we_source e \<in> set (node_keys t) \<and> we_target e \<in> set (node_keys t) \<and>
      (we_kind e \<in> set GUARDED_EDGE_KINDS \<longrightarrow> we_guard e \<noteq> None) \<and>
      (we_kind e \<in> set UNGUARDED_EDGE_KINDS \<longrightarrow> we_guard e = None))"
proof -
  have if_Nil: "problem_if b q = [] \<longleftrightarrow> \<not> b" for b q by simp
  show ?thesis
    unfolding reference_problems_def append_is_Nil_conv concat_eq_Nil_conv set_map ball_simps if_Nil by auto
qed

lemma valid_template_reference_problems: "validate_template t = Inr [] \<Longrightarrow> reference_problems t = []"
  by (simp add: validate_template_def split: if_splits)

lemma valid_template_references:
  assumes "validate_template t = Inr []" "e \<in> set (tp_edges t)"
  shows "we_source e \<in> set (node_keys t)" "we_target e \<in> set (node_keys t)"
  using valid_template_reference_problems [OF assms(1)] assms(2) unfolding reference_problems_Nil by blast+

text \<open>What a valid template guarantees of its nodes.\<close>

lemma valid_template_parts:
  assumes "validate_template t = Inr []"
  shows "shape_problems t = []" "fst (region_problems (node_keys t) [] (tp_nodes t)) = []"
    "n \<in> set (tp_nodes t) \<Longrightarrow> parent_problems t n = []"
  using assms
  by (auto simp: validate_template_def bind_res_eq_Inr Let_def split: if_splits prod.splits)

lemma region_problems_policies:
  "fst (region_problems keys regions ns) = [] \<Longrightarrow> n \<in> set ns \<Longrightarrow>
     (wn_kind n = Kind_LOOP \<longleftrightarrow> wn_loop n \<noteq> None) \<and>
     (\<forall>l. wn_loop n = Some l \<longrightarrow> lp_max_iterations_source l = Src_FIXED \<longrightarrow> lp_fixed_max_iterations l \<noteq> None)"
proof (induction ns arbitrary: regions)
  case (Cons m ns)
  show ?case
  proof (cases "wn_loop m")
    case None
    then show ?thesis using Cons.prems Cons.IH [of regions] by (auto split: prod.splits if_splits)
  next
    case (Some l)
    then show ?thesis
      using Cons.prems Cons.IH [of "dset (wn_key m) (lp_region_keys l) regions"]
      by (auto simp: Let_def split: prod.splits if_splits)
  qed
qed simp

lemma valid_template_parent:
  assumes "validate_template t = Inr []" "n \<in> set (tp_nodes t)" "wn_parent_key n = Some pk"
  shows "\<exists>w \<in> set (tp_nodes t). wn_key w = pk \<and> wn_kind w = Kind_LOOP \<and> wn_key w \<noteq> wn_key n"
proof -
  have "parent_problems t n = []" by (rule valid_template_parts(3) [OF assms(1,2)])
  then obtain w where w: "spec_of t pk = Some w" "wn_kind w = Kind_LOOP" "pk \<noteq> wn_key n"
    using assms(3) by (auto simp: parent_problems_def split: option.splits if_splits)
  from w(1) have "w \<in> set (tp_nodes t) \<and> wn_key w = pk"
    by (auto simp: spec_of_def dget_dict_of dest!: map_of_SomeD)
  with w show ?thesis by blast
qed

lemma inj_instance: "instance_id run_id k = instance_id run_id k' \<longleftrightarrow> k = k'"
  by (simp add: instance_id_def)

lemma distinct_instances: "distinct (map (\<lambda>x. instance_id run_id (f x)) xs) \<longleftrightarrow> distinct (map f xs)"
  by (induction xs) (auto simp: inj_instance)

lemma valid_template_entry:
  assumes "validate_template t = Inr []"
  shows "\<exists>n. filter (\<lambda>n. inbound t (wn_key n) = []) (tp_nodes t) = [n] \<and> wn_kind n = Kind_TASK"
proof -
  note shape = valid_template_parts(1) [OF assms]
  have d: "distinct (map fst (rev (map (\<lambda>n. (wn_key n, n)) (tp_nodes t))))"
    using valid_template_reference_problems [OF assms] unfolding reference_problems_Nil
    by (simp add: node_keys_def rev_map comp_def flip: rev_map)
  have e: "entries t = map wn_key (filter (\<lambda>n. inbound t (wn_key n) = []) (tp_nodes t))"
    by (simp add: entries_def node_keys_def filter_map comp_def)
  from shape have "length (entries t) = 1" by (auto simp: shape_problems_def split: if_splits)
  then obtain n where n: "filter (\<lambda>n. inbound t (wn_key n) = []) (tp_nodes t) = [n]"
    unfolding e by (auto simp: length_Suc_conv)
  then have "n \<in> set (filter (\<lambda>n. inbound t (wn_key n) = []) (tp_nodes t))" by simp
  then have "n \<in> set (tp_nodes t)" by simp
  then have "spec_of t (wn_key n) = Some n"
    unfolding spec_of_def dget_dict_of by (intro map_of_is_SomeI [OF d]) auto
  with shape n e have "wn_kind n = Kind_TASK" by (auto simp: shape_problems_def split: if_splits)
  with n show ?thesis by blast
qed

text \<open>C36: The run graph of a valid template is well formed and stands for the template. Node and edge identifiers are
  distinct; the edges the executor decodes are the template's edges and every endpoint is a node; key, kind, label
  and parent of every node decode to those of its specification; exactly the loop nodes have a ceiling of
  iterations; every parent is another node of the graph that is a loop; and exactly one node has no inbound edge, a task.\<close>

theorem run_graph_well_formed:
  assumes "validate_template t = Inr []" "\<forall>n \<in> set (tp_nodes t). valid_key (wn_key n)"
    "instantiate_run_graph digest graph_id t run_id task_id budgets = Inr g"
  shows "distinct (map nd_node_id (rg_nodes g)) \<and> distinct (map ed_edge_id (rg_edges g)) \<and>
    map decoded_edge (rg_edges g) = tp_edges t \<and>
    map (\<lambda>n. (key_of (nd_node_id n), nd_key n, nd_kind n, nd_label n, map_option key_of (nd_parent_id n))) (rg_nodes g) =
      map (\<lambda>n. (wn_key n, wn_key n, wn_kind n, wn_label n, wn_parent_key n)) (tp_nodes t) \<and>
    (\<forall>e \<in> set (rg_edges g). {ed_source e, ed_target e} \<subseteq> nd_node_id ` set (rg_nodes g)) \<and>
    (\<forall>n \<in> set (rg_nodes g). (nd_kind n = Kind_LOOP \<longleftrightarrow> nd_max_iterations n \<noteq> None) \<and>
      (\<forall>pid. nd_parent_id n = Some pid \<longrightarrow>
        (\<exists>w \<in> set (rg_nodes g). nd_node_id w = pid \<and> nd_kind w = Kind_LOOP \<and> pid \<noteq> nd_node_id n))) \<and>
    (\<exists>n. filter (\<lambda>n. \<forall>e \<in> set (rg_edges g). ed_target e \<noteq> nd_node_id n) (rg_nodes g) = [n] \<and> nd_kind n = Kind_TASK)"
proof -
  have es: "rg_edges g = map (run_edge run_id) (tp_edges t)" and ns: "rg_nodes g = map (run_node run_id budgets) (tp_nodes t)"
    using assms(3) by (auto simp: instantiate_run_graph_def split: if_splits)
  have keys: "CHR '':'' \<notin> set (wn_key n)" "wn_key n \<noteq> []" if "n \<in> set (tp_nodes t)" for n
    using assms(2) that valid_key_colon by (auto simp: valid_key_def)
  then have colon: "CHR '':'' \<notin> set k" if "k \<in> set (node_keys t)" for k
    using that by (auto simp: node_keys_def)
  have ref: "reference_problems t = []" by (rule valid_template_reference_problems [OF assms(1)])
  have "decoded_edge (run_edge run_id e) = e" if "e \<in> set (tp_edges t)" for e
    using valid_template_references [OF assms(1) that] colon by (intro decoded_run_edge) auto
  then have 1: "map decoded_edge (rg_edges g) = tp_edges t" by (simp add: es map_idI)
  have 2: "{ed_source (run_edge run_id e), ed_target (run_edge run_id e)} \<subseteq> nd_node_id ` set (rg_nodes g)"
    if "e \<in> set (tp_edges t)" for e
    using valid_template_references [OF assms(1) that] by (force simp: ns node_keys_def run_edge_def run_node_def)
  have parent: "nd_parent_id (run_node run_id budgets n) = map_option (instance_id run_id) (wn_parent_key n)"
    "map_option key_of (nd_parent_id (run_node run_id budgets n)) = wn_parent_key n" if "n \<in> set (tp_nodes t)" for n
    using valid_template_parent [OF assms(1) that] keys
    by (force simp: run_node_def key_of_instance split: option.splits)+
  have 3: "nd_kind (run_node run_id budgets n) = Kind_LOOP \<longleftrightarrow> nd_max_iterations (run_node run_id budgets n) \<noteq> None"
    if "n \<in> set (tp_nodes t)" for n
    using region_problems_policies [OF valid_template_parts(2) [OF assms(1)] that]
    by (auto simp: run_node_def split: option.splits)
  have 4: "\<exists>w \<in> set (rg_nodes g). nd_node_id w = pid \<and> nd_kind w = Kind_LOOP \<and> pid \<noteq> nd_node_id (run_node run_id budgets n)"
    if "n \<in> set (tp_nodes t)" "nd_parent_id (run_node run_id budgets n) = Some pid" for n pid
    using that(2) valid_template_parent [OF assms(1) that(1)] unfolding parent(1) [OF that(1)]
    by (fastforce simp: ns run_node_def inj_instance)
  have 5: "filter (\<lambda>n. \<forall>e \<in> set (rg_edges g). ed_target e \<noteq> nd_node_id n) (rg_nodes g) =
      map (run_node run_id budgets) (filter (\<lambda>n. inbound t (wn_key n) = []) (tp_nodes t))"
    unfolding ns es filter_map
    by (rule arg_cong [where f = "map _"], rule filter_cong [OF refl])
      (auto simp: inbound_def filter_eq_Nil_iff run_edge_def run_node_def inj_instance)
  have 6: "distinct (map nd_node_id (rg_nodes g))" "distinct (map ed_edge_id (rg_edges g))"
    using ref unfolding reference_problems_Nil ns es
    by (simp_all add: comp_def run_node_def run_edge_def distinct_instances node_keys_def)
  have 7: "map (\<lambda>n. (key_of (nd_node_id n), nd_key n, nd_kind n, nd_label n, map_option key_of (nd_parent_id n))) (rg_nodes g) =
      map (\<lambda>n. (wn_key n, wn_key n, wn_kind n, wn_label n, wn_parent_key n)) (tp_nodes t)"
    using parent(2) keys(1) by (simp add: ns) (simp add: run_node_def key_of_instance)
  from valid_template_entry [OF assms(1)] 5 have
    "\<exists>n. filter (\<lambda>n. \<forall>e \<in> set (rg_edges g). ed_target e \<noteq> nd_node_id n) (rg_nodes g) = [n] \<and> nd_kind n = Kind_TASK"
    by (auto simp: run_node_def)
  with 1 2 3 4 6 7 show ?thesis by (auto simp: ns es)
qed

theorem run_graph_well_formed_witness:
  "\<exists>g. instantiate_run_graph (\<lambda>_. ''d'') ''g'' (sealed_template (\<lambda>_. ''d'') (HYBRID_RD_V1 ''r'')) ''run'' ''t''
       \<lparr>tb_wall_time_seconds = 60, tb_max_turns = 5, tb_max_tool_calls = 5, tb_max_loop_iterations = 3,
        tb_max_parallel_runs = 1\<rparr> = Inr g \<and>
     map decoded_edge (rg_edges g) = tp_edges (HYBRID_RD_V1 ''r'') \<and> distinct (map nd_node_id (rg_nodes g))"
proof -
  let ?b = "\<lparr>tb_wall_time_seconds = 60, tb_max_turns = 5, tb_max_tool_calls = 5, tb_max_loop_iterations = 3,
    tb_max_parallel_runs = 1\<rparr>"
  let ?t = "sealed_template (\<lambda>_. ''d'') (HYBRID_RD_V1 ''r'')"
  obtain g where g: "instantiate_run_graph (\<lambda>_. ''d'') ''g'' ?t ''run'' ''t'' ?b = Inr g"
    using instantiate_sealed by blast
  have "validate_template ?t = Inr []" "\<forall>n \<in> set (tp_nodes ?t). valid_key (wn_key n)"
    by code_simp+
  from run_graph_well_formed [OF this g] g show ?thesis by (auto simp: sealed_template_def)
qed

end
