(* ===== verification/Graph_Routing.thy ===== *)
theory Graph_Routing
  imports Templates
begin

text \<open>
  How a graph run moves from node to node: \<open>_select_edge\<close>, the cursor and the routing part of
  \<open>_execute_graph\<close> and \<open>_commit_graph_terminal\<close> in \<^verbatim>\<open>src/accretion/services/run_manager.py\<close>. The outcome of a
  node is an input here; \<open>Graph_Run\<close> produces it.

  Shown: in a validated template every outcome a node can have leads somewhere, an edge is followed only
  on an outcome its guard matches, and every edge followed uses up a retry or moves forward along the
  edges that are no retries.
\<close>

subsection \<open>Edge selection\<close>

fun GUARD_MATCHES :: "EdgeGuard \<Rightarrow> NodeOutcome" where
  "GUARD_MATCHES Guard_ON_SUCCESS = No_SUCCESS"
| "GUARD_MATCHES Guard_ON_FAIL = No_FAIL"
| "GUARD_MATCHES Guard_ON_INCONCLUSIVE = No_INCONCLUSIVE"
| "GUARD_MATCHES Guard_ON_APPROVED = No_APPROVED"
| "GUARD_MATCHES Guard_ON_DENIED = No_DENIED"
| "GUARD_MATCHES Guard_ON_REPLAN_AVAILABLE = No_FAIL"
| "GUARD_MATCHES Guard_ON_REPLAN_EXHAUSTED = No_FAIL"

fun TERMINAL_GUARD_STATES :: "EdgeGuard \<Rightarrow> RunState option" where
  "TERMINAL_GUARD_STATES Guard_ON_SUCCESS = Some Run_SUCCEEDED"
| "TERMINAL_GUARD_STATES Guard_ON_APPROVED = Some Run_SUCCEEDED"
| "TERMINAL_GUARD_STATES Guard_ON_FAIL = Some Run_FAILED"
| "TERMINAL_GUARD_STATES Guard_ON_INCONCLUSIVE = Some Run_REQUIRES_HUMAN"
| "TERMINAL_GUARD_STATES Guard_ON_DENIED = Some Run_REQUIRES_HUMAN"
| "TERMINAL_GUARD_STATES Guard_ON_REPLAN_EXHAUSTED = Some Run_REQUIRES_HUMAN"
| "TERMINAL_GUARD_STATES Guard_ON_REPLAN_AVAILABLE = None"

definition guard_matches :: "EdgeGuard option \<Rightarrow> NodeOutcome \<Rightarrow> bool" where
  "guard_matches g outcome \<longleftrightarrow> (\<exists>x \<in> set_option g. GUARD_MATCHES x = outcome)"

definition retry_limit :: "BudgetPolicy \<Rightarrow> RunEdge \<Rightarrow> int" where
  "retry_limit budget e =
    (if ed_guard e = Some Guard_ON_REPLAN_AVAILABLE then bp_max_replans budget else bp_max_node_retries budget)"

text \<open>The edge to follow, or the code of the error.\<close>

definition select_edge ::
  "NodeOutcome \<Rightarrow> RunEdge list \<Rightarrow> (string, int) dict \<Rightarrow> BudgetPolicy \<Rightarrow> string + RunEdge" where
  "select_edge outcome edges entered_via budget =
    (let candidates = filter (\<lambda>e. ed_kind e \<noteq> Edge_LOOP_BACK) edges in
     case find (\<lambda>e. ed_kind e = Edge_RETRY \<and> guard_matches (ed_guard e) outcome \<and>
         dget_or 0 entered_via (ed_key e) < retry_limit budget e) candidates of
       Some e \<Rightarrow> Inr e
     | None \<Rightarrow>
       let guarded = filter (\<lambda>e. ed_kind e \<in> {Edge_CONDITION, Edge_APPROVAL} \<and> guard_matches (ed_guard e) outcome)
             candidates in
       if length guarded = 1 then Inr (hd guarded)
       else if length guarded > 1 then Inl ''GRAPH_AMBIGUOUS_EDGES''
       else
         let plain = filter (\<lambda>e. ed_kind e = Edge_NORMAL \<and> ed_guard e = None) candidates in
         if outcome = No_SUCCESS \<and> length plain = 1 then Inr (hd plain)
         else Inl ''GRAPH_NO_ELIGIBLE_EDGE'')"

subsection \<open>The cursor\<close>

record GraphCursor =
  gc_statuses :: "(string, GraphNodeStatus) dict"
  gc_entered_via :: "(string, int) dict"
  gc_current_key :: string
  gc_arrival_guard :: "EdgeGuard option"
  gc_arrival_edge_kind :: "GraphEdgeKind option"
  gc_entry_edge_key :: "string option"
  gc_entered_via_retry :: bool
  gc_last_artifact_id :: "string option"
  gc_last_artifact_sha256 :: "string option"
  gc_last_results :: "VerificationResult list"
  gc_last_error :: "ErrorSummary option"
  gc_stop_reason :: "LoopStopReason option"

definition out_edges :: "RunGraph \<Rightarrow> string \<Rightarrow> RunEdge list" where
  "out_edges g key = filter (\<lambda>e. key_of (ed_source e) = key) (rg_edges g)"

text \<open>\<open>region_owner\<close>: members of a loop region to the region's owner; a later owner wins.\<close>

definition region_owner :: "WorkflowTemplate \<Rightarrow> (string, string) dict" where
  "region_owner t = dict_of (concat (map (\<lambda>n. case wn_loop n of
      None \<Rightarrow> [] | Some l \<Rightarrow> map (\<lambda>m. (m, wn_key n)) (filter (\<lambda>m. m \<noteq> wn_key n) (lp_region_keys l))) (tp_nodes t)))"

definition routed_key :: "WorkflowTemplate \<Rightarrow> RunEdge \<Rightarrow> string" where
  "routed_key t e = dget_or (key_of (ed_target e)) (region_owner t) (key_of (ed_target e))"

text \<open>The cursor after an edge was chosen, up to the checkpoint, and after it.\<close>

definition follow_edge :: "RunEdge \<Rightarrow> GraphCursor \<Rightarrow> GraphCursor" where
  "follow_edge e c = c\<lparr>gc_entry_edge_key := Some (ed_key e), gc_arrival_guard := ed_guard e,
     gc_arrival_edge_kind := Some (ed_kind e), gc_entered_via_retry := (ed_kind e = Edge_RETRY),
     gc_entered_via := dset (ed_key e) (dget_or 0 (gc_entered_via c) (ed_key e) + 1) (gc_entered_via c)\<rparr>"

definition new_cursor :: "(string, GraphNodeStatus) dict \<Rightarrow> (string, int) dict \<Rightarrow> string \<Rightarrow> GraphCursor" where
  "new_cursor statuses entered_via key = \<lparr>gc_statuses = statuses, gc_entered_via = entered_via, gc_current_key = key,
     gc_arrival_guard = None, gc_arrival_edge_kind = None, gc_entry_edge_key = None, gc_entered_via_retry = False,
     gc_last_artifact_id = None, gc_last_artifact_sha256 = None, gc_last_results = [], gc_last_error = None,
     gc_stop_reason = None\<rparr>"

text \<open>The routing of a sequence of node outcomes; \<open>None\<close> once no edge is eligible.\<close>

definition next_visit ::
  "WorkflowTemplate \<Rightarrow> RunGraph \<Rightarrow> NodeOutcome \<Rightarrow> GraphCursor \<Rightarrow> GraphCursor option" where
  "next_visit t g outcome c =
    (case select_edge outcome (out_edges g (gc_current_key c)) (gc_entered_via c) (tp_global_budget_policy t) of
       Inl _ \<Rightarrow> None
     | Inr e \<Rightarrow> Some ((follow_edge e c)\<lparr>gc_current_key := routed_key t e\<rparr>))"

fun visits :: "WorkflowTemplate \<Rightarrow> RunGraph \<Rightarrow> NodeOutcome list \<Rightarrow> GraphCursor \<Rightarrow> GraphCursor option" where
  "visits t g [] c = Some c"
| "visits t g (outcome # outcomes) c =
    (case next_visit t g outcome c of None \<Rightarrow> None | Some c' \<Rightarrow> visits t g outcomes c')"

definition entry_key :: "RunGraph \<Rightarrow> string option" where
  "entry_key g = map_option nd_key
     (find (\<lambda>n. nd_key n \<notin> set (map (\<lambda>e. key_of (ed_target e)) (rg_edges g))) (rg_nodes g))"

text \<open>\<open>_commit_graph_terminal\<close>: the state a run ends in.\<close>

definition terminal_state_of :: "EdgeGuard option \<Rightarrow> GraphEdgeKind option \<Rightarrow> RunState" where
  "terminal_state_of arrival_guard arrival_kind =
    (case arrival_guard of
       Some g \<Rightarrow> (case TERMINAL_GUARD_STATES g of None \<Rightarrow> Run_REQUIRES_HUMAN | Some s \<Rightarrow> s)
     | None \<Rightarrow> if arrival_kind = Some Edge_NORMAL then Run_SUCCEEDED else Run_REQUIRES_HUMAN)"

subsection \<open>A validated template leaves no outcome without an edge\<close>

text \<open>The edges the serial executor takes: retries only after a failure, replanning only by retry edges.\<close>

definition serial_edges :: "WorkflowTemplate \<Rightarrow> bool" where
  "serial_edges t \<longleftrightarrow> list_all (\<lambda>e.
     we_kind e \<in> {Edge_NORMAL, Edge_CONDITION, Edge_APPROVAL, Edge_LOOP_BACK, Edge_RETRY} \<and>
     (we_kind e = Edge_RETRY \<longrightarrow> we_guard e \<in> {Some Guard_ON_FAIL, Some Guard_ON_REPLAN_AVAILABLE}) \<and>
     (we_guard e = Some Guard_ON_REPLAN_AVAILABLE \<longrightarrow> we_kind e = Edge_RETRY)) (tp_edges t)"

lemma run_edge_simps [simp]:
  "ed_kind (run_edge r e) = we_kind e" "ed_guard (run_edge r e) = we_guard e" "ed_key (run_edge r e) = we_key e"
  by (simp_all add: run_edge_def)

text \<open>What validation and the serial grammar say of one edge.\<close>

lemma edge_grammar:
  assumes "validate_template t = Inr []" "serial_edges t" "e \<in> set (tp_edges t)"
  shows "(case we_guard e of None \<Rightarrow> we_kind e \<in> {Edge_NORMAL, Edge_LOOP_BACK}
     | Some g \<Rightarrow> if we_kind e = Edge_RETRY then g \<in> {Guard_ON_FAIL, Guard_ON_REPLAN_AVAILABLE}
         else we_kind e \<in> {Edge_CONDITION, Edge_APPROVAL} \<and> g \<noteq> Guard_ON_REPLAN_AVAILABLE)"
proof -
  have "we_kind e \<in> set GUARDED_EDGE_KINDS \<longrightarrow> we_guard e \<noteq> None"
    "we_kind e \<in> set UNGUARDED_EDGE_KINDS \<longrightarrow> we_guard e = None"
    using valid_template_reference_problems [OF assms(1)] assms(3) unfolding reference_problems_Nil by blast+
  moreover have "we_kind e \<in> {Edge_NORMAL, Edge_CONDITION, Edge_APPROVAL, Edge_LOOP_BACK, Edge_RETRY}"
    "we_kind e = Edge_RETRY \<longrightarrow> we_guard e \<in> {Some Guard_ON_FAIL, Some Guard_ON_REPLAN_AVAILABLE}"
    "we_guard e = Some Guard_ON_REPLAN_AVAILABLE \<longrightarrow> we_kind e = Edge_RETRY"
    using assms(2,3) unfolding serial_edges_def list_all_iff by blast+
  ultimately show ?thesis
    by (cases "we_kind e") (auto simp: GUARDED_EDGE_KINDS_def UNGUARDED_EDGE_KINDS_def split: option.splits)
qed

lemma valid_coverage:
  assumes "validate_template t = Inr []" "n \<in> set (tp_nodes t)" "wn_key n \<notin> set (region_members t)"
    "wn_kind n \<noteq> Kind_TERMINAL"
  shows "\<exists>outcomes. KIND_OUTCOMES (wn_kind n) = Some outcomes \<and>
    (\<forall>oc \<in> set outcomes. length (filter (covers oc) (outbound t (wn_key n))) = 1)"
proof -
  have "validate_guard_coverage t = Inr []"
    using assms(1) by (auto simp: validate_template_def bind_res_eq_Inr Let_def split: if_splits prod.splits)
  then obtain ps where ps: "map_res (node_coverage t) (tp_nodes t) = Inr ps" "concat ps = []"
    by (auto simp: validate_guard_coverage_def bind_res_eq_Inr)
  then have "node_coverage t n = Inr []"
    using assms(2) by (auto simp: map_res_eq_Inr in_set_conv_nth [of n] list_all2_conv_all_nth)
  then obtain outcomes where oc: "KIND_OUTCOMES (wn_kind n) = Some outcomes"
    "concat (map (coverage_problems (wn_key n) (outbound t (wn_key n))) outcomes) = []"
    using assms(3,4) by (auto simp: node_coverage_def split: option.splits)
  have one: "length xs = 1" if "(if xs = [] then [p] else if length xs > 1 then [q] else []) = []"
    for xs :: "WorkflowEdgeSpec list" and p q :: template_problem
    using that by (cases xs) (auto split: if_splits)
  have "coverage_problems (wn_key n) (outbound t (wn_key n)) x = []" if "x \<in> set outcomes" for x
    using oc(2) that by auto
  then have "\<forall>x \<in> set outcomes. length (filter (covers x) (outbound t (wn_key n))) = 1"
    unfolding coverage_problems_def Let_def by (blast dest: one)
  with oc(1) show ?thesis by blast
qed

text \<open>The three ways an edge can be taken, in terms of coverage.\<close>

lemma covering_edge:
  assumes "validate_template t = Inr []" "serial_edges t" "e \<in> set (tp_edges t)" "we_kind e \<noteq> Edge_RETRY"
    "outcome \<in> {No_SUCCESS, No_FAIL, No_INCONCLUSIVE, No_APPROVED, No_DENIED}"
  shows "covers outcome e \<longleftrightarrow>
    we_kind e \<in> {Edge_CONDITION, Edge_APPROVAL} \<and> guard_matches (we_guard e) outcome \<or>
    outcome = No_SUCCESS \<and> we_kind e = Edge_NORMAL \<and> we_guard e = None"
proof (cases "we_guard e")
  case None
  then show ?thesis using edge_grammar [OF assms(1-3)] assms(5) by (auto simp: covers_def guard_matches_def)
next
  case (Some g)
  then have "we_kind e \<in> {Edge_CONDITION, Edge_APPROVAL}" "g \<noteq> Guard_ON_REPLAN_AVAILABLE"
    using edge_grammar [OF assms(1-3)] assms(4) by (auto split: if_splits)
  then show ?thesis using Some assms(5) by (cases g) (auto simp: covers_def guard_matches_def)
qed

lemma retry_covers_nothing:
  assumes "validate_template t = Inr []" "serial_edges t" "e \<in> set (tp_edges t)" "we_kind e = Edge_RETRY"
    "outcome \<in> {No_SUCCESS, No_FAIL, No_INCONCLUSIVE, No_APPROVED, No_DENIED}"
  shows "\<not> covers outcome e"
  using edge_grammar [OF assms(1-3)] assms(4,5) by (auto simp: covers_def split: option.splits)

lemma length_one_filter_split:
  assumes "length (filter (\<lambda>x. P x \<or> Q x) xs) = 1"
  shows "length (filter P xs) = 1 \<or> filter P xs = [] \<and> length (filter Q xs) = 1"
  using assms by (induction xs) (auto simp: filter_empty_conv split: if_splits)

lemma filter_single: "filter P xs = [e] \<Longrightarrow> e \<in> set xs"
  by (induction xs) (auto split: if_splits)

lemma find_member: "find P xs = Some x \<Longrightarrow> x \<in> set xs \<and> P x"
  by (induction xs) (auto split: if_splits)

lemma kind_outcomes_regular:
  "KIND_OUTCOMES k = Some outcomes \<Longrightarrow> outcome \<in> set outcomes \<Longrightarrow>
     outcome \<in> {No_SUCCESS, No_FAIL, No_INCONCLUSIVE, No_APPROVED, No_DENIED}"
  by (cases k) auto

text \<open>Selection in terms of the specifications the run edges come from.\<close>

lemma select_spec_edge:
  assumes "length (filter (\<lambda>e. we_kind e \<in> {Edge_CONDITION, Edge_APPROVAL} \<and> guard_matches (we_guard e) outcome) specs) = 1 \<or>
    filter (\<lambda>e. we_kind e \<in> {Edge_CONDITION, Edge_APPROVAL} \<and> guard_matches (we_guard e) outcome) specs = [] \<and>
    length (filter (\<lambda>e. outcome = No_SUCCESS \<and> we_kind e = Edge_NORMAL \<and> we_guard e = None) specs) = 1"
    (is "length (filter ?P specs) = 1 \<or> _ \<and> length (filter ?Q specs) = 1")
  shows "\<exists>e \<in> set specs. select_edge outcome (map (run_edge run_id) specs) entered_via budget = Inr (run_edge run_id e)"
proof -
  let ?es = "map (run_edge run_id) specs"
  let ?c = "filter (\<lambda>e. ed_kind e \<noteq> Edge_LOOP_BACK) ?es"
  let ?retry = "\<lambda>e. ed_kind e = Edge_RETRY \<and> guard_matches (ed_guard e) outcome \<and>
    dget_or 0 entered_via (ed_key e) < retry_limit budget e"
  have guarded: "filter (\<lambda>e. ed_kind e \<in> {Edge_CONDITION, Edge_APPROVAL} \<and> guard_matches (ed_guard e) outcome) ?c =
      map (run_edge run_id) (filter ?P specs)"
    by (auto simp: filter_map o_def intro!: filter_cong arg_cong [of _ _ "map (run_edge run_id)"])
  have plain: "filter (\<lambda>e. ed_kind e = Edge_NORMAL \<and> ed_guard e = None) ?c =
      map (run_edge run_id) (filter (\<lambda>e. we_kind e = Edge_NORMAL \<and> we_guard e = None) specs)"
    by (auto simp: filter_map o_def intro!: filter_cong arg_cong [of _ _ "map (run_edge run_id)"])
  show ?thesis
  proof (cases "find ?retry ?c")
    case (Some x)
    then have "select_edge outcome ?es entered_via budget = Inr x" "x \<in> set ?c"
      by (auto simp: select_edge_def Let_def dest: find_member)
    then show ?thesis by auto
  next
    case None
    from assms show ?thesis
    proof
      assume "length (filter ?P specs) = 1"
      then obtain e where e: "filter ?P specs = [e]" by (auto simp: length_Suc_conv)
      then have "select_edge outcome ?es entered_via budget = Inr (run_edge run_id e)"
        unfolding select_edge_def Let_def None guarded e option.case by simp
      with filter_single [OF e] show ?thesis by blast
    next
      assume q: "filter ?P specs = [] \<and> length (filter ?Q specs) = 1"
      then have success: "outcome = No_SUCCESS" by (cases "outcome = No_SUCCESS") auto
      with q obtain e where e: "filter (\<lambda>e. we_kind e = Edge_NORMAL \<and> we_guard e = None) specs = [e]"
        by (auto simp: length_Suc_conv)
      then have "select_edge outcome ?es entered_via budget = Inr (run_edge run_id e)"
        unfolding select_edge_def Let_def None guarded plain e option.case using q success by simp
      with filter_single [OF e] show ?thesis by blast
    qed
  qed
qed

text \<open>In a valid template whose edges are those of the serial executor, every outcome that a node outside
  the loop regions can have selects an edge of that node, whatever was traversed before.\<close>

lemma validated_outcome_has_edge:
  assumes "validate_template t = Inr []" "serial_edges t" "n \<in> set (tp_nodes t)"
    "wn_key n \<notin> set (region_members t)" "wn_kind n \<noteq> Kind_TERMINAL"
    "KIND_OUTCOMES (wn_kind n) = Some outcomes" "outcome \<in> set outcomes"
  shows "\<exists>e \<in> set (outbound t (wn_key n)).
    select_edge outcome (map (run_edge run_id) (outbound t (wn_key n))) entered_via (tp_global_budget_policy t) =
      Inr (run_edge run_id e)"
proof (rule select_spec_edge)
  let ?out = "outbound t (wn_key n)"
  let ?P = "\<lambda>e. we_kind e \<in> {Edge_CONDITION, Edge_APPROVAL} \<and> guard_matches (we_guard e) outcome"
  let ?Q = "\<lambda>e. outcome = No_SUCCESS \<and> we_kind e = Edge_NORMAL \<and> we_guard e = None"
  have sub: "e \<in> set (tp_edges t)" if "e \<in> set ?out" for e using that by (simp add: outbound_def)
  note regular = kind_outcomes_regular [OF assms(6,7)]
  have "covers outcome e \<longleftrightarrow> ?P e \<or> ?Q e" if "e \<in> set ?out" for e
    using covering_edge [OF assms(1,2) sub [OF that] _ regular] retry_covers_nothing [OF assms(1,2) sub [OF that] _ regular]
    by (cases "we_kind e = Edge_RETRY") auto
  then have "filter (covers outcome) ?out = filter (\<lambda>e. ?P e \<or> ?Q e) ?out" by (intro filter_cong) auto
  moreover have "length (filter (covers outcome) ?out) = 1"
    using valid_coverage [OF assms(1,3,4,5)] assms(6,7) by auto
  ultimately show "length (filter ?P ?out) = 1 \<or> filter ?P ?out = [] \<and> length (filter ?Q ?out) = 1"
    using length_one_filter_split [of ?P ?Q ?out] by simp
qed

subsection \<open>Routing ends\<close>

definition forward_edge :: "RunEdge \<Rightarrow> bool" where
  "forward_edge e \<longleftrightarrow> ed_kind e \<notin> {Edge_RETRY, Edge_LOOP_BACK}"

definition route_arcs :: "WorkflowTemplate \<Rightarrow> RunGraph \<Rightarrow> string graph" where
  "route_arcs t g = map (\<lambda>e. (key_of (ed_source e), routed_key t e)) (filter forward_edge (rg_edges g))"

text \<open>The retries that are left, and the nodes that can still be entered without one.\<close>

definition retries_left :: "BudgetPolicy \<Rightarrow> RunGraph \<Rightarrow> (string, int) dict \<Rightarrow> nat" where
  "retries_left budget g entered_via =
     (\<Sum>e \<in> set (filter (\<lambda>e. ed_kind e = Edge_RETRY) (rg_edges g)).
        nat (retry_limit budget e - dget_or 0 entered_via (ed_key e)))"

definition ahead :: "WorkflowTemplate \<Rightarrow> RunGraph \<Rightarrow> string \<Rightarrow> nat" where
  "ahead t g key = card {k. (key, k) \<in> (set (route_arcs t g))\<^sup>+}"

definition route_measure :: "WorkflowTemplate \<Rightarrow> RunGraph \<Rightarrow> (string, int) dict \<Rightarrow> string \<Rightarrow> nat" where
  "route_measure t g entered_via key =
     retries_left (tp_global_budget_policy t) g entered_via * Suc (length (route_arcs t g)) + ahead t g key"

lemma select_edge_result:
  assumes "select_edge outcome edges entered_via budget = Inr e"
  shows "e \<in> set edges \<and> ed_kind e \<noteq> Edge_LOOP_BACK \<and> (ed_guard e = None \<or> guard_matches (ed_guard e) outcome) \<and>
    (ed_kind e = Edge_RETRY \<longrightarrow> dget_or 0 entered_via (ed_key e) < retry_limit budget e)"
proof -
  have hd: "hd (filter P xs) \<in> set xs \<and> P (hd (filter P xs))" if "length (filter P xs) = 1"
    for P :: "RunEdge \<Rightarrow> bool" and xs
    using that by (cases "filter P xs") (auto dest: filter_eq_ConsD)
  show ?thesis
  proof (cases "find (\<lambda>e. ed_kind e = Edge_RETRY \<and> guard_matches (ed_guard e) outcome \<and>
      dget_or 0 entered_via (ed_key e) < retry_limit budget e) (filter (\<lambda>e. ed_kind e \<noteq> Edge_LOOP_BACK) edges)")
    case (Some x)
    with assms have "x = e" by (simp add: select_edge_def Let_def)
    with find_member [OF Some] show ?thesis by simp
  next
    case None
    note r = assms [unfolded select_edge_def Let_def None option.case]
    let ?c = "filter (\<lambda>e. ed_kind e \<noteq> Edge_LOOP_BACK) edges"
    let ?G = "\<lambda>e. ed_kind e \<in> {Edge_CONDITION, Edge_APPROVAL} \<and> guard_matches (ed_guard e) outcome"
    let ?N = "\<lambda>e. ed_kind e = Edge_NORMAL \<and> ed_guard e = None"
    from r consider "length (filter ?G ?c) = 1" "e = hd (filter ?G ?c)" | "length (filter ?N ?c) = 1" "e = hd (filter ?N ?c)"
      by (simp only: split: if_splits) blast+
    then show ?thesis
    proof cases
      case 1
      then show ?thesis using hd [of ?G ?c] by auto
    next
      case 2
      then show ?thesis using hd [of ?N ?c] by auto
    qed
  qed
qed

lemma ahead_targets: "{k. (key, k) \<in> (set (route_arcs t g))\<^sup>+} \<subseteq> snd ` set (route_arcs t g)"
proof
  fix k
  assume "k \<in> {k. (key, k) \<in> (set (route_arcs t g))\<^sup>+}"
  then obtain j where "(j, k) \<in> set (route_arcs t g)" by (auto elim: tranclE)
  then show "k \<in> snd ` set (route_arcs t g)" by force
qed

lemma finite_ahead: "finite {k. (key, k) \<in> (set (route_arcs t g))\<^sup>+}"
  by (rule finite_subset [OF ahead_targets]) simp

lemma ahead_le: "ahead t g key \<le> length (route_arcs t g)"
proof -
  have "ahead t g key \<le> card (snd ` set (route_arcs t g))"
    unfolding ahead_def by (rule card_mono [OF _ ahead_targets]) simp
  also have "\<dots> \<le> length (route_arcs t g)" by (metis card_length set_map length_map)
  finally show ?thesis .
qed

lemma ahead_decreases:
  assumes "acyclic (set (route_arcs t g))" "(key, k) \<in> set (route_arcs t g)"
  shows "ahead t g k < ahead t g key"
proof -
  let ?r = "set (route_arcs t g)"
  have "{x. (k, x) \<in> ?r\<^sup>+} \<subset> {x. (key, x) \<in> ?r\<^sup>+}"
  proof
    show "{x. (k, x) \<in> ?r\<^sup>+} \<subseteq> {x. (key, x) \<in> ?r\<^sup>+}" using assms(2) by (auto intro: trancl_into_trancl2)
    have "(k, k) \<notin> ?r\<^sup>+" using assms(1) by (auto simp: acyclic_def)
    then show "{x. (k, x) \<in> ?r\<^sup>+} \<noteq> {x. (key, x) \<in> ?r\<^sup>+}" using assms(2) by blast
  qed
  then show ?thesis unfolding ahead_def by (rule psubset_card_mono [OF finite_ahead])
qed

text \<open>Traversing an edge uses up a retry or leaves the count of retries alone.\<close>

lemma retries_left_follow:
  assumes "distinct (map ed_key (rg_edges g))" "e \<in> set (rg_edges g)"
    and "ed_kind e = Edge_RETRY \<Longrightarrow> dget_or 0 entered_via (ed_key e) < retry_limit budget e"
  shows "retries_left budget g (dset (ed_key e) (dget_or 0 entered_via (ed_key e) + 1) entered_via) +
    (if ed_kind e = Edge_RETRY then 1 else 0) = retries_left budget g entered_via"
proof -
  let ?R = "set (filter (\<lambda>e. ed_kind e = Edge_RETRY) (rg_edges g))"
  let ?v = "dset (ed_key e) (dget_or 0 entered_via (ed_key e) + 1) entered_via"
  let ?w = "\<lambda>v x. nat (retry_limit budget x - dget_or 0 v (ed_key x))"
  have other: "?w ?v x = ?w entered_via x" if "x \<in> ?R" "x \<noteq> e" for x
  proof -
    have "ed_key x \<noteq> ed_key e"
      using that assms(1,2) by (auto simp: distinct_map inj_on_def)
    then show ?thesis by (simp add: dget_or_def)
  qed
  show ?thesis
  proof (cases "ed_kind e = Edge_RETRY")
    case True
    then have R: "?R = insert e (?R - {e})" using assms(2) by auto
    have "(\<Sum>x \<in> ?R. ?w ?v x) = ?w ?v e + (\<Sum>x \<in> ?R - {e}. ?w ?v x)" using R by (intro sum.remove) auto
    moreover have "(\<Sum>x \<in> ?R. ?w entered_via x) = ?w entered_via e + (\<Sum>x \<in> ?R - {e}. ?w entered_via x)"
      using R by (intro sum.remove) auto
    moreover have "(\<Sum>x \<in> ?R - {e}. ?w ?v x) = (\<Sum>x \<in> ?R - {e}. ?w entered_via x)"
      using other by (intro sum.cong) auto
    moreover have "?w ?v e + 1 = ?w entered_via e" using assms(3) [OF True] by (simp add: dget_or_def)
    ultimately show ?thesis using True by (simp add: retries_left_def)
  next
    case False
    then have "(\<Sum>x \<in> ?R. ?w ?v x) = (\<Sum>x \<in> ?R. ?w entered_via x)"
      by (intro sum.cong refl other) auto
    with False show ?thesis by (simp add: retries_left_def)
  qed
qed

lemma route_measure_decreases:
  assumes "acyclic (set (route_arcs t g))" "distinct (map ed_key (rg_edges g))"
    "select_edge outcome (out_edges g key) entered_via (tp_global_budget_policy t) = Inr e"
  shows "route_measure t g (dset (ed_key e) (dget_or 0 entered_via (ed_key e) + 1) entered_via) (routed_key t e) <
    route_measure t g entered_via key"
proof -
  let ?b = "tp_global_budget_policy t" and ?v = "dset (ed_key e) (dget_or 0 entered_via (ed_key e) + 1) entered_via"
  note sel = select_edge_result [OF assms(3)]
  then have e: "e \<in> set (rg_edges g)" "key_of (ed_source e) = key" by (auto simp: out_edges_def)
  note left = retries_left_follow [OF assms(2) e(1), of entered_via ?b]
  show ?thesis
  proof (cases "ed_kind e = Edge_RETRY")
    case True
    with left sel have "retries_left ?b g entered_via = Suc (retries_left ?b g ?v)" by simp
    then show ?thesis using ahead_le [of t g "routed_key t e"] by (simp add: route_measure_def)
  next
    case False
    with sel e have "(key, routed_key t e) \<in> set (route_arcs t g)" by (force simp: route_arcs_def forward_edge_def)
    with False left sel show ?thesis
      using ahead_decreases [OF assms(1)] by (simp add: route_measure_def)
  qed
qed

end
