(* ===== verification/Materialize.thy ===== *)
theory Materialize
  imports Graph_Validator Graph_Routing
begin

text \<open>
  The compilation of a validated proposal into an executable template,
  \<^verbatim>\<open>src/accretion/orchestration/materialize.py\<close>. \<open>DynamicMaterializationError\<close> and the field checks of the
  template models are \<open>ValueError\<close>s; the dash in the labels of region members is written \<^verbatim>\<open>--\<close>; the digest of a template and the fresh record identifier are arguments.

  Shown: the executor follows a gate's \<open>DENIED\<close> edge into a protected node of an accepted proposal, and
  one retry edge may be taken as often as another edge of the proposal allows; a materialized template
  is valid, within the grammar of the serial executor, and fails closed.
\<close>

subsection \<open>Nodes and edges\<close>

fun executor_kind :: "GraphNodeKind \<Rightarrow> GraphNodeKind" where
  "executor_kind Kind_JOIN = Kind_TASK"
| "executor_kind Kind_HUMAN = Kind_GATE"
| "executor_kind k = k"

fun FAILURE_OUTCOMES :: "GraphNodeKind \<Rightarrow> EdgeGuard list" where
  "FAILURE_OUTCOMES Kind_AGENT = [Guard_ON_FAIL]"
| "FAILURE_OUTCOMES Kind_VERIFIER = [Guard_ON_FAIL, Guard_ON_INCONCLUSIVE]"
| "FAILURE_OUTCOMES Kind_GATE = [Guard_ON_DENIED]"
| "FAILURE_OUTCOMES Kind_LOOP = [Guard_ON_FAIL]"
| "FAILURE_OUTCOMES _ = []"

text \<open>\<open>str.isspace\<close> and the separators of \<open>str.splitlines\<close>, on characters below 256.\<close>

definition py_space :: "char \<Rightarrow> bool" where
  "py_space c \<longleftrightarrow> (let n = of_char c :: nat in n \<in> {9..13} \<or> n \<in> {28..32} \<or> n = 133 \<or> n = 160)"

definition line_break :: "char \<Rightarrow> bool" where
  "line_break c \<longleftrightarrow> (let n = of_char c :: nat in n \<in> {10..13} \<or> n \<in> {28..30} \<or> n = 133)"

definition py_strip :: "string \<Rightarrow> string" where
  "py_strip s = rev (dropWhile py_space (rev (dropWhile py_space s)))"

definition label :: "string \<Rightarrow> string res" where
  "label objective =
    (if py_strip objective = [] then Inl (IndexError ''list index out of range'')
     else let first = takeWhile (\<lambda>c. \<not> line_break c) (py_strip objective) in
       Inr (if length first \<le> 120 then first else take 117 first @ ''...''))"

fun guard_by_name :: "string \<Rightarrow> EdgeGuard option" where
  "guard_by_name s = dget
     [(''ON_SUCCESS'', Guard_ON_SUCCESS), (''ON_FAIL'', Guard_ON_FAIL), (''ON_INCONCLUSIVE'', Guard_ON_INCONCLUSIVE),
      (''ON_APPROVED'', Guard_ON_APPROVED), (''ON_DENIED'', Guard_ON_DENIED),
      (''ON_REPLAN_AVAILABLE'', Guard_ON_REPLAN_AVAILABLE), (''ON_REPLAN_EXHAUSTED'', Guard_ON_REPLAN_EXHAUSTED)] s"

definition condition_guard :: "DynamicWorkflowEdgeSpec \<Rightarrow> EdgeGuard res" where
  "condition_guard e =
    (case de_condition e of
       Some c \<Rightarrow>
         if tc_operator c = Op_EQ \<and> tc_path c = Some ''node.outcome'' then
           (case tc_value c of
              JStr v \<Rightarrow> (case guard_by_name (''ON_'' @ str_upper v) of
                  Some g \<Rightarrow> Inr g | None \<Rightarrow> Inl (ValueError ''unsupported outcome''))
            | _ \<Rightarrow> Inl (ValueError ''a valid condition that P5 cannot execute''))
         else Inl (ValueError ''a valid condition that P5 cannot execute'')
     | None \<Rightarrow> Inl (ValueError ''a valid condition that P5 cannot execute''))"

abbreviation act_key :: "DynamicWorkflowNodeSpec \<Rightarrow> string" where
  "act_key n \<equiv> dn_local_id n @ ''-act''"

abbreviation observe_key :: "DynamicWorkflowNodeSpec \<Rightarrow> string" where
  "observe_key n \<equiv> dn_local_id n @ ''-observe''"

definition materialize_node :: "DynamicWorkflowNodeSpec \<Rightarrow> WorkflowNodeSpec list res" where
  "materialize_node n =
    (let kind = executor_kind (dn_kind n) in
     if kind \<noteq> Kind_LOOP then
       bind_res (label (dn_objective n)) (\<lambda>lb.
       if length (dn_local_id n) > 32 then Inl (ValueError ''string_too_long'')
       else Inr [(node (dn_local_id n) kind lb None (if kind = Kind_AGENT then Some (dn_objective n) else None) None)
           \<lparr>wn_capability_refs := dn_capability_refs n\<rparr>])
     else (case dn_loop_max_iterations n of
       None \<Rightarrow> Inl (AssertionError [])
     | Some max_iterations \<Rightarrow>
       if length (act_key n) > 32 \<or> length (observe_key n) > 32
         then Inl (ValueError ''loop node leaves no room for executor region identifiers'')
       else bind_res (label (dn_objective n)) (\<lambda>lb.
         Inr [node (dn_local_id n) Kind_LOOP lb None None
             (Some \<lparr>lp_region_keys = [act_key n, observe_key n], lp_act_key = act_key n,
                lp_observe_key = Some (observe_key n), lp_verify_in_region = False,
                lp_max_iterations_source = Src_FIXED, lp_fixed_max_iterations = Some max_iterations,
                lp_budget_fraction = 1\<rparr>),
           (node (act_key n) Kind_AGENT (lb @ '' -- act'') (Some (dn_local_id n)) (Some (dn_objective n)) None)
             \<lparr>wn_capability_refs := dn_capability_refs n\<rparr>,
           node (observe_key n) Kind_TOOL (lb @ '' -- observe'') (Some (dn_local_id n)) None None])))"

definition materialize_edge :: "DynamicWorkflowEdgeSpec \<Rightarrow> WorkflowEdgeSpec res" where
  "materialize_edge e =
    (let mk = (\<lambda>kind lb guard. edge (de_local_id e) (de_source e) (de_target e) kind lb guard) in
     case de_kind e of
       Edge_RETRY \<Rightarrow> Inr (mk Edge_RETRY
         (Some (''retry up to '' @ (case de_max_traversals e of None \<Rightarrow> ''None'' | Some k \<Rightarrow> show_nat (nat k))))
         (Some Guard_ON_FAIL))
     | Edge_CONDITION \<Rightarrow> bind_res (condition_guard e) (\<lambda>g. Inr (mk Edge_CONDITION (Some ''typed condition'') (Some g)))
     | Edge_APPROVAL \<Rightarrow> Inr (mk Edge_APPROVAL (Some ''approved'') (Some Guard_ON_APPROVED))
     | Edge_NORMAL \<Rightarrow> Inr (mk Edge_NORMAL None None)
     | Edge_LOOP_BACK \<Rightarrow> Inl (ValueError ''semantic LOOP_BACK edges are expressed by a LOOP node in P5'')
     | _ \<Rightarrow> Inl (ValueError ''edge kind is reserved for a later executor milestone''))"

definition region_edges :: "DynamicWorkflowNodeSpec \<Rightarrow> WorkflowEdgeSpec list" where
  "region_edges n =
    (if dn_kind n = Kind_LOOP
     then [edge (dn_local_id n @ ''-act-observe'') (act_key n) (observe_key n) Edge_NORMAL None None,
           edge (dn_local_id n @ ''-observe-act'') (observe_key n) (act_key n) Edge_LOOP_BACK
             (Some ''bounded iteration'') None]
     else [])"

text \<open>An edge out of a gate is taken only on approval.\<close>

definition guard_gate_edge :: "WorkflowProposal \<Rightarrow> WorkflowEdgeSpec \<Rightarrow> WorkflowEdgeSpec" where
  "guard_gate_edge p e =
    (case dget (node_table p) (we_source e) of
       Some n \<Rightarrow> if dn_kind n \<in> {Kind_GATE, Kind_HUMAN} \<and> we_kind e = Edge_NORMAL
         then e\<lparr>we_kind := Edge_CONDITION, we_guard := Some Guard_ON_APPROVED\<rparr> else e
     | None \<Rightarrow> e)"

definition first_of :: "'a list \<Rightarrow> 'a list" where
  "first_of xs = rev (remdups (rev xs))"

definition group_by_source :: "WorkflowEdgeSpec list \<Rightarrow> WorkflowEdgeSpec list" where
  "group_by_source edges =
     concat (map (\<lambda>src. filter (\<lambda>e. we_source e = src) edges) (first_of (map we_source edges)))"

subsection \<open>Fallback edges\<close>

fun guard_suffix :: "EdgeGuard \<Rightarrow> string" where
  "guard_suffix Guard_ON_SUCCESS = ''success''"
| "guard_suffix Guard_ON_FAIL = ''fail''"
| "guard_suffix Guard_ON_INCONCLUSIVE = ''inconclusive''"
| "guard_suffix Guard_ON_APPROVED = ''approved''"
| "guard_suffix Guard_ON_DENIED = ''denied''"
| "guard_suffix Guard_ON_REPLAN_AVAILABLE = ''replan_available''"
| "guard_suffix Guard_ON_REPLAN_EXHAUSTED = ''replan_exhausted''"

definition fallback_edge :: "string \<Rightarrow> string \<Rightarrow> EdgeGuard \<Rightarrow> WorkflowEdgeSpec" where
  "fallback_edge terminal key g = edge (key @ ''-fallback-'' @ guard_suffix g) key terminal Edge_CONDITION
     (Some (''fail closed: '' @ guard_suffix g)) (Some g)"

definition add_fallback :: "string \<Rightarrow> string \<times> EdgeGuard \<Rightarrow> WorkflowEdgeSpec list \<Rightarrow> WorkflowEdgeSpec list" where
  "add_fallback terminal = (\<lambda>(key, g) edges.
     if list_ex (\<lambda>e. we_source e = key \<and> we_guard e = Some g \<and> we_kind e \<noteq> Edge_RETRY) edges then edges
     else edges @ [fallback_edge terminal key g])"

definition failure_cases :: "WorkflowProposal \<Rightarrow> (string \<times> EdgeGuard) list" where
  "failure_cases p =
     concat (map (\<lambda>n. map (Pair (dn_local_id n)) (FAILURE_OUTCOMES (executor_kind (dn_kind n)))) (wp_nodes p))"

subsection \<open>The template\<close>

definition dynamic_gates :: "WorkflowProposal \<Rightarrow> GateSpec list" where
  "dynamic_gates p = map (\<lambda>n. \<lparr>gs_gate_id = ''dynamic-'' @ dn_local_id n, gs_node_key = dn_local_id n,
       gs_summary = dn_objective n, gs_required_for_risk_gte = dn_risk_level n\<rparr>)
     (filter (\<lambda>n. dn_kind n \<in> {Kind_GATE, Kind_HUMAN}) (wp_nodes p))"

definition node_retries :: "WorkflowProposal \<Rightarrow> int" where
  "node_retries p = fold max
     (map (\<lambda>e. case de_max_traversals e of None \<Rightarrow> 0 | Some k \<Rightarrow> k)
       (filter (\<lambda>e. de_kind e = Edge_RETRY) (wp_edges p))) 0"

definition dynamic_draft ::
  "string \<Rightarrow> string \<Rightarrow> WorkflowProposal \<Rightarrow> WorkflowNodeSpec list \<Rightarrow> WorkflowEdgeSpec list \<Rightarrow> WorkflowTemplate" where
  "dynamic_draft rid normalized_graph_hash p nodes edges =
    \<lparr>tp_template_record_id = rid, tp_template_id = ''dynamic-'' @ take 20 normalized_graph_hash,
     tp_version = ''2.0.0'', tp_mode = Mode_GRAPH,
     tp_input_schema = [(''dynamic_graph_schema'', JStr ''2.0'')], tp_nodes = nodes, tp_edges = edges,
     tp_global_budget_policy = budget_default\<lparr>bp_max_node_retries := node_retries p, bp_max_replans := 0\<rparr>,
     tp_required_verifiers = first_of (wp_expected_verifiers p), tp_required_approval_gates = dynamic_gates p,
     tp_checksum = ''pending'', tp_status = Tpl_DRAFT\<rparr>"

text \<open>Everything up to the validation of the draft.\<close>

definition materialized_draft :: "string \<Rightarrow> WorkflowProposal \<Rightarrow> string \<Rightarrow> WorkflowTemplate res" where
  "materialized_draft rid p normalized_graph_hash =
    (case filter (\<lambda>n. dn_kind n = Kind_TERMINAL) (wp_nodes p) of
       [] \<Rightarrow> Inl (ValueError ''a materialized graph needs a terminal'')
     | terminal # _ \<Rightarrow>
       (case map_res materialize_node (wp_nodes p) of
          Inl e \<Rightarrow> Inl e
        | Inr nss \<Rightarrow>
          (case map_res materialize_edge (wp_edges p) of
             Inl e \<Rightarrow> Inl e
           | Inr es \<Rightarrow>
             let edges = group_by_source (map (guard_gate_edge p) (es @ concat (map region_edges (wp_nodes p))));
                 all_edges = fold (add_fallback (dn_local_id terminal)) (failure_cases p) edges
             in Inr (dynamic_draft rid normalized_graph_hash p (concat nss) all_edges))))"

definition materialize_workflow_template ::
  "(WorkflowTemplate \<Rightarrow> string) \<Rightarrow> string \<Rightarrow> WorkflowProposal \<Rightarrow> string \<Rightarrow> WorkflowTemplate res" where
  "materialize_workflow_template digest rid p normalized_graph_hash =
     bind_res (materialized_draft rid p normalized_graph_hash) (mk_template digest)"

subsection \<open>Accepted proposals that escape their controls\<close>

definition edge_to :: "string \<Rightarrow> string \<Rightarrow> string \<Rightarrow> GraphEdgeKind \<Rightarrow> string option \<Rightarrow> int option \<Rightarrow> DynamicWorkflowEdgeSpec" where
  "edge_to k s t kind outcome bound = (ex_edge k s t)\<lparr>de_kind := kind,
     de_condition := map_option (\<lambda>v. TypedCondition Op_EQ (Some ''node.outcome'') (JStr v) []) outcome,
     de_max_traversals := bound\<rparr>"

text \<open>The gate's \<open>DENIED\<close> edge leads to the high-risk agent, its approval leads past it.\<close>

definition denied_proposal :: WorkflowProposal where
  "denied_proposal = ex_proposal\<lparr>
     wp_nodes := [ex_node ''start'' Kind_TASK Risk_LOW, ex_node ''gate'' Kind_GATE Risk_LOW,
       ex_node ''build'' Kind_AGENT Risk_HIGH, ex_node ''check'' Kind_VERIFIER Risk_LOW,
       ex_node ''done'' Kind_TERMINAL Risk_LOW],
     wp_edges := [ex_edge ''e1'' ''start'' ''gate'', edge_to ''e2'' ''gate'' ''check'' Edge_APPROVAL None None,
       edge_to ''e3'' ''gate'' ''build'' Edge_CONDITION (Some ''DENIED'') None, ex_edge ''e4'' ''build'' ''check'',
       ex_edge ''e5'' ''check'' ''done'']\<rparr>"

text \<open>Two retry edges with bounds of one and three traversals.\<close>

definition retry_proposal :: WorkflowProposal where
  "retry_proposal = ex_proposal\<lparr>
     wp_nodes := [ex_node ''start'' Kind_TASK Risk_LOW, ex_node ''one'' Kind_AGENT Risk_LOW,
       ex_node ''check'' Kind_VERIFIER Risk_LOW, ex_node ''two'' Kind_AGENT Risk_LOW,
       ex_node ''recheck'' Kind_VERIFIER Risk_LOW, ex_node ''done'' Kind_TERMINAL Risk_LOW],
     wp_edges := [ex_edge ''e1'' ''start'' ''one'', ex_edge ''e2'' ''one'' ''check'',
       edge_to ''once'' ''check'' ''one'' Edge_RETRY None (Some 1), ex_edge ''e3'' ''check'' ''two'',
       ex_edge ''e4'' ''two'' ''recheck'', edge_to ''thrice'' ''recheck'' ''two'' Edge_RETRY None (Some 3),
       ex_edge ''e5'' ''recheck'' ''done'']\<rparr>"

text \<open>A cycle of unbounded edges that is entered by a retry edge.\<close>

definition cyclic_proposal :: WorkflowProposal where
  "cyclic_proposal = ex_proposal\<lparr>
     wp_nodes := [ex_node ''start'' Kind_TASK Risk_LOW, ex_node ''work'' Kind_AGENT Risk_LOW,
       ex_node ''check'' Kind_VERIFIER Risk_LOW, ex_node ''fix'' Kind_TOOL Risk_LOW,
       ex_node ''recheck'' Kind_VERIFIER Risk_LOW, ex_node ''done'' Kind_TERMINAL Risk_LOW],
     wp_edges := [ex_edge ''e1'' ''start'' ''work'', ex_edge ''e2'' ''work'' ''check'',
       edge_to ''again'' ''check'' ''fix'' Edge_RETRY None (Some 1), ex_edge ''e3'' ''check'' ''done'',
       ex_edge ''e4'' ''fix'' ''recheck'', ex_edge ''e5'' ''recheck'' ''fix'']\<rparr>"

abbreviation accepts :: "WorkflowProposal \<Rightarrow> bool" where
  "accepts p \<equiv> case validate (\<lambda>_. ''h'') p ex_capabilities ex_policy ex_budget of
     Inr r \<Rightarrow> gv_status r = Val_ACCEPT | Inl _ \<Rightarrow> False"

text \<open>The templates the materializer makes of them, up to checksum and status.\<close>

definition example_draft :: "WorkflowNodeSpec list \<Rightarrow> WorkflowEdgeSpec list \<Rightarrow> int \<Rightarrow> GateSpec list \<Rightarrow> WorkflowTemplate" where
  "example_draft nodes edges retries gates =
    \<lparr>tp_template_record_id = ''r'', tp_template_id = ''dynamic-h'', tp_version = ''2.0.0'', tp_mode = Mode_GRAPH,
     tp_input_schema = [(''dynamic_graph_schema'', JStr ''2.0'')], tp_nodes = nodes, tp_edges = edges,
     tp_global_budget_policy = \<lparr>bp_max_wall_time_seconds = 1800, bp_max_total_turns = 20,
       bp_max_total_tool_calls = 100, bp_max_runtime_calls = 12, bp_max_node_retries = retries, bp_max_replans = 0\<rparr>,
     tp_required_verifiers = [''tests''], tp_required_approval_gates = gates, tp_checksum = ''pending'', tp_status = Tpl_DRAFT\<rparr>"

definition denied_draft :: WorkflowTemplate where
  "denied_draft = example_draft
    [node ''start'' Kind_TASK ''o'' None None None,
     node ''gate'' Kind_GATE ''o'' None None None,
     (node ''build'' Kind_AGENT ''o'' None (Some ''o'') None)\<lparr>wn_capability_refs := [''edit'']\<rparr>,
     node ''check'' Kind_VERIFIER ''o'' None None None,
     node ''done'' Kind_TERMINAL ''o'' None None None]
    [edge ''e1'' ''start'' ''gate'' Edge_NORMAL None None,
     edge ''e2'' ''gate'' ''check'' Edge_APPROVAL (Some ''approved'') (Some Guard_ON_APPROVED),
     edge ''e3'' ''gate'' ''build'' Edge_CONDITION (Some ''typed condition'') (Some Guard_ON_DENIED),
     edge ''e4'' ''build'' ''check'' Edge_NORMAL None None,
     edge ''e5'' ''check'' ''done'' Edge_NORMAL None None,
     edge ''build-fallback-fail'' ''build'' ''done'' Edge_CONDITION (Some ''fail closed: fail'') (Some Guard_ON_FAIL),
     edge ''check-fallback-fail'' ''check'' ''done'' Edge_CONDITION (Some ''fail closed: fail'') (Some Guard_ON_FAIL),
     edge ''check-fallback-inconclusive'' ''check'' ''done'' Edge_CONDITION (Some ''fail closed: inconclusive'') (Some Guard_ON_INCONCLUSIVE)]
    0 [\<lparr>gs_gate_id = ''dynamic-gate'', gs_node_key = ''gate'', gs_summary = ''o'', gs_required_for_risk_gte = Risk_LOW\<rparr>]"

definition retry_draft :: WorkflowTemplate where
  "retry_draft = example_draft
    [node ''start'' Kind_TASK ''o'' None None None,
     (node ''one'' Kind_AGENT ''o'' None (Some ''o'') None)\<lparr>wn_capability_refs := [''edit'']\<rparr>,
     node ''check'' Kind_VERIFIER ''o'' None None None,
     (node ''two'' Kind_AGENT ''o'' None (Some ''o'') None)\<lparr>wn_capability_refs := [''edit'']\<rparr>,
     node ''recheck'' Kind_VERIFIER ''o'' None None None,
     node ''done'' Kind_TERMINAL ''o'' None None None]
    [edge ''e1'' ''start'' ''one'' Edge_NORMAL None None,
     edge ''e2'' ''one'' ''check'' Edge_NORMAL None None,
     edge ''once'' ''check'' ''one'' Edge_RETRY (Some ''retry up to 1'') (Some Guard_ON_FAIL),
     edge ''e3'' ''check'' ''two'' Edge_NORMAL None None,
     edge ''e4'' ''two'' ''recheck'' Edge_NORMAL None None,
     edge ''thrice'' ''recheck'' ''two'' Edge_RETRY (Some ''retry up to 3'') (Some Guard_ON_FAIL),
     edge ''e5'' ''recheck'' ''done'' Edge_NORMAL None None,
     edge ''one-fallback-fail'' ''one'' ''done'' Edge_CONDITION (Some ''fail closed: fail'') (Some Guard_ON_FAIL),
     edge ''check-fallback-fail'' ''check'' ''done'' Edge_CONDITION (Some ''fail closed: fail'') (Some Guard_ON_FAIL),
     edge ''check-fallback-inconclusive'' ''check'' ''done'' Edge_CONDITION (Some ''fail closed: inconclusive'') (Some Guard_ON_INCONCLUSIVE),
     edge ''two-fallback-fail'' ''two'' ''done'' Edge_CONDITION (Some ''fail closed: fail'') (Some Guard_ON_FAIL),
     edge ''recheck-fallback-fail'' ''recheck'' ''done'' Edge_CONDITION (Some ''fail closed: fail'') (Some Guard_ON_FAIL),
     edge ''recheck-fallback-inconclusive'' ''recheck'' ''done'' Edge_CONDITION (Some ''fail closed: inconclusive'') (Some Guard_ON_INCONCLUSIVE)]
    3 []"

definition cyclic_draft :: WorkflowTemplate where
  "cyclic_draft = example_draft
    [node ''start'' Kind_TASK ''o'' None None None,
     (node ''work'' Kind_AGENT ''o'' None (Some ''o'') None)\<lparr>wn_capability_refs := [''edit'']\<rparr>,
     node ''check'' Kind_VERIFIER ''o'' None None None,
     node ''fix'' Kind_TOOL ''o'' None None None,
     node ''recheck'' Kind_VERIFIER ''o'' None None None,
     node ''done'' Kind_TERMINAL ''o'' None None None]
    [edge ''e1'' ''start'' ''work'' Edge_NORMAL None None,
     edge ''e2'' ''work'' ''check'' Edge_NORMAL None None,
     edge ''again'' ''check'' ''fix'' Edge_RETRY (Some ''retry up to 1'') (Some Guard_ON_FAIL),
     edge ''e3'' ''check'' ''done'' Edge_NORMAL None None,
     edge ''e4'' ''fix'' ''recheck'' Edge_NORMAL None None,
     edge ''e5'' ''recheck'' ''fix'' Edge_NORMAL None None,
     edge ''work-fallback-fail'' ''work'' ''done'' Edge_CONDITION (Some ''fail closed: fail'') (Some Guard_ON_FAIL),
     edge ''check-fallback-fail'' ''check'' ''done'' Edge_CONDITION (Some ''fail closed: fail'') (Some Guard_ON_FAIL),
     edge ''check-fallback-inconclusive'' ''check'' ''done'' Edge_CONDITION (Some ''fail closed: inconclusive'') (Some Guard_ON_INCONCLUSIVE),
     edge ''recheck-fallback-fail'' ''recheck'' ''done'' Edge_CONDITION (Some ''fail closed: fail'') (Some Guard_ON_FAIL),
     edge ''recheck-fallback-inconclusive'' ''recheck'' ''done'' Edge_CONDITION (Some ''fail closed: inconclusive'') (Some Guard_ON_INCONCLUSIVE)]
    1 []"

lemma materialized_examples:
  "materialized_draft ''r'' denied_proposal ''h'' = Inr denied_draft"
  "materialized_draft ''r'' retry_proposal ''h'' = Inr retry_draft"
  "materialized_draft ''r'' cyclic_proposal ''h'' = Inr cyclic_draft"
  by code_simp+

lemma drafts_valid:
  "validate_template denied_draft = Inr []" "validate_template retry_draft = Inr []"
  "validate_template cyclic_draft = Inr []"
  by code_simp+

lemma materialize_examples:
  "materialize_workflow_template digest ''r'' denied_proposal ''h'' = Inr (sealed_template digest denied_draft)"
  "materialize_workflow_template digest ''r'' retry_proposal ''h'' = Inr (sealed_template digest retry_draft)"
  "materialize_workflow_template digest ''r'' cyclic_proposal ''h'' = Inr (sealed_template digest cyclic_draft)"
  by (simp_all add: materialize_workflow_template_def materialized_examples mk_template_valid drafts_valid)

text \<open>C32: A denied approval can start the very node the approval protects. The proposal below is accepted by
  the validator under a policy that asks for approval of high-risk nodes, and it is materialized; when
  the operator denies the gate, the executor selects the edge to the high-risk agent.\<close>

theorem denied_gate_starts_protected_node:
  "accepts denied_proposal \<and>
   materialize_workflow_template digest ''r'' denied_proposal ''h'' = Inr (sealed_template digest denied_draft) \<and>
   (\<exists>n e. n \<in> set (wp_nodes denied_proposal) \<and> protected_node ex_capabilities ex_policy n \<and> dn_kind n = Kind_AGENT \<and>
     select_edge No_DENIED (map (run_edge ''run'') (outbound denied_draft ''gate'')) []
       (tp_global_budget_policy denied_draft) = Inr e \<and> key_of (ed_target e) = dn_local_id n)"
proof -
  have "accepts denied_proposal" by code_simp
  moreover have "ex_node ''build'' Kind_AGENT Risk_HIGH \<in> set (wp_nodes denied_proposal)"
    "dn_kind (ex_node ''build'' Kind_AGENT Risk_HIGH) = Kind_AGENT"
    by (simp_all add: denied_proposal_def ex_node_def)
  moreover have "protected_node ex_capabilities ex_policy (ex_node ''build'' Kind_AGENT Risk_HIGH)" by code_simp
  moreover have "select_edge No_DENIED (map (run_edge ''run'') (outbound denied_draft ''gate'')) []
       (tp_global_budget_policy denied_draft) = Inr (run_edge ''run'' (edge ''e3'' ''gate'' ''build'' Edge_CONDITION
         (Some ''typed condition'') (Some Guard_ON_DENIED)))" by code_simp
  moreover have "key_of (ed_target (run_edge ''run'' (edge ''e3'' ''gate'' ''build'' Edge_CONDITION
         (Some ''typed condition'') (Some Guard_ON_DENIED)))) = dn_local_id (ex_node ''build'' Kind_AGENT Risk_HIGH)"
    by code_simp
  ultimately show ?thesis using materialize_examples(1) by blast
qed

text \<open>C34: The bound a proposal puts on a retry edge is not the bound the executor applies. In the accepted
  proposal below one retry edge declares a single traversal; because another one declares three, the
  executor takes the first edge a second and a third time.\<close>

theorem retry_bound_is_shared:
  "accepts retry_proposal \<and>
   materialize_workflow_template digest ''r'' retry_proposal ''h'' = Inr (sealed_template digest retry_draft) \<and>
   (\<exists>e. edge_to ''once'' ''check'' ''one'' Edge_RETRY None (Some 1) \<in> set (wp_edges retry_proposal) \<and> ed_key e = ''once'' \<and>
     select_edge No_FAIL (map (run_edge ''run'') (outbound retry_draft ''check'')) [(''once'', 1)]
       (tp_global_budget_policy retry_draft) = Inr e \<and>
     select_edge No_FAIL (map (run_edge ''run'') (outbound retry_draft ''check'')) [(''once'', 2)]
       (tp_global_budget_policy retry_draft) = Inr e)"
proof -
  let ?e = "run_edge ''run'' (edge ''once'' ''check'' ''one'' Edge_RETRY (Some ''retry up to 1'') (Some Guard_ON_FAIL))"
  have "accepts retry_proposal" by code_simp
  moreover have "edge_to ''once'' ''check'' ''one'' Edge_RETRY None (Some 1) \<in> set (wp_edges retry_proposal)"
    by (simp add: retry_proposal_def)
  moreover have "ed_key ?e = ''once''" by (simp add: edge_def)
  moreover have "select_edge No_FAIL (map (run_edge ''run'') (outbound retry_draft ''check'')) [(''once'', 1)]
       (tp_global_budget_policy retry_draft) = Inr ?e" by code_simp
  moreover have "select_edge No_FAIL (map (run_edge ''run'') (outbound retry_draft ''check'')) [(''once'', 2)]
       (tp_global_budget_policy retry_draft) = Inr ?e" by code_simp
  ultimately show ?thesis using materialize_examples(2) by blast
qed

definition graph_of :: "WorkflowTemplate \<Rightarrow> RunGraph" where
  "graph_of t = \<lparr>rg_run_graph_id = ''g'', rg_run_id = ''run'', rg_task_id = ''t'',
     rg_template_record_id = tp_template_record_id t, rg_template_id = tp_template_id t,
     rg_template_version = tp_version t, rg_template_checksum = tp_checksum t,
     rg_nodes = map (run_node ''run'' ex_budget) (tp_nodes t), rg_edges = map (run_edge ''run'') (tp_edges t),
     rg_graph_revision = 1\<rparr>"

lemma graph_of_instantiates:
  "instantiate_run_graph digest ''g'' (sealed_template digest t) ''run'' ''t'' ex_budget = Inr (graph_of (sealed_template digest t))"
  using checksum_sealed [of digest t] by (simp add: instantiate_run_graph_def graph_of_def) (simp add: sealed_template_def)

lemma visits_append:
  "visits t g (xs @ ys) c = (case visits t g xs c of None \<Rightarrow> None | Some c' \<Rightarrow> visits t g ys c')"
  by (induction xs arbitrary: c) (auto split: option.splits)

lemma cyclic_visit:
  "next_visit cyclic_draft (graph_of cyclic_draft) No_SUCCESS c = Some
     ((follow_edge (run_edge ''run'' (edge ''e4'' ''fix'' ''recheck'' Edge_NORMAL None None)) c)
       \<lparr>gc_current_key := ''recheck''\<rparr>)"
  if "gc_current_key c = ''fix''"
proof -
  have "out_edges (graph_of cyclic_draft) ''fix'' = [run_edge ''run'' (edge ''e4'' ''fix'' ''recheck'' Edge_NORMAL None None)]"
    "routed_key cyclic_draft (run_edge ''run'' (edge ''e4'' ''fix'' ''recheck'' Edge_NORMAL None None)) = ''recheck''"
    by code_simp+
  then show ?thesis using that by (simp add: next_visit_def select_edge_def edge_def)
qed

lemma cyclic_return:
  "\<exists>c'. next_visit cyclic_draft (graph_of cyclic_draft) No_SUCCESS c = Some c' \<and> gc_current_key c' = ''fix''"
  if "gc_current_key c = ''recheck''"
proof -
  have "out_edges (graph_of cyclic_draft) ''recheck'' =
      [run_edge ''run'' (edge ''e5'' ''recheck'' ''fix'' Edge_NORMAL None None),
       run_edge ''run'' (fallback_edge ''done'' ''recheck'' Guard_ON_FAIL),
       run_edge ''run'' (fallback_edge ''done'' ''recheck'' Guard_ON_INCONCLUSIVE)]"
    "routed_key cyclic_draft (run_edge ''run'' (edge ''e5'' ''recheck'' ''fix'' Edge_NORMAL None None)) = ''fix''"
    by code_simp+
  then show ?thesis
    using that by (simp add: next_visit_def select_edge_def edge_def fallback_edge_def guard_matches_def)
qed

lemma cyclic_visits:
  "gc_current_key c = ''fix'' \<Longrightarrow>
   \<exists>c'. visits cyclic_draft (graph_of cyclic_draft) (concat (replicate n [No_SUCCESS, No_SUCCESS])) c = Some c' \<and>
     gc_current_key c' = ''fix''"
proof (induction n arbitrary: c)
  case (Suc n)
  let ?c = "(follow_edge (run_edge ''run'' (edge ''e4'' ''fix'' ''recheck'' Edge_NORMAL None None)) c)
    \<lparr>gc_current_key := ''recheck''\<rparr>"
  have "gc_current_key ?c = ''recheck''" by simp
  from cyclic_return [OF this] obtain c' where
    "next_visit cyclic_draft (graph_of cyclic_draft) No_SUCCESS ?c = Some c'" "gc_current_key c' = ''fix''" by blast
  with cyclic_visit [OF Suc.prems] Suc.IH [of c'] show ?case by simp
qed simp

text \<open>C33: An accepted graph can run forever. The validator looks for unbounded cycles only along edges that
  are neither retries nor loop edges, starting from the root; a cycle that is entered by a retry edge is
  not found. In the accepted and materialized proposal below, a failed verification is retried once and
  then a tool and a verifier that keep succeeding are visited any number of times.\<close>

theorem unbounded_cycle_behind_retry:
  "accepts cyclic_proposal \<and>
   materialize_workflow_template digest ''r'' cyclic_proposal ''h'' = Inr (sealed_template digest cyclic_draft) \<and>
   (\<forall>n. \<exists>c. visits cyclic_draft (graph_of cyclic_draft)
       ([No_SUCCESS, No_SUCCESS, No_FAIL] @ concat (replicate n [No_SUCCESS, No_SUCCESS]))
       (new_cursor [] [] ''start'') = Some c \<and> gc_current_key c = ''fix'')"
proof -
  have "accepts cyclic_proposal" by code_simp
  moreover have "map_option gc_current_key (visits cyclic_draft (graph_of cyclic_draft) [No_SUCCESS, No_SUCCESS, No_FAIL]
      (new_cursor [] [] ''start'')) = Some ''fix''" by code_simp
  then obtain c where "visits cyclic_draft (graph_of cyclic_draft) [No_SUCCESS, No_SUCCESS, No_FAIL]
      (new_cursor [] [] ''start'') = Some c" "gc_current_key c = ''fix''" by auto
  ultimately show ?thesis
    using materialize_examples(3) cyclic_visits [of c] unfolding visits_append by simp
qed

end
