(* ===== verification/Graph_Run.thy ===== *)
theory Graph_Run
  imports Loop_Run Graph_Routing Planning
begin

text \<open>
  \<open>RunManager\<close>'s graph executor (\<^verbatim>\<open>src/accretion/services/run_manager.py\<close>): \<open>_execute_graph\<close>, the
  handlers of the node kinds, bounded loop regions, checkpoints and the ways a graph run ends, for a
  manager with neither a routing service nor a feedback pipeline (\<open>None\<close> is what the constructor sets).
  Then \<open>_run_graph_node\<close> runs one attempt and \<open>_after_routed_node\<close> returns at once.

  The manager's state and the sequencing are those of \<open>Loop_Run\<close>. \<open>node_input\<close> is what one pass of the
  executor's loop reads from the outside: the pause flag, the searches planned for the node and what came
  of them, the seconds left, the result of the runtime call, the captured diff, the verdicts, what every
  poll of a waiting gate sees and the inputs of a loop region. The time spent at gates only moves the
  deadline, whose effects are these inputs. The executor also reports the nodes it completed with their
  outcomes.
\<close>

subsection \<open>Values\<close>

fun outcome_value :: "NodeOutcome \<Rightarrow> string" where
  "outcome_value No_SUCCESS = ''SUCCESS''"
| "outcome_value No_FAIL = ''FAIL''"
| "outcome_value No_INCONCLUSIVE = ''INCONCLUSIVE''"
| "outcome_value No_APPROVED = ''APPROVED''"
| "outcome_value No_DENIED = ''DENIED''"
| "outcome_value No_BUDGET_EXHAUSTED = ''BUDGET_EXHAUSTED''"
| "outcome_value No_PAUSED = ''PAUSED''"
| "outcome_value No_CANCELLED = ''CANCELLED''"

fun guard_value :: "EdgeGuard \<Rightarrow> string" where
  "guard_value Guard_ON_SUCCESS = ''ON_SUCCESS''"
| "guard_value Guard_ON_FAIL = ''ON_FAIL''"
| "guard_value Guard_ON_INCONCLUSIVE = ''ON_INCONCLUSIVE''"
| "guard_value Guard_ON_APPROVED = ''ON_APPROVED''"
| "guard_value Guard_ON_DENIED = ''ON_DENIED''"
| "guard_value Guard_ON_REPLAN_AVAILABLE = ''ON_REPLAN_AVAILABLE''"
| "guard_value Guard_ON_REPLAN_EXHAUSTED = ''ON_REPLAN_EXHAUSTED''"

fun decision_value :: "ApprovalDecisionValue \<Rightarrow> string" where
  "decision_value Dec_APPROVE = ''APPROVE''"
| "decision_value Dec_APPROVE_SESSION = ''APPROVE_SESSION''"
| "decision_value Dec_DENY = ''DENY''"
| "decision_value Dec_CANCEL = ''CANCEL''"

fun node_status_value :: "GraphNodeStatus \<Rightarrow> string" where
  "node_status_value Node_PENDING = ''PENDING''"
| "node_status_value Node_RUNNING = ''RUNNING''"
| "node_status_value Node_WAITING = ''WAITING''"
| "node_status_value Node_SUCCEEDED = ''SUCCEEDED''"
| "node_status_value Node_FAILED = ''FAILED''"
| "node_status_value Node_CANCELLED = ''CANCELLED''"

datatype SearchStatus =
    Search_PLANNED | Search_RUNNING | Search_SELECTING | Search_SUCCEEDED | Search_STOPPED | Search_CANCELLED
  | Search_FAILED | Search_REQUIRES_HUMAN

definition error_json :: "ErrorSummary \<Rightarrow> json" where
  "error_json e = JObj [(''code'', JStr (er_code e)), (''message'', JStr (er_message e)),
     (''retryable'', JBool (er_retryable e))]"

definition json_of :: "string option \<Rightarrow> json" where
  "json_of v = (case v of None \<Rightarrow> JNull | Some s \<Rightarrow> JStr s)"

subsection \<open>Inputs\<close>

record gate_poll =
  gp_pause :: bool
  gp_during :: "store \<Rightarrow> store"

record node_input =
  ni_pause_head :: bool
  ni_searches :: nat
  ni_search_executor :: bool
  ni_search_status :: SearchStatus
  ni_search_artifact :: "(string \<times> string option) option"
  ni_left :: int
  ni_during :: "store \<Rightarrow> store"
  ni_outcome :: RuntimeCallOutcome
  ni_pause_call :: bool
  ni_artifact :: "ArtifactRef option"
  ni_verdict :: "string \<Rightarrow> VerificationResult"
  ni_polls :: "gate_poll list"
  ni_turns :: "turn_input list"

text \<open>What a handler returns: the outcome (\<open>None\<close> when the inputs end while it still waits), the session
  and the cursor.\<close>

type_synonym node_result = "NodeOutcome option \<times> string \<times> GraphCursor"

abbreviation done_with :: "NodeOutcome \<Rightarrow> string \<Rightarrow> GraphCursor \<Rightarrow> node_result act" where
  "done_with outcome sid c \<equiv> ret (Some outcome, sid, c)"

definition set_status :: "string \<Rightarrow> GraphNodeStatus \<Rightarrow> GraphCursor \<Rightarrow> GraphCursor" where
  "set_status key status c = c\<lparr>gc_statuses := dset key status (gc_statuses c)\<rparr>"

definition enter_via :: "env \<Rightarrow> Run \<Rightarrow> string \<Rightarrow> string \<Rightarrow> string option \<Rightarrow> unit act" where
  "enter_via env run session_id key entered_via =
    emit env run ''accretion/node-entered'' Ev_NODE_ENTERED (Some session_id)
      ((''status'', JStr ''RUNNING'') #
        (if truthy entered_via then [(''entered_via'', JStr (the entered_via))] else []))
      (Some key)"

abbreviation exit_node :: "env \<Rightarrow> Run \<Rightarrow> string \<Rightarrow> string \<Rightarrow> GraphNodeStatus \<Rightarrow> unit act" where
  "exit_node env run session_id key status \<equiv>
    node_transition env run session_id key False (node_status_value status)"

text \<open>\<open>if artifact: save_artifact(artifact)\<close> with the cursor's record of it.\<close>

definition keep_artifact :: "env \<Rightarrow> ArtifactRef option \<Rightarrow> GraphCursor \<Rightarrow> GraphCursor act" where
  "keep_artifact env artifact c =
    (case artifact of
       None \<Rightarrow> ret c
     | Some a \<Rightarrow> bind_act (store_op env (\<lambda>_. save_artifact a)) (\<lambda>_.
         ret (c\<lparr>gc_last_artifact_id := Some (ac_artifact_id a), gc_last_artifact_sha256 := ac_sha256 a\<rparr>)))"

subsection \<open>Budgets and directives\<close>

definition remaining_run_budgets :: "store \<Rightarrow> string \<Rightarrow> TaskEnvelope \<Rightarrow> int \<times> int" where
  "remaining_run_budgets s run_id envelope =
    (tb_max_turns (te_budgets envelope) - fst (get_budget_spent s run_id),
     tb_max_tool_calls (te_budgets envelope) - snd (get_budget_spent s run_id))"

definition budget_stop_reason :: "int \<Rightarrow> LoopStopReason" where
  "budget_stop_reason turns_left = (if turns_left \<le> 0 then Stop_MAX_TURNS else Stop_MAX_TOOL_CALLS)"

definition node_objective :: "TaskEnvelope \<Rightarrow> string option \<Rightarrow> string" where
  "node_objective envelope instruction =
    (if truthy instruction then te_objective envelope @ [CHR 0x0A, CHR 0x0A] @ the instruction
     else te_objective envelope)"

text \<open>\<open>IterationDirective(...)\<close>: the model bounds the length of the objective.\<close>

definition mk_directive ::
  "IterationDirectiveKind \<Rightarrow> string \<Rightarrow> Finding list \<Rightarrow> string list \<Rightarrow> IterationDirective act" where
  "mk_directive kind objective findings evidence_refs =
    (if length objective < 1 \<or> length objective > 20000 then raise_act (ValueError ''objective'')
     else ret \<lparr>di_kind = kind, di_objective = objective, di_findings = findings,
       di_evidence_refs = evidence_refs, di_previous_iteration_id = None\<rparr>)"

definition agent_directive :: "string \<Rightarrow> GraphCursor \<Rightarrow> IterationDirective act" where
  "agent_directive objective c =
    (if gc_entered_via_retry c \<and> gc_last_results c \<noteq> []
     then mk_directive Dir_REPAIR objective (concat (map vr_findings (gc_last_results c)))
       (concat (map vr_evidence_refs (gc_last_results c)))
     else mk_directive Dir_INITIAL objective [] [])"

subsection \<open>Agent nodes\<close>

definition search_node_status :: "SearchStatus \<Rightarrow> GraphNodeStatus" where
  "search_node_status status =
    (if status = Search_SUCCEEDED then Node_SUCCEEDED
     else if status \<in> {Search_REQUIRES_HUMAN, Search_RUNNING, Search_SELECTING} then Node_WAITING
     else if status = Search_CANCELLED then Node_CANCELLED else Node_FAILED)"

fun search_outcome :: "GraphNodeStatus \<Rightarrow> NodeOutcome" where
  "search_outcome Node_SUCCEEDED = No_SUCCESS"
| "search_outcome Node_CANCELLED = No_CANCELLED"
| "search_outcome Node_WAITING = No_INCONCLUSIVE"
| "search_outcome _ = No_FAIL"

text \<open>A node with a planned search: the search executor produces the result.\<close>

definition graph_search ::
  "env \<Rightarrow> Run \<Rightarrow> string \<Rightarrow> RunNode \<Rightarrow> GraphCursor \<Rightarrow> string option \<Rightarrow> node_input \<Rightarrow> node_result act" where
  "graph_search env run sid nd c entered_via ni =
    (if ni_searches ni \<noteq> 1 \<or> \<not> ni_search_executor ni
     then done_with No_FAIL sid (c\<lparr>gc_last_error := Some \<lparr>er_code = ''SEARCH_EXECUTOR_UNAVAILABLE'',
       er_message = ''the pending search plan has no unique executor'', er_retryable = False\<rparr>\<rparr>)
     else
     let status = search_node_status (ni_search_status ni) in
     bind_act (enter_via env run sid (nd_key nd) entered_via) (\<lambda>_.
     bind_act (wait_for (ni_during ni)) (\<lambda>_.
     bind_act (exit_node env run sid (nd_key nd) status) (\<lambda>_.
     done_with (search_outcome status) sid
       (case (status, ni_search_artifact ni) of
          (Node_SUCCEEDED, Some (artifact_id, sha256)) \<Rightarrow>
            (set_status (nd_key nd) status c)\<lparr>gc_last_artifact_id := Some artifact_id,
              gc_last_artifact_sha256 := sha256\<rparr>
        | _ \<Rightarrow> set_status (nd_key nd) status c)))))"

text \<open>How an agent's call ends its node.\<close>

definition agent_result :: "RunNode \<Rightarrow> GraphCursor \<Rightarrow> node_input \<Rightarrow> node_result" where
  "agent_result nd c ni =
    (let outcome = ni_outcome ni; sid = oc_session_id outcome in
     if oc_stop_reason outcome \<noteq> None
     then (Some No_BUDGET_EXHAUSTED, sid,
       set_status (nd_key nd) Node_FAILED (c\<lparr>gc_stop_reason := oc_stop_reason outcome\<rparr>))
     else if oc_cancelled outcome
     then (Some (if ni_pause_call ni then No_PAUSED else No_CANCELLED), sid, c)
     else if oc_completed outcome
     then (Some No_SUCCESS, sid, set_status (nd_key nd) Node_SUCCEEDED c)
     else (Some No_FAIL, sid, set_status (nd_key nd) Node_FAILED (c\<lparr>gc_last_error := oc_error outcome\<rparr>)))"

definition graph_agent ::
  "env \<Rightarrow> Run \<Rightarrow> TaskEnvelope \<Rightarrow> string \<Rightarrow> RunNode \<Rightarrow> string option \<Rightarrow> GraphCursor \<Rightarrow> string option \<Rightarrow>
     node_input \<Rightarrow> node_result act" where
  "graph_agent env run envelope sid nd instruction c entered_via ni =
    (if ni_searches ni \<noteq> 0 then graph_search env run sid nd c entered_via ni
     else
     let objective = node_objective envelope instruction; outcome = ni_outcome ni in
     bind_act (agent_directive objective c) (\<lambda>directive.
     bind_act (query (\<lambda>s. remaining_run_budgets s (rn_run_id run) envelope)) (\<lambda>(turns_left, tool_calls_left).
     if turns_left \<le> 0 \<or> tool_calls_left \<le> 0
     then done_with No_BUDGET_EXHAUSTED sid (c\<lparr>gc_stop_reason := Some (budget_stop_reason turns_left)\<rparr>)
     else
     bind_act (enter_via env run sid (nd_key nd) entered_via) (\<lambda>_.
     bind_act (submit_call \<lparr>rc_iteration = 1,
         rc_envelope = envelope\<lparr>te_objective := objective, te_budgets := (te_budgets envelope)\<lparr>
           tb_max_turns := turns_left, tb_max_tool_calls := tool_calls_left\<rparr>\<rparr>,
         rc_directive = directive\<rparr>) (\<lambda>_.
     bind_act (wait_for (ni_during ni)) (\<lambda>_.
     bind_act (store_op env (\<lambda>_. add_budget_spent (rn_run_id run) 1 (oc_tool_calls outcome))) (\<lambda>_.
     bind_act (exit_node env run (oc_session_id outcome) (nd_key nd)
         (if oc_completed outcome then Node_SUCCEEDED else Node_FAILED)) (\<lambda>_.
     ret (agent_result nd c ni)))))))))"

subsection \<open>Task, tool and verifier nodes\<close>

definition graph_task ::
  "env \<Rightarrow> Run \<Rightarrow> string \<Rightarrow> RunNode \<Rightarrow> GraphCursor \<Rightarrow> string option \<Rightarrow> node_result act" where
  "graph_task env run sid nd c entered_via =
    (if dget (gc_statuses c) (nd_key nd) = Some Node_SUCCEEDED then done_with No_SUCCESS sid c
     else
     bind_act (enter_via env run sid (nd_key nd) entered_via) (\<lambda>_.
     bind_act (exit_node env run sid (nd_key nd) Node_SUCCEEDED) (\<lambda>_.
     done_with No_SUCCESS sid (set_status (nd_key nd) Node_SUCCEEDED c))))"

definition capture_key :: "string \<Rightarrow> string" where
  "capture_key key = ''capture:'' @ key"

text \<open>Capabilities are invoked through a gateway whose failures the loop over them swallows; what it
  leaves in the store is \<open>ni_during\<close>.\<close>

definition graph_tool ::
  "env \<Rightarrow> Run \<Rightarrow> string \<Rightarrow> RunNode \<Rightarrow> string list \<Rightarrow> GraphCursor \<Rightarrow> string option \<Rightarrow> node_input \<Rightarrow>
     node_result act" where
  "graph_tool env run sid nd capability_refs c entered_via ni =
    bind_act (enter_via env run sid (nd_key nd) entered_via) (\<lambda>_.
    bind_act (if capability_refs \<noteq> [] then wait_for (ni_during ni) else ret ()) (\<lambda>_.
    bind_act (keep_artifact env (ni_artifact ni) (c\<lparr>gc_entered_via :=
        dset (capture_key (nd_key nd)) (dget_or 0 (gc_entered_via c) (capture_key (nd_key nd)) + 1)
          (gc_entered_via c)\<rparr>)) (\<lambda>c.
    bind_act (exit_node env run sid (nd_key nd) Node_SUCCEEDED) (\<lambda>_.
    done_with No_SUCCESS sid (set_status (nd_key nd) Node_SUCCEEDED c)))))"

fun verdict_status :: "VerificationStatus \<Rightarrow> GraphNodeStatus" where
  "verdict_status V_PASS = Node_SUCCEEDED"
| "verdict_status V_FAIL = Node_FAILED"
| "verdict_status V_INCONCLUSIVE = Node_WAITING"

fun verdict_outcome :: "VerificationStatus \<Rightarrow> NodeOutcome" where
  "verdict_outcome V_PASS = No_SUCCESS"
| "verdict_outcome V_FAIL = No_FAIL"
| "verdict_outcome V_INCONCLUSIVE = No_INCONCLUSIVE"

definition graph_verifier ::
  "env \<Rightarrow> Run \<Rightarrow> TaskEnvelope \<Rightarrow> string \<Rightarrow> RunNode \<Rightarrow> AcceptancePolicy \<Rightarrow> GraphCursor \<Rightarrow> string option \<Rightarrow>
     node_input \<Rightarrow> node_result act" where
  "graph_verifier env run envelope sid nd policy c entered_via ni =
    bind_act (enter_via env run sid (nd_key nd) entered_via) (\<lambda>_.
    bind_act (if gc_last_artifact_id c = None then keep_artifact env (ni_artifact ni) c else ret c) (\<lambda>c.
    bind_act (verify_candidate env run sid None True True (ni_verdict ni) (ap_required_verifiers policy))
      (\<lambda>results.
    bind_act (wait_for (ni_during ni)) (\<lambda>_.
    let acceptance = ae_status (Acceptance.evaluate_acceptance policy results (Some (te_risk_level envelope))) in
    bind_act (exit_node env run sid (nd_key nd) (verdict_status acceptance)) (\<lambda>_.
    done_with (verdict_outcome acceptance) sid
      (set_status (nd_key nd) (verdict_status acceptance) (c\<lparr>gc_last_results := results\<rparr>)))))))"

subsection \<open>Gates\<close>

definition get_approval :: "store \<Rightarrow> string \<Rightarrow> ApprovalRecord option" where
  "get_approval s approval_id = dget (st_approvals s) approval_id"

definition gate_auto_approves :: "TaskEnvelope \<Rightarrow> GateSpec \<Rightarrow> bool" where
  "gate_auto_approves envelope gate \<longleftrightarrow>
     RISK_RANK (te_risk_level envelope) < RISK_RANK (gs_required_for_risk_gte gate) \<and>
     \<not> irreversible (te_allowed_capabilities envelope)"

definition gate_request :: "timestamp \<Rightarrow> string \<Rightarrow> Run \<Rightarrow> RunNode \<Rightarrow> GateSpec \<Rightarrow> ApprovalRecord" where
  "gate_request now approval_id run nd gate =
    \<lparr>ar_approval_id = approval_id, ar_run_id = rn_run_id run, ar_node_id = Some (nd_node_id nd),
     ar_native_request_id = ''gate:'' @ nd_key nd, ar_method = ''accretion/gate'',
     ar_summary = gs_summary gate, ar_payload = [(''gate_id'', JStr (gs_gate_id gate))],
     ar_status = Appr_PENDING, ar_decision = None, ar_created_at = now, ar_decided_at = None\<rparr>"

datatype gate_wait = Gate_decided ApprovalRecord | Gate_paused | Gate_open

text \<open>The polling loop: a decision ends it, then a pause; otherwise it waits for the next poll.\<close>

fun await_gate :: "string \<Rightarrow> gate_poll list \<Rightarrow> gate_wait act" where
  "await_gate approval_id [] = ret Gate_open"
| "await_gate approval_id (p # ps) =
    bind_act (query (\<lambda>s. get_approval s approval_id)) (\<lambda>current.
    case current of
      Some record \<Rightarrow>
        if ar_status record \<noteq> Appr_PENDING then ret (Gate_decided record)
        else if gp_pause p then ret Gate_paused
        else bind_act (wait_for (gp_during p)) (\<lambda>_. await_gate approval_id ps)
    | None \<Rightarrow>
        if gp_pause p then ret Gate_paused
        else bind_act (wait_for (gp_during p)) (\<lambda>_. await_gate approval_id ps))"

definition gate_resolved_payload :: "ApprovalRecord \<Rightarrow> GateSpec \<Rightarrow> (string, json) dict" where
  "gate_resolved_payload record gate =
    [(''approval_id'', JStr (ar_approval_id record)), (''gate_id'', JStr (gs_gate_id gate)),
     (''decision'', json_of (map_option decision_value (ar_decision record)))]"

definition emit_gate_resolved ::
  "env \<Rightarrow> Run \<Rightarrow> string \<Rightarrow> RunNode \<Rightarrow> GateSpec \<Rightarrow> ApprovalRecord \<Rightarrow> unit act" where
  "emit_gate_resolved env run sid nd gate record =
    emit env run ''accretion/gate-approval-resolved'' Ev_APPROVAL_RESOLVED (Some sid)
      (gate_resolved_payload record gate) (Some (nd_key nd))"

definition resolved_already :: "AgentEvent list \<Rightarrow> string \<Rightarrow> bool" where
  "resolved_already events approval_id \<longleftrightarrow>
     list_ex (\<lambda>e. ev_normalized_type e = Ev_APPROVAL_RESOLVED \<and>
       dget (ev_payload e) ''approval_id'' = Some (JStr approval_id)) events"

definition close_gate ::
  "env \<Rightarrow> Run \<Rightarrow> string \<Rightarrow> RunNode \<Rightarrow> GraphCursor \<Rightarrow> ApprovalRecord \<Rightarrow> node_result act" where
  "close_gate env run sid nd c record =
    (let approved = (ar_status record = Appr_APPROVED);
         status = (if approved then Node_SUCCEEDED else Node_FAILED) in
     bind_act (exit_node env run sid (nd_key nd) status) (\<lambda>_.
     done_with (if approved then No_APPROVED else No_DENIED) sid (set_status (nd_key nd) status c)))"

text \<open>The three ways through a gate: approved by the run itself, waiting for a decision, decided before.\<close>

definition auto_approve_gate ::
  "env \<Rightarrow> Run \<Rightarrow> string \<Rightarrow> RunNode \<Rightarrow> GateSpec \<Rightarrow> GraphCursor \<Rightarrow> ApprovalRecord \<Rightarrow> node_result act" where
  "auto_approve_gate env run sid nd gate c record =
    bind_act (store_op env (\<lambda>now. decide_approval now (ar_approval_id record) Dec_APPROVE)) (\<lambda>record.
    bind_act (emit env run ''accretion/gate-auto-approved'' Ev_APPROVAL_RESOLVED (Some sid)
        [(''approval_id'', JStr (ar_approval_id record)), (''gate_id'', JStr (gs_gate_id gate)),
         (''decision'', JStr (decision_value Dec_APPROVE)), (''auto_approved'', JBool True)]
        (Some (nd_key nd))) (\<lambda>_.
    close_gate env run sid nd c record))"

definition wait_at_gate ::
  "env \<Rightarrow> Run \<Rightarrow> string \<Rightarrow> RunNode \<Rightarrow> GateSpec \<Rightarrow> GraphCursor \<Rightarrow> ApprovalRecord \<Rightarrow> gate_poll list \<Rightarrow>
     node_result act" where
  "wait_at_gate env run sid nd gate c record polls =
    bind_act (emit env run ''accretion/gate-approval-required'' Ev_APPROVAL_REQUIRED (Some sid)
        [(''approval_id'', JStr (ar_approval_id record)), (''gate_id'', JStr (gs_gate_id gate)),
         (''summary'', JStr (gs_summary gate))] (Some (nd_key nd))) (\<lambda>_.
    bind_act (await_gate (ar_approval_id record) polls) (\<lambda>w.
    case w of
      Gate_open \<Rightarrow> ret (None, sid, set_status (nd_key nd) Node_WAITING c)
    | Gate_paused \<Rightarrow> done_with No_PAUSED sid (set_status (nd_key nd) Node_WAITING c)
    | Gate_decided current \<Rightarrow>
        bind_act (emit_gate_resolved env run sid nd gate current) (\<lambda>_.
        close_gate env run sid nd c current)))"

definition decided_gate ::
  "env \<Rightarrow> Run \<Rightarrow> string \<Rightarrow> RunNode \<Rightarrow> GateSpec \<Rightarrow> GraphCursor \<Rightarrow> ApprovalRecord \<Rightarrow> node_result act" where
  "decided_gate env run sid nd gate c record =
    bind_act (query (\<lambda>s. list_events s (rn_run_id run) 0)) (\<lambda>events.
    bind_act (if resolved_already events (ar_approval_id record) then ret ()
        else emit_gate_resolved env run sid nd gate record) (\<lambda>_.
    close_gate env run sid nd c record))"

definition graph_gate ::
  "env \<Rightarrow> Run \<Rightarrow> TaskEnvelope \<Rightarrow> string \<Rightarrow> RunNode \<Rightarrow> GateSpec \<Rightarrow> GraphCursor \<Rightarrow> string option \<Rightarrow> node_input \<Rightarrow>
     node_result act" where
  "graph_gate env run envelope sid nd gate c entered_via ni =
    bind_act (draw_id env ''approval'') (\<lambda>approval_id.
    bind_act (store_op env (\<lambda>now. save_approval (gate_request now approval_id run nd gate))) (\<lambda>record.
    bind_act (enter_via env run sid (nd_key nd) entered_via) (\<lambda>_.
    if ar_status record = Appr_PENDING \<and> gate_auto_approves envelope gate
    then auto_approve_gate env run sid nd gate c record
    else if ar_status record = Appr_PENDING
    then wait_at_gate env run sid nd gate c record (ni_polls ni)
    else decided_gate env run sid nd gate c record)))"

subsection \<open>Loop regions\<close>

text \<open>\<open>int(n * fraction)\<close>\<close>

definition int_share :: "int \<Rightarrow> pyfloat \<Rightarrow> int" where
  "int_share n fraction =
    (let x = fmul (fl (of_int n)) fraction in if 0 \<le> x then \<lfloor>x\<rfloor> else \<lceil>x\<rceil>)"

definition region_spec ::
  "string \<Rightarrow> RunNode \<Rightarrow> NodeLoopPolicy \<Rightarrow> TaskBudgets \<Rightarrow> int \<Rightarrow> int \<Rightarrow> int \<Rightarrow> LoopSpec" where
  "region_spec loop_id nd lp budgets turns_left tool_calls_left remaining_wall =
    \<lparr>sp_loop_id = loop_id,
     sp_max_iterations = (case nd_max_iterations nd of
         Some n \<Rightarrow> if n \<noteq> 0 then n else tb_max_loop_iterations budgets
       | None \<Rightarrow> tb_max_loop_iterations budgets),
     sp_max_wall_time_seconds = max 1 (int_share remaining_wall (lp_budget_fraction lp)),
     sp_max_tool_calls = max 1 (min (int_share (tb_max_tool_calls budgets) (lp_budget_fraction lp)) tool_calls_left),
     sp_max_turns = max 1 (min (int_share (tb_max_turns budgets) (lp_budget_fraction lp)) turns_left),
     sp_no_progress_window = 2, sp_repeated_failure_threshold = 2, sp_provider_failure_threshold = 2,
     sp_escalation_target = ''HUMAN'', sp_verifier_refs = []\<rparr>"

definition region_execution ::
  "timestamp \<Rightarrow> string \<Rightarrow> string \<Rightarrow> string \<Rightarrow> int \<Rightarrow> LoopSpec \<Rightarrow> string \<Rightarrow> LoopExecution" where
  "region_execution now eid run_id key attempt spec policy_id =
    \<lparr>lx_loop_execution_id = eid, lx_run_id = run_id, lx_node_key = key, lx_attempt = attempt, lx_spec = spec,
     lx_state = initial_state spec, lx_acceptance_policy_ref = policy_id, lx_acceptance_policy = None,
     lx_status = Loop_PENDING, lx_stop_reason = None, lx_revision = 0, lx_created_at = now,
     lx_updated_at = now, lx_completed_at = None\<rparr>"

text \<open>The status, the stop reason and the outcome an iteration ends its region with, if it does.\<close>

definition region_stop ::
  "LoopExecution \<Rightarrow> RuntimeCallOutcome \<Rightarrow> LoopState \<Rightarrow> (LoopExecutionStatus \<times> LoopStopReason \<times> NodeOutcome) option" where
  "region_stop x outcome next_state =
    (case oc_stop_reason outcome of
       Some reason \<Rightarrow> Some (Loop_REQUIRES_HUMAN, reason, No_BUDGET_EXHAUSTED)
     | None \<Rightarrow>
       if \<not> oc_completed outcome \<and>
          ls_provider_failure_count next_state \<ge> sp_provider_failure_threshold (lx_spec x)
       then Some (Loop_FAILED, Stop_PROVIDER_FAILURE, No_FAIL)
       else if br_iterations (ls_budget_remaining next_state) \<le> 0
       then Some (if oc_completed outcome then (Loop_SUCCEEDED, Stop_MAX_ITERATIONS, No_SUCCESS)
         else (Loop_FAILED, Stop_PROVIDER_FAILURE, No_FAIL))
       else None)"

definition region_cursor :: "LoopExecution \<Rightarrow> RuntimeCallOutcome \<Rightarrow> LoopState \<Rightarrow> GraphCursor \<Rightarrow> GraphCursor" where
  "region_cursor x outcome next_state c =
    (if oc_stop_reason outcome \<noteq> None then c\<lparr>gc_stop_reason := oc_stop_reason outcome\<rparr>
     else if \<not> oc_completed outcome \<and>
       ls_provider_failure_count next_state \<ge> sp_provider_failure_threshold (lx_spec x)
     then c\<lparr>gc_last_error := oc_error outcome\<rparr> else c)"

definition region_checkpoint ::
  "timestamp \<Rightarrow> string \<Rightarrow> Run \<Rightarrow> lease_ref \<Rightarrow> RunNode \<Rightarrow> GraphCursor \<Rightarrow> LoopExecution \<Rightarrow> LoopState \<Rightarrow>
     LoopExecutionStatus option \<Rightarrow> ArtifactRef option \<Rightarrow> Checkpoint" where
  "region_checkpoint now checkpoint_id run lease nd c x next_state status artifact =
    \<lparr>ck_checkpoint_id = checkpoint_id, ck_run_id = rn_run_id run, ck_kind = Ck_NODE_BOUNDARY,
     ck_sequence = 0, ck_run_state = Run_RUNNING, ck_run_revision = rn_revision run,
     ck_active_node_ids = [nd_node_id nd], ck_arrival_edge_key = None, ck_node_statuses = gc_statuses c,
     ck_loop_cursors = [\<lparr>cu_loop_execution_id = lx_loop_execution_id x,
       cu_iteration = ls_iteration next_state, cu_revision = lx_revision x + 1,
       cu_status = (case status of None \<Rightarrow> Loop_RUNNING | Some st \<Rightarrow> st)\<rparr>],
     ck_run_graph_id = None, ck_graph_revision = None, ck_budget_remaining = None,
     ck_workspace_lease_id = Some (le_lease_id lease), ck_workspace_revision = Some (le_base_revision lease),
     ck_workspace_diff_sha256 = (case artifact of None \<Rightarrow> None | Some a \<Rightarrow> ac_sha256 a),
     ck_side_effect_operation_id = None, ck_created_at = now\<rparr>"

abbreviation last_of :: "'a list \<Rightarrow> 'a option" where
  "last_of xs \<equiv> (if xs = [] then None else Some (last xs))"

abbreviation update_region ::
  "env \<Rightarrow> LoopExecution \<Rightarrow> LoopExecutionStatus \<Rightarrow> LoopStopReason option \<Rightarrow> LoopExecution act" where
  "update_region env x status reason \<equiv>
    store_op env (\<lambda>now. update_loop_execution now (lx_loop_execution_id x) (lx_state x) (Some status) reason
      (Some (lx_revision x)))"

text \<open>An iteration up to the end of the runtime call.\<close>

definition region_call ::
  "env \<Rightarrow> Run \<Rightarrow> TaskEnvelope \<Rightarrow> string \<Rightarrow> RunNode \<Rightarrow> string \<Rightarrow> string option \<Rightarrow> LoopExecution \<Rightarrow> turn_input \<Rightarrow>
     string act" where
  "region_call env run envelope sid nd act_key instruction x ti =
    (let number = ls_iteration (lx_state x) + 1; outcome = ti_outcome ti;
         objective = node_objective envelope instruction in
     bind_act (draw_id env ''iteration'') (\<lambda>iteration_id.
     bind_act (emit env run ''accretion/loop-iteration-started'' Ev_LOOP_ITERATION_STARTED (Some sid)
         [(''iteration_id'', JStr iteration_id), (''number'', JInt number)] (Some (nd_key nd))) (\<lambda>_.
     bind_act (node_transition env run sid act_key True ''SUCCEEDED'') (\<lambda>_.
     bind_act (mk_directive Dir_INITIAL objective [] []) (\<lambda>directive.
     bind_act (submit_call \<lparr>rc_iteration = number,
         rc_envelope = iteration_envelope (en_feedback env) (envelope\<lparr>te_objective := objective\<rparr>) directive
           (ti_left_before ti) (ls_budget_remaining (lx_state x)),
         rc_directive = directive\<rparr>) (\<lambda>_.
     bind_act (wait_for (ti_during_call ti)) (\<lambda>_.
     bind_act (exit_node env run (oc_session_id outcome) act_key
         (if oc_completed outcome then Node_SUCCEEDED else Node_FAILED)) (\<lambda>_.
     ret iteration_id))))))))"

text \<open>A paused call closes its iteration together with the pause.\<close>

definition region_interrupted ::
  "env \<Rightarrow> Run \<Rightarrow> RunNode \<Rightarrow> LoopExecution \<Rightarrow> LoopIteration list \<Rightarrow> string \<Rightarrow> turn_input \<Rightarrow> unit act" where
  "region_interrupted env run nd x previous iteration_id ti =
    (let number = ls_iteration (lx_state x) + 1; outcome = ti_outcome ti;
         interrupted = outcome\<lparr>oc_completed := False, oc_cancelled := True,
           oc_stop_reason := Some Stop_INTERRUPTED\<rparr>;
         (next_state, it) = next_iteration_state (en_digest env) x (rn_run_id run) iteration_id number
           interrupted None None [] (ti_left_after ti) (last_of previous) in
     bind_act (control_event env run ''accretion/loop-iteration-interrupted'' Ev_LOOP_ITERATION_COMPLETED
         (Some (oc_session_id outcome))
         [(''iteration_id'', JStr iteration_id), (''number'', JInt number),
          (''status'', JStr (iteration_status_value Iter_INTERRUPTED))] (Some (nd_key nd))) (\<lambda>event.
     bind_act (store_op env (\<lambda>now. append_loop_iteration now (lx_loop_execution_id x)
         (it\<lparr>it_status := Iter_INTERRUPTED\<rparr>) next_state (Some Loop_PAUSED) (Some Stop_INTERRUPTED)
         (Some (lx_revision x)) [] [event] None)) (\<lambda>_.
     bind_act (store_op env (\<lambda>_. add_budget_spent (rn_run_id run) 1 (oc_tool_calls outcome))) (\<lambda>_.
     ret ()))))"

definition region_observe ::
  "env \<Rightarrow> Run \<Rightarrow> string \<Rightarrow> string option \<Rightarrow> turn_input \<Rightarrow> GraphCursor \<Rightarrow> (ArtifactRef option \<times> GraphCursor) act" where
  "region_observe env run sid observe_key ti c =
    (case observe_key of
       None \<Rightarrow> ret (None, c)
     | Some key \<Rightarrow>
       bind_act (node_transition env run sid key True ''SUCCEEDED'') (\<lambda>_.
       bind_act (keep_artifact env (ti_artifact ti) c) (\<lambda>c.
       bind_act (node_transition env run sid key False ''SUCCEEDED'') (\<lambda>_.
       ret (ti_artifact ti, c)))))"

text \<open>The commit of an iteration: its state, evidence and checkpoint, and the run's budget.\<close>

definition region_commit ::
  "env \<Rightarrow> Run \<Rightarrow> lease_ref \<Rightarrow> RunNode \<Rightarrow> LoopExecution \<Rightarrow> LoopIteration list \<Rightarrow> string \<Rightarrow> turn_input \<Rightarrow>
     ArtifactRef option \<Rightarrow> GraphCursor \<Rightarrow>
     (LoopExecution \<times> LoopIteration \<times> GraphCursor \<times> (LoopExecutionStatus \<times> LoopStopReason \<times> NodeOutcome) option) act" where
  "region_commit env run lease nd x previous iteration_id ti artifact c =
    (let number = ls_iteration (lx_state x) + 1; outcome = ti_outcome ti;
         (next_state, iteration) = next_iteration_state (en_digest env) x (rn_run_id run) iteration_id number
           outcome (map_option ac_artifact_id artifact)
           (case artifact of None \<Rightarrow> None | Some a \<Rightarrow> ac_sha256 a) [] (ti_left_after ti) (last_of previous);
         stop = region_stop x outcome next_state;
         status = map_option fst stop;
         c' = region_cursor x outcome next_state c in
     bind_act (draw_id env ''checkpoint'') (\<lambda>checkpoint_id.
     bind_act (control_event env run ''accretion/loop-iteration-completed'' Ev_LOOP_ITERATION_COMPLETED
         (Some (oc_session_id outcome))
         [(''iteration_id'', JStr iteration_id), (''number'', JInt number),
          (''status'', JStr (iteration_status_value (it_status iteration)))] (Some (nd_key nd))) (\<lambda>event.
     bind_act (store_op env (\<lambda>now. append_loop_iteration now (lx_loop_execution_id x) iteration next_state
         status (map_option (fst \<circ> snd) stop) (Some (lx_revision x)) [] [event]
         (Some (region_checkpoint now checkpoint_id run lease nd c' x next_state status artifact)))) (\<lambda>x'.
     bind_act (store_op env (\<lambda>_. add_budget_spent (rn_run_id run) 1 (oc_tool_calls outcome))) (\<lambda>_.
     ret (x', iteration, c', stop))))))"

text \<open>The head of the loop: the ways a region ends before another call.\<close>

definition region_head ::
  "env \<Rightarrow> LoopExecution \<Rightarrow> LoopIteration list \<Rightarrow> GraphCursor \<Rightarrow> turn_input \<Rightarrow> (NodeOutcome \<times> GraphCursor) option act" where
  "region_head env x previous c ti =
    (let remaining = ls_budget_remaining (lx_state x) in
     if ti_pause_head ti
     then bind_act (update_region env x Loop_PAUSED (Some Stop_INTERRUPTED)) (\<lambda>_. ret (Some (No_PAUSED, c)))
     else if br_iterations remaining \<le> 0
     then let completed = (previous \<noteq> [] \<and> it_status (last previous) = Iter_COMPLETED) in
       bind_act (update_region env x (if completed then Loop_SUCCEEDED else Loop_FAILED)
           (Some (if completed then Stop_MAX_ITERATIONS else Stop_PROVIDER_FAILURE))) (\<lambda>_.
       ret (Some (if completed then No_SUCCESS else No_FAIL, c)))
     else if br_tool_calls remaining \<le> 0 \<or> br_turns remaining \<le> 0
     then let reason = (if br_tool_calls remaining \<le> 0 then Stop_MAX_TOOL_CALLS else Stop_MAX_TURNS) in
       bind_act (update_region env x Loop_REQUIRES_HUMAN (Some reason)) (\<lambda>_.
       ret (Some (No_BUDGET_EXHAUSTED, c\<lparr>gc_stop_reason := Some reason\<rparr>)))
     else if ti_deadline_passed ti
     then bind_act (update_region env x Loop_REQUIRES_HUMAN (Some Stop_WALL_TIME_EXCEEDED)) (\<lambda>_.
       ret (Some (No_BUDGET_EXHAUSTED, c\<lparr>gc_stop_reason := Some Stop_WALL_TIME_EXCEEDED\<rparr>)))
     else ret None)"

text \<open>The rest of an iteration; \<open>continue\<close> is the next pass.\<close>

definition region_rest ::
  "env \<Rightarrow> Run \<Rightarrow> lease_ref \<Rightarrow> RunNode \<Rightarrow> string option \<Rightarrow> LoopExecution \<Rightarrow> LoopIteration list \<Rightarrow> GraphCursor \<Rightarrow>
     turn_input \<Rightarrow> (LoopExecution \<Rightarrow> LoopIteration \<Rightarrow> GraphCursor \<Rightarrow> node_result act) \<Rightarrow> string \<Rightarrow> node_result act" where
  "region_rest env run lease nd observe_key x previous c ti continue iteration_id =
    (let outcome = ti_outcome ti; sid = oc_session_id outcome in
     if oc_cancelled outcome \<and> oc_stop_reason outcome = None
     then if ti_pause_call ti
       then bind_act (region_interrupted env run nd x previous iteration_id ti) (\<lambda>_. done_with No_PAUSED sid c)
       else done_with No_CANCELLED sid c
     else
     bind_act (region_observe env run sid observe_key ti c) (\<lambda>(artifact, c).
     bind_act (region_commit env run lease nd x previous iteration_id ti artifact c)
       (\<lambda>(x', iteration, c', stop).
     case stop of
       Some (_, _, node_outcome) \<Rightarrow> done_with node_outcome sid c'
     | None \<Rightarrow> continue x' iteration c')))"

fun region_turns ::
  "env \<Rightarrow> Run \<Rightarrow> TaskEnvelope \<Rightarrow> lease_ref \<Rightarrow> RunNode \<Rightarrow> NodeLoopPolicy \<Rightarrow> string option \<Rightarrow> string \<Rightarrow>
     LoopExecution \<Rightarrow> LoopIteration list \<Rightarrow> GraphCursor \<Rightarrow> turn_input list \<Rightarrow> node_result act" where
  "region_turns env run envelope lease nd lp instruction sid x previous c [] = ret (None, sid, c)"
| "region_turns env run envelope lease nd lp instruction sid x previous c (ti # tis) =
    bind_act (region_head env x previous c ti) (\<lambda>stopped.
    case stopped of
      Some (node_outcome, c') \<Rightarrow> done_with node_outcome sid c'
    | None \<Rightarrow>
      bind_act (region_call env run envelope sid nd (lp_act_key lp) instruction x ti)
        (region_rest env run lease nd (lp_observe_key lp) x previous c ti (\<lambda>x' iteration c'.
           region_turns env run envelope lease nd lp instruction (oc_session_id (ti_outcome ti)) x'
             (previous @ [iteration]) c' tis)))"

definition run_bounded_region ::
  "env \<Rightarrow> Run \<Rightarrow> TaskEnvelope \<Rightarrow> lease_ref \<Rightarrow> string \<Rightarrow> RunNode \<Rightarrow> NodeLoopPolicy \<Rightarrow> WorkflowTemplate \<Rightarrow>
     LoopExecution \<Rightarrow> GraphCursor \<Rightarrow> turn_input list \<Rightarrow> node_result act" where
  "run_bounded_region env run envelope lease sid nd lp t x c turns =
    (let instruction = (case find (\<lambda>s. wn_key s = lp_act_key lp) (tp_nodes t) of
         None \<Rightarrow> None | Some s \<Rightarrow> wn_instruction s) in
     bind_act (if lx_status x \<in> {Loop_PENDING, Loop_PAUSED} then update_region env x Loop_RUNNING None
         else ret x) (\<lambda>x.
     bind_act (query (\<lambda>s. list_loop_iterations s (lx_loop_execution_id x))) (\<lambda>previous.
     region_turns env run envelope lease nd lp instruction sid x previous c turns)))"

fun region_node_status :: "NodeOutcome \<Rightarrow> GraphNodeStatus" where
  "region_node_status No_SUCCESS = Node_SUCCEEDED"
| "region_node_status No_PAUSED = Node_WAITING"
| "region_node_status No_CANCELLED = Node_CANCELLED"
| "region_node_status _ = Node_FAILED"

text \<open>A new attempt of a region draws on what is left of the run's budget.\<close>

definition new_region_attempt ::
  "env \<Rightarrow> Run \<Rightarrow> TaskEnvelope \<Rightarrow> RunNode \<Rightarrow> NodeLoopPolicy \<Rightarrow> AcceptancePolicy \<Rightarrow> int \<Rightarrow> int \<Rightarrow> int \<Rightarrow> int \<Rightarrow>
     LoopExecution act" where
  "new_region_attempt env run envelope nd lp policy attempt turns_left tool_calls_left seconds_left =
    bind_act (draw_id env ''loop'') (\<lambda>loop_id.
    let spec = region_spec loop_id nd lp (te_budgets envelope) turns_left tool_calls_left (max 1 seconds_left) in
    if \<not> valid_LoopSpec spec then raise_act (ValueError ''max_iterations'')
    else
    bind_act (draw_id env ''loop_execution'') (\<lambda>eid.
    store_op env (\<lambda>now. create_loop_execution now
      (region_execution now eid (rn_run_id run) (nd_key nd) attempt spec (ap_policy_id policy)))))"

definition enter_region ::
  "env \<Rightarrow> Run \<Rightarrow> TaskEnvelope \<Rightarrow> lease_ref \<Rightarrow> string \<Rightarrow> RunNode \<Rightarrow> NodeLoopPolicy \<Rightarrow> WorkflowTemplate \<Rightarrow>
     GraphCursor \<Rightarrow> string option \<Rightarrow> node_input \<Rightarrow> LoopExecution \<Rightarrow> node_result act" where
  "enter_region env run envelope lease sid nd lp t c entered_via ni x =
    bind_act (enter_via env run sid (nd_key nd) entered_via) (\<lambda>_.
    bind_act (run_bounded_region env run envelope lease sid nd lp t x c (ni_turns ni)) (\<lambda>(out, sid', c').
    case out of
      None \<Rightarrow> ret (None, sid', c')
    | Some outcome \<Rightarrow>
        bind_act (exit_node env run sid' (nd_key nd) (region_node_status outcome)) (\<lambda>_.
        done_with outcome sid' (set_status (nd_key nd) (region_node_status outcome) c'))))"

definition graph_loop ::
  "env \<Rightarrow> Run \<Rightarrow> TaskEnvelope \<Rightarrow> lease_ref \<Rightarrow> string \<Rightarrow> RunNode \<Rightarrow> NodeLoopPolicy \<Rightarrow> WorkflowTemplate \<Rightarrow>
     AcceptancePolicy \<Rightarrow> GraphCursor \<Rightarrow> string option \<Rightarrow> node_input \<Rightarrow> node_result act" where
  "graph_loop env run envelope lease sid nd lp t policy c entered_via ni =
    bind_act (query (\<lambda>s. get_loop_execution_for_node s (rn_run_id run) (nd_key nd) None)) (\<lambda>execution.
    let fresh = (case execution of None \<Rightarrow> True | Some x \<Rightarrow> terminal_loop (lx_status x)) in
    if \<not> fresh then enter_region env run envelope lease sid nd lp t c entered_via ni (the execution)
    else
    bind_act (query (\<lambda>s. remaining_run_budgets s (rn_run_id run) envelope)) (\<lambda>(turns_left, tool_calls_left).
    if turns_left \<le> 0 \<or> tool_calls_left \<le> 0
    then done_with No_BUDGET_EXHAUSTED sid (c\<lparr>gc_stop_reason := Some (budget_stop_reason turns_left)\<rparr>)
    else
    bind_act (new_region_attempt env run envelope nd lp policy
        (case execution of None \<Rightarrow> 1 | Some x \<Rightarrow> lx_attempt x + 1) turns_left tool_calls_left (ni_left ni))
      (enter_region env run envelope lease sid nd lp t c entered_via ni)))"

subsection \<open>One node\<close>

definition graph_node_attempt ::
  "env \<Rightarrow> Run \<Rightarrow> TaskEnvelope \<Rightarrow> lease_ref \<Rightarrow> string \<Rightarrow> RunNode \<Rightarrow> WorkflowNodeSpec \<Rightarrow> WorkflowTemplate \<Rightarrow>
     GateSpec option \<Rightarrow> AcceptancePolicy \<Rightarrow> GraphCursor \<Rightarrow> node_input \<Rightarrow> node_result act" where
  "graph_node_attempt env run envelope lease sid nd spec t gate policy cursor ni =
    (let entered_via = gc_entry_edge_key cursor;
         c = cursor\<lparr>gc_entry_edge_key := None\<rparr> in
     case nd_kind nd of
       Kind_TASK \<Rightarrow> graph_task env run sid nd c entered_via
     | Kind_AGENT \<Rightarrow> graph_agent env run envelope sid nd (wn_instruction spec) c entered_via ni
     | Kind_TOOL \<Rightarrow> graph_tool env run sid nd (wn_capability_refs spec) c entered_via ni
     | Kind_VERIFIER \<Rightarrow> graph_verifier env run envelope sid nd policy c entered_via ni
     | Kind_GATE \<Rightarrow>
         (case gate of
            None \<Rightarrow> raise_act (AssertionError ''gate'')
          | Some g \<Rightarrow> graph_gate env run envelope sid nd g c entered_via ni)
     | Kind_LOOP \<Rightarrow>
         (case wn_loop spec of
            None \<Rightarrow> raise_act (AssertionError ''loop'')
          | Some lp \<Rightarrow> graph_loop env run envelope lease sid nd lp t policy c entered_via ni)
     | _ \<Rightarrow> raise_act (RuntimeError ''unsupported graph node kind''))"

subsection \<open>Rebuilding the cursor\<close>

text \<open>How often every edge was entered, from the events.\<close>

definition count_entry :: "env \<Rightarrow> AgentEvent \<Rightarrow> (string, int) dict \<Rightarrow> (string, int) dict" where
  "count_entry env e d =
    (if ev_normalized_type e \<noteq> Ev_NODE_ENTERED then d
     else case get_truthy (ev_payload e) ''entered_via'' of
       None \<Rightarrow> d
     | Some v \<Rightarrow> dset (json_str env v) (dget_or 0 d (json_str env v) + 1) d)"

definition entered_counts :: "env \<Rightarrow> AgentEvent list \<Rightarrow> (string, int) dict" where
  "entered_counts env events = fold (count_entry env) events []"

definition latest_verifications :: "VerificationResult list \<Rightarrow> VerificationResult list" where
  "latest_verifications results = dvalues (fold (\<lambda>r d.
     case dget d (vr_verifier_id r) of
       None \<Rightarrow> dset (vr_verifier_id r) r d
     | Some current \<Rightarrow> if vr_executed_at r \<ge> vr_executed_at current then dset (vr_verifier_id r) r d else d)
     results [])"

definition restore_statuses ::
  "(string, GraphNodeStatus) dict \<Rightarrow> (string, GraphNodeStatus) dict \<Rightarrow> (string, GraphNodeStatus) dict" where
  "restore_statuses saved statuses =
    fold (\<lambda>(key, status) d. if dhas d key then dset key status d else d) saved statuses"

definition restore_arrival ::
  "Run \<Rightarrow> RunGraph \<Rightarrow> string option \<Rightarrow> GraphCursor \<Rightarrow> GraphCursor act" where
  "restore_arrival run g arrival c m =
    (case (if truthy arrival then find (\<lambda>e. ed_key e = the arrival) (rg_edges g) else None) of
       None \<Rightarrow> (Inr c, m)
     | Some e \<Rightarrow>
       let c' = c\<lparr>gc_entry_edge_key := Some (ed_key e), gc_arrival_guard := ed_guard e,
             gc_arrival_edge_kind := Some (ed_kind e), gc_entered_via_retry := (ed_kind e = Edge_RETRY)\<rparr> in
       if ed_kind e = Edge_RETRY
       then (case list_verifications (mg_store m) (rn_run_id run) None of
          Inl err \<Rightarrow> (Inl err, m)
        | Inr rs \<Rightarrow> (Inr (c'\<lparr>gc_last_results := latest_verifications rs\<rparr>), m))
       else (Inr c', m))"

definition restore_checkpoint :: "Run \<Rightarrow> RunGraph \<Rightarrow> GraphCursor \<Rightarrow> Checkpoint \<Rightarrow> GraphCursor act" where
  "restore_checkpoint run g cursor ck =
    (let statuses = restore_statuses (ck_node_statuses ck) (gc_statuses cursor);
         current = (case ck_active_node_ids ck of
             [] \<Rightarrow> gc_current_key cursor
           | a # _ \<Rightarrow> if dhas statuses (key_of a) then key_of a else gc_current_key cursor);
         c = cursor\<lparr>gc_statuses := statuses, gc_current_key := current\<rparr> in
     bind_act (query (\<lambda>s. list_artifacts s (rn_run_id run))) (\<lambda>artifacts.
     restore_arrival run g (ck_arrival_edge_key ck)
       (if artifacts = [] then c
        else c\<lparr>gc_last_artifact_id := Some (ac_artifact_id (last artifacts)),
               gc_last_artifact_sha256 := ac_sha256 (last artifacts)\<rparr>)))"

definition load_graph_cursor :: "env \<Rightarrow> Run \<Rightarrow> RunGraph \<Rightarrow> string \<Rightarrow> GraphCursor act" where
  "load_graph_cursor env run g entry =
    bind_act (query (\<lambda>s. list_events s (rn_run_id run) 0)) (\<lambda>events.
    bind_act (query (\<lambda>s. get_latest_checkpoint s (rn_run_id run))) (\<lambda>checkpoint.
    let cursor = new_cursor (dict_of (map (\<lambda>n. (nd_key n, Node_PENDING)) (rg_nodes g)))
          (entered_counts env events) entry in
    case checkpoint of
      None \<Rightarrow> ret cursor
    | Some ck \<Rightarrow>
        if ck_run_graph_id ck = Some (rg_run_graph_id g) then restore_checkpoint run g cursor ck
        else ret cursor))"

subsection \<open>Checkpoints between nodes\<close>

definition boundary_checkpoint ::
  "timestamp \<Rightarrow> string \<Rightarrow> Run \<Rightarrow> RunGraph \<Rightarrow> GraphCursor \<Rightarrow> lease_ref \<Rightarrow> LoopExecution list \<Rightarrow> string \<Rightarrow> Run \<Rightarrow>
     Checkpoint" where
  "boundary_checkpoint now checkpoint_id run g c lease executions active_key current =
    \<lparr>ck_checkpoint_id = checkpoint_id, ck_run_id = rn_run_id run, ck_kind = Ck_NODE_BOUNDARY,
     ck_sequence = 0, ck_run_state = rn_state current, ck_run_revision = rn_revision current,
     ck_active_node_ids = [node_id (rn_run_id run) active_key], ck_arrival_edge_key = gc_entry_edge_key c,
     ck_node_statuses = gc_statuses c,
     ck_loop_cursors = map (\<lambda>x. \<lparr>cu_loop_execution_id = lx_loop_execution_id x,
       cu_iteration = ls_iteration (lx_state x), cu_revision = lx_revision x, cu_status = lx_status x\<rparr>) executions,
     ck_run_graph_id = Some (rg_run_graph_id g), ck_graph_revision = Some (rg_graph_revision g),
     ck_budget_remaining = None, ck_workspace_lease_id = Some (le_lease_id lease),
     ck_workspace_revision = Some (le_base_revision lease), ck_workspace_diff_sha256 = None,
     ck_side_effect_operation_id = None, ck_created_at = now\<rparr>"

definition graph_checkpoint ::
  "env \<Rightarrow> Run \<Rightarrow> RunGraph \<Rightarrow> GraphCursor \<Rightarrow> lease_ref \<Rightarrow> string \<Rightarrow> string \<Rightarrow> unit act" where
  "graph_checkpoint env run g c lease active_key sid =
    bind_act (require_run (rn_run_id run)) (\<lambda>current.
    bind_act (query (\<lambda>s. list_loop_executions_for_run s (rn_run_id run))) (\<lambda>executions.
    bind_act (draw_id env ''checkpoint'') (\<lambda>checkpoint_id.
    bind_act (control_event env run ''accretion/checkpoint-saved'' Ev_CHECKPOINT_SAVED (Some sid)
        [(''checkpoint_id'', JStr checkpoint_id), (''kind'', JStr ''NODE_BOUNDARY''),
         (''active_node_ids'', JList [JStr (node_id (rn_run_id run) active_key)]),
         (''run_graph_id'', JStr (rg_run_graph_id g))] (Some active_key)) (\<lambda>event.
    bind_act (store_op env (\<lambda>now. append_checkpoint
        (boundary_checkpoint now checkpoint_id run g c lease executions active_key current) [event])) (\<lambda>_.
    ret ())))))"

subsection \<open>How a graph run ends\<close>

definition terminal_event_of :: "RunState \<Rightarrow> EventType" where
  "terminal_event_of state =
    (if state = Run_SUCCEEDED then Ev_RUN_COMPLETED
     else if state = Run_CANCELLED then Ev_RUN_CANCELLED else Ev_RUN_FAILED)"

definition cursor_end_state :: "GraphCursor \<Rightarrow> RunState" where
  "cursor_end_state c = terminal_state_of (gc_arrival_guard c) (gc_arrival_edge_kind c)"

definition commit_graph_terminal :: "env \<Rightarrow> Run \<Rightarrow> string \<Rightarrow> GraphCursor \<Rightarrow> RunNode \<Rightarrow> unit act" where
  "commit_graph_terminal env run sid c nd =
    (let state = cursor_end_state c;
         err = (if state = Run_FAILED then gc_last_error c else None);
         payload = (''node'', JStr (nd_key nd)) #
           (case gc_arrival_guard c of None \<Rightarrow> [] | Some g \<Rightarrow> [(''guard'', JStr (guard_value g))]) @
           (case err of None \<Rightarrow> [] | Some e \<Rightarrow> [(''error'', error_json e)]) in
     bind_act (commit_run_terminal env run state (terminal_event_of state) ''accretion/graph-terminal''
         (Some sid) payload (Some (nd_key nd)) None err) (\<lambda>_.
     ret ()))"

definition graph_budget_stop ::
  "env \<Rightarrow> Run \<Rightarrow> string \<Rightarrow> GraphCursor \<Rightarrow> ArtifactRef option \<Rightarrow> unit act" where
  "graph_budget_stop env run sid c artifact =
    bind_act (case (gc_last_artifact_id c, artifact) of
        (None, Some a) \<Rightarrow> store_op env (\<lambda>_. save_artifact a) | _ \<Rightarrow> ret ()) (\<lambda>_.
    bind_act (commit_run_terminal env run Run_REQUIRES_HUMAN Ev_RUN_FAILED ''accretion/graph-budget-stop''
        (Some sid) [(''stop_reason'', JStr (stop_reason_value
          (case gc_stop_reason c of None \<Rightarrow> Stop_WALL_TIME_EXCEEDED | Some r \<Rightarrow> r)))] None None None) (\<lambda>_.
    ret ()))"

definition pause_graph :: "env \<Rightarrow> Run \<Rightarrow> unit act" where
  "pause_graph env run =
    bind_act (store_op env (\<lambda>now. update_run now (rn_run_id run) Run_PAUSED no_update))
      (append_pause_if_missing env)"

text \<open>The message of a failed selection; \<open>en_str\<close> renders the list of keys.\<close>

definition selection_error ::
  "env \<Rightarrow> string \<Rightarrow> NodeOutcome \<Rightarrow> RunEdge list \<Rightarrow> string \<Rightarrow> ErrorSummary" where
  "selection_error env key outcome edges code =
    (let keys = sort (map ed_key (filter (\<lambda>e. ed_kind e \<in> {Edge_CONDITION, Edge_APPROVAL} \<and>
           guard_matches (ed_guard e) outcome) edges)) in
     \<lparr>er_code = code, er_message = ''node '' @ key @ '' produced '' @ outcome_value outcome @
        (if code = ''GRAPH_AMBIGUOUS_EDGES''
         then '' matching multiple edges '' @ en_str env (JList (map JStr keys))
         else '' with no eligible edge''), er_retryable = False\<rparr>)"

definition commit_no_edge ::
  "env \<Rightarrow> Run \<Rightarrow> string \<Rightarrow> string \<Rightarrow> NodeOutcome \<Rightarrow> ErrorSummary \<Rightarrow> unit act" where
  "commit_no_edge env run sid key outcome err =
    bind_act (commit_run_terminal env run Run_REQUIRES_HUMAN Ev_RUN_FAILED ''accretion/graph-no-eligible-edge''
        (Some sid) [(''node'', JStr key), (''outcome'', JStr (outcome_value outcome))] None None (Some err))
      (\<lambda>_. ret ())"

subsection \<open>The executor\<close>

datatype graph_end =
    Graph_paused
  | Graph_cancelled
  | Graph_budget
  | Graph_no_edge
  | Graph_terminal RunState
  | Graph_waiting
  | Graph_starved

type_synonym visit_trace = "(string \<times> NodeOutcome) list"

definition graph_node :: "RunGraph \<Rightarrow> string \<Rightarrow> RunNode option" where
  "graph_node g key = dget (dict_of (map (\<lambda>n. (nd_key n, n)) (rg_nodes g))) key"

definition template_node :: "WorkflowTemplate \<Rightarrow> string \<Rightarrow> WorkflowNodeSpec option" where
  "template_node t key = dget (dict_of (map (\<lambda>n. (wn_key n, n)) (tp_nodes t))) key"

definition gate_for :: "WorkflowTemplate \<Rightarrow> string \<Rightarrow> GateSpec option" where
  "gate_for t key = dget (dict_of (map (\<lambda>x. (gs_node_key x, x)) (tp_required_approval_gates t))) key"

text \<open>What follows a node's outcome; \<open>continue\<close> is the next pass.\<close>

definition after_node ::
  "env \<Rightarrow> Run \<Rightarrow> WorkflowTemplate \<Rightarrow> RunGraph \<Rightarrow> lease_ref \<Rightarrow> node_input \<Rightarrow> string \<Rightarrow>
     (string \<Rightarrow> GraphCursor \<Rightarrow> (graph_end \<times> visit_trace) act) \<Rightarrow> node_result \<Rightarrow> (graph_end \<times> visit_trace) act" where
  "after_node env run t g lease ni key continue result =
    (case result of
       (None, sid, c) \<Rightarrow> ret (Graph_waiting, [])
     | (Some outcome, sid, c) \<Rightarrow>
       let trace = [(key, outcome)] in
       if outcome = No_PAUSED then bind_act (pause_graph env run) (\<lambda>_. ret (Graph_paused, trace))
       else if outcome = No_CANCELLED
       then bind_act (cancel_execution env (rn_run_id run) (ni_left ni)) (\<lambda>_. ret (Graph_cancelled, trace))
       else if outcome = No_BUDGET_EXHAUSTED
       then bind_act (graph_budget_stop env run sid c (ni_artifact ni)) (\<lambda>_. ret (Graph_budget, trace))
       else
       case select_edge outcome (out_edges g key) (gc_entered_via c) (tp_global_budget_policy t) of
         Inl code \<Rightarrow>
           bind_act (commit_no_edge env run sid key outcome
             (selection_error env key outcome (out_edges g key) code)) (\<lambda>_. ret (Graph_no_edge, trace))
       | Inr e \<Rightarrow>
           let c' = follow_edge e c in
           bind_act (graph_checkpoint env run g c' lease (routed_key t e) sid) (\<lambda>_.
           bind_act (continue sid (c'\<lparr>gc_current_key := routed_key t e\<rparr>)) (\<lambda>(fin, rest).
           ret (fin, trace @ rest))))"

fun graph_steps ::
  "env \<Rightarrow> Run \<Rightarrow> TaskEnvelope \<Rightarrow> lease_ref \<Rightarrow> WorkflowTemplate \<Rightarrow> RunGraph \<Rightarrow> AcceptancePolicy \<Rightarrow> string \<Rightarrow>
     GraphCursor \<Rightarrow> node_input list \<Rightarrow> (graph_end \<times> visit_trace) act" where
  "graph_steps env run envelope lease t g policy sid c [] = ret (Graph_starved, [])"
| "graph_steps env run envelope lease t g policy sid c (ni # nis) =
    (if ni_pause_head ni then bind_act (pause_graph env run) (\<lambda>_. ret (Graph_paused, []))
     else
     case graph_node g (gc_current_key c) of
       None \<Rightarrow> raise_act (KeyError ''node'')
     | Some nd \<Rightarrow>
       if nd_kind nd = Kind_TERMINAL
       then bind_act (commit_graph_terminal env run sid c nd) (\<lambda>_. ret (Graph_terminal (cursor_end_state c), []))
       else
       case template_node t (nd_key nd) of
         None \<Rightarrow> raise_act (KeyError ''template node'')
       | Some spec \<Rightarrow>
           bind_act (graph_node_attempt env run envelope lease sid nd spec t (gate_for t (nd_key nd)) policy c ni)
             (after_node env run t g lease ni (nd_key nd) (\<lambda>sid' c'.
                graph_steps env run envelope lease t g policy sid' c' nis)))"

definition run_policy :: "Run \<Rightarrow> AcceptancePolicy act" where
  "run_policy run = (case rn_acceptance_policy_id run of
     None \<Rightarrow> raise_act (KeyError ''acceptance-policy'') | Some p \<Rightarrow> require_policy p)"

definition execute_graph ::
  "env \<Rightarrow> Run \<Rightarrow> TaskEnvelope \<Rightarrow> lease_ref \<Rightarrow> string \<Rightarrow> RunGraph \<Rightarrow> node_input list \<Rightarrow> (graph_end \<times> visit_trace) act" where
  "execute_graph env run envelope lease sid g inputs =
    bind_act (query (\<lambda>s. dget (st_workflow_templates s) (rg_template_id g, rg_template_version g))) (\<lambda>found.
    case found of
      None \<Rightarrow> raise_act (RuntimeError ''run graph template is not registered'')
    | Some t \<Rightarrow>
      (case entry_key g of
         None \<Rightarrow> raise_act (RuntimeError ''coroutine raised StopIteration'')
       | Some entry \<Rightarrow>
         bind_act (load_graph_cursor env run g entry) (\<lambda>c.
         bind_act (run_policy run) (\<lambda>policy.
         graph_steps env run envelope lease t g policy sid c inputs))))"

end
