(* ===== verification/Graph_Relations.thy ===== *)
theory Graph_Relations
  imports Graph_Run Act_Relations
begin

text \<open>
  Reasoning about the graph executor's handlers. \<open>returns\<close> says what every normal result of an action
  satisfies. The locale \<open>graph_relation\<close> extends \<open>run_relation\<close> by the store operations of the graph
  executor and by what other tasks may do meanwhile (\<open>allowed\<close>), and derives that the handlers of all
  node kinds but gates keep such a relation.
\<close>

subsection \<open>What actions return\<close>

definition returns :: "('a \<Rightarrow> bool) \<Rightarrow> 'a act \<Rightarrow> bool" where
  "returns P f \<longleftrightarrow> (\<forall>m x m'. f m = (Inr x, m') \<longrightarrow> P x)"

lemma returnsD: "returns P f \<Longrightarrow> f m = (Inr x, m') \<Longrightarrow> P x"
  unfolding returns_def by blast

lemma returns_bind: "(\<And>x. returns P (g x)) \<Longrightarrow> returns P (bind_act f g)"
  by (fastforce simp: returns_def bind_act_Inr)

lemma returns_bind_with: "returns Q f \<Longrightarrow> (\<And>x. Q x \<Longrightarrow> returns P (g x)) \<Longrightarrow> returns P (bind_act f g)"
  by (fastforce simp: returns_def bind_act_Inr)

lemma returns_ret: "P x \<Longrightarrow> returns P (ret x)"
  by (simp add: returns_def)

lemma returns_raise: "returns P (raise_act e)"
  by (simp add: returns_def)

lemma returns_if: "(b \<Longrightarrow> returns P f) \<Longrightarrow> (\<not> b \<Longrightarrow> returns P g) \<Longrightarrow> returns P (if b then f else g)"
  by simp

lemma returns_option:
  "(v = None \<Longrightarrow> returns P f) \<Longrightarrow> (\<And>x. v = Some x \<Longrightarrow> returns P (g x)) \<Longrightarrow>
   returns P (case v of None \<Rightarrow> f | Some x \<Rightarrow> g x)"
  by (cases v) simp_all

lemma returns_prod: "(\<And>a b. v = (a, b) \<Longrightarrow> returns P (g a b)) \<Longrightarrow> returns P (case v of (a, b) \<Rightarrow> g a b)"
  by (cases v) simp

lemma returns_mono: "returns Q f \<Longrightarrow> (\<And>x. Q x \<Longrightarrow> P x) \<Longrightarrow> returns P f"
  unfolding returns_def by blast

lemma run_node_simps [simp]:
  "nd_key (run_node r b n) = wn_key n" "nd_kind (run_node r b n) = wn_kind n"
  by (simp_all add: run_node_def)

subsection \<open>Relations the handlers keep\<close>

locale graph_relation = run_relation +
  fixes allowed :: "(store \<Rightarrow> store) \<Rightarrow> bool"
  assumes R_wait: "allowed f \<Longrightarrow> R m (m\<lparr>mg_store := f (mg_store m)\<rparr>)"
    and R_submit: "R m (m\<lparr>mg_calls := cs\<rparr>)"
    and R_artifact: "R m (after_op m (snd (save_artifact a (mg_store m))) n)"
    and R_verification: "R m (after_op m (snd (save_verification v (mg_store m))) n)"
    and R_budget: "R m (after_op m (snd (add_budget_spent r turns tool_calls (mg_store m))) n)"
    and R_create_loop: "lx_run_id x = r \<Longrightarrow> R m (after_op m (snd (create_loop_execution now x (mg_store m))) n)"
    and R_checkpoint: "ck_run_id ck = r \<Longrightarrow> ev_run_id e = r \<Longrightarrow>
      R m (after_op m (snd (append_checkpoint ck [e] (mg_store m))) n)"
    and R_region: "it_run_id it = r \<Longrightarrow> ck_run_id ck = r \<Longrightarrow>
      R m (after_op m (snd (append_loop_iteration now eid it ls status sr rv [] [e] (Some ck) (mg_store m))) n)"
begin

lemma g_wait: "allowed f \<Longrightarrow> preserves R (wait_for f)"
  by (simp add: preserves_def wait_for_def R_wait)

lemma g_submit: "preserves R (submit_call c)"
  by (simp add: preserves_def submit_call_def R_submit)

lemma g_store:
  "preserves R (store_op env (\<lambda>_. save_artifact a))"
  "preserves R (store_op env (\<lambda>_. save_verification v))"
  "rn_run_id run = r \<Longrightarrow> preserves R (store_op env (\<lambda>_. add_budget_spent (rn_run_id run) tu tc))"
  by (rule p_store_op, simp add: R_artifact R_verification R_budget)+

lemma g_enter: "rn_run_id run = r \<Longrightarrow> preserves R (enter_via env run sid k via)"
  unfolding enter_via_def by (rule t_emit)

lemma g_create:
  "rn_run_id run = r \<Longrightarrow> preserves R (store_op env (\<lambda>now. create_loop_execution now
     (region_execution now eid (rn_run_id run) k a spec pid)))"
  by (rule p_store_op) (simp add: R_create_loop region_execution_def)

lemma g_region:
  "it_run_id it = r \<Longrightarrow> rn_run_id run = r \<Longrightarrow> preserves R (store_op env (\<lambda>now. append_loop_iteration now eid it ls status sr rv [] [e]
     (Some (region_checkpoint now cid run lease nd c x st lst a))))"
  by (rule p_store_op) (simp add: R_region region_checkpoint_def)

lemma g_checkpoint:
  "rn_run_id run = r \<Longrightarrow> ev_run_id e = r \<Longrightarrow> preserves R (store_op env (\<lambda>now. append_checkpoint
     (boundary_checkpoint now cid run g c lease xs k cur) [e]))"
  by (rule p_store_op) (simp add: R_checkpoint boundary_checkpoint_def)

lemmas g_parts = q_built p_basic t_emit t_node g_enter g_store g_submit g_create q_loop

lemma g_artifact: "preserves R (keep_artifact env a c)"
  unfolding keep_artifact_def by (intro g_parts)

lemma g_directive: "preserves R (mk_directive k obj fs es)" "preserves R (agent_directive obj c)"
  unfolding agent_directive_def mk_directive_def by (intro g_parts)+

lemma g_verify: "rn_run_id run = r \<Longrightarrow> preserves R (verify_candidate env run sid i b1 b2 verdict vs)"
  by (induction vs) (simp, rule p_ret, simp only: verify_candidate.simps, intro g_parts, simp_all)

lemma g_task: "rn_run_id run = r \<Longrightarrow> preserves R (graph_task env run sid nd c via)"
  unfolding graph_task_def by (intro g_parts) simp_all

lemma g_tool: "rn_run_id run = r \<Longrightarrow> allowed (ni_during ni) \<Longrightarrow> preserves R (graph_tool env run sid nd refs c via ni)"
  unfolding graph_tool_def by (intro g_parts g_wait g_artifact) simp_all

lemma g_verifier:
  "rn_run_id run = r \<Longrightarrow> allowed (ni_during ni) \<Longrightarrow> preserves R (graph_verifier env run e sid nd p c via ni)"
  unfolding graph_verifier_def Let_def by (intro g_parts g_wait g_artifact g_verify) simp_all

lemma g_agent:
  "rn_run_id run = r \<Longrightarrow> allowed (ni_during ni) \<Longrightarrow> preserves R (graph_agent env run e sid nd ins c via ni)"
  unfolding graph_agent_def graph_search_def Let_def by (intro g_parts g_wait g_directive) simp_all

lemma g_region_commit: "rn_run_id run = r \<Longrightarrow> preserves R (region_commit env run lease nd x prev i ti a c)"
  unfolding region_commit_def Let_def
  by (split prod.split, intro allI impI g_parts g_region) (simp_all add: next_iteration_fields)

lemma g_region_interrupted: "rn_run_id run = r \<Longrightarrow> preserves R (region_interrupted env run nd x prev i ti)"
  unfolding region_interrupted_def Let_def
  by (split prod.split, intro allI impI g_parts q_iteration) (simp_all add: next_iteration_fields)

lemma g_region_head: "preserves R (region_head env x prev c ti)"
  unfolding region_head_def Let_def by (intro g_parts)

lemma g_region_call:
  "rn_run_id run = r \<Longrightarrow> allowed (ti_during_call ti) \<Longrightarrow> preserves R (region_call env run e sid nd k ins x ti)"
  unfolding region_call_def Let_def by (intro g_parts g_wait g_directive) simp_all

lemma g_region_rest:
  assumes "rn_run_id run = r" "\<And>x it c. preserves R (continue x it c)"
  shows "preserves R (region_rest env run lease nd k x prev c ti continue i)"
  unfolding region_rest_def region_observe_def Let_def
  by (intro g_parts g_region_interrupted g_region_commit g_artifact assms)

lemma g_region_turns:
  "rn_run_id run = r \<Longrightarrow> (\<And>ti. ti \<in> set tis \<Longrightarrow> allowed (ti_during_call ti)) \<Longrightarrow>
   preserves R (region_turns env run e lease nd lp ins sid x prev c tis)"
proof (induction tis arbitrary: sid x prev c)
  case Nil
  then show ?case by (simp add: p_ret)
next
  case (Cons ti tis)
  then show ?case
    unfolding region_turns.simps
    by (intro g_parts g_region_head g_region_call g_region_rest) simp_all
qed

lemma g_loop:
  assumes "rn_run_id run = r" "\<And>ti. ti \<in> set (ni_turns ni) \<Longrightarrow> allowed (ti_during_call ti)"
  shows "preserves R (graph_loop env run e lease sid nd lp t p c via ni)"
  unfolding graph_loop_def enter_region_def run_bounded_region_def new_region_attempt_def Let_def
  by (intro g_parts g_region_turns assms)

lemma g_checkpointed: "rn_run_id run = r \<Longrightarrow> preserves R (graph_checkpoint env run g c lease k sid)"
  unfolding graph_checkpoint_def by (intro g_parts g_checkpoint) simp_all

end

end
