(* ===== verification/Graph_Samples.thy ===== *)
theory Graph_Samples
  imports Graph_Relations Loop_Properties
begin

text \<open>
  A concrete run of the fixed graph on which the statements about graph runs are exercised: a high-risk
  task whose agent completes every call, up to the approval of its plan.
\<close>

definition run_graph_of :: "WorkflowTemplate \<Rightarrow> RunGraph" where
  "run_graph_of t = (case instantiate_run_graph (\<lambda>_. ''c'') ''g_1'' t ''run_1'' ''task_1'' (te_budgets sample_task) of
     Inr g \<Rightarrow> g)"

definition graph_run :: Run where
  "graph_run = sample_run\<lparr>rn_acceptance_policy_id := Some ''pol_1''\<rparr>"

definition risky_task :: TaskEnvelope where
  "risky_task = sample_task\<lparr>te_risk_level := Risk_HIGH\<rparr>"

definition node_in :: node_input where
  "node_in = \<lparr>ni_pause_head = False, ni_searches = 0, ni_search_executor = False,
     ni_search_status = Search_PLANNED, ni_search_artifact = None, ni_left = 50, ni_during = (\<lambda>s. s),
     ni_outcome = sample_outcome True, ni_pause_call = False, ni_artifact = None,
     ni_verdict = (\<lambda>v. (sample_verdict [] V_PASS v)\<lparr>vr_iteration_id := None\<rparr>),
     ni_polls = [], ni_turns = []\<rparr>"

definition fixed_sample :: WorkflowTemplate where
  "fixed_sample = sealed_template (\<lambda>_. ''c'') (FIXED_GRAPH_V1 ''r'')"

definition fixed_sample_graph :: RunGraph where
  "fixed_sample_graph = run_graph_of fixed_sample"

definition fixed_manager :: manager where
  "fixed_manager = \<lparr>mg_store = empty_store\<lparr>st_runs := [(''run_1'', graph_run)],
     st_acceptance_policies := [(''pol_1'', loop_policy)],
     st_workflow_templates := [((tp_template_id fixed_sample, tp_version fixed_sample), fixed_sample)]\<rparr>,
   mg_draws = 0, mg_calls = []\<rparr>"

abbreviation sample_graph_run :: "node_input list \<Rightarrow> manager \<Rightarrow> (graph_end \<times> visit_trace) res \<times> manager" where
  "sample_graph_run \<equiv> execute_graph sample_env graph_run risky_task
     \<lparr>le_lease_id = ''lease'', le_base_revision = ''abc''\<rparr> ''s'' fixed_sample_graph"

lemma fixed_sample_instance:
  "instantiate_run_graph (\<lambda>_. ''c'') ''g_1'' fixed_sample ''run_1'' ''task_1'' (te_budgets sample_task) =
    Inr fixed_sample_graph"
  by (simp add: fixed_sample_graph_def run_graph_of_def instantiate_run_graph_def fixed_sample_def sealed_template_def
    compute_template_checksum_def)

abbreviation plan_instruction :: string where
  "plan_instruction \<equiv>
    ''Produce an explicit written plan artifact for the requested change before any modification is made.''"

text \<open>What the executor reads of the graph and the template up to the plan's approval.\<close>

lemma fixed_sample_reads:
  "graph_node fixed_sample_graph ''initialize'' =
     Some (run_node ''run_1'' (te_budgets sample_task) (node ''initialize'' Kind_TASK ''Initialize'' None None None))"
  "graph_node fixed_sample_graph ''plan'' =
     Some (run_node ''run_1'' (te_budgets sample_task) (node ''plan'' Kind_AGENT ''Plan'' None (Some plan_instruction) None))"
  "template_node fixed_sample ''initialize'' = Some (node ''initialize'' Kind_TASK ''Initialize'' None None None)"
  "template_node fixed_sample ''plan'' = Some (node ''plan'' Kind_AGENT ''Plan'' None (Some plan_instruction) None)"
  "entry_key fixed_sample_graph = Some ''initialize''"
  "rg_template_id fixed_sample_graph = tp_template_id fixed_sample"
  "rg_template_version fixed_sample_graph = tp_version fixed_sample"
  by code_simp+

lemma fixed_sample_routes:
  "select_edge No_SUCCESS (out_edges fixed_sample_graph ''initialize'') v (tp_global_budget_policy fixed_sample) =
     Inr (run_edge ''run_1'' (edge ''initialize-plan'' ''initialize'' ''plan'' Edge_NORMAL None None))"
  "select_edge No_SUCCESS (out_edges fixed_sample_graph ''plan'') v (tp_global_budget_policy fixed_sample) =
     Inr (run_edge ''run_1'' (edge ''plan-approve-plan'' ''plan'' ''approve-plan'' Edge_APPROVAL (Some ''plan ready'')
       (Some Guard_ON_SUCCESS)))"
  "routed_key fixed_sample (run_edge ''run_1'' (edge ''initialize-plan'' ''initialize'' ''plan'' Edge_NORMAL None None)) =
     ''plan''"
  by code_simp+

text \<open>Evaluation of an action before its continuation.\<close>

lemma bind_act_weak: "f = f' \<Longrightarrow> m = m' \<Longrightarrow> bind_act f g m = bind_act f' g m'"
  by simp

lemmas graph_eval = graph_node_attempt_def graph_task_def graph_agent_def enter_via_def after_node_def
  node_transition_def emit_def control_event_def store_op_def query_def wait_for_def draw_id_def submit_call_def
  ret_def bind_act_def append_event_def events_of_def list_events_def get_latest_checkpoint_def checkpoints_of_def
  dget_or_def Let_def graph_checkpoint_def require_run_def get_run_def list_loop_executions_for_run_def
  append_checkpoint_def append_run_events_def push_events_def push_event_def number_event_def
  set_last_sequence_def append_memory_checkpoint_def boundary_checkpoint_def TERMINAL_RUN_STATES_def
  agent_directive_def mk_directive_def remaining_run_budgets_def get_budget_spent_def add_budget_spent_def
  node_objective_def agent_result_def set_status_def follow_edge_def or_else_def truthy_def node_id_def
  execute_graph_def load_graph_cursor_def run_policy_def require_policy_def new_cursor_def

lemmas graph_sample_defs = fixed_manager_def graph_run_def empty_store_def sample_run_def node_in_def node_def
  sample_env_def risky_task_def sample_task_def loop_policy_def sample_outcome_def

lemma sample_graph_fst:
  "fst (sample_graph_run [node_in, node_in] fixed_manager) =
    Inr (Graph_starved, [(''initialize'', No_SUCCESS), (''plan'', No_SUCCESS)])"
  by (simp add: fixed_sample_reads fixed_sample_routes graph_eval graph_sample_defs cong: bind_act_weak)

lemma sample_graph_result:
  "\<exists>m'. sample_graph_run [node_in, node_in] fixed_manager =
    (Inr (Graph_starved, [(''initialize'', No_SUCCESS), (''plan'', No_SUCCESS)]), m')"
  using sample_graph_fst by (metis prod.collapse)

lemma fixed_manager_fields:
  "dget (st_workflow_templates (mg_store fixed_manager)) (rg_template_id fixed_sample_graph,
     rg_template_version fixed_sample_graph) = Some fixed_sample"
  "get_latest_checkpoint (mg_store fixed_manager) r = None" "st_approval_by_request (mg_store fixed_manager) = []"
  by (simp_all add: fixed_manager_def fixed_sample_reads empty_store_def get_latest_checkpoint_def checkpoints_of_def
    dget_or_def)

end
