(* ===== verification/Graph_Properties.thy ===== *)
theory Graph_Properties
  imports Graph_Samples
begin

text \<open>
  Properties of the graph executor of \<open>Graph_Run\<close>: the outcomes each node handler can return, that a
  run of a graph makes no more visits than the traversal limits allow and so ends, that a run of a graph the
  validator and the templates accept never stops for want of an edge, and two defects of the code (a region
  iteration's checkpoint loses the position in the graph, and the longest valid objective stops an agent node).
\<close>

subsection \<open>What the handlers return\<close>

text \<open>A handler leaves the current node alone and forgets no traversal.\<close>

definition route_kept :: "GraphCursor \<Rightarrow> GraphCursor \<Rightarrow> bool" where
  "route_kept c c' \<longleftrightarrow> gc_current_key c' = gc_current_key c \<and>
     (\<forall>k. dget_or 0 (gc_entered_via c) k \<le> dget_or 0 (gc_entered_via c') k)"

abbreviation kept :: "GraphCursor \<Rightarrow> node_result \<Rightarrow> bool" where
  "kept c \<equiv> (\<lambda>(out, sid, c'). route_kept c c')"

lemma route_kept_refl [simp]: "route_kept c c"
  by (simp add: route_kept_def)

lemma route_kept_trans: "route_kept a b \<Longrightarrow> route_kept b c \<Longrightarrow> route_kept a c"
  unfolding route_kept_def by (metis order_trans)

lemma route_kept_updates [simp]:
  "route_kept c (c'\<lparr>gc_statuses := v1\<rparr>) \<longleftrightarrow> route_kept c c'"
  "route_kept c (c'\<lparr>gc_entry_edge_key := v2\<rparr>) \<longleftrightarrow> route_kept c c'"
  "route_kept c (c'\<lparr>gc_last_artifact_id := v3\<rparr>) \<longleftrightarrow> route_kept c c'"
  "route_kept c (c'\<lparr>gc_last_artifact_sha256 := v4\<rparr>) \<longleftrightarrow> route_kept c c'"
  "route_kept c (c'\<lparr>gc_last_results := v5\<rparr>) \<longleftrightarrow> route_kept c c'"
  "route_kept c (c'\<lparr>gc_last_error := v6\<rparr>) \<longleftrightarrow> route_kept c c'"
  "route_kept c (c'\<lparr>gc_stop_reason := v7\<rparr>) \<longleftrightarrow> route_kept c c'"
  "route_kept (c\<lparr>gc_entry_edge_key := v8\<rparr>) c' \<longleftrightarrow> route_kept c c'"
  by (simp_all add: route_kept_def)

lemma route_kept_status [simp]: "route_kept c (set_status k st c') \<longleftrightarrow> route_kept c c'"
  by (simp add: set_status_def)

lemma route_kept_capture:
  "route_kept c (c\<lparr>gc_entered_via := dset k (dget_or 0 (gc_entered_via c) k + 1) (gc_entered_via c)\<rparr>)"
  by (simp add: route_kept_def dget_or_def)

lemma keep_artifact_kept: "returns (route_kept c) (keep_artifact env a c)"
  unfolding keep_artifact_def by (intro returns_option returns_bind returns_ret) simp_all

lemma region_observe_kept: "returns (\<lambda>(a, c'). route_kept c c') (region_observe env run sid k ti c)"
  unfolding region_observe_def
  by (intro returns_option returns_bind returns_bind_with [OF keep_artifact_kept] returns_ret) simp_all

lemma region_cursor_kept [simp]: "route_kept c (region_cursor x oc st c') \<longleftrightarrow> route_kept c c'"
  by (simp add: region_cursor_def)

lemma region_commit_kept:
  "returns (\<lambda>(x', it, c', stop). route_kept c c') (region_commit env run lease nd x prev i ti a c)"
  unfolding region_commit_def Let_def
  by (intro returns_prod returns_bind returns_ret) simp

lemma region_head_kept:
  "returns (\<lambda>r. \<forall>out c'. r = Some (out, c') \<longrightarrow> route_kept c c') (region_head env x prev c ti)"
  unfolding region_head_def Let_def by (intro returns_if returns_bind returns_ret) simp_all

lemma region_rest_kept:
  assumes "\<And>x' it c'. route_kept c c' \<Longrightarrow> returns (kept c) (continue x' it c')"
  shows "returns (kept c) (region_rest env run lease nd k x prev c ti continue i)"
  unfolding region_rest_def Let_def
proof (intro returns_if)
  have commit: "returns (kept c)
      (bind_act (region_commit env run lease nd x prev i ti a c')
        (\<lambda>(x', iteration, c', stop). case stop of
           Some (_, _, node_outcome) \<Rightarrow> done_with node_outcome (oc_session_id (ti_outcome ti)) c'
         | None \<Rightarrow> continue x' iteration c'))" if "route_kept c c'" for a c'
    using route_kept_trans [OF that] assms
    by (intro returns_bind_with [OF region_commit_kept]) (auto intro!: returns_ret split: option.split)
  show "returns (kept c) (bind_act (region_observe env run (oc_session_id (ti_outcome ti)) k ti c)
      (\<lambda>(artifact, c). bind_act (region_commit env run lease nd x prev i ti artifact c)
        (\<lambda>(x', iteration, c', stop). case stop of
           Some (_, _, node_outcome) \<Rightarrow> done_with node_outcome (oc_session_id (ti_outcome ti)) c'
         | None \<Rightarrow> continue x' iteration c')))"
    by (rule returns_bind_with [OF region_observe_kept]) (auto intro: commit)
qed (auto intro!: returns_bind returns_ret)

lemma region_turns_kept: "returns (kept c) (region_turns env run e lease nd lp ins sid x prev c tis)"
proof (induction tis arbitrary: sid x prev c)
  case Nil
  then show ?case by (simp add: returns_ret)
next
  case (Cons ti tis)
  have "returns (kept c) (region_rest env run lease nd (lp_observe_key lp) x prev c ti
      (\<lambda>x' it c'. region_turns env run e lease nd lp ins (oc_session_id (ti_outcome ti)) x' (prev @ [it]) c' tis) i)" for i
    by (rule region_rest_kept, rule returns_mono [OF Cons.IH]) (auto intro: route_kept_trans)
  then show ?case
    unfolding region_turns.simps
    by (intro returns_bind_with [OF region_head_kept])
      (auto intro!: returns_ret returns_bind split: option.split)
qed

lemma graph_loop_kept: "returns (kept c) (graph_loop env run e lease sid nd lp t p c via ni)"
proof -
  have region: "returns (kept c) (run_bounded_region env run e lease sid nd lp t x c tis)" for x tis
    unfolding run_bounded_region_def Let_def by (intro returns_bind region_turns_kept)
  have "returns (kept c) (enter_region env run e lease sid nd lp t c via ni x)" for x
    unfolding enter_region_def
    by (rule returns_bind, rule returns_bind_with [OF region])
      (auto intro!: returns_bind returns_ret split: option.split)
  then show ?thesis
    unfolding graph_loop_def Let_def
    by (intro returns_bind returns_if returns_prod returns_ret) simp_all
qed

lemma graph_agent_kept: "returns (kept c) (graph_agent env run e sid nd ins c via ni)"
proof -
  have "kept c (agent_result nd c ni)" by (simp add: agent_result_def Let_def)
  moreover have "returns (kept c) (graph_search env run sid nd c via ni)"
    unfolding graph_search_def Let_def
    by (intro returns_if returns_bind returns_ret) (auto split: GraphNodeStatus.split option.split)
  ultimately show ?thesis
    unfolding graph_agent_def Let_def by (intro returns_if returns_bind returns_prod returns_ret) simp_all
qed

lemma graph_gate_kept: "returns (kept c) (graph_gate env run e sid nd gate c via ni)"
proof -
  have close: "returns (kept c) (close_gate env run sid nd c r)" for r
    unfolding close_gate_def Let_def by (intro returns_bind returns_ret) simp
  show ?thesis
    unfolding graph_gate_def auto_approve_gate_def wait_at_gate_def decided_gate_def
    by (intro returns_bind returns_if close) (auto intro!: returns_ret returns_bind close split: gate_wait.split)
qed

lemma graph_tool_kept: "returns (kept c) (graph_tool env run sid nd refs c via ni)"
  unfolding graph_tool_def
  by (rule returns_bind, rule returns_bind, rule returns_bind_with [OF keep_artifact_kept])
    (auto intro!: returns_bind returns_ret intro: route_kept_trans [OF route_kept_capture])

lemma graph_verifier_kept: "returns (kept c) (graph_verifier env run e sid nd p c via ni)"
  unfolding graph_verifier_def Let_def
  by (rule returns_bind, rule returns_bind_with [where Q = "route_kept c"])
    (auto intro!: returns_bind returns_ret keep_artifact_kept)

lemma graph_node_attempt_kept: "returns (kept c) (graph_node_attempt env run e lease sid nd spec t gate p c ni)"
proof -
  have task: "returns (kept c) (graph_task env run sid nd c via)" for c via
    unfolding graph_task_def by (intro returns_if returns_bind returns_ret) simp_all
  have "kept (c\<lparr>gc_entry_edge_key := None\<rparr>) = kept c" by (auto simp: fun_eq_iff)
  note r = this [THEN arg_cong, of "\<lambda>P. returns P f" for f, THEN iffD1]
  show ?thesis
    unfolding graph_node_attempt_def Let_def
    by (auto intro!: returns_raise r [OF graph_agent_kept] r [OF graph_gate_kept] r [OF graph_loop_kept]
      r [OF graph_tool_kept] r [OF graph_verifier_kept] r [OF task] split: GraphNodeKind.split option.split)
qed

subsection \<open>Outcomes by node kind\<close>

fun handler_outcomes :: "GraphNodeKind \<Rightarrow> NodeOutcome set" where
  "handler_outcomes Kind_TASK = {No_SUCCESS}"
| "handler_outcomes Kind_TOOL = {No_SUCCESS}"
| "handler_outcomes Kind_AGENT = {No_SUCCESS, No_FAIL, No_BUDGET_EXHAUSTED, No_PAUSED, No_CANCELLED}"
| "handler_outcomes Kind_VERIFIER = {No_SUCCESS, No_FAIL, No_INCONCLUSIVE}"
| "handler_outcomes Kind_GATE = {No_APPROVED, No_DENIED, No_PAUSED}"
| "handler_outcomes Kind_LOOP = {No_SUCCESS, No_FAIL, No_BUDGET_EXHAUSTED, No_PAUSED, No_CANCELLED}"
| "handler_outcomes _ = {}"

text \<open>An agent whose planned search still waits is inconclusive as well.\<close>

definition search_waits :: "node_input \<Rightarrow> bool" where
  "search_waits ni \<longleftrightarrow> ni_searches ni = 1 \<and> ni_search_executor ni \<and>
     search_node_status (ni_search_status ni) = Node_WAITING"

definition node_outcomes :: "GraphNodeKind \<Rightarrow> node_input \<Rightarrow> NodeOutcome set" where
  "node_outcomes kind ni = handler_outcomes kind \<union>
     (if kind = Kind_AGENT \<and> search_waits ni then {No_INCONCLUSIVE} else {})"

definition outcome_in :: "NodeOutcome set \<Rightarrow> node_result \<Rightarrow> bool" where
  "outcome_in S result \<longleftrightarrow> set_option (fst result) \<subseteq> S"

lemma outcome_in_simps [simp]:
  "outcome_in S (Some out, sid, c) \<longleftrightarrow> out \<in> S" "outcome_in S (None, sid, c)"
  by (simp_all add: outcome_in_def)

abbreviation gate_outcome :: "node_result \<Rightarrow> bool" where
  "gate_outcome \<equiv> outcome_in {No_APPROVED, No_DENIED, No_PAUSED}"

abbreviation loop_outcome :: "node_result \<Rightarrow> bool" where
  "loop_outcome \<equiv> outcome_in {No_SUCCESS, No_FAIL, No_BUDGET_EXHAUSTED, No_PAUSED, No_CANCELLED}"

lemma search_outcome_cases:
  "search_outcome st \<in> {No_SUCCESS, No_CANCELLED, No_FAIL} \<or> st = Node_WAITING \<and> search_outcome st = No_INCONCLUSIVE"
  by (cases st) simp_all

lemma agent_outcomes: "returns (outcome_in (node_outcomes Kind_AGENT ni)) (graph_agent env run e sid nd ins c via ni)"
proof (cases "ni_searches ni = 0")
  case True
  have "outcome_in (node_outcomes Kind_AGENT ni) (agent_result nd c ni)"
    by (simp add: agent_result_def node_outcomes_def Let_def)
  with True show ?thesis
    unfolding graph_agent_def Let_def
    by (intro returns_if returns_bind returns_prod returns_ret) (simp_all add: node_outcomes_def)
next
  case False
  then show ?thesis
    using search_outcome_cases [of "search_node_status (ni_search_status ni)"]
    unfolding graph_agent_def graph_search_def Let_def
    by (intro returns_if returns_bind returns_ret) (auto simp: node_outcomes_def search_waits_def)
qed

lemma verifier_outcomes: "returns (outcome_in (handler_outcomes Kind_VERIFIER)) (graph_verifier env run e sid nd p c via ni)"
proof -
  have "verdict_outcome v \<in> handler_outcomes Kind_VERIFIER" for v by (cases v) simp_all
  then show ?thesis unfolding graph_verifier_def Let_def by (intro returns_bind returns_ret) simp
qed

lemma gate_outcomes: "returns gate_outcome (graph_gate env run e sid nd gate c via ni)"
proof -
  have close: "returns gate_outcome (close_gate env run sid nd c rec)" for rec
    unfolding close_gate_def Let_def by (intro returns_bind returns_ret) simp
  show ?thesis
    unfolding graph_gate_def auto_approve_gate_def wait_at_gate_def decided_gate_def
    by (intro returns_bind returns_if close)
      (auto intro!: returns_ret returns_bind close split: gate_wait.split)
qed

lemma region_stop_outcomes: "region_stop x oc st = Some (a, b, out) \<Longrightarrow> out \<in> handler_outcomes Kind_LOOP"
  by (auto simp: region_stop_def split: option.splits if_splits)

lemma region_commit_stop:
  "returns (\<lambda>(x', it, c', stop). \<forall>a b out. stop = Some (a, b, out) \<longrightarrow> out \<in> handler_outcomes Kind_LOOP)
     (region_commit env run lease nd x prev i ti art c)"
  unfolding region_commit_def Let_def
  by (intro returns_prod returns_bind returns_ret) (auto dest: region_stop_outcomes)

lemma region_head_outcomes:
  "returns (\<lambda>r. \<forall>out c'. r = Some (out, c') \<longrightarrow> out \<in> handler_outcomes Kind_LOOP) (region_head env x prev c ti)"
  unfolding region_head_def Let_def by (intro returns_if returns_bind returns_ret) simp_all

lemma region_rest_outcomes:
  assumes "\<And>x' it c'. returns loop_outcome (continue x' it c')"
  shows "returns loop_outcome (region_rest env run lease nd k x prev c ti continue i)"
proof -
  have "returns loop_outcome
      (case stop of Some (_, _, out) \<Rightarrow> done_with out sid c' | None \<Rightarrow> continue x' it c')"
    if "\<forall>a b out. stop = Some (a, b, out) \<longrightarrow> out \<in> handler_outcomes Kind_LOOP" for stop sid x' it c'
    using that assms by (auto intro!: returns_ret split: option.split)
  then have commit: "returns loop_outcome
      (bind_act (region_commit env run lease nd x prev i ti art c'')
        (\<lambda>(x', it, c', stop). case stop of Some (_, _, out) \<Rightarrow> done_with out sid c' | None \<Rightarrow> continue x' it c'))"
    for art c'' sid
    by (intro returns_bind_with [OF region_commit_stop]) auto
  have "returns loop_outcome
      (bind_act (region_observe env run (oc_session_id (ti_outcome ti)) k ti c)
        (\<lambda>(artifact, c). bind_act (region_commit env run lease nd x prev i ti artifact c)
          (\<lambda>(x', it, c', stop). case stop of
             Some (_, _, out) \<Rightarrow> done_with out (oc_session_id (ti_outcome ti)) c' | None \<Rightarrow> continue x' it c')))"
    by (rule returns_bind, rule returns_prod, rule commit)
  then show ?thesis unfolding region_rest_def Let_def by (auto intro!: returns_bind returns_ret)
qed

lemma region_turns_outcomes:
  "returns loop_outcome (region_turns env run e lease nd lp ins sid x prev c tis)"
proof (induction tis arbitrary: sid x prev c)
  case Nil
  then show ?case by (simp add: returns_ret)
next
  case (Cons ti tis)
  show ?case
    unfolding region_turns.simps
    by (intro returns_bind_with [OF region_head_outcomes])
      (auto intro!: returns_ret returns_bind region_rest_outcomes Cons.IH split: option.split)
qed

lemma loop_outcomes: "returns loop_outcome (graph_loop env run e lease sid nd lp t p c via ni)"
proof -
  have region: "returns loop_outcome (run_bounded_region env run e lease sid nd lp t x c tis)" for x tis
    unfolding run_bounded_region_def Let_def by (intro returns_bind region_turns_outcomes)
  have "returns loop_outcome (enter_region env run e lease sid nd lp t c via ni x)" for x
    unfolding enter_region_def
    by (rule returns_bind, rule returns_bind_with [OF region])
      (auto intro!: returns_bind returns_ret split: option.split)
  then show ?thesis
    unfolding graph_loop_def Let_def
    by (intro returns_bind returns_if returns_prod returns_ret) simp_all
qed

lemma attempt_outcomes:
  "returns (outcome_in (node_outcomes (nd_kind nd) ni)) (graph_node_attempt env run e lease sid nd spec t gate p c ni)"
proof -
  have lift: "returns (outcome_in (handler_outcomes k)) f \<Longrightarrow> returns (outcome_in (node_outcomes k ni)) f" for k f
    by (erule returns_mono) (auto simp: node_outcomes_def outcome_in_def)
  have "returns (outcome_in (handler_outcomes Kind_TASK)) (graph_task env run sid nd c via)" for c via
    unfolding graph_task_def by (intro returns_if returns_bind returns_ret) simp_all
  moreover have "returns (outcome_in (handler_outcomes Kind_TOOL)) (graph_tool env run sid nd refs c via ni)" for refs c via
    unfolding graph_tool_def by (intro returns_bind returns_ret) simp
  ultimately show ?thesis
    unfolding graph_node_attempt_def Let_def
    by (cases "nd_kind nd") (auto intro!: returns_raise lift agent_outcomes verifier_outcomes gate_outcomes loop_outcomes split: option.split)
qed

subsection \<open>A graph run ends\<close>

lemma graph_node_key: "graph_node g key = Some nd \<Longrightarrow> nd_key nd = key \<and> nd \<in> set (rg_nodes g)"
  by (auto simp: graph_node_def dget_dict_of dest!: map_of_SomeD)

lemma route_measure_mono:
  assumes "\<And>k. dget_or 0 v k \<le> dget_or 0 w k"
  shows "route_measure t g w key \<le> route_measure t g v key"
proof -
  have "retries_left b g w \<le> retries_left b g v" for b
    unfolding retries_left_def by (intro sum_mono nat_mono) (simp add: assms)
  then show ?thesis unfolding route_measure_def by (intro add_mono mult_right_mono) simp_all
qed

text \<open>The most nodes a run can complete, retries included.\<close>

definition visit_limit :: "WorkflowTemplate \<Rightarrow> RunGraph \<Rightarrow> nat" where
  "visit_limit t g = Suc (retries_left (tp_global_budget_policy t) g [] * Suc (length (route_arcs t g)) +
     length (route_arcs t g))"

lemma route_measure_limit:
  assumes "\<And>k. 0 \<le> dget_or 0 v k"
  shows "route_measure t g v key < visit_limit t g"
proof -
  have "route_measure t g v key \<le> route_measure t g [] key"
    by (rule route_measure_mono) (use assms in \<open>simp add: dget_or_def\<close>)
  then show ?thesis using ahead_le [of t g key] by (simp add: route_measure_def visit_limit_def)
qed

lemma entered_counts_nonneg: "0 \<le> dget_or 0 (entered_counts env es) k"
proof -
  have "\<forall>k. 0 \<le> dget_or 0 (fold (count_entry env) es d) k" if "\<forall>k. 0 \<le> dget_or 0 d k" for d
    using that
  proof (induction es arbitrary: d)
    case (Cons e es)
    have "\<forall>k. 0 \<le> dget_or 0 (count_entry env e d) k"
      using Cons.prems by (auto simp: count_entry_def dget_or_def split: option.splits)
    with Cons.IH show ?case by simp
  qed simp
  then show ?thesis by (simp add: entered_counts_def dget_or_def)
qed

lemma restore_arrival_route: "returns (\<lambda>c'. gc_entered_via c' = gc_entered_via c) (restore_arrival run g a c)"
  by (auto simp: returns_def restore_arrival_def Let_def split: option.splits if_splits sum.splits)

lemma load_graph_cursor_counts: "returns (\<lambda>c. \<forall>k. 0 \<le> dget_or 0 (gc_entered_via c) k) (load_graph_cursor env run g entry)"
proof -
  have restore: "returns (\<lambda>c. \<forall>k. 0 \<le> dget_or 0 (gc_entered_via c) k) (restore_checkpoint run g c ck)"
    if "\<forall>k. 0 \<le> dget_or 0 (gc_entered_via c) k" for c ck
    unfolding restore_checkpoint_def Let_def
    by (intro returns_bind returns_mono [OF restore_arrival_route]) (simp add: that split: if_splits)
  show ?thesis
    unfolding load_graph_cursor_def Let_def
    by (intro returns_bind returns_option returns_if returns_ret restore)
      (simp_all add: new_cursor_def entered_counts_nonneg)
qed

text \<open>What one pass of the executor does.\<close>

lemma after_nodeE:
  assumes "after_node env run t g lease ni key continue result m = (Inr (fin, trace), m')"
  obtains (last) "fin \<in> {Graph_paused, Graph_cancelled, Graph_budget, Graph_waiting}" "length trace \<le> 1"
      "\<And>k out. (k, out) \<in> set trace \<Longrightarrow> k = key"
  | (stuck) outcome sid c code where "result = (Some outcome, sid, c)"
      "outcome \<notin> {No_PAUSED, No_CANCELLED, No_BUDGET_EXHAUSTED}"
      "select_edge outcome (out_edges g key) (gc_entered_via c) (tp_global_budget_policy t) = Inl code"
      "fin = Graph_no_edge" "trace = [(key, outcome)]"
  | (go) outcome sid c e u m1 rest where "result = (Some outcome, sid, c)"
      "outcome \<notin> {No_PAUSED, No_CANCELLED, No_BUDGET_EXHAUSTED}"
      "select_edge outcome (out_edges g key) (gc_entered_via c) (tp_global_budget_policy t) = Inr e"
      "continue sid ((follow_edge e c)\<lparr>gc_current_key := routed_key t e\<rparr>) m1 = (Inr (fin, rest), m')"
      "trace = (key, outcome) # rest" "graph_checkpoint env run g (follow_edge e c) lease (routed_key t e) sid m = (Inr u, m1)"
proof -
  obtain out sid c where r: "result = (out, sid, c)" by (cases result) auto
  show thesis
  proof (cases out)
    case None
    then show thesis using assms r last by (auto simp: after_node_def)
  next
    case (Some outcome)
    show thesis
    proof (cases "outcome \<in> {No_PAUSED, No_CANCELLED, No_BUDGET_EXHAUSTED}")
      case True
      then show thesis using assms r Some last
        by (auto simp: after_node_def bind_act_Inr Let_def)
    next
      case False
      show thesis
      proof (cases "select_edge outcome (out_edges g key) (gc_entered_via c) (tp_global_budget_policy t)")
        case (Inl code)
        then show thesis using assms r Some False stuck by (auto simp: after_node_def bind_act_Inr Let_def)
      next
        case (Inr e)
        then show thesis using assms r Some False go by (auto simp: after_node_def bind_act_Inr Let_def)
      qed
    qed
  qed
qed

lemma graph_steps_ConsE:
  assumes "graph_steps env run e lease t g p sid c (ni # nis) m = (Inr (fin, trace), m')"
  obtains (paused) "fin = Graph_paused" "trace = []"
  | (terminal) nd where "graph_node g (gc_current_key c) = Some nd" "nd_kind nd = Kind_TERMINAL"
      "fin = Graph_terminal (cursor_end_state c)" "trace = []"
  | (attempt) nd spec result m1 where "graph_node g (gc_current_key c) = Some nd" "nd_key nd = gc_current_key c"
      "nd_kind nd \<noteq> Kind_TERMINAL" "template_node t (gc_current_key c) = Some spec"
      "graph_node_attempt env run e lease sid nd spec t (gate_for t (gc_current_key c)) p c ni m = (Inr result, m1)"
      "after_node env run t g lease ni (gc_current_key c)
         (\<lambda>sid' c'. graph_steps env run e lease t g p sid' c' nis) result m1 = (Inr (fin, trace), m')"
  using assms
  by (auto simp: bind_act_Inr split: if_splits option.splits dest!: graph_node_key)

lemma graph_steps_bounded:
  assumes "acyclic (set (route_arcs t g))" "distinct (map ed_key (rg_edges g))"
    and "graph_steps env run e lease t g p sid c nis m = (Inr (fin, trace), m')"
  shows "length trace \<le> Suc (route_measure t g (gc_entered_via c) (gc_current_key c)) \<and>
    (fin = Graph_starved \<longrightarrow> length nis \<le> route_measure t g (gc_entered_via c) (gc_current_key c))"
  using assms(3)
proof (induction nis arbitrary: sid c m trace)
  case Nil
  then show ?case by simp
next
  case (Cons ni nis)
  let ?\<mu> = "\<lambda>c. route_measure t g (gc_entered_via c) (gc_current_key c)"
  from Cons.prems show ?case
  proof (cases rule: graph_steps_ConsE)
    case (attempt nd spec result m1)
    from attempt(6) show ?thesis
    proof (cases rule: after_nodeE)
      case (go outcome sid' c1 ed u m2 rest)
      let ?c2 = "(follow_edge ed c1)\<lparr>gc_current_key := routed_key t ed\<rparr>"
      have k: "route_kept c c1" using returnsD [OF graph_node_attempt_kept attempt(5)] go(1) by simp
      have "?\<mu> ?c2 < ?\<mu> c1"
        using route_measure_decreases [OF assms(1,2)] go(3) k by (simp add: follow_edge_def route_kept_def)
      also have "\<dots> \<le> ?\<mu> c" using k route_measure_mono by (auto simp: route_kept_def)
      finally show ?thesis using Cons.IH [OF go(4)] go(5) by auto
    qed auto
  qed simp_all
qed

lemma graph_visits_bounded:
  assumes "dget (st_workflow_templates (mg_store m)) (rg_template_id g, rg_template_version g) = Some t"
    "acyclic (set (route_arcs t g))" "distinct (map ed_key (rg_edges g))"
    "execute_graph env run e lease sid g inputs m = (Inr (fin, trace), m')"
  shows "length trace \<le> visit_limit t g" "visit_limit t g \<le> length inputs \<Longrightarrow> fin \<noteq> Graph_starved"
proof -
  from assms(1,4) obtain entry c p m1 m2 where
    c: "load_graph_cursor env run g entry m = (Inr c, m1)"
    and s: "graph_steps env run e lease t g p sid c inputs m2 = (Inr (fin, trace), m')"
    by (auto simp: execute_graph_def bind_act_Inr split: option.splits)
  have "route_measure t g (gc_entered_via c) (gc_current_key c) < visit_limit t g"
    by (rule route_measure_limit) (use returnsD [OF load_graph_cursor_counts c] in blast)
  with graph_steps_bounded [OF assms(2,3) s]
  show "length trace \<le> visit_limit t g" "visit_limit t g \<le> length inputs \<Longrightarrow> fin \<noteq> Graph_starved" by auto
qed

lemma acyclic_rank: "(\<And>a b. (a, b) \<in> r \<Longrightarrow> f a < (f b :: nat)) \<Longrightarrow> acyclic r"
proof -
  assume less: "\<And>a b. (a, b) \<in> r \<Longrightarrow> f a < f b"
  have "(a, b) \<in> r\<^sup>+ \<Longrightarrow> f a < f b" for a b
    by (induction rule: trancl_induct) (use less in \<open>auto intro: less_trans\<close>)
  then show ?thesis unfolding acyclic_def by blast
qed

lemma fixed_sample_acyclic: "acyclic (set (route_arcs fixed_sample fixed_sample_graph))"
proof (rule acyclic_rank)
  have "list_all (\<lambda>(a, b). length (takeWhile (\<lambda>k. k \<noteq> a) (node_keys fixed_sample)) <
      length (takeWhile (\<lambda>k. k \<noteq> b) (node_keys fixed_sample))) (route_arcs fixed_sample fixed_sample_graph)"
    by code_simp
  then show "length (takeWhile (\<lambda>k. k \<noteq> a) (node_keys fixed_sample)) <
      length (takeWhile (\<lambda>k. k \<noteq> b) (node_keys fixed_sample))"
    if "(a, b) \<in> set (route_arcs fixed_sample fixed_sample_graph)" for a b
    using that by (auto simp: list_all_iff)
qed

subsection \<open>Run graphs of templates\<close>

text \<open>A run graph instantiated from a valid template whose keys follow the pattern of \<open>WorkflowNodeSpec\<close>.\<close>

definition graph_of_template :: "WorkflowTemplate \<Rightarrow> string \<Rightarrow> RunGraph \<Rightarrow> bool" where
  "graph_of_template t run_id g \<longleftrightarrow> validate_template t = Inr [] \<and> (\<forall>n \<in> set (tp_nodes t). valid_key (wn_key n)) \<and>
     (\<exists>budgets. rg_nodes g = map (run_node run_id budgets) (tp_nodes t)) \<and> rg_edges g = map (run_edge run_id) (tp_edges t) \<and>
     rg_template_id g = tp_template_id t \<and> rg_template_version g = tp_version t"

lemma instantiated_graph:
  assumes "validate_template t = Inr []" "\<forall>n \<in> set (tp_nodes t). valid_key (wn_key n)"
    "instantiate_run_graph digest gid t run_id task_id budgets = Inr g"
  shows "graph_of_template t run_id g"
  using assms by (auto simp: graph_of_template_def instantiate_run_graph_def split: if_splits)

definition spec_target :: "WorkflowTemplate \<Rightarrow> WorkflowEdgeSpec \<Rightarrow> string" where
  "spec_target t e = dget_or (we_target e) (region_owner t) (we_target e)"

lemma run_edge_keys:
  assumes "graph_of_template t run_id g" "e \<in> set (tp_edges t)"
  shows "key_of (ed_source (run_edge run_id e)) = we_source e" "key_of (ed_target (run_edge run_id e)) = we_target e"
    "routed_key t (run_edge run_id e) = spec_target t e"
proof -
  have "CHR '':'' \<notin> set k" if "k \<in> set (node_keys t)" for k
    using that assms(1) valid_key_colon by (auto simp: graph_of_template_def node_keys_def)
  then have "decoded_edge (run_edge run_id e) = e"
    using valid_template_references [OF _ assms(2)] assms(1) by (intro decoded_run_edge) (auto simp: graph_of_template_def)
  then show "key_of (ed_source (run_edge run_id e)) = we_source e"
    and target: "key_of (ed_target (run_edge run_id e)) = we_target e"
    by (metis decoded_edge_def WorkflowEdgeSpec.simps(2,3))+
  show "routed_key t (run_edge run_id e) = spec_target t e" by (simp add: routed_key_def spec_target_def target)
qed

lemma template_out_edges:
  assumes "graph_of_template t run_id g"
  shows "out_edges g key = map (run_edge run_id) (outbound t key)"
proof -
  have "rg_edges g = map (run_edge run_id) (tp_edges t)" using assms by (simp add: graph_of_template_def)
  then show ?thesis
    unfolding out_edges_def outbound_def
    by (simp add: filter_map o_def run_edge_keys(1) [OF assms] cong: filter_cong)
qed

lemma template_nodes:
  assumes "graph_of_template t run_id g" "graph_node g key = Some nd"
  shows "\<exists>n \<in> set (tp_nodes t). wn_key n = key \<and> nd_kind nd = wn_kind n \<and> template_node t key = Some n"
proof -
  obtain budgets where nodes: "rg_nodes g = map (run_node run_id budgets) (tp_nodes t)"
    using assms(1) by (auto simp: graph_of_template_def)
  have "distinct (node_keys t)"
    using assms(1) valid_template_reference_problems reference_problems_Nil by (auto simp: graph_of_template_def)
  moreover obtain n where n: "n \<in> set (tp_nodes t)" "nd = run_node run_id budgets n" "wn_key n = key"
    using graph_node_key [OF assms(2)] nodes by (auto simp: run_node_def)
  ultimately have "template_node t key = Some n"
    by (auto simp: template_node_def dget_dict_of node_keys_def rev_map [symmetric] map_of_eq_Some_iff
      o_def intro!: map_of_is_SomeI)
  with n show ?thesis by (auto simp: run_node_def)
qed

lemma template_entry:
  assumes "graph_of_template t run_id g" "entries t = [k]"
  shows "entry_key g = Some k"
proof -
  obtain budgets where g: "rg_nodes g = map (run_node run_id budgets) (tp_nodes t)" "rg_edges g = map (run_edge run_id) (tp_edges t)"
    using assms(1) by (auto simp: graph_of_template_def)
  have targets: "set (map (\<lambda>e. key_of (ed_target e)) (rg_edges g)) = we_target ` set (tp_edges t)"
    using run_edge_keys(2) [OF assms(1)] by (force simp: g image_iff)
  have find: "find (\<lambda>n. nd_key n \<notin> T) (map (run_node run_id budgets) ns) =
      map_option (run_node run_id budgets) (find (\<lambda>n. wn_key n \<notin> T) ns)" for T ns
    by (induction ns) (simp_all add: run_node_def)
  have keys: "map_option wn_key (find (\<lambda>n. wn_key n \<notin> T) ns) =
      (case filter (\<lambda>k. k \<notin> T) (map wn_key ns) of [] \<Rightarrow> None | k # _ \<Rightarrow> Some k)" for T ns
    by (induction ns) simp_all
  have inb: "(inbound t k = []) = (k \<notin> we_target ` set (tp_edges t))" for k
    by (auto simp: inbound_def filter_empty_conv)
  have first: "filter (\<lambda>k. k \<notin> we_target ` set (tp_edges t)) (map wn_key (tp_nodes t)) = [k]"
    using assms(2) by (simp add: entries_def node_keys_def inb)
  have "map_option wn_key (find (\<lambda>n. wn_key n \<notin> we_target ` set (tp_edges t)) (tp_nodes t)) = Some k"
    unfolding keys first by simp
  then show ?thesis
    unfolding entry_key_def targets g(1) find by auto
qed

lemma sealed_template_fields [simp]:
  "tp_nodes (sealed_template d t) = tp_nodes t" "tp_edges (sealed_template d t) = tp_edges t"
  "tp_required_approval_gates (sealed_template d t) = tp_required_approval_gates t"
  "tp_template_id (sealed_template d t) = tp_template_id t" "tp_version (sealed_template d t) = tp_version t"
  by (simp_all add: sealed_template_def)

lemma execute_graph_fresh:
  assumes "dget (st_workflow_templates (mg_store m)) (rg_template_id g, rg_template_version g) = Some t"
    "entry_key g = Some entry" "get_latest_checkpoint (mg_store m) (rn_run_id run) = None"
    "execute_graph env run e lease sid g inputs m = (Inr out, m')"
  shows "\<exists>p. graph_steps env run e lease t g p sid
    (new_cursor (dict_of (map (\<lambda>n. (nd_key n, Node_PENDING)) (rg_nodes g)))
      (entered_counts env (list_events (mg_store m) (rn_run_id run) 0)) entry) inputs m = (Inr out, m')"
  using assms
  by (auto simp: execute_graph_def bind_act_Inr load_graph_cursor_def run_policy_def require_policy_Inr Let_def
    split: option.splits)

subsection \<open>Every outcome finds an edge\<close>

text \<open>The nodes the executor stops at: those outside the loop regions.\<close>

definition routable :: "WorkflowTemplate \<Rightarrow> string \<Rightarrow> bool" where
  "routable t key \<longleftrightarrow> key \<in> set (node_keys t) \<and> key \<notin> set (region_members t)"

definition owners_outside :: "WorkflowTemplate \<Rightarrow> bool" where
  "owners_outside t \<longleftrightarrow> list_all (\<lambda>n. wn_loop n = None \<or> wn_key n \<notin> set (region_members t)) (tp_nodes t)"

lemma spec_target_routable:
  assumes "owners_outside t" "we_target e \<in> set (node_keys t)"
  shows "routable t (spec_target t e)"
proof (cases "dget (region_owner t) (we_target e)")
  case None
  have "we_target e \<notin> set (region_members t)"
  proof
    assume "we_target e \<in> set (region_members t)"
    then obtain n l where n: "n \<in> set (tp_nodes t)" "wn_loop n = Some l" "we_target e \<in> set (lp_region_keys l)"
      by (auto simp: region_members_def split: option.splits) (metis)
    with assms(1) have "wn_key n \<noteq> we_target e"
      by (force simp: owners_outside_def list_all_iff region_members_def)
    with n have "dhas (region_owner t) (we_target e)" by (force simp: region_owner_def)
    with None show False by (simp add: dhas_iff_dget)
  qed
  with None assms(2) show ?thesis by (simp add: routable_def spec_target_def dget_or_def)
next
  case (Some k)
  then obtain n l where "n \<in> set (tp_nodes t)" "wn_loop n = Some l" "k = wn_key n"
    by (auto simp: region_owner_def dget_dict_of dest!: map_of_SomeD split: option.splits) (metis)
  with assms(1) Some show ?thesis
    by (auto simp: routable_def spec_target_def dget_or_def owners_outside_def list_all_iff node_keys_def)
qed

lemma handler_outcomes_covered:
  assumes "KIND_OUTCOMES k = Some outcomes" "outcome \<in> handler_outcomes k"
    "outcome \<notin> {No_PAUSED, No_CANCELLED, No_BUDGET_EXHAUSTED}"
  shows "outcome \<in> set outcomes"
  using assms by (cases k) auto

lemma routable_selects:
  assumes "graph_of_template t run_id g" "serial_edges t" "routable t key" "graph_node g key = Some nd"
    "nd_kind nd \<noteq> Kind_TERMINAL" "outcome \<in> handler_outcomes (nd_kind nd)"
    "outcome \<notin> {No_PAUSED, No_CANCELLED, No_BUDGET_EXHAUSTED}"
  shows "\<exists>e \<in> set (outbound t key).
    select_edge outcome (out_edges g key) v (tp_global_budget_policy t) = Inr (run_edge run_id e)"
proof -
  obtain n where n: "n \<in> set (tp_nodes t)" "wn_key n = key" "nd_kind nd = wn_kind n"
    using template_nodes [OF assms(1,4)] by blast
  have valid: "validate_template t = Inr []" using assms(1) by (simp add: graph_of_template_def)
  have out: "wn_key n \<notin> set (region_members t)" "wn_kind n \<noteq> Kind_TERMINAL" using assms(3,5) n by (simp_all add: routable_def)
  obtain outcomes where k: "KIND_OUTCOMES (wn_kind n) = Some outcomes" using valid_coverage [OF valid n(1) out] by blast
  have "outcome \<in> set outcomes" using handler_outcomes_covered [OF k] assms(6,7) n(3) by simp
  from validated_outcome_has_edge [OF valid assms(2) n(1) out k this] show ?thesis
    unfolding template_out_edges [OF assms(1)] n(2) .
qed

lemma graph_steps_find_edges:
  assumes "graph_of_template t run_id g" "serial_edges t" "owners_outside t"
    "routable t (gc_current_key c)" "\<And>ni. ni \<in> set nis \<Longrightarrow> \<not> search_waits ni"
    "graph_steps env run e lease t g p sid c nis m = (Inr (fin, trace), m')"
  shows "fin \<noteq> Graph_no_edge"
  using assms(4-)
proof (induction nis arbitrary: sid c m trace)
  case Nil
  then show ?case by simp
next
  case (Cons ni nis)
  from Cons.prems(3) show ?case
  proof (cases rule: graph_steps_ConsE)
    case (attempt nd spec result m1)
    have covered: "\<exists>sp \<in> set (outbound t (gc_current_key c)).
        select_edge outcome (out_edges g (gc_current_key c)) v (tp_global_budget_policy t) = Inr (run_edge run_id sp)"
      if "result = (Some outcome, sid1, c1)" "outcome \<notin> {No_PAUSED, No_CANCELLED, No_BUDGET_EXHAUSTED}" for outcome sid1 c1 v
    proof (rule routable_selects [OF assms(1,2) Cons.prems(1) attempt(1,3) _ that(2)])
      show "outcome \<in> handler_outcomes (nd_kind nd)"
        using returnsD [OF attempt_outcomes attempt(5)] that(1) Cons.prems(2) by (simp add: node_outcomes_def)
    qed
    from attempt(6) show ?thesis
    proof (cases rule: after_nodeE)
      case (stuck outcome sid1 c1 code)
      from covered [OF stuck(1,2), of "gc_entered_via c1"] stuck(3) show ?thesis by auto
    next
      case (go outcome sid1 c1 ed u m2 rest)
      from covered [OF go(1,2)] go(3) obtain sp where sp: "sp \<in> set (outbound t (gc_current_key c))" "ed = run_edge run_id sp"
        by (metis sum.inject(2))
      then have spec: "sp \<in> set (tp_edges t)" by (simp add: outbound_def)
      then have "we_target sp \<in> set (node_keys t)"
        using valid_template_references(2) assms(1) by (auto simp: graph_of_template_def)
      then have "routable t (routed_key t ed)"
        using spec_target_routable [OF assms(3)] run_edge_keys(3) [OF assms(1) spec] sp(2) by simp
      then show ?thesis using Cons.IH [OF _ _ go(4)] Cons.prems(2) by simp
    qed auto
  qed simp_all
qed

text \<open>C9: A graph run is not stopped for want of an edge. Of a valid template whose edges are of the kinds the serial
  executor follows and whose entry and loop owners lie outside the loop regions, a run without a checkpoint in which no agent's
  planned search is still waiting selects an edge for every outcome its handlers produce, so it never ends with
  \<open>GRAPH_NO_ELIGIBLE_EDGE\<close> or \<open>GRAPH_AMBIGUOUS_EDGES\<close>.\<close>

theorem valid_run_finds_edges:
  assumes "validate_template t = Inr []" "\<forall>n \<in> set (tp_nodes t). valid_key (wn_key n)" "serial_edges t"
    "owners_outside t" "hd (entries t) \<notin> set (region_members t)"
    "instantiate_run_graph digest gid t (rn_run_id run) task_id budgets = Inr g"
    "dget (st_workflow_templates (mg_store m)) (rg_template_id g, rg_template_version g) = Some t"
    "get_latest_checkpoint (mg_store m) (rn_run_id run) = None" "\<forall>ni \<in> set inputs. \<not> search_waits ni"
    "execute_graph env run e lease sid g inputs m = (Inr (fin, trace), m')"
  shows "fin \<noteq> Graph_no_edge"
proof -
  have "length (entries t) = 1"
    using assms(1) by (auto simp: validate_template_def shape_problems_def bind_res_eq_Inr Let_def
      split: if_splits prod.splits)
  then obtain k where k: "entries t = [k]" by (auto simp: length_Suc_conv)
  note g = instantiated_graph [OF assms(1,2,6)]
  obtain p where s: "graph_steps env run e lease t g p sid
      (new_cursor (dict_of (map (\<lambda>n. (nd_key n, Node_PENDING)) (rg_nodes g)))
        (entered_counts env (list_events (mg_store m) (rn_run_id run) 0)) k) inputs m = (Inr (fin, trace), m')"
    using execute_graph_fresh [OF assms(7) template_entry [OF g k] assms(8,10)] by blast
  have "k \<in> set (entries t)" using k by simp
  then have "routable t k" using assms(5) k by (simp add: routable_def entries_def)
  then show ?thesis
    by (intro graph_steps_find_edges [OF g assms(3,4) _ _ s]) (simp_all add: new_cursor_def assms(9))
qed

theorem valid_run_finds_edges_witness:
  "\<exists>fin trace m'. sample_graph_run [node_in, node_in] fixed_manager = (Inr (fin, trace), m') \<and> trace \<noteq> [] \<and>
    fin \<noteq> Graph_no_edge"
proof -
  obtain m' where m': "sample_graph_run [node_in, node_in] fixed_manager =
      (Inr (Graph_starved, [(''initialize'', No_SUCCESS), (''plan'', No_SUCCESS)]), m')"
    using sample_graph_result by blast
  have t: "validate_template fixed_sample = Inr []" "\<forall>n \<in> set (tp_nodes fixed_sample). valid_key (wn_key n)"
    "serial_edges fixed_sample" "owners_outside fixed_sample"
    "hd (entries fixed_sample) \<notin> set (region_members fixed_sample)"
    by code_simp+
  have g: "instantiate_run_graph (\<lambda>_. ''c'') ''g_1'' fixed_sample (rn_run_id graph_run) ''task_1''
      (te_budgets sample_task) = Inr fixed_sample_graph"
    using fixed_sample_instance by (simp add: graph_run_def)
  have "\<forall>ni \<in> set [node_in, node_in]. \<not> search_waits ni" by (simp add: node_in_def search_waits_def)
  from valid_run_finds_edges [OF t g fixed_manager_fields(1,2) this m'] m' show ?thesis by fastforce
qed

subsection \<open>Where the executor falls short\<close>

lemma inconclusive_without_edge:
  assumes "\<forall>e \<in> set edges. ed_guard e \<noteq> Some Guard_ON_INCONCLUSIVE"
  shows "select_edge No_INCONCLUSIVE edges v b = Inl ''GRAPH_NO_ELIGIBLE_EDGE''"
proof -
  have no: "\<not> guard_matches (ed_guard e) No_INCONCLUSIVE" if "e \<in> set edges" for e
    using assms that by (auto simp: guard_matches_def) (metis EdgeGuard.exhaust GUARD_MATCHES.simps NodeOutcome.distinct)
  then have "find (\<lambda>e. ed_kind e = Edge_RETRY \<and> guard_matches (ed_guard e) No_INCONCLUSIVE \<and>
      dget_or 0 v (ed_key e) < retry_limit b e) (filter (\<lambda>e. ed_kind e \<noteq> Edge_LOOP_BACK) edges) = None"
    "filter (\<lambda>e. ed_kind e \<in> {Edge_CONDITION, Edge_APPROVAL} \<and> guard_matches (ed_guard e) No_INCONCLUSIVE)
      (filter (\<lambda>e. ed_kind e \<noteq> Edge_LOOP_BACK) edges) = []"
    by (auto simp: find_None_iff filter_empty_conv)
  then show ?thesis unfolding select_edge_def Let_def by simp
qed

text \<open>C37: A search that only waits ends its run. The table of outcomes that templates must cover lists no
  \<open>INCONCLUSIVE\<close> for agents, so a valid template need not have an edge for it; but an agent whose planned search runs,
  selects or waits for a person answers \<open>INCONCLUSIVE\<close>. When the executor reaches such an agent and returns, it
  has stopped the run for want of an edge, although the search has not failed.\<close>

theorem waiting_search_ends_run:
  assumes "graph_node g (gc_current_key c) = Some nd" "nd_kind nd = Kind_AGENT"
    "\<forall>e \<in> set (out_edges g (gc_current_key c)). ed_guard e \<noteq> Some Guard_ON_INCONCLUSIVE"
    "\<not> ni_pause_head ni" "search_waits ni"
    "graph_steps env run e lease t g p sid c (ni # nis) m = (Inr (fin, trace), m')"
  shows "fin = Graph_no_edge \<and> trace = [(gc_current_key c, No_INCONCLUSIVE)]"
proof -
  have key: "nd_key nd = gc_current_key c" using graph_node_key [OF assms(1)] by simp
  from assms(1,2,4,6) obtain spec result m1 where
    r: "graph_node_attempt env run e lease sid nd spec t (gate_for t (nd_key nd)) p c ni m = (Inr result, m1)"
    and a: "after_node env run t g lease ni (nd_key nd)
      (\<lambda>sid' c'. graph_steps env run e lease t g p sid' c' nis) result m1 = (Inr (fin, trace), m')"
    by (auto simp: bind_act_Inr split: option.splits)
  have "returns (\<lambda>(out, _). out = Some No_INCONCLUSIVE) (graph_search env run sid nd c' via ni)" for c' via
    using assms(5) unfolding graph_search_def Let_def search_waits_def
    by (intro returns_if returns_bind returns_ret) simp_all
  moreover have "graph_node_attempt env run e lease sid nd spec t (gate_for t (nd_key nd)) p c ni =
      graph_search env run sid nd (c\<lparr>gc_entry_edge_key := None\<rparr>) (gc_entry_edge_key c) ni"
    using assms(2,5) by (simp add: graph_node_attempt_def graph_agent_def search_waits_def)
  ultimately have "fst result = Some No_INCONCLUSIVE" using r returnsD by fastforce
  then obtain sid1 c1 where "result = (Some No_INCONCLUSIVE, sid1, c1)" by (cases result) auto
  with a inconclusive_without_edge [OF assms(3)] key show ?thesis
    by (auto simp: after_node_def bind_act_Inr Let_def)
qed

definition waiting_in :: node_input where
  "waiting_in = node_in\<lparr>ni_searches := 1, ni_search_executor := True, ni_search_status := Search_RUNNING\<rparr>"

abbreviation waiting_step :: "(graph_end \<times> visit_trace) act" where
  "waiting_step \<equiv> graph_steps sample_env graph_run risky_task \<lparr>le_lease_id = ''lease'', le_base_revision = ''abc''\<rparr>
     fixed_sample fixed_sample_graph loop_policy ''s'' (new_cursor [] [] ''plan'') [waiting_in]"

theorem waiting_search_ends_run_witness:
  "\<exists>m'. waiting_step fixed_manager = (Inr (Graph_no_edge, [(''plan'', No_INCONCLUSIVE)]), m')"
proof -
  have edges: "\<forall>e \<in> set (out_edges fixed_sample_graph ''plan''). ed_guard e \<noteq> Some Guard_ON_INCONCLUSIVE" by code_simp
  have "\<not> isl (fst (waiting_step fixed_manager))"
    by (simp add: fixed_sample_reads inconclusive_without_edge [OF edges] waiting_in_def graph_search_def search_node_status_def
      commit_no_edge_def commit_run_terminal_def terminal_events_def update_run_def no_update_def graph_eval graph_sample_defs isl_def cong: bind_act_weak)
  then obtain fin trace m' where r: "waiting_step fixed_manager = (Inr (fin, trace), m')"
    by (metis prod.collapse sum.collapse(2))
  have "graph_node fixed_sample_graph (gc_current_key (new_cursor [] [] ''plan'')) =
      Some (run_node ''run_1'' (te_budgets sample_task) (node ''plan'' Kind_AGENT ''Plan'' None (Some plan_instruction) None))"
    by (simp add: fixed_sample_reads new_cursor_def)
  from waiting_search_ends_run [OF this _ _ _ _ r] r edges show ?thesis
    by (simp add: node_def new_cursor_def waiting_in_def node_in_def search_waits_def search_node_status_def)
qed

lemma iteration_checkpoint_latest:
  assumes "log_ok s" "append_loop_iteration now eid it st status sr rv vs es (Some ck) s = (Inr x', t)"
    "ck_run_id ck = it_run_id it"
  shows "\<exists>l n. get_latest_checkpoint t (ck_run_id ck) = Some l \<and> same_evidence l (ck\<lparr>ck_sequence := n\<rparr>)"
proof -
  let ?r = "it_run_id it"
  obtain x its run where g: "iteration_guard eid it st rv vs es s x its" and run: "dget (st_runs s) ?r = Some run"
    and call: "commit_iteration now eid it st status sr vs es (Some ck) x its run s = (Inr x', t)"
    using assms(2) by (cases rule: append_loop_iteration_cases [of now eid it st status sr rv vs es "Some ck" s]) auto
  obtain u c' where u: "committed eid it vs es s u" "c' \<in> set (checkpoints_of u ?r)"
    "same_evidence c' (ck\<lparr>ck_sequence := int (length (events_of s ?r) + length es)\<rparr>)"
    "update_memory_loop_execution now eid st status sr (Some (lx_revision x)) u = (Inr x', t)"
    "st_loop_executions u = st_loop_executions s"
    using commit_iteration_Inr [OF g run assms(1) call] assms(3) by metis
  have "dget (st_loop_executions u) eid = Some x" using g u(5) by (simp add: iteration_guard_def)
  then have t: "t = u\<lparr>st_loop_executions := dset eid x' (st_loop_executions u)\<rparr>"
    using update_memory_loop_execution_Inr [OF u(4)] by blast
  have same: "checkpoints_of t = checkpoints_of u" "events_of t = events_of u"
    unfolding t checkpoints_of_def events_of_def by simp_all
  have ok: "log_ok t" using commit_iteration_ok [OF assms(1) run, of "Some ck" now eid st status sr vs es x its] assms(3) call by simp
  have len: "length (events_of t ?r) = length (events_of s ?r) + length es"
    using u(1) same push_events_facts(3) by (simp add: committed_def)
  have seq: "ck_sequence c' = int (length (events_of t ?r))"
    using u(3) len by (auto simp: same_evidence_def dest!: arg_cong [where f = ck_sequence])
  obtain b cs where cs: "checkpoints_of t ?r = b # cs" using u(2) same by (cases "checkpoints_of t ?r") auto
  let ?l = "max_sequence b cs"
  have l: "?l \<in> set (checkpoints_of t ?r)" "ck_sequence c' \<le> ck_sequence ?l"
    using max_sequence_max [of b cs] u(2) same cs by auto
  moreover have "ck_sequence ?l \<le> ck_sequence c'" using log_okD(4) [OF ok l(1)] seq by simp
  ultimately have "?l = c'"
    using log_okD(3) [OF ok, of ?r] u(2) same by (auto simp: distinct_map inj_on_def)
  then have "get_latest_checkpoint t (ck_run_id ck) = Some c'" using cs assms(3) by (simp add: get_latest_checkpoint_def)
  with u(3) show ?thesis by blast
qed

text \<open>C38: After an iteration of a loop region has been committed, the run's position in the graph is lost to a
  restart: the checkpoint of the iteration does not name the run graph, it is the latest one, and a cursor
  loaded from it stands at the entry with every node pending.\<close>

theorem region_iteration_forgets_position:
  assumes "log_ok (mg_store m)" "region_commit env run lease nd x prev i ti art c m = (Inr result, m')"
  shows "load_graph_cursor env run g entry m' =
    (Inr (new_cursor (dict_of (map (\<lambda>n. (nd_key n, Node_PENDING)) (rg_nodes g)))
      (entered_counts env (list_events (mg_store m') (rn_run_id run) 0)) entry), m')"
proof -
  obtain st it where n: "next_iteration_state (en_digest env) x (rn_run_id run) i (ls_iteration (lx_state x) + 1)
      (ti_outcome ti) (map_option ac_artifact_id art) (case art of None \<Rightarrow> None | Some a \<Rightarrow> ac_sha256 a) []
      (ti_left_after ti) (last_of prev) = (st, it)" by force
  from assms(2) obtain now cid e ls status sr lst s x' c' where
    a: "append_loop_iteration now (lx_loop_execution_id x) it st status sr (Some (lx_revision x)) [] [e]
      (Some (region_checkpoint now cid run lease nd c' x st lst art)) (mg_store m) = (Inr x', s)"
    and m': "st_checkpoints (mg_store m') = st_checkpoints s"
    unfolding region_commit_def Let_def n
    by (auto simp: bind_act_Inr store_op_Inr draw_id_def control_event_ctl add_budget_spent_def Let_def split: prod.splits if_splits)
  have "ck_run_id (region_checkpoint now cid run lease nd c' x st lst art) = it_run_id it"
    using next_iteration_fields(4) [OF n] by (simp add: region_checkpoint_def)
  from iteration_checkpoint_latest [OF assms(1) a this] obtain l k where
    l: "get_latest_checkpoint s (rn_run_id run) = Some l"
      "same_evidence l ((region_checkpoint now cid run lease nd c' x st lst art)\<lparr>ck_sequence := k\<rparr>)"
    by (auto simp: region_checkpoint_def)
  have "get_latest_checkpoint (mg_store m') (rn_run_id run) = Some l"
    using l(1) m' by (simp add: get_latest_checkpoint_def checkpoints_of_def)
  moreover have "ck_run_graph_id l = None"
    using l(2) by (auto simp: same_evidence_def region_checkpoint_def dest!: arg_cong [where f = ck_run_graph_id])
  ultimately show ?thesis by (simp add: load_graph_cursor_def bind_act_def query_def ret_def Let_def)
qed

abbreviation sample_region_commit :: "(LoopExecution \<times> LoopIteration \<times> GraphCursor \<times> (LoopExecutionStatus \<times> LoopStopReason \<times> NodeOutcome) option) act" where
  "sample_region_commit \<equiv> region_commit sample_env sample_run \<lparr>le_lease_id = ''lease'', le_base_revision = ''abc''\<rparr>
     (run_node ''run_1'' (te_budgets sample_task) (node ''n'' Kind_LOOP ''Loop'' None None None))
     (loop_execution\<lparr>lx_acceptance_policy := Some loop_policy\<rparr>) [] ''it_1'' (sample_turn False V_PASS) None
     (new_cursor [] [] ''n'')"

lemma sample_region_commit_runs: "\<exists>r m'. sample_region_commit sample_manager = (Inr r, m')"
proof -
  have "(case fst (sample_region_commit sample_manager) of Inr _ \<Rightarrow> True | Inl _ \<Rightarrow> False)"
    by code_simp
  then show ?thesis by (cases "sample_region_commit sample_manager") (auto split: sum.splits)
qed

theorem region_iteration_forgets_position_witness:
  "\<exists>r m'. sample_region_commit sample_manager = (Inr r, m') \<and>
    fst (load_graph_cursor sample_env sample_run fixed_sample_graph ''initialize'' m') =
      Inr (new_cursor (dict_of (map (\<lambda>n. (nd_key n, Node_PENDING)) (rg_nodes fixed_sample_graph)))
        (entered_counts sample_env (list_events (mg_store m') ''run_1'' 0)) ''initialize'')"
proof -
  obtain r m' where r: "sample_region_commit sample_manager = (Inr r, m')" using sample_region_commit_runs by blast
  have "log_ok (mg_store sample_manager)"
    using store_steps_log [OF loop_store_steps empty_store_ok] by (simp add: sample_manager_def)
  from region_iteration_forgets_position [OF this r] show ?thesis
    by (intro exI [of _ r] exI [of _ m'] conjI r) simp
qed

text \<open>C39: A task whose objective is as long as the task model allows cannot run an agent node that has an
  instruction: the objective with the instruction exceeds what \<open>IterationDirective\<close> accepts, so the node
  raises before the runtime is called.\<close>

theorem long_objective_stops_agent:
  assumes "nd_kind nd = Kind_AGENT" "wn_instruction spec = Some ins" "ins \<noteq> []" "ni_searches ni = 0"
    "20000 < length (te_objective e) + 2 + length ins"
  shows "graph_node_attempt env run e lease sid nd spec t gate p c ni m = (Inl (ValueError ''objective''), m)"
  using assms
  by (simp add: graph_node_attempt_def graph_agent_def agent_directive_def mk_directive_def node_objective_def truthy_def
    bind_act_def raise_act_def Let_def)

theorem long_objective_stops_agent_witness:
  "graph_node_attempt sample_env graph_run (sample_task\<lparr>te_objective := replicate 19950 CHR ''o''\<rparr>)
     \<lparr>le_lease_id = ''lease'', le_base_revision = ''abc''\<rparr> ''s''
     (run_node ''run_1'' (te_budgets sample_task) (node ''plan'' Kind_AGENT ''Plan'' None (Some plan_instruction) None))
     (node ''plan'' Kind_AGENT ''Plan'' None (Some plan_instruction) None) fixed_sample None loop_policy
     (new_cursor [] [] ''plan'') node_in fixed_manager = (Inl (ValueError ''objective''), fixed_manager)"
  by (rule long_objective_stops_agent [where ins = plan_instruction])
    (simp_all add: node_def node_in_def)

end
