(* ===== verification/Graph_Approvals.thy ===== *)
theory Graph_Approvals
  imports Graph_Properties
begin

text \<open>
  Approvals in graph runs.  Executing a graph never decides an approval of the run by itself
  (the interpretation \<open>approvals\<close> of the locale \<open>graph_relation\<close>), a gate without a granted approval
  never returns the outcome that leads on to the protected part, and so a run of the fixed template for a task
  whose acceptance policy requires a person to approve does not pass its gate while no one has approved.
\<close>

subsection \<open>Approvals\<close>

text \<open>The approval requests of a run, each with its identifier and its record.\<close>

definition approval_view :: "string \<Rightarrow> store \<Rightarrow> string \<Rightarrow> (string \<times> ApprovalRecord option) option" where
  "approval_view r s native =
    map_option (\<lambda>aid. (aid, dget (st_approvals s) aid)) (dget (st_approval_by_request s) (r, native))"

definition same_approvals :: "string \<Rightarrow> manager \<Rightarrow> manager \<Rightarrow> bool" where
  "same_approvals r m m' \<longleftrightarrow> approval_view r (mg_store m') = approval_view r (mg_store m)"

text \<open>Interference that leaves the run's approvals alone.\<close>

definition spares_approvals :: "string \<Rightarrow> (store \<Rightarrow> store) \<Rightarrow> bool" where
  "spares_approvals r f \<longleftrightarrow> (\<forall>s. approval_view r (f s) = approval_view r s)"

lemma approval_view_fields:
  "st_approvals t = st_approvals s \<Longrightarrow> st_approval_by_request t = st_approval_by_request s \<Longrightarrow>
   approval_view r t = approval_view r s"
  by (simp add: approval_view_def fun_eq_iff)

lemma approvals_basic_ops:
  "approval_view r (snd (append_event e s)) = approval_view r s"
  "approval_view r (snd (update_run now i st u s)) = approval_view r s"
  "approval_view r (snd (update_memory_loop_execution now eid ls status sr rv s)) = approval_view r s"
  "approval_view r (snd (save_lease l s)) = approval_view r s"
  "approval_view r (snd (save_artifact a s)) = approval_view r s"
  "approval_view r (snd (add_budget_spent i tu tc s)) = approval_view r s"
  "approval_view r (snd (create_loop_execution now x s)) = approval_view r s"
  "approval_view r (record_verification v s) = approval_view r s"
  "approval_view r (append_run_events i es s) = approval_view r s"
  "approval_view r (snd (append_memory_checkpoint ck s)) = approval_view r s"
  by (auto intro!: approval_view_fields simp: append_event_def update_run_def update_memory_loop_execution_def
    save_lease_def save_artifact_def add_budget_spent_def create_loop_execution_def record_verification_def
    append_run_events_def append_memory_checkpoint_def Let_def split: option.splits prod.splits)

lemma approvals_record_verifications: "approval_view r (fold record_verification vs s) = approval_view r s"
  by (induction vs arbitrary: s) (simp_all add: approvals_basic_ops)

lemma approvals_save_verification: "approval_view r (snd (save_verification v s)) = approval_view r s"
  by (simp add: save_verification_def approvals_basic_ops split: option.splits)

lemma approvals_append_checkpoint: "approval_view r (snd (append_checkpoint ck es s)) = approval_view r s"
  by (simp add: append_checkpoint_def approvals_basic_ops Let_def split: option.splits)

lemma approvals_append_loop_iteration:
  "approval_view r (snd (append_loop_iteration now eid it ls status sr rv vs es ck s)) = approval_view r s"
proof -
  have pair: "append_memory_checkpoint c u = (out, v) \<Longrightarrow> approval_view r v = approval_view r u" for c u out v
    by (metis approvals_basic_ops(10) snd_conv)
  have upd: "approval_view r (s\<lparr>st_loop_iterations := i\<rparr>) = approval_view r s"
    "approval_view r (s\<lparr>st_run_events := j\<rparr>) = approval_view r s" for s i j
    by (simp_all add: approval_view_def fun_eq_iff)
  show ?thesis
    unfolding append_loop_iteration_def Let_def
    by (simp add: approvals_basic_ops approvals_record_verifications upd split: option.splits sum.splits prod.splits)
      (auto simp: approvals_basic_ops approvals_record_verifications upd dest!: pair)
qed

lemmas approvals_ops = approvals_basic_ops approvals_save_verification approvals_append_checkpoint
  approvals_append_loop_iteration

interpretation approvals: graph_relation "same_approvals r" r "spares_approvals r" for r
  by unfold_locales
    (simp_all add: same_approvals_def spares_approvals_def approvals_ops update_loop_execution_def)

text \<open>No approval request of the run was decided.\<close>

definition undecided :: "string \<Rightarrow> store \<Rightarrow> bool" where
  "undecided r s \<longleftrightarrow> (\<forall>native aid a. approval_view r s native = Some (aid, Some a) \<longrightarrow>
     ar_approval_id a = aid \<and> ar_status a = Appr_PENDING)"

lemma undecided_same: "same_approvals r m m' \<Longrightarrow> undecided r (mg_store m) \<Longrightarrow> undecided r (mg_store m')"
  by (simp add: same_approvals_def undecided_def)

lemma save_approval_undecided:
  assumes "undecided r s" "save_approval a s = (Inr rec, s')" "ar_run_id a = r" "ar_status a = Appr_PENDING"
  shows "undecided r s' \<and> ar_status rec = Appr_PENDING \<and>
    approval_view r s' (ar_native_request_id a) = Some (ar_approval_id rec, Some rec)"
proof (cases "dget (st_approval_by_request s) (r, ar_native_request_id a)")
  case None
  then have "rec = a" "s' = s\<lparr>st_approvals := dset (ar_approval_id a) a (st_approvals s),
      st_approval_by_request := dset (r, ar_native_request_id a) (ar_approval_id a) (st_approval_by_request s)\<rparr>"
    using assms(2,3) by (auto simp: save_approval_def Let_def split: if_splits)
  then show ?thesis
    using assms by (auto simp: undecided_def approval_view_def split: if_splits)
next
  case (Some aid)
  then have "s' = s" "dget (st_approvals s) aid = Some rec"
    using assms(2,3) by (auto simp: save_approval_def Let_def split: if_splits)
  with Some assms(1) show ?thesis by (auto simp: undecided_def approval_view_def)
qed

abbreviation decision :: "NodeOutcome \<Rightarrow> bool" where
  "decision out \<equiv> out \<in> {No_APPROVED, No_DENIED}"

lemma await_gate_undecided:
  assumes "undecided r (mg_store m)" "approval_view r (mg_store m) n = Some (aid, Some rec)"
    "\<And>p. p \<in> set ps \<Longrightarrow> spares_approvals r (gp_during p)" "await_gate aid ps m = (Inr w, m')"
  shows "same_approvals r m m' \<and> w \<in> {Gate_open, Gate_paused}"
  using assms
proof (induction ps arbitrary: m)
  case Nil
  then show ?case by (simp add: same_approvals_def)
next
  case (Cons p ps)
  let ?m = "m\<lparr>mg_store := gp_during p (mg_store m)\<rparr>"
  have view: "approval_view r (mg_store ?m) = approval_view r (mg_store m)"
    using Cons.prems(3) by (simp add: spares_approvals_def)
  then have pending: "undecided r (mg_store ?m)" using Cons.prems(1) by (simp add: undecided_def)
  have "dget (st_approvals (mg_store m)) aid = Some rec"
    using Cons.prems(2) by (auto simp: approval_view_def)
  moreover have "ar_status rec = Appr_PENDING" using Cons.prems(1,2) by (simp add: undecided_def)
  ultimately have "await_gate aid (p # ps) m = (if gp_pause p then (Inr Gate_paused, m) else await_gate aid ps ?m)"
    by (simp add: bind_act_def query_def ret_def wait_for_def get_approval_def)
  then show ?case
    using Cons.IH [OF pending] Cons.prems view by (auto simp: same_approvals_def split: if_splits)
qed

lemma wait_at_gate_undecided:
  assumes "rn_run_id run = r" "undecided r (mg_store m)"
    "approval_view r (mg_store m) n = Some (ar_approval_id rec, Some rec)"
    "\<And>p. p \<in> set ps \<Longrightarrow> spares_approvals r (gp_during p)"
    "wait_at_gate env run sid nd gate c rec ps m = (Inr (out, sid', c'), m')"
  shows "undecided r (mg_store m') \<and> (\<forall>x. out = Some x \<longrightarrow> \<not> decision x)"
proof -
  from assms(5) obtain u m1 w m2 where
    m1: "emit env run ''accretion/gate-approval-required'' Ev_APPROVAL_REQUIRED (Some sid)
        [(''approval_id'', JStr (ar_approval_id rec)), (''gate_id'', JStr (gs_gate_id gate)),
         (''summary'', JStr (gs_summary gate))] (Some (nd_key nd)) m = (Inr u, m1)"
    and m2: "await_gate (ar_approval_id rec) ps m1 = (Inr w, m2)"
    and tail: "(case w of Gate_open \<Rightarrow> ret (None, sid, set_status (nd_key nd) Node_WAITING c)
      | Gate_paused \<Rightarrow> done_with No_PAUSED sid (set_status (nd_key nd) Node_WAITING c)
      | Gate_decided current \<Rightarrow> bind_act (emit_gate_resolved env run sid nd gate current) (\<lambda>_.
          close_gate env run sid nd c current)) m2 = (Inr (out, sid', c'), m')"
    unfolding wait_at_gate_def bind_act_Inr by blast
  have same: "same_approvals r m m1" by (rule preservesD [OF approvals.t_emit [OF assms(1)] m1])
  then have view: "undecided r (mg_store m1)"
    "approval_view r (mg_store m1) n = Some (ar_approval_id rec, Some rec)"
    using assms(2,3) undecided_same by (auto simp: same_approvals_def)
  note waited = await_gate_undecided [OF view assms(4) m2]
  then have "undecided r (mg_store m2)" using undecided_same view(1) by blast
  with waited tail show ?thesis by auto
qed

lemma graph_gate_undecided:
  assumes "rn_run_id run = r" "undecided r (mg_store m)" "\<not> gate_auto_approves e gate"
    "\<And>p. p \<in> set (ni_polls ni) \<Longrightarrow> spares_approvals r (gp_during p)"
    "graph_gate env run e sid nd gate c via ni m = (Inr (out, sid', c'), m')"
  shows "undecided r (mg_store m') \<and> (\<forall>x. out = Some x \<longrightarrow> \<not> decision x)"
proof -
  from assms(5) obtain aid rec m1 m2 m3 u where
    m1: "draw_id env ''approval'' m = (Inr aid, m1)"
    and m2: "store_op env (\<lambda>now. save_approval (gate_request now aid run nd gate)) m1 = (Inr rec, m2)"
    and m3: "enter_via env run sid (nd_key nd) via m2 = (Inr u, m3)"
    and rest: "(if ar_status rec = Appr_PENDING \<and> gate_auto_approves e gate
      then auto_approve_gate env run sid nd gate c rec
      else if ar_status rec = Appr_PENDING then wait_at_gate env run sid nd gate c rec (ni_polls ni)
      else decided_gate env run sid nd gate c rec) m3 = (Inr (out, sid', c'), m')"
    unfolding graph_gate_def bind_act_Inr by blast
  have "mg_store m1 = mg_store m" using m1 by (auto simp: draw_id_def)
  with m2 obtain now s where s: "save_approval (gate_request now aid run nd gate) (mg_store m) = (Inr rec, s)"
    "mg_store m2 = s" by (auto simp: store_op_Inr)
  note saved = save_approval_undecided [OF assms(2) s(1)]
  then have 2: "undecided r (mg_store m2)" "ar_status rec = Appr_PENDING"
    "approval_view r (mg_store m2) (''gate:'' @ nd_key nd) = Some (ar_approval_id rec, Some rec)"
    using s(2) assms(1) by (simp_all add: gate_request_def)
  have "same_approvals r m2 m3" by (rule preservesD [OF approvals.g_enter [OF assms(1)] m3])
  with 2 have 3: "undecided r (mg_store m3)"
    "approval_view r (mg_store m3) (''gate:'' @ nd_key nd) = Some (ar_approval_id rec, Some rec)"
    using undecided_same by (auto simp: same_approvals_def)
  from rest 2(2) assms(3) have "wait_at_gate env run sid nd gate c rec (ni_polls ni) m3 = (Inr (out, sid', c'), m')"
    by simp
  from wait_at_gate_undecided [OF assms(1) 3 assms(4) this] show ?thesis .
qed

text \<open>What other tasks do during a pass leaves the run's approvals alone.\<close>

definition spares :: "string \<Rightarrow> node_input \<Rightarrow> bool" where
  "spares r ni \<longleftrightarrow> spares_approvals r (ni_during ni) \<and> (\<forall>p \<in> set (ni_polls ni). spares_approvals r (gp_during p)) \<and>
     (\<forall>ti \<in> set (ni_turns ni). spares_approvals r (ti_during_call ti))"

lemma attempt_undecided:
  assumes "rn_run_id run = r" "undecided r (mg_store m)" "\<forall>x. gate = Some x \<longrightarrow> \<not> gate_auto_approves e x" "spares r ni"
    "graph_node_attempt env run e lease sid nd spec t gate p c ni m = (Inr (out, sid', c'), m')"
  shows "undecided r (mg_store m') \<and> (\<forall>x. out = Some x \<longrightarrow> \<not> decision x)"
proof (cases "nd_kind nd = Kind_GATE")
  case True
  then obtain x where x: "gate = Some x"
    "graph_gate env run e sid nd x (c\<lparr>gc_entry_edge_key := None\<rparr>) (gc_entry_edge_key c) ni m = (Inr (out, sid', c'), m')"
    using assms(5) by (auto simp: graph_node_attempt_def Let_def split: option.splits)
  show ?thesis
    by (rule graph_gate_undecided [OF assms(1,2) _ _ x(2)]) (use assms(3,4) x(1) in \<open>auto simp: spares_def\<close>)
next
  case False
  have same: "preserves (same_approvals r) (graph_node_attempt env run e lease sid nd spec t gate p c ni)"
    using False assms(1,4)
    unfolding graph_node_attempt_def Let_def
    by (cases "nd_kind nd")
      (auto simp: spares_def intro!: approvals.g_task approvals.g_agent approvals.g_tool approvals.g_verifier
        approvals.g_loop approvals.p_raise split: option.split)
  have "undecided r (mg_store m')" by (rule undecided_same [OF preservesD [OF same assms(5)] assms(2)])
  moreover have "outcome_in (node_outcomes (nd_kind nd) ni) (out, sid', c')"
    by (rule returnsD [OF attempt_outcomes assms(5)])
  ultimately show ?thesis
    using False by (cases "nd_kind nd") (auto simp: node_outcomes_def outcome_in_def split: if_splits)
qed


subsection \<open>Runs without a decision\<close>

definition undecided_edge :: "RunEdge \<Rightarrow> bool" where
  "undecided_edge e \<longleftrightarrow> ed_guard e \<notin> {Some Guard_ON_APPROVED, Some Guard_ON_DENIED}"

definition undecided_arcs :: "WorkflowTemplate \<Rightarrow> RunGraph \<Rightarrow> string graph" where
  "undecided_arcs t g = map (\<lambda>e. (key_of (ed_source e), routed_key t e)) (filter undecided_edge (rg_edges g))"

definition open_node :: "WorkflowTemplate \<Rightarrow> RunGraph \<Rightarrow> string \<Rightarrow> string \<Rightarrow> bool" where
  "open_node t g entry key \<longleftrightarrow> (entry, key) \<in> (set (undecided_arcs t g))\<^sup>*"

definition open_edge :: "WorkflowTemplate \<Rightarrow> RunGraph \<Rightarrow> string \<Rightarrow> RunEdge \<Rightarrow> bool" where
  "open_edge t g entry e \<longleftrightarrow> e \<in> set (rg_edges g) \<and> undecided_edge e \<and> open_node t g entry (key_of (ed_source e))"

text \<open>How the cursor came to its node.\<close>

definition arrived :: "WorkflowTemplate \<Rightarrow> RunGraph \<Rightarrow> string \<Rightarrow> GraphCursor \<Rightarrow> bool" where
  "arrived t g entry c \<longleftrightarrow> open_node t g entry (gc_current_key c) \<and>
     (gc_arrival_guard c = None \<and> gc_arrival_edge_kind c = None \<or>
      (\<exists>e. open_edge t g entry e \<and> routed_key t e = gc_current_key c \<and> gc_arrival_guard c = ed_guard e \<and> gc_arrival_edge_kind c = Some (ed_kind e)))"

lemma arrived_follow:
  assumes "open_node t g entry key" "\<not> decision outcome"
    "select_edge outcome (out_edges g key) v b = Inr e"
  shows "arrived t g entry ((follow_edge e c)\<lparr>gc_current_key := routed_key t e\<rparr>)"
proof -
  note sel = select_edge_result [OF assms(3)]
  then have e: "e \<in> set (rg_edges g)" "key_of (ed_source e) = key" by (auto simp: out_edges_def)
  have "undecided_edge e" using sel assms(2) by (auto simp: undecided_edge_def guard_matches_def)
  with e assms(1) have oe: "open_edge t g entry e" by (simp add: open_edge_def)
  have "(key, routed_key t e) \<in> set (undecided_arcs t g)"
    using e \<open>undecided_edge e\<close> by (force simp: undecided_arcs_def)
  then have "open_node t g entry (routed_key t e)"
    using assms(1) unfolding open_node_def by (rule rtrancl_into_rtrancl [rotated])
  with oe show ?thesis by (auto simp: arrived_def follow_edge_def)
qed

lemma graph_steps_undecided:
  assumes "rn_run_id run = r" "\<And>key x. gate_for t key = Some x \<Longrightarrow> \<not> gate_auto_approves e x"
    "undecided r (mg_store m)" "arrived t g entry c" "\<And>ni. ni \<in> set nis \<Longrightarrow> spares r ni"
    "graph_steps env run e lease t g p sid c nis m = (Inr (fin, trace), m')"
  shows "(\<forall>(key, out) \<in> set trace. open_node t g entry key \<and>
      (\<exists>nd. graph_node g key = Some nd \<and> nd_kind nd \<noteq> Kind_TERMINAL)) \<and>
    (\<forall>st. fin = Graph_terminal st \<longrightarrow> (\<exists>c nd. arrived t g entry c \<and> st = cursor_end_state c \<and>
      graph_node g (gc_current_key c) = Some nd \<and> nd_kind nd = Kind_TERMINAL))"
  using assms(3-)
proof (induction nis arbitrary: sid c m trace)
  case Nil
  then show ?case by simp
next
  case (Cons ni nis)
  from Cons.prems(4) show ?case
  proof (cases rule: graph_steps_ConsE)
    case (attempt nd spec result m1)
    obtain out sid1 c1 where result: "result = (out, sid1, c1)" by (cases result) auto
    have sp: "spares r ni" "\<And>x. x \<in> set nis \<Longrightarrow> spares r x" using Cons.prems(3) by auto
    have gate: "\<forall>x. gate_for t (gc_current_key c) = Some x \<longrightarrow> \<not> gate_auto_approves e x" using assms(2) by blast
    note u = attempt_undecided [OF assms(1) Cons.prems(1) gate sp(1) attempt(5) [unfolded result]]
    have here: "open_node t g entry (gc_current_key c)" using Cons.prems(2) by (simp add: arrived_def)
    have visited: "\<exists>nd. graph_node g (gc_current_key c) = Some nd \<and> nd_kind nd \<noteq> Kind_TERMINAL" using attempt(1,3) by blast
    from attempt(6) show ?thesis
    proof (cases rule: after_nodeE)
      case last
      then show ?thesis using here visited by auto
    next
      case (stuck outcome sid' c' code)
      then show ?thesis using here visited by simp
    next
      case (go outcome sid' c' ed v m2 rest)
      have nodec: "\<not> decision outcome" using u go(1) result by simp
      have m2: "undecided r (mg_store m2)"
        using u undecided_same [OF preservesD [OF approvals.g_checkpointed [OF assms(1)] go(6)]] by blast
      from Cons.IH [OF m2 arrived_follow [OF here nodec go(3)] sp(2) go(4)] go(5) here visited
      show ?thesis by auto
    qed
  qed (use Cons.prems(2) in auto)
qed


subsection \<open>The fixed graph\<close>

lemma template_undecided_arcs:
  assumes "graph_of_template t run_id g"
  shows "set (undecided_arcs t g) = {(we_source e, spec_target t e) |e. e \<in> set (tp_edges t) \<and>
    we_guard e \<notin> {Some Guard_ON_APPROVED, Some Guard_ON_DENIED}}"
proof -
  have "rg_edges g = map (run_edge run_id) (tp_edges t)" using assms by (simp add: graph_of_template_def)
  then show ?thesis
    using run_edge_keys(1,3) [OF assms]
    by (force simp: undecided_arcs_def undecided_edge_def image_iff)
qed

definition protected_envelope :: "TaskEnvelope \<Rightarrow> bool" where
  "protected_envelope e \<longleftrightarrow> te_risk_level e \<in> {Risk_HIGH, Risk_CRITICAL} \<or> irreversible (te_allowed_capabilities e)"

abbreviation before_approval :: "string set" where
  "before_approval \<equiv> {''initialize'', ''plan'', ''approve-plan''}"

abbreviation fixed_template :: "(WorkflowTemplate \<Rightarrow> string) \<Rightarrow> string \<Rightarrow> WorkflowTemplate" where
  "fixed_template d rid \<equiv> sealed_template d (FIXED_GRAPH_V1 rid)"

lemma fixed_graph_facts:
  fixes d rid
  defines "t \<equiv> sealed_template d (FIXED_GRAPH_V1 rid)"
  shows "validate_template t = Inr []" "\<forall>n \<in> set (tp_nodes t). valid_key (wn_key n)" "entries t = [''initialize'']"
    "\<forall>n \<in> set (tp_nodes t). wn_kind n = Kind_TERMINAL \<longrightarrow> wn_key n = ''complete''"
    "\<forall>e \<in> set (tp_edges t). we_guard e \<notin> {Some Guard_ON_APPROVED, Some Guard_ON_DENIED} \<longrightarrow>
       we_source e \<in> insert ''complete'' before_approval \<longrightarrow>
       spec_target t e \<in> before_approval \<or> spec_target t e = ''complete'' \<and> we_guard e = Some Guard_ON_FAIL"
    "\<forall>x \<in> set (tp_required_approval_gates t). gs_required_for_risk_gte x = Risk_HIGH"
    "\<forall>n \<in> set (tp_nodes t). wn_key n = ''complete'' \<longrightarrow> wn_kind n = Kind_TERMINAL"
  unfolding t_def by code_simp+

lemma fixed_graph_gates:
  assumes "protected_envelope e" "gate_for (fixed_template d rid) key = Some x"
  shows "\<not> gate_auto_approves e x"
proof -
  have "x \<in> set (tp_required_approval_gates (fixed_template d rid))"
    using assms(2) by (auto simp: gate_for_def dget_dict_of dest!: map_of_SomeD)
  then have "gs_required_for_risk_gte x = Risk_HIGH" using fixed_graph_facts(6) by blast
  then show ?thesis
    using assms(1) by (cases "te_risk_level e") (auto simp: protected_envelope_def gate_auto_approves_def)
qed

text \<open>Without a decision only the nodes before the plan's approval are entered.\<close>

lemma fixed_graph_open:
  assumes "graph_of_template (fixed_template d rid) run_id g"
    "open_node (fixed_template d rid) g ''initialize'' key"
  shows "key \<in> insert ''complete'' before_approval"
  using assms(2) unfolding open_node_def
proof (induction rule: rtrancl_induct)
  case (step y z)
  then show ?case using fixed_graph_facts(5) [of d rid] template_undecided_arcs [OF assms(1)] by fastforce
qed simp

lemma fixed_graph_end:
  assumes "graph_of_template (fixed_template d rid) run_id g"
    "arrived (fixed_template d rid) g ''initialize'' c" "graph_node g (gc_current_key c) = Some nd" "nd_kind nd = Kind_TERMINAL"
  shows "cursor_end_state c \<noteq> Run_SUCCEEDED"
proof -
  have key: "gc_current_key c = ''complete''"
    using template_nodes [OF assms(1,3)] bspec [OF fixed_graph_facts(4), of _ d rid] assms(4) by auto
  show ?thesis
  proof (cases "gc_arrival_guard c = None \<and> gc_arrival_edge_kind c = None")
    case True
    then show ?thesis by (simp add: cursor_end_state_def terminal_state_of_def)
  next
    case False
    then obtain e where e: "open_edge (fixed_template d rid) g ''initialize'' e" "routed_key (fixed_template d rid) e = ''complete''"
      "gc_arrival_guard c = ed_guard e"
      using assms(2) key by (auto simp: arrived_def)
    then obtain sp where sp: "sp \<in> set (tp_edges (fixed_template d rid))" "e = run_edge run_id sp"
      using assms(1) by (auto simp: open_edge_def graph_of_template_def)
    have "we_source sp \<in> insert ''complete'' before_approval"
      using fixed_graph_open [OF assms(1)] e(1) run_edge_keys(1) [OF assms(1) sp(1)] sp(2) by (simp add: open_edge_def)
    moreover have "spec_target (fixed_template d rid) sp = ''complete''" using e(2) run_edge_keys(3) [OF assms(1) sp(1)] sp(2) by simp
    moreover have "we_guard sp \<notin> {Some Guard_ON_APPROVED, Some Guard_ON_DENIED}"
      using e(1) sp(2) by (auto simp: open_edge_def undecided_edge_def)
    ultimately have "we_guard sp = Some Guard_ON_FAIL" using bspec [OF fixed_graph_facts(5) sp(1)] by auto
    then show ?thesis using e(3) sp(2) by (simp add: cursor_end_state_def terminal_state_of_def)
  qed
qed

text \<open>C7: A high-risk or irreversible task on the fixed graph waits for its approval. As long as no approval
  of its run is decided by anyone else, a fresh run completes no node but \<open>initialize\<close>, \<open>plan\<close> and
  \<open>approve-plan\<close> (so the agent that acts is never called), and it does not end as \<open>SUCCEEDED\<close>, whatever
  the runtime, the verifiers and the other tasks do.\<close>

theorem protected_run_waits_for_approval:
  assumes "dget (st_workflow_templates (mg_store m)) (rg_template_id g, rg_template_version g) =
      Some (sealed_template d (FIXED_GRAPH_V1 rid))"
    "instantiate_run_graph d gid (sealed_template d (FIXED_GRAPH_V1 rid)) (rn_run_id run) task_id budgets = Inr g"
    "protected_envelope e" "get_latest_checkpoint (mg_store m) (rn_run_id run) = None"
    "undecided (rn_run_id run) (mg_store m)" "\<forall>ni \<in> set inputs. spares (rn_run_id run) ni"
    "execute_graph env run e lease sid g inputs m = (Inr (fin, trace), m')"
  shows "fin \<noteq> Graph_terminal Run_SUCCEEDED \<and> fst ` set trace \<subseteq> {''initialize'', ''plan'', ''approve-plan''}"
proof -
  let ?t = "fixed_template d rid"
  have g: "graph_of_template ?t (rn_run_id run) g"
    by (rule instantiated_graph [OF fixed_graph_facts(1,2) assms(2)])
  note entry = template_entry [OF g fixed_graph_facts(3)]
  obtain p where s: "graph_steps env run e lease ?t g p sid
      (new_cursor (dict_of (map (\<lambda>n. (nd_key n, Node_PENDING)) (rg_nodes g)))
        (entered_counts env (list_events (mg_store m) (rn_run_id run) 0)) ''initialize'') inputs m = (Inr (fin, trace), m')"
    using execute_graph_fresh [OF assms(1) entry assms(4,7)] by blast
  have "arrived ?t g ''initialize'' (new_cursor sts v ''initialize'')" for sts v
    by (simp add: arrived_def open_node_def new_cursor_def)
  moreover have "\<not> gate_auto_approves e x" if "gate_for ?t key = Some x" for key x
    by (rule fixed_graph_gates [OF assms(3) that])
  moreover have "spares (rn_run_id run) ni" if "ni \<in> set inputs" for ni using assms(6) that by blast
  ultimately have r: "(\<forall>(key, out) \<in> set trace. open_node ?t g ''initialize'' key \<and>
      (\<exists>nd. graph_node g key = Some nd \<and> nd_kind nd \<noteq> Kind_TERMINAL)) \<and>
    (\<forall>st. fin = Graph_terminal st \<longrightarrow> (\<exists>c nd. arrived ?t g ''initialize'' c \<and> st = cursor_end_state c \<and>
      graph_node g (gc_current_key c) = Some nd \<and> nd_kind nd = Kind_TERMINAL))"
    by (intro graph_steps_undecided [OF refl _ assms(5) _ _ s])
  have "fin \<noteq> Graph_terminal Run_SUCCEEDED"
  proof
    assume "fin = Graph_terminal Run_SUCCEEDED"
    with conjunct2 [OF r] obtain c nd where "arrived ?t g ''initialize'' c" "cursor_end_state c = Run_SUCCEEDED"
      "graph_node g (gc_current_key c) = Some nd" "nd_kind nd = Kind_TERMINAL" by metis
    with fixed_graph_end [OF g this(1,3,4)] show False by simp
  qed
  moreover have "key \<in> before_approval" if "(key, out) \<in> set trace" for key out
  proof -
    from conjunct1 [OF r] that obtain nd where nd: "open_node ?t g ''initialize'' key" "graph_node g key = Some nd" "nd_kind nd \<noteq> Kind_TERMINAL"
      by blast
    from template_nodes [OF g nd(2)] nd(3) have "key \<noteq> ''complete''"
      using bspec [OF fixed_graph_facts(7), of _ d rid] by auto
    then show ?thesis using fixed_graph_open [OF g nd(1)] by simp
  qed
  ultimately show ?thesis unfolding image_subset_iff by (metis prod.collapse)
qed

theorem protected_run_waits_for_approval_witness:
  "\<exists>fin trace m'. sample_graph_run [node_in, node_in] fixed_manager = (Inr (fin, trace), m') \<and> trace \<noteq> [] \<and>
    fin \<noteq> Graph_terminal Run_SUCCEEDED \<and> fst ` set trace \<subseteq> {''initialize'', ''plan'', ''approve-plan''}"
proof -
  obtain m' where m': "sample_graph_run [node_in, node_in] fixed_manager =
      (Inr (Graph_starved, [(''initialize'', No_SUCCESS), (''plan'', No_SUCCESS)]), m')"
    using sample_graph_result by blast
  have g: "instantiate_run_graph (\<lambda>_. ''c'') ''g_1'' (sealed_template (\<lambda>_. ''c'') (FIXED_GRAPH_V1 ''r''))
      (rn_run_id graph_run) ''task_1'' (te_budgets sample_task) = Inr fixed_sample_graph"
    using fixed_sample_instance by (simp add: graph_run_def fixed_sample_def)
  have "protected_envelope risky_task" by (simp add: protected_envelope_def risky_task_def)
  moreover have "undecided (rn_run_id graph_run) (mg_store fixed_manager)"
    by (simp add: undecided_def approval_view_def fixed_manager_fields)
  moreover have "\<forall>ni \<in> set [node_in, node_in]. spares (rn_run_id graph_run) ni"
    by (simp add: spares_def spares_approvals_def node_in_def)
  ultimately show ?thesis
    using protected_run_waits_for_approval [OF fixed_manager_fields(1) [unfolded fixed_sample_def] g _ fixed_manager_fields(2) _ _ m'] m'
    by fastforce
qed

end
