(* ===== verification/Graph_Endings.thy ===== *)
theory Graph_Endings
  imports Graph_Approvals
begin

text \<open>
  A graph run ends by itself. Handlers that wait for something, a gate for a decision and a loop region for
  its turns, read from a list of inputs and report that they still wait when the list is too short. Here the
  lists are initial parts of endless supplies: \<open>settles\<close> says that from some length on an action has one
  and the same result, in the style of a logic of total correctness. A region settles because every pass uses up an
  iteration of its budget, a gate because the operator decides, and a run because every visit of a node
  uses up a bound that is fixed by the graph.
\<close>

subsection \<open>Actions that settle\<close>

definition settles :: "(manager \<Rightarrow> bool) \<Rightarrow> (nat \<Rightarrow> 'a act) \<Rightarrow> ('a \<Rightarrow> manager \<Rightarrow> bool) \<Rightarrow> bool" where
  "settles Q f P \<longleftrightarrow> (\<forall>m. Q m \<longrightarrow>
     (\<exists>N out m'. (\<forall>n \<ge> N. f n m = (out, m')) \<and> (\<forall>x. out = Inr x \<longrightarrow> P x m')))"

lemma settlesI: "(\<And>m. Q m \<Longrightarrow> \<exists>N out m'. (\<forall>n \<ge> N. f n m = (out, m')) \<and> (\<forall>x. out = Inr x \<longrightarrow> P x m')) \<Longrightarrow> settles Q f P"
  unfolding settles_def by blast

lemma settles_bind:
  assumes "settles Q f P" "\<And>x. settles (P x) (\<lambda>n. g n x) R"
  shows "settles Q (\<lambda>n. bind_act (f n) (g n)) R"
proof (rule settlesI)
  fix m
  assume "Q m"
  with assms(1) obtain N out m1 where f: "\<And>n. n \<ge> N \<Longrightarrow> f n m = (out, m1)" "\<And>x. out = Inr x \<Longrightarrow> P x m1"
    unfolding settles_def by metis
  show "\<exists>N out m'. (\<forall>n \<ge> N. bind_act (f n) (g n) m = (out, m')) \<and> (\<forall>x. out = Inr x \<longrightarrow> R x m')"
  proof (cases out)
    case (Inl e)
    then have "bind_act (f n) (g n) m = (Inl e, m1)" if "n \<ge> N" for n
      using f(1) [OF that] by (simp add: bind_act_def)
    then show ?thesis by blast
  next
    case (Inr x)
    with f(2) assms(2) obtain N' out' m' where g: "\<And>n. n \<ge> N' \<Longrightarrow> g n x m1 = (out', m')" "\<And>y. out' = Inr y \<Longrightarrow> R y m'"
      unfolding settles_def by metis
    have "bind_act (f n) (g n) m = (out', m')" if "n \<ge> max N N'" for n
      using that f(1) g(1) Inr by (simp add: bind_act_def)
    with g(2) show ?thesis by blast
  qed
qed

lemma settles_const: "(\<And>m x m'. Q m \<Longrightarrow> f m = (Inr x, m') \<Longrightarrow> P x m') \<Longrightarrow> settles Q (\<lambda>_. f) P"
  unfolding settles_def by (metis prod.collapse)

lemma settles_ret: "(\<And>m. Q m \<Longrightarrow> P x m) \<Longrightarrow> settles Q (\<lambda>_. ret x) P"
  by (rule settles_const) simp

lemma settles_raise: "settles Q (\<lambda>_. raise_act e) P"
  by (rule settles_const) simp

lemma settles_if: "(b \<Longrightarrow> settles Q f P) \<Longrightarrow> (\<not> b \<Longrightarrow> settles Q g P) \<Longrightarrow> settles Q (\<lambda>n. if b then f n else g n) P"
  by (cases b) simp_all

lemma settles_option:
  "(v = None \<Longrightarrow> settles Q f P) \<Longrightarrow> (\<And>x. v = Some x \<Longrightarrow> settles Q (\<lambda>n. g n x) P) \<Longrightarrow>
   settles Q (\<lambda>n. case v of None \<Rightarrow> f n | Some x \<Rightarrow> g n x) P"
  by (cases v) simp_all

lemma settles_prod: "(\<And>a b. v = (a, b) \<Longrightarrow> settles Q (\<lambda>n. g n a b) P) \<Longrightarrow> settles Q (\<lambda>n. case v of (a, b) \<Rightarrow> g n a b) P"
  by (cases v) simp

lemma settles_weaken: "settles Q f P \<Longrightarrow> (\<And>m. Q' m \<Longrightarrow> Q m) \<Longrightarrow> (\<And>x m. P x m \<Longrightarrow> P' x m) \<Longrightarrow> settles Q' f P'"
  unfolding settles_def by meson

text \<open>From a bound on the inputs: only the tail of the supply matters.\<close>

lemma settles_Suc: "settles Q (\<lambda>n. f (Suc n)) P \<Longrightarrow> settles Q f P"
  unfolding settles_def by (metis Suc_le_D Suc_le_mono)

text \<open>Actions that do not depend on the supply, with what they return and keep.\<close>

lemma settles_step:
  assumes "returns T f" "\<And>x. T x \<Longrightarrow> settles (\<lambda>_. True) (\<lambda>n. g n x) R"
  shows "settles (\<lambda>_. True) (\<lambda>n. bind_act f (g n)) R"
proof (rule settles_bind [where P = "\<lambda>x _. T x"])
  show "settles (\<lambda>_. True) (\<lambda>_. f) (\<lambda>x _. T x)" by (rule settles_const) (rule returnsD [OF assms(1)])
  show "settles (\<lambda>_. T x) (\<lambda>n. g n x) R" for x
    by (cases "T x") (use settles_weaken [OF assms(2)] in blast, simp add: settles_def)
qed

lemma settles_returns: "returns T f \<Longrightarrow> settles Q (\<lambda>_. f) (\<lambda>x _. T x)"
  by (rule settles_const) (rule returnsD)

lemma settles_any: "(\<And>x. settles (\<lambda>_. True) (\<lambda>n. g n x) R) \<Longrightarrow> settles (\<lambda>_. True) (\<lambda>n. bind_act f (g n)) R"
  by (rule settles_step [of "\<lambda>_. True"]) (simp_all add: returns_def)

lemma settles_keep:
  assumes "preserves K f" "\<And>m m'. Q m \<Longrightarrow> K m m' \<Longrightarrow> Q m'" "\<And>x. settles Q (\<lambda>n. g n x) R"
  shows "settles Q (\<lambda>n. bind_act f (g n)) R"
proof (rule settles_bind [where P = "\<lambda>_. Q"])
  show "settles Q (\<lambda>_. f) (\<lambda>_. Q)" by (rule settles_const) (metis assms(2) preservesD [OF assms(1)])
qed (rule assms(3))

subsection \<open>Loop regions\<close>

abbreviation turns_ahead :: "LoopExecution \<Rightarrow> int" where
  "turns_ahead x \<equiv> br_iterations (ls_budget_remaining (lx_state x))"

abbreviation has_outcome :: "node_result \<Rightarrow> manager \<Rightarrow> bool" where
  "has_outcome r m \<equiv> fst r \<noteq> None"

lemma region_head_budget: "returns (\<lambda>r. r = None \<longrightarrow> 0 < turns_ahead x) (region_head env x prev c ti)"
  unfolding region_head_def Let_def by (intro returns_if returns_bind returns_ret) simp_all

lemma region_commit_budget:
  "returns (\<lambda>(x', _). turns_ahead x' = max 0 (turns_ahead x - 1)) (region_commit env run lease nd x prev i ti a c)"
proof -
  let ?n = "next_iteration_state (en_digest env) x (rn_run_id run) i (ls_iteration (lx_state x) + 1) (ti_outcome ti)
    (map_option ac_artifact_id a) (case a of None \<Rightarrow> None | Some a \<Rightarrow> ac_sha256 a) [] (ti_left_after ti) (last_of prev)"
  obtain st it where n: "?n = (st, it)" by fastforce
  then have "br_iterations (ls_budget_remaining st) = max 0 (turns_ahead x - 1)" by (rule next_iteration_fields)
  then show ?thesis
    by (auto simp: returns_def region_commit_def bind_act_Inr store_op_Inr n Let_def dest!: append_loop_iteration_state)
qed

lemma region_rest_settles:
  assumes "\<And>x' it c'. turns_ahead x' = max 0 (turns_ahead x - 1) \<Longrightarrow> settles (\<lambda>_. True) (\<lambda>n. continue n x' it c') has_outcome"
  shows "settles (\<lambda>_. True) (\<lambda>n. region_rest env run lease nd k x prev c ti (continue n) i) has_outcome"
proof -
  have commit: "settles (\<lambda>_. True) (\<lambda>n. bind_act (region_commit env run lease nd x prev i ti a c1) (\<lambda>(x', it, c', stop).
      case stop of Some (_, _, out) \<Rightarrow> done_with out sid c' | None \<Rightarrow> continue n x' it c')) has_outcome" for a c1 sid
    by (rule settles_step [OF region_commit_budget])
      (intro settles_prod settles_option settles_ret assms, simp_all)
  show ?thesis
    unfolding region_rest_def Let_def
    by (intro settles_if settles_any settles_prod settles_ret commit) simp_all
qed

lemma region_turns_settle:
  "settles (\<lambda>_. True) (\<lambda>n. region_turns env run e lease nd lp ins sid x prev c (map turn [0..<n])) has_outcome"
proof (induction "nat (turns_ahead x)" arbitrary: turn sid x prev c rule: less_induct)
  case less
  have more: "settles (\<lambda>_. True) (\<lambda>n. bind_act (region_call env run e sid nd (lp_act_key lp) ins x (turn 0))
      (region_rest env run lease nd (lp_observe_key lp) x prev c (turn 0) (\<lambda>x' it c'.
        region_turns env run e lease nd lp ins (oc_session_id (ti_outcome (turn 0))) x' (prev @ [it]) c'
          (map (\<lambda>i. turn (Suc i)) [0..<n])))) has_outcome" if "0 < turns_ahead x"
    using that by (intro settles_any region_rest_settles less) simp
  show ?case
  proof (rule settles_Suc)
    show "settles (\<lambda>_. True) (\<lambda>n. region_turns env run e lease nd lp ins sid x prev c (map turn [0..<Suc n])) has_outcome"
      unfolding map_upt_Suc region_turns.simps
      by (rule settles_step [OF region_head_budget]) (intro settles_option settles_prod settles_ret more, simp_all)
  qed
qed

text \<open>The inputs of a visit, the first \<open>n\<close> turns and polls of an endless supply.\<close>

definition supplied :: "node_input \<Rightarrow> (nat \<Rightarrow> turn_input) \<Rightarrow> (nat \<Rightarrow> gate_poll) \<Rightarrow> nat \<Rightarrow> node_input" where
  "supplied ni turn poll n = ni\<lparr>ni_polls := map poll [0..<n], ni_turns := map turn [0..<n]\<rparr>"

lemma supplied_fields [simp]:
  "ni_pause_head (supplied ni turn poll n) = ni_pause_head ni" "ni_left (supplied ni turn poll n) = ni_left ni"
  "ni_artifact (supplied ni turn poll n) = ni_artifact ni" "ni_during (supplied ni turn poll n) = ni_during ni"
  "ni_polls (supplied ni turn poll n) = map poll [0..<n]" "ni_turns (supplied ni turn poll n) = map turn [0..<n]"
  by (simp_all add: supplied_def)

lemma enter_region_settles:
  "settles (\<lambda>_. True) (\<lambda>n. enter_region env run e lease sid nd lp t c via (supplied ni turn poll n) x) has_outcome"
proof -
  have region: "settles (\<lambda>_. True) (\<lambda>n. run_bounded_region env run e lease sid nd lp t x c (map turn [0..<n])) has_outcome"
    unfolding run_bounded_region_def Let_def by (intro settles_any region_turns_settle)
  have "settles (has_outcome r) (\<lambda>n. case r of (out, sid', c') \<Rightarrow> case out of None \<Rightarrow> ret (None, sid', c')
      | Some outcome \<Rightarrow> bind_act (exit_node env run sid' (nd_key nd) (region_node_status outcome)) (\<lambda>_.
          done_with outcome sid' (set_status (nd_key nd) (region_node_status outcome) c'))) has_outcome" for r
    by (rule settles_const) (auto simp: bind_act_Inr split: prod.splits option.splits)
  then show ?thesis
    unfolding enter_region_def supplied_fields by (intro settles_any settles_bind [OF region])
qed

lemma graph_loop_settles:
  "settles (\<lambda>_. True) (\<lambda>n. graph_loop env run e lease sid nd lp t p c via (supplied ni turn poll n)) has_outcome"
  unfolding graph_loop_def Let_def supplied_fields
  by (intro settles_any settles_if settles_prod settles_ret enter_region_settles) simp_all

subsection \<open>Approval requests under their own identifiers\<close>

definition view_keyed :: "(string \<Rightarrow> (string \<times> ApprovalRecord option) option) \<Rightarrow> bool" where
  "view_keyed view \<longleftrightarrow> (\<forall>native aid a. view native = Some (aid, Some a) \<longrightarrow> ar_approval_id a = aid)"

abbreviation requests_keyed :: "string \<Rightarrow> store \<Rightarrow> bool" where
  "requests_keyed r s \<equiv> view_keyed (approval_view r s)"

definition keeps_requests :: "string \<Rightarrow> manager \<Rightarrow> manager \<Rightarrow> bool" where
  "keeps_requests r m m' \<longleftrightarrow> (requests_keyed r (mg_store m) \<longrightarrow> requests_keyed r (mg_store m'))"

definition spares_requests :: "string \<Rightarrow> (store \<Rightarrow> store) \<Rightarrow> bool" where
  "spares_requests r f \<longleftrightarrow> (\<forall>s. requests_keyed r s \<longrightarrow> requests_keyed r (f s))"

interpretation requests: graph_relation "keeps_requests r" r "spares_requests r" for r
  by unfold_locales
    (simp_all add: keeps_requests_def spares_requests_def approvals_ops update_loop_execution_def)

lemma save_approval_keyed:
  assumes "requests_keyed r s" "ar_run_id a = r"
  shows "requests_keyed r (snd (save_approval a s))"
    and "save_approval a s = (Inr rec, s') \<Longrightarrow> get_approval s' (ar_approval_id rec) \<noteq> None"
  using assms
  by (auto simp: save_approval_def view_keyed_def approval_view_def get_approval_def Let_def
    split: option.splits if_splits)

lemma decide_approval_keyed: "requests_keyed r s \<Longrightarrow> requests_keyed r (snd (decide_approval now aid d s))"
  by (auto simp: decide_approval_def view_keyed_def approval_view_def Let_def split: option.splits if_splits)

subsection \<open>Gates\<close>

text \<open>The store after \<open>k\<close> polls, and a supply of polls in which the operator pauses the run or decides every
  request that is stored.\<close>

fun polled :: "(nat \<Rightarrow> gate_poll) \<Rightarrow> nat \<Rightarrow> store \<Rightarrow> store" where
  "polled poll 0 s = s"
| "polled poll (Suc k) s = polled (\<lambda>i. poll (Suc i)) k (gp_during (poll 0) s)"

definition answered :: "string \<Rightarrow> store \<Rightarrow> bool" where
  "answered aid s \<longleftrightarrow> (\<exists>a. get_approval s aid = Some a \<and> ar_status a \<noteq> Appr_PENDING)"

definition answers_requests :: "(nat \<Rightarrow> gate_poll) \<Rightarrow> bool" where
  "answers_requests poll \<longleftrightarrow> (\<forall>s aid. get_approval s aid \<noteq> None \<longrightarrow>
     (\<exists>k. gp_pause (poll k) \<or> answered aid (polled poll k s)))"

lemma await_gate_Cons:
  "await_gate aid (p # ps) m =
    (if answered aid (mg_store m) then (Inr (Gate_decided (the (get_approval (mg_store m) aid))), m)
     else if gp_pause p then (Inr Gate_paused, m)
     else await_gate aid ps (m\<lparr>mg_store := gp_during p (mg_store m)\<rparr>))"
  by (auto simp: answered_def bind_act_def query_def ret_def wait_for_def split: option.splits)

lemma await_gate_ends:
  "gp_pause (poll k) \<or> answered aid (polled poll k (mg_store m)) \<Longrightarrow>
   \<exists>w m'. (\<forall>n \<ge> Suc k. await_gate aid (map poll [0..<n]) m = (Inr w, m')) \<and> w \<noteq> Gate_open"
proof (induction k arbitrary: poll m)
  case 0
  have "await_gate aid (map poll [0..<n]) m =
      (if answered aid (mg_store m) then (Inr (Gate_decided (the (get_approval (mg_store m) aid))), m) else (Inr Gate_paused, m))"
    if "n \<ge> Suc 0" for n
    using that 0 by (cases n) (auto simp: await_gate_Cons map_upt_Suc simp del: upt_Suc await_gate.simps)
  then show ?case by (cases "answered aid (mg_store m)") auto
next
  case (Suc k)
  let ?m = "m\<lparr>mg_store := gp_during (poll 0) (mg_store m)\<rparr>"
  obtain w m' where w: "\<forall>n \<ge> Suc k. await_gate aid (map (\<lambda>i. poll (Suc i)) [0..<n]) ?m = (Inr w, m')" "w \<noteq> Gate_open"
    using Suc.IH [of "\<lambda>i. poll (Suc i)" ?m] Suc.prems by auto
  have "await_gate aid (map poll [0..<n]) m =
      (if answered aid (mg_store m) then (Inr (Gate_decided (the (get_approval (mg_store m) aid))), m)
       else if gp_pause (poll 0) then (Inr Gate_paused, m) else (Inr w, m'))" if "n \<ge> Suc (Suc k)" for n
    using that w(1) by (cases n) (auto simp: await_gate_Cons map_upt_Suc simp del: upt_Suc await_gate.simps)
  then show ?case using w(2) by (cases "answered aid (mg_store m)"; cases "gp_pause (poll 0)") auto
qed

lemma await_gate_settles:
  assumes "answers_requests poll"
  shows "settles (\<lambda>m. get_approval (mg_store m) aid \<noteq> None) (\<lambda>n. await_gate aid (map poll [0..<n])) (\<lambda>w _. w \<noteq> Gate_open)"
proof (rule settlesI)
  fix m :: manager
  assume "get_approval (mg_store m) aid \<noteq> None"
  with assms obtain k where "gp_pause (poll k) \<or> answered aid (polled poll k (mg_store m))"
    unfolding answers_requests_def by blast
  from await_gate_ends [OF this] show "\<exists>N out m'. (\<forall>n \<ge> N. await_gate aid (map poll [0..<n]) m = (out, m')) \<and>
      (\<forall>w. out = Inr w \<longrightarrow> w \<noteq> Gate_open)" by auto
qed

lemma emit_settles:
  "settles (\<lambda>m. get_approval (mg_store m) aid \<noteq> None) (\<lambda>_. emit env run nt ty sid p k) (\<lambda>_ m. get_approval (mg_store m) aid \<noteq> None)"
  by (rule settles_const) (auto simp: emit_push push_to_def get_approval_def append_event_def Let_def)

lemma close_gate_outcome: "returns (\<lambda>r. fst r \<noteq> None) (close_gate env run sid nd c a)"
  unfolding close_gate_def Let_def by (intro returns_bind returns_ret) simp

lemma wait_at_gate_settles:
  assumes "answers_requests poll"
  shows "settles (\<lambda>m. get_approval (mg_store m) (ar_approval_id a) \<noteq> None)
    (\<lambda>n. wait_at_gate env run sid nd gate c a (map poll [0..<n])) has_outcome"
proof -
  have tail: "settles (\<lambda>_. w \<noteq> Gate_open) (\<lambda>_. case w of
      Gate_open \<Rightarrow> ret (None, sid, set_status (nd_key nd) Node_WAITING c)
    | Gate_paused \<Rightarrow> done_with No_PAUSED sid (set_status (nd_key nd) Node_WAITING c)
    | Gate_decided current \<Rightarrow> bind_act (emit_gate_resolved env run sid nd gate current) (\<lambda>_.
        close_gate env run sid nd c current)) has_outcome" for w
    using returnsD [OF close_gate_outcome]
    by (intro settles_const) (fastforce simp: bind_act_Inr split: gate_wait.splits)
  show ?thesis
    unfolding wait_at_gate_def
    by (rule settles_bind [OF emit_settles settles_bind [OF await_gate_settles [OF assms] tail]])
qed

lemma graph_gate_settles:
  assumes "answers_requests poll"
  shows "settles (\<lambda>m. requests_keyed (rn_run_id run) (mg_store m))
    (\<lambda>n. graph_gate env run e sid nd gate c via (supplied ni turn poll n)) has_outcome"
proof -
  let ?Q = "\<lambda>m. requests_keyed (rn_run_id run) (mg_store m)"
  let ?P = "\<lambda>a m. get_approval (mg_store m) (ar_approval_id a) \<noteq> None"
  have save: "settles ?Q (\<lambda>_. store_op env (\<lambda>now. save_approval (gate_request now i run nd gate))) ?P" for i
  proof (rule settles_const)
    fix m a m'
    assume q: "?Q m" and "store_op env (\<lambda>now. save_approval (gate_request now i run nd gate)) m = (Inr a, m')"
    then have "save_approval (gate_request (en_now env (mg_draws m)) i run nd gate) (mg_store m) = (Inr a, mg_store m')"
      by (auto simp: store_op_Inr)
    from save_approval_keyed(2) [OF q _ this] show "?P a m'" by (simp add: gate_request_def)
  qed
  have enter: "settles (?P a) (\<lambda>_. enter_via env run sid (nd_key nd) via) (\<lambda>_. ?P a)" for a
    unfolding enter_via_def by (rule emit_settles)
  have "returns (\<lambda>r. fst r \<noteq> None) (auto_approve_gate env run sid nd gate c a)"
    "returns (\<lambda>r. fst r \<noteq> None) (decided_gate env run sid nd gate c a)" for a
    unfolding auto_approve_gate_def decided_gate_def by (intro returns_bind close_gate_outcome)+
  then have "settles (?P a) (\<lambda>n. if ar_status a = Appr_PENDING \<and> gate_auto_approves e gate
      then auto_approve_gate env run sid nd gate c a
      else if ar_status a = Appr_PENDING then wait_at_gate env run sid nd gate c a (map poll [0..<n])
      else decided_gate env run sid nd gate c a) has_outcome" for a
    by (intro settles_if wait_at_gate_settles [OF assms] settles_returns)
  then show ?thesis
    unfolding graph_gate_def supplied_fields
    by (intro settles_keep [OF requests.p_draw [of "rn_run_id run"]] settles_bind [OF save] settles_bind [OF enter])
      (simp_all add: keeps_requests_def)
qed

text \<open>A gate keeps the requests under their identifiers.\<close>

lemma await_gate_requests:
  "(\<And>p. p \<in> set ps \<Longrightarrow> spares_requests r (gp_during p)) \<Longrightarrow> preserves (keeps_requests r) (await_gate aid ps)"
proof (induction ps)
  case (Cons p ps)
  then show ?case
    unfolding await_gate.simps by (intro requests.p_basic requests.g_wait) simp_all
qed (simp add: requests.p_ret)

lemma graph_gate_requests:
  assumes "rn_run_id run = r" "\<And>p. p \<in> set (ni_polls ni) \<Longrightarrow> spares_requests r (gp_during p)"
  shows "preserves (keeps_requests r) (graph_gate env run e sid nd gate c via ni)"
proof -
  have save: "preserves (keeps_requests r) (store_op env (\<lambda>now. save_approval (gate_request now i run nd gate)))" for i
    using save_approval_keyed(1) assms(1)
    by (intro requests.p_store_op) (simp add: keeps_requests_def gate_request_def)
  have decide: "preserves (keeps_requests r) (store_op env (\<lambda>now. decide_approval now i d))" for i d
    by (intro requests.p_store_op) (simp add: keeps_requests_def decide_approval_keyed)
  have close: "preserves (keeps_requests r) (close_gate env run sid nd c a)" for a
    unfolding close_gate_def Let_def by (intro requests.g_parts assms)
  have resolved: "preserves (keeps_requests r) (emit_gate_resolved env run sid nd gate a)" for a
    unfolding emit_gate_resolved_def by (intro requests.t_emit assms)
  have waited: "preserves (keeps_requests r) (case w of
      Gate_open \<Rightarrow> ret (None, sid, set_status (nd_key nd) Node_WAITING c)
    | Gate_paused \<Rightarrow> done_with No_PAUSED sid (set_status (nd_key nd) Node_WAITING c)
    | Gate_decided current \<Rightarrow> bind_act (emit_gate_resolved env run sid nd gate current) (\<lambda>_.
        close_gate env run sid nd c current))" for w
    by (cases w) (auto intro!: requests.p_ret requests.p_bind resolved close)
  show ?thesis
    unfolding graph_gate_def auto_approve_gate_def wait_at_gate_def decided_gate_def
    by (intro requests.g_parts save decide close resolved waited await_gate_requests assms)
qed

subsection \<open>Nodes\<close>

text \<open>What the waits of a visit may do: they leave the run's approval requests under their identifiers.\<close>

definition orderly_visit :: "string \<Rightarrow> node_input \<Rightarrow> (nat \<Rightarrow> turn_input) \<Rightarrow> (nat \<Rightarrow> gate_poll) \<Rightarrow> bool" where
  "orderly_visit r ni turn poll \<longleftrightarrow> spares_requests r (ni_during ni) \<and>
     (\<forall>i. spares_requests r (ti_during_call (turn i)) \<and> spares_requests r (gp_during (poll i))) \<and> answers_requests poll"

lemma attempt_requests:
  assumes "orderly_visit (rn_run_id run) ni turn poll"
  shows "preserves (keeps_requests (rn_run_id run))
    (graph_node_attempt env run e lease sid nd spec t gate p c (supplied ni turn poll n))"
  using assms unfolding graph_node_attempt_def Let_def orderly_visit_def
  by (cases "nd_kind nd")
    (auto intro!: requests.p_raise requests.g_task requests.g_agent requests.g_tool requests.g_verifier requests.g_loop
      graph_gate_requests split: option.split)

lemma prompt_outcome:
  "returns (\<lambda>r. fst r \<noteq> None) (graph_task env run sid nd c via)"
  "returns (\<lambda>r. fst r \<noteq> None) (graph_agent env run e sid nd ins c via ni)"
  "returns (\<lambda>r. fst r \<noteq> None) (graph_tool env run sid nd refs c via ni)"
  "returns (\<lambda>r. fst r \<noteq> None) (graph_verifier env run e sid nd p c via ni)"
  unfolding graph_task_def graph_agent_def graph_search_def graph_tool_def graph_verifier_def agent_result_def Let_def
  by (intro returns_if returns_bind returns_prod returns_ret; simp)+

lemma prompt_supplied:
  "graph_agent env run e sid nd ins c via (supplied ni turn poll n) = graph_agent env run e sid nd ins c via ni"
  "graph_tool env run sid nd refs c via (supplied ni turn poll n) = graph_tool env run sid nd refs c via ni"
  "graph_verifier env run e sid nd p c via (supplied ni turn poll n) = graph_verifier env run e sid nd p c via ni"
proof -
  have same: "agent_result nd c (supplied ni turn poll n) = agent_result nd c ni"
    "graph_search env run sid nd c via (supplied ni turn poll n) = graph_search env run sid nd c via ni"
    "ni_searches (supplied ni turn poll n) = ni_searches ni" "ni_outcome (supplied ni turn poll n) = ni_outcome ni" for c
    by (simp_all add: supplied_def agent_result_def graph_search_def)
  show "graph_agent env run e sid nd ins c via (supplied ni turn poll n) = graph_agent env run e sid nd ins c via ni"
    unfolding graph_agent_def same supplied_fields ..
qed (simp_all add: supplied_def graph_tool_def graph_verifier_def)

lemma attempt_settles:
  assumes "orderly_visit (rn_run_id run) ni turn poll"
  shows "settles (\<lambda>m. requests_keyed (rn_run_id run) (mg_store m))
    (\<lambda>n. graph_node_attempt env run e lease sid nd spec t gate p c (supplied ni turn poll n)) has_outcome"
proof -
  have gate: "answers_requests poll" using assms by (simp add: orderly_visit_def)
  note loop = settles_weaken [OF graph_loop_settles]
  show ?thesis
    unfolding graph_node_attempt_def Let_def prompt_supplied
    by (cases "nd_kind nd")
      (auto intro!: settles_raise settles_option settles_returns prompt_outcome graph_gate_settles [OF gate] loop
        simp del: not_None_eq)
qed

subsection \<open>The executor\<close>

abbreviation not_waiting :: "graph_end \<times> visit_trace \<Rightarrow> manager \<Rightarrow> bool" where
  "not_waiting r m \<equiv> fst r \<noteq> Graph_waiting"

abbreviation run_keyed :: "Run \<Rightarrow> manager \<Rightarrow> bool" where
  "run_keyed run m \<equiv> requests_keyed (rn_run_id run) (mg_store m)"

lemma settles_preserved:
  assumes "settles Q f P" "\<And>n. preserves K (f n)" "\<And>m m'. Q m \<Longrightarrow> K m m' \<Longrightarrow> Q m'"
  shows "settles Q f (\<lambda>x m. P x m \<and> Q m)"
proof (rule settlesI)
  fix m
  assume q: "Q m"
  with assms(1) obtain N out m' where r: "\<forall>n \<ge> N. f n m = (out, m')" "\<forall>x. out = Inr x \<longrightarrow> P x m'"
    unfolding settles_def by blast
  then have "f N m = (out, m')" by blast
  from assms(3) [OF q preservesD [OF assms(2) this]] r
  show "\<exists>N out m'. (\<forall>n \<ge> N. f n m = (out, m')) \<and> (\<forall>x. out = Inr x \<longrightarrow> P x m' \<and> Q m')" by blast
qed

lemma settles_sum:
  "(\<And>x. v = Inl x \<Longrightarrow> settles Q (\<lambda>n. f n x) P) \<Longrightarrow> (\<And>x. v = Inr x \<Longrightarrow> settles Q (\<lambda>n. g n x) P) \<Longrightarrow>
   settles Q (\<lambda>n. case v of Inl x \<Rightarrow> f n x | Inr x \<Rightarrow> g n x) P"
  by (cases v) simp_all

lemma after_node_settles:
  assumes "\<And>sid c. settles (run_keyed run) (\<lambda>n. continue n sid c) not_waiting"
  shows "settles (\<lambda>m. has_outcome result m \<and> run_keyed run m)
    (\<lambda>n. after_node env run t g lease (supplied ni turn poll n) key (continue n) result) not_waiting"
proof (cases result)
  case (fields out sid c)
  have stop: "settles Q (\<lambda>_. bind_act f (\<lambda>_. ret (fin, trace))) not_waiting" if "fin \<noteq> Graph_waiting"
    for Q fin trace and f :: "'x act"
    using that by (intro settles_returns returns_bind returns_ret) simp
  have go: "settles (run_keyed run) (\<lambda>n. bind_act (graph_checkpoint env run g c' lease k sid) (\<lambda>_.
      bind_act (continue n sid c'') (\<lambda>(fin, rest). ret (fin, trace @ rest)))) not_waiting" for c' c'' k trace
    by (rule settles_keep [OF requests.g_checkpointed [OF refl]], simp add: keeps_requests_def, rule settles_bind [OF assms])
      (auto intro!: settles_ret split: prod.split)
  show ?thesis
  proof (cases out)
    case None
    then show ?thesis using fields by (simp add: settles_def)
  next
    case (Some outcome)
    have "settles (run_keyed run) (\<lambda>n. after_node env run t g lease (supplied ni turn poll n) key (continue n) (Some outcome, sid, c)) not_waiting"
      unfolding after_node_def Let_def supplied_fields prod.case option.case
      by (intro settles_if settles_sum stop go) simp_all
    then show ?thesis using fields Some by (auto elim: settles_weaken)
  qed
qed

lemma graph_steps_settle:
  assumes "\<And>i. orderly_visit (rn_run_id run) (base i) (turn i) (poll i)"
  shows "settles (run_keyed run)
    (\<lambda>n. graph_steps env run e lease t g p sid c (map (\<lambda>i. supplied (base i) (turn i) (poll i) n) is)) not_waiting"
proof (induction "is" arbitrary: sid c)
  case Nil
  show ?case by (simp add: settles_ret)
next
  case (Cons i "is")
  have attempt: "settles (run_keyed run) (\<lambda>n. graph_node_attempt env run e lease sid nd spec t gate p c
      (supplied (base i) (turn i) (poll i) n)) (\<lambda>r m. has_outcome r m \<and> run_keyed run m)" for nd spec gate
    by (rule settles_preserved [OF attempt_settles [OF assms] attempt_requests [OF assms]]) (simp add: keeps_requests_def)
  have stop: "settles Q (\<lambda>_. bind_act f (\<lambda>_. ret (fin, []))) not_waiting" if "fin \<noteq> Graph_waiting"
    for Q fin and f :: "'x act"
    using that by (intro settles_returns returns_bind returns_ret) simp
  show ?case
    unfolding list.map graph_steps.simps supplied_fields
    by (intro settles_if settles_option settles_raise stop settles_bind [OF attempt after_node_settles [OF Cons.IH]]) simp_all
qed

lemma execute_graph_settles:
  assumes "\<And>i. orderly_visit (rn_run_id run) (base i) (turn i) (poll i)"
  shows "settles (run_keyed run)
    (\<lambda>n. execute_graph env run e lease sid g (map (\<lambda>i. supplied (base i) (turn i) (poll i) n) is)) not_waiting"
proof -
  have keep: "settles (run_keyed run) (\<lambda>n. bind_act f (h n)) not_waiting"
    if "preserves (keeps_requests (rn_run_id run)) f" "\<And>x. settles (run_keyed run) (\<lambda>n. h n x) not_waiting"
    for f :: "'x act" and h
    by (rule settles_keep [OF that(1)]) (simp_all add: keeps_requests_def that(2))
  have "preserves (keeps_requests r) (restore_arrival run g a c)" for r a c
    by (auto simp: preserves_def restore_arrival_def keeps_requests_def Let_def split: option.splits sum.splits)
  then have load: "preserves (keeps_requests r) (load_graph_cursor env run g entry)" for r entry
    unfolding load_graph_cursor_def restore_checkpoint_def Let_def by (intro requests.p_basic)
  have policy: "preserves (keeps_requests r) (run_policy run)" for r
    unfolding run_policy_def by (intro requests.p_basic)
  show ?thesis
    unfolding execute_graph_def
    by (intro keep requests.p_query load policy settles_option settles_raise graph_steps_settle assms)
qed

text \<open>C8: A graph run ends by itself. Let the edges that are neither retries nor loop-backs form no cycle, let every gate's
  operator decide the stored requests or pause the run, and let other tasks leave the run's approval requests
  under their identifiers. Then there is a number of polls and turns from which on the executor has one and the same
  result, which is an exception or an ending that waits for nothing, after at most \<open>visit_limit\<close> nodes, a number
  fixed by the template's edges and its retry budget. So no loop region, no retry and no gate keeps a run going
  for ever, whatever agents, verifiers and earlier sittings of the run did.\<close>

theorem graph_run_ends:
  assumes "dget (st_workflow_templates (mg_store m)) (rg_template_id g, rg_template_version g) = Some t"
    "acyclic (set (route_arcs t g))" "distinct (map ed_key (rg_edges g))" "requests_keyed (rn_run_id run) (mg_store m)"
    "\<And>i. orderly_visit (rn_run_id run) (base i) (turn i) (poll i)"
  shows "\<exists>N out m'. (\<forall>n \<ge> N. execute_graph env run e lease sid g
        (map (\<lambda>i. supplied (base i) (turn i) (poll i) n) [0..<visit_limit t g]) m = (out, m')) \<and>
      (\<forall>fin trace. out = Inr (fin, trace) \<longrightarrow> fin \<notin> {Graph_waiting, Graph_starved} \<and> length trace \<le> visit_limit t g)"
proof -
  let ?in = "\<lambda>n. map (\<lambda>i. supplied (base i) (turn i) (poll i) n) [0..<visit_limit t g]"
  have "settles (run_keyed run) (\<lambda>n. execute_graph env run e lease sid g (?in n)) not_waiting"
    by (rule execute_graph_settles) (rule assms(5))
  with assms(4) obtain N out m' where r: "\<forall>n \<ge> N. execute_graph env run e lease sid g (?in n) m = (out, m')"
    "\<forall>x. out = Inr x \<longrightarrow> fst x \<noteq> Graph_waiting"
    unfolding settles_def by blast
  then have "execute_graph env run e lease sid g (?in N) m = (out, m')" by blast
  then have "fin \<noteq> Graph_starved \<and> length trace \<le> visit_limit t g" if "out = Inr (fin, trace)" for fin trace
    using graph_visits_bounded [OF assms(1-3), where inputs = "?in N"] that by simp
  with r show ?thesis by (intro exI [of _ N] exI [of _ out] exI [of _ m']) force
qed

subsection \<open>A sample supply\<close>

text \<open>An operator who approves every request while the gate polls for the first time.\<close>

definition approve_all :: "store \<Rightarrow> store" where
  "approve_all s = s\<lparr>st_approvals := map (\<lambda>(k, a). (k, a\<lparr>ar_status := Appr_APPROVED\<rparr>)) (st_approvals s)\<rparr>"

lemma get_approve_all:
  "dget (st_approvals (approve_all s)) k = map_option (\<lambda>a. a\<lparr>ar_status := Appr_APPROVED\<rparr>) (dget (st_approvals s) k)"
  by (simp add: approve_all_def map_of_map)

definition approving_poll :: gate_poll where
  "approving_poll = \<lparr>gp_pause = False, gp_during = approve_all\<rparr>"

lemma approving_visit: "orderly_visit r node_in (\<lambda>_. sample_turn True V_PASS) (\<lambda>_. approving_poll)"
proof -
  have "spares_requests r approve_all"
    by (auto simp: spares_requests_def view_keyed_def approval_view_def get_approve_all)
      (auto simp: approve_all_def)
  moreover have "answered aid (polled (\<lambda>_. approving_poll) 1 s)" if "get_approval s aid \<noteq> None" for s aid
    using that by (auto simp: answered_def get_approval_def approving_poll_def get_approve_all)
  then have "answers_requests (\<lambda>_. approving_poll)" unfolding answers_requests_def by blast
  ultimately show ?thesis
    by (simp add: orderly_visit_def spares_requests_def approving_poll_def node_in_def sample_turn_def)
qed

theorem graph_run_ends_witness:
  "\<exists>N out m'. (\<forall>n \<ge> N. sample_graph_run (map (\<lambda>_. supplied node_in (\<lambda>_. sample_turn True V_PASS) (\<lambda>_. approving_poll) n)
        [0..<visit_limit fixed_sample fixed_sample_graph]) fixed_manager = (out, m')) \<and>
      (\<forall>fin trace. out = Inr (fin, trace) \<longrightarrow> fin \<notin> {Graph_waiting, Graph_starved} \<and>
        length trace \<le> visit_limit fixed_sample fixed_sample_graph)"
proof (rule graph_run_ends [OF fixed_manager_fields(1) fixed_sample_acyclic _ _ approving_visit])
  show "distinct (map ed_key (rg_edges fixed_sample_graph))" by code_simp
  show "requests_keyed (rn_run_id graph_run) (mg_store fixed_manager)"
    by (simp add: view_keyed_def approval_view_def fixed_manager_fields)
qed

end
