(* ===== verification/Spec2Isabelle.thy ===== *)
theory Spec2Isabelle
  imports Task_Service Store_Properties Loop_Properties Recovery_Properties Materialize Graph_Endings
begin

text \<open>
  A verification library for the Accretion control plane, the Python package \<^verbatim>\<open>src/accretion\<close>.

  \<^bold>\<open>The program.\<close> Accretion runs coding agents under control. A task is profiled and given an execution
  strategy (\<^verbatim>\<open>planning.py\<close>); the strategy names a workflow template (\<^verbatim>\<open>templates.py\<close>) or, for dynamic
  workflows, a proposal that is validated (\<^verbatim>\<open>orchestration/validator.py\<close>) and compiled into a template
  (\<^verbatim>\<open>orchestration/materialize.py\<close>). The run manager (\<^verbatim>\<open>services/run_manager.py\<close>) executes the run: as a
  bounded loop of runtime calls and verifications (\<^verbatim>\<open>looping.py\<close>) or by routing through the run graph. Every
  step is recorded in the store (\<^verbatim>\<open>persistence/store.py\<close>) as events, iterations and checkpoints, from which
  interrupted runs are recovered (\<^verbatim>\<open>checkpoints.py\<close>, \<open>RunManager.reconcile\<close>). Verdicts of verifiers become
  acceptance by \<^verbatim>\<open>verifiers/policy.py\<close>.

  \<^bold>\<open>Theories.\<close>
  \<^item> \<open>Prelude\<close>, \<open>Py_Float\<close>: exceptions as values, dictionaries as association lists, strings, decimal rounding.
  \<^item> \<open>Contracts\<close>: the records and enumerations of \<^verbatim>\<open>contracts/__init__.py\<close> with their field bounds.
  \<^item> \<open>Planning\<close>, \<open>Context_History\<close>, \<open>Task_Service\<close>: profile, strategy and override, the lineage of context
    bundles, and the task operations of \<open>RunManager\<close>. Shown: protected tasks stay on the gated graph, in the
    pure functions and in every store the service reaches.
  \<^item> \<open>Acceptance\<close>: both acceptance evaluations, decided exactly.
  \<^item> \<open>Memory_Store\<close>, \<open>Store_Invariants\<close>, \<open>Store_Properties\<close>: the operations of \<open>MemoryStore\<close> on one record of
    dictionaries, the step relation of all of them, and the invariants of the event log, checkpoints and
    revisions by rule induction. \<open>Store_Properties\<close> states compare-and-set as a locale and interprets it for
    the conditional writers.
  \<^item> \<open>Loop_Engine\<close>, \<open>Loop_Run\<close>, \<open>Act_Relations\<close>, \<open>Loop_Properties\<close>: the stop rule and state update of the bounded
    loop, and \<open>_execute_loop\<close> with everything it calls in a state-and-exception monad over the store. The
    locales of \<open>Act_Relations\<close> lift a relation on stores through the monad; they are interpreted for the
    submitted calls, for other runs and for quiet steps.
  \<^item> \<open>Checkpoints\<close>, \<open>Recovery\<close>, \<open>Recovery_Properties\<close>: checkpoint validity, crash classification, \<open>reconcile\<close>,
    \<open>cancel\<close> and the failure handler. Shown: every run is settled, and automatic resumption needs a
    coherent state.
  \<^item> \<open>Condition_DSL\<close>, \<open>Graph_Search\<close>, \<open>Graph_Validator\<close>: the condition language, the graph searches with their
    correctness, and every check of the validator. Shown: what an accepted graph guarantees on every walk.
  \<^item> \<open>Templates\<close>, \<open>Graph_Routing\<close>, \<open>Materialize\<close>: template validation, the five built-in templates,
    instantiation of run graphs, the selection of edges, and the compilation of proposals. Shown: the
    built-in templates are valid, no outcome of a valid template is left without an edge, and three ways
    in which accepted proposals escape a control they declare.
  \<^item> \<open>Graph_Run\<close>, \<open>Graph_Relations\<close>, \<open>Graph_Samples\<close>, \<open>Graph_Properties\<close>, \<open>Graph_Approvals\<close>: the graph
    executor \<open>_execute_graph\<close> with the handler of every node kind, loop regions, gates, checkpoints and the
    rebuilding of the cursor, in the monad of \<open>Loop_Run\<close>; the locale \<open>graph_relation\<close> lifts a relation on
    stores through it; sample runs. Shown: a graph run ends within a number of visits computed from the
    graph, a run of a valid template never lacks an edge, a protected task does not pass its gate
    undecided, and a pause inside a loop region loses the position in the graph.

  \<^bold>\<open>Inputs and bounds.\<close> Runtime calls, verifier verdicts, the operator, the clock, the file system and what
  other tasks do to the store are arguments; a statement for all of them covers every behaviour of the
  environment. A loop over such inputs is a recursion over the list of inputs and ends as \<open>starved\<close> when
  the list is too short; the termination theorems give a length that is always enough, computed from the
  iteration budget. The cycle search carries a number that bounds its recursion depth, one more than the
  number of nodes it can meet, and is proved never to use it up; the depth search is a partial function
  that is proved to return.

  \<^bold>\<open>Not modelled.\<close> The HTTP interface, the SQL store, runtime adapters, verifiers and worktrees (input and
  output around the modelled core), the opt-in learned router with its contracts, feedback and
  experience retrieval, candidate search and proposal generation, plugins, connectors and identity
  (external services and cryptography), projections and benchmarks (read-only). Of the run manager, what
  it does with a routing service or a feedback pipeline is left out, both of which are absent by default;
  of the store, the tables of the parts just named.
\<close>

subsection \<open>From plan to template\<close>

text \<open>The template that a mode's table names: there is exactly one, of that mode and ready to run.\<close>

definition ready_template :: "(WorkflowTemplate \<Rightarrow> string) \<Rightarrow> ExecutionMode \<Rightarrow> WorkflowTemplate \<Rightarrow> bool" where
  "ready_template digest mode t \<longleftrightarrow> tp_mode t = mode \<and> tp_status t = Tpl_VALIDATED \<and> validate_template t = Inr [] \<and>
     (\<forall>graph_id run_id task_id budgets. \<exists>g. instantiate_run_graph digest graph_id t run_id task_id budgets = Inr g)"

lemma allowed_template_ready:
  assumes "k \<in> ALLOWED_TEMPLATES_BY_MODE mode"
  shows "\<exists>ts t. ALL_TEMPLATES digest new_id = Inr ts \<and> filter (\<lambda>t. tp_template_id t = k) ts = [t] \<and>
    ready_template digest mode t \<and>
    (mode = Mode_GRAPH \<longrightarrow> {Kind_GATE, Kind_VERIFIER} \<subseteq> wn_kind ` set (tp_nodes t))"
proof -
  let ?ts = "map (sealed_template digest) [DIRECT_V1 (new_id 0), FEEDBACK_LOOP_V1 (new_id 1), FIXED_GRAPH_V1 (new_id 2),
    HYBRID_RD_V1 (new_id 3), SAFE_UNKNOWN_V1 (new_id 4)]"
  have ready: "ready_template digest (tp_mode t) (sealed_template digest t)" if "validate_template t = Inr []" for t
    using that instantiate_sealed [of digest _ t] by (auto simp: ready_template_def validate_sealed) (simp_all add: sealed_template_def)
  have ids: "map tp_template_id ?ts = [''direct-v1'', ''feedback-loop-v1'', ''fixed-graph-v1'', ''hybrid-rd-v1'', ''safe-unknown-v1'']"
    by (simp add: DIRECT_V1_def FEEDBACK_LOOP_V1_def FIXED_GRAPH_V1_def HYBRID_RD_V1_def SAFE_UNKNOWN_V1_def draft_template_def)
  have modes: "map tp_mode [DIRECT_V1 i, FEEDBACK_LOOP_V1 i, FIXED_GRAPH_V1 i, HYBRID_RD_V1 i, SAFE_UNKNOWN_V1 i] =
      [Mode_DIRECT, Mode_LOOP, Mode_GRAPH, Mode_HYBRID, Mode_HYBRID]" for i
    by (simp add: DIRECT_V1_def FEEDBACK_LOOP_V1_def FIXED_GRAPH_V1_def HYBRID_RD_V1_def SAFE_UNKNOWN_V1_def draft_template_def)
  have gated: "{Kind_GATE, Kind_VERIFIER} \<subseteq> wn_kind ` set (tp_nodes (FIXED_GRAPH_V1 i))" for i by code_simp
  show ?thesis
    using assms ids modes gated ready [OF validate_built_in(1)] ready [OF validate_built_in(2)] ready [OF validate_built_in(3)]
      ready [OF validate_built_in(4)] ready [OF validate_built_in(5)]
    by (cases mode) (auto simp: ALL_TEMPLATES_sealed)
qed

text \<open>C35: What is planned can be started. In every store the task service reaches, the decision in force for a task that was
  planned, whether selected or overridden, names exactly one of the templates the module defines, of the decision's
  mode, which passes the validation and can be instantiated for every run; and for a task of high risk or with
  irreversible capabilities that template has an approval gate and a verifier.\<close>

theorem planned_task_has_template:
  assumes "service_reachable s" "dget (st_tasks s) tid = Some task" "tk_current_strategy_decision_id task \<noteq> None"
  shows "\<exists>pl ts t. get_task_planning s tid = Inr (Some pl) \<and> ALL_TEMPLATES digest new_id = Inr ts \<and>
    filter (\<lambda>t. tp_template_id t = sd_selected_template_id (tl_current_decision pl)) ts = [t] \<and>
    ready_template digest (sd_selected_mode (tl_current_decision pl)) t \<and>
    (te_risk_level (tk_envelope task) \<in> {Risk_HIGH, Risk_CRITICAL} \<or>
       irreversible (te_allowed_capabilities (tk_envelope task)) \<longrightarrow>
     {Kind_GATE, Kind_VERIFIER} \<subseteq> wn_kind ` set (tp_nodes t))"
proof -
  from planning_okD(2) [OF service_reachable_ok assms(2,3)] assms(1) obtain p
    where p: "planning_records s tid task p" by blast
  from planning_records_read [OF assms(2) p] obtain pl where pl: "get_task_planning s tid = Inr (Some pl)"
    "planned_decision p (tl_current_decision pl)" by blast
  have "protected_profile p" if "te_risk_level (tk_envelope task) \<in> {Risk_HIGH, Risk_CRITICAL} \<or>
      irreversible (te_allowed_capabilities (tk_envelope task))"
    using p that by (auto simp: protected_profile_def high_risk_def planning_records_def)
  with planned_decision_cases [OF pl(2)] allowed_template_ready [OF planned_decision_cases(1) [OF pl(2)], of digest new_id]
  show ?thesis using pl(1) by metis
qed

theorem planned_task_has_template_witness:
  "\<exists>pl t. get_task_planning service_store ''task_1'' = Inr (Some pl) \<and>
    ready_template tp_template_id (sd_selected_mode (tl_current_decision pl)) t \<and> Kind_GATE \<in> wn_kind ` set (tp_nodes t)"
proof -
  obtain task where t: "dget (st_tasks service_store) ''task_1'' = Some task"
    "tk_current_strategy_decision_id task \<noteq> None" "te_risk_level (tk_envelope task) = Risk_HIGH"
    using service_store_task by blast
  from planned_task_has_template [OF service_store_reachable t(1,2), of tp_template_id "\<lambda>_. ''r''"] t(3) show ?thesis by auto
qed

end
